(* ===== verification/Prelude.thy ===== *)
theory Prelude
  imports Main "HOL-Library.State_Monad" "HOL-Library.Sublist"
begin

text \<open>
  What every theory of the development shares: the outcome of a Go call that may panic, the
  run of a computation, and the splitting of a history at an event.

  Effectful Go functions are modelled as computations of the state monad of
  HOL-Library, written in the \<open>do\<close> form, so that the model reads like the Go text.
  Statements about them are about \<open>run_state m s\<close>, the result and final state of the
  computation \<open>m\<close> from the state \<open>s\<close>.
\<close>

section \<open>Outcomes\<close>

text \<open>A Go call returns or panics (a nil dereference, for example).\<close>

datatype 'a outcome = Returned 'a | Panicked

section \<open>Runs of state-passing code\<close>

lemma run_fst: "fst (run_state m s) = a \<Longrightarrow> run_state m s = (a, snd (run_state m s))"
  by auto

section \<open>Splitting a list at an element\<close>

lemma append_split_at:
  assumes "xs @ ys = a @ e # b"
  obtains (left) b' where "xs = a @ e # b'" | (right) a' where "a = xs @ a'" "ys = a' @ e # b"
proof -
  consider us where "xs @ us = a" "ys = us @ e # b" | us where "xs = a @ us" "us @ ys = e # b"
    using assms by (auto simp: append_eq_append_conv2)
  then show thesis
  proof cases
    case (1 us)
    then show thesis by (intro right) simp_all
  next
    case (2 us)
    then show thesis by (cases us) (auto intro: left right)
  qed
qed

end
