(* ===== verification/Go_Strings.thy ===== *)
theory Go_Strings
  imports Prelude "HOL-Library.Char_ord"
begin

text \<open>
  The parts of Go's string library the program uses. A Go string is a sequence of bytes, so
  the model's \<open>string\<close> (a list of 8-bit characters) is a Go string as it is; runes are
  natural numbers. Modelled are \<open>strings.HasPrefix\<close>, \<open>strings.Join\<close>, the decimal form
  of an integer (\<open>%d\<close>), UTF-8 decoding and encoding of one rune, and
  \<open>strconv.Quote\<close> (the verb \<open>%q\<close>). Which non-ASCII runes are printable is a table of the
  Unicode standard; it is the parameter \<open>is_print\<close> of \<open>go_quote\<close>.
\<close>

definition strings_HasPrefix :: "string \<Rightarrow> string \<Rightarrow> bool" where
  "strings_HasPrefix s p = (take (length p) s = p)"

fun strings_Join :: "string list \<Rightarrow> string \<Rightarrow> string" where
  "strings_Join [] sep = []"
| "strings_Join [s] sep = s"
| "strings_Join (s # t # ss) sep = s @ sep @ strings_Join (t # ss) sep"

lemma strings_HasPrefix_iff_prefix: "strings_HasPrefix s p \<longleftrightarrow> prefix p s"
  by (auto simp: strings_HasPrefix_def prefix_def) (metis append_take_drop_id)

lemma strings_HasPrefix_append [simp]: "strings_HasPrefix (p @ s) p"
  by (simp add: strings_HasPrefix_def)

abbreviation newline :: string where
  "newline \<equiv> [CHR 0x0A]"

abbreviation dquote :: string where
  "dquote \<equiv> [CHR 0x22]"

section \<open>Numbers\<close>

definition hex_digit :: "nat \<Rightarrow> char" where
  "hex_digit n = (if n < 10 then char_of (48 + n) else char_of (87 + n))"

fun hex_digits :: "nat \<Rightarrow> nat \<Rightarrow> string" where
  "hex_digits 0 n = []"
| "hex_digits (Suc w) n = hex_digits w (n div 16) @ [hex_digit (n mod 16)]"

fun nat_decimal :: "nat \<Rightarrow> string" where
  "nat_decimal n = (if n < 10 then [char_of (48 + n)]
     else nat_decimal (n div 10) @ [char_of (48 + n mod 10)])"

declare nat_decimal.simps [simp del]

section \<open>UTF-8\<close>

definition in_range :: "nat \<Rightarrow> nat \<Rightarrow> nat \<Rightarrow> bool" where
  "in_range lo hi b \<longleftrightarrow> lo \<le> b \<and> b \<le> hi"

definition continuation :: "nat \<Rightarrow> bool" where
  "continuation b = in_range 128 191 b"

text \<open>The replacement character U+FFFD.\<close>

definition RuneError :: nat where
  "RuneError = 65533"

text \<open>
  \<open>utf8.DecodeRune\<close> on a non-empty byte sequence: the rune and the number of bytes it takes;
  an invalid sequence is the replacement character with width 1.
\<close>

definition decode2 :: "nat \<Rightarrow> nat list \<Rightarrow> nat \<times> nat" where
  "decode2 b0 bs = (case bs of
     b1 # _ \<Rightarrow> if continuation b1 then ((b0 - 192) * 64 + (b1 - 128), 2) else (RuneError, 1)
   | _ \<Rightarrow> (RuneError, 1))"

definition decode3 :: "nat \<Rightarrow> nat list \<Rightarrow> nat \<times> nat" where
  "decode3 b0 bs = (case bs of
     b1 # b2 # _ \<Rightarrow>
       (let lo = (if b0 = 224 then 160 else 128); hi = (if b0 = 237 then 159 else 191)
        in if in_range lo hi b1 \<and> continuation b2
           then ((b0 - 224) * 4096 + (b1 - 128) * 64 + (b2 - 128), 3) else (RuneError, 1))
   | _ \<Rightarrow> (RuneError, 1))"

definition decode4 :: "nat \<Rightarrow> nat list \<Rightarrow> nat \<times> nat" where
  "decode4 b0 bs = (case bs of
     b1 # b2 # b3 # _ \<Rightarrow>
       (let lo = (if b0 = 240 then 144 else 128); hi = (if b0 = 244 then 143 else 191)
        in if in_range lo hi b1 \<and> continuation b2 \<and> continuation b3
           then ((b0 - 240) * 262144 + (b1 - 128) * 4096 + (b2 - 128) * 64 + (b3 - 128), 4)
           else (RuneError, 1))
   | _ \<Rightarrow> (RuneError, 1))"

definition utf8_DecodeRune :: "nat \<Rightarrow> nat list \<Rightarrow> nat \<times> nat" where
  "utf8_DecodeRune b0 bs =
     (if b0 < 128 then (b0, 1)
      else if b0 < 194 then (RuneError, 1)
      else if b0 < 224 then decode2 b0 bs
      else if b0 < 240 then decode3 b0 bs
      else if b0 < 245 then decode4 b0 bs
      else (RuneError, 1))"

lemma utf8_DecodeRune_width: "0 < snd (utf8_DecodeRune b bs)"
  by (auto simp: utf8_DecodeRune_def decode2_def decode3_def decode4_def Let_def
      split: list.splits if_splits)

text \<open>\<open>utf8.EncodeRune\<close>; surrogates and values out of range are the replacement character.\<close>

definition valid_rune :: "nat \<Rightarrow> bool" where
  "valid_rune r \<longleftrightarrow> r < 55296 \<or> 57343 < r \<and> r < 1114112"

definition encode_valid :: "nat \<Rightarrow> string" where
  "encode_valid r =
     (if r < 128 then [char_of r]
      else if r < 2048 then [char_of (192 + r div 64), char_of (128 + r mod 64)]
      else if r < 65536 then
        [char_of (224 + r div 4096), char_of (128 + r div 64 mod 64), char_of (128 + r mod 64)]
      else [char_of (240 + r div 262144), char_of (128 + r div 4096 mod 64),
            char_of (128 + r div 64 mod 64), char_of (128 + r mod 64)])"

definition utf8_EncodeRune :: "nat \<Rightarrow> string" where
  "utf8_EncodeRune r = encode_valid (if valid_rune r then r else RuneError)"

section \<open>Quoting\<close>

text \<open>
  \<open>strconv.IsPrint\<close> on ASCII is the range from space to tilde; beyond ASCII it is the
  parameter's table.
\<close>

definition rune_printable :: "(nat \<Rightarrow> bool) \<Rightarrow> nat \<Rightarrow> bool" where
  "rune_printable is_print r = (if r < 128 then in_range 32 126 r else is_print r)"

definition quote_rune :: "(nat \<Rightarrow> bool) \<Rightarrow> nat \<Rightarrow> string" where
  "quote_rune is_print r =
     (if r = 34 \<or> r = 92 then [CHR 0x5C, char_of r]
      else if rune_printable is_print r then utf8_EncodeRune r
      else if r = 7 then [CHR 0x5C, CHR ''a'']
      else if r = 8 then [CHR 0x5C, CHR ''b'']
      else if r = 12 then [CHR 0x5C, CHR ''f'']
      else if r = 10 then [CHR 0x5C, CHR ''n'']
      else if r = 13 then [CHR 0x5C, CHR ''r'']
      else if r = 9 then [CHR 0x5C, CHR ''t'']
      else if r = 11 then [CHR 0x5C, CHR ''v'']
      else if r < 32 \<or> r = 127 then [CHR 0x5C, CHR ''x''] @ hex_digits 2 r
      else if r < 65536 then [CHR 0x5C, CHR ''u''] @ hex_digits 4 r
      else [CHR 0x5C, CHR ''U''] @ hex_digits 8 r)"

function quote_bytes :: "(nat \<Rightarrow> bool) \<Rightarrow> nat list \<Rightarrow> string" where
  "quote_bytes is_print [] = []"
| "quote_bytes is_print (b # bs) =
     (let rw = utf8_DecodeRune b bs
      in (if snd rw = 1 \<and> fst rw = RuneError then [CHR 0x5C, CHR ''x''] @ hex_digits 2 b
          else quote_rune is_print (fst rw))
         @ quote_bytes is_print (drop (snd rw - 1) bs))"
  by pat_completeness auto
termination
  by (relation "measure (\<lambda>(_, bs). length bs)") auto

definition go_quote :: "(nat \<Rightarrow> bool) \<Rightarrow> string \<Rightarrow> string" where
  "go_quote is_print s = dquote @ quote_bytes is_print (map of_char s) @ dquote"

text \<open>A string of printable ASCII without quotes and backslashes is quoted verbatim.\<close>

definition plain_char :: "char \<Rightarrow> bool" where
  "plain_char c \<longleftrightarrow> in_range 32 126 (of_char c) \<and> c \<noteq> CHR 0x22 \<and> c \<noteq> CHR 0x5C"

definition plain_string :: "string \<Rightarrow> bool" where
  "plain_string s = list_all plain_char s"

lemma plain_char_codes:
  assumes "plain_char c"
  shows "of_char c < (128::nat)" "of_char c \<noteq> (34::nat)" "of_char c \<noteq> (92::nat)"
    "(32::nat) \<le> of_char c" "of_char c \<le> (126::nat)"
proof -
  have eq: "of_char c = (of_char (CHR 0x22)::nat) \<longleftrightarrow> c = CHR 0x22"
    "of_char c = (of_char (CHR 0x5C)::nat) \<longleftrightarrow> c = CHR 0x5C"
    by (simp_all only: of_char_eq_iff)
  show "of_char c \<noteq> (34::nat)" "of_char c \<noteq> (92::nat)"
    using assms eq by (auto simp: plain_char_def)
  show "of_char c < (128::nat)" "(32::nat) \<le> of_char c" "of_char c \<le> (126::nat)"
    using assms by (auto simp: plain_char_def in_range_def)
qed

lemma quote_bytes_plain: "plain_string s \<Longrightarrow> quote_bytes is_print (map of_char s) = s"
proof (induction s)
  case Nil
  show ?case by simp
next
  case (Cons c s)
  then have "plain_char c" and IH: "quote_bytes is_print (map of_char s) = s"
    by (simp_all add: plain_string_def)
  note codes = plain_char_codes [OF \<open>plain_char c\<close>]
  have "utf8_DecodeRune (of_char c) (map of_char s) = (of_char c, 1)"
    using codes by (simp add: utf8_DecodeRune_def)
  moreover have "quote_rune is_print (of_char c) = [c]"
    using codes by (simp add: quote_rune_def rune_printable_def in_range_def utf8_EncodeRune_def
        valid_rune_def encode_valid_def)
  ultimately show ?case
    using codes IH by (simp add: RuneError_def)
qed

lemma go_quote_plain: "plain_string s \<Longrightarrow> go_quote is_print s = dquote @ s @ dquote"
  by (simp add: go_quote_def quote_bytes_plain)

end
