(* ===== verification/Go_Errors.thy ===== *)
theory Go_Errors
  imports Go_Strings
begin

text \<open>
  Go errors as values: leaf errors with their text (\<open>errors.New\<close>, and the errors third-party
  code returns), errors that wrap one other error (\<open>fmt.Errorf\<close> with \<open>%w\<close>, which keeps the
  formatted text and the wrapped error), and joined errors (\<open>errors.Join\<close>). The nil error is
  \<open>None\<close> wherever a Go function returns an error.
\<close>

datatype goerror =
    ErrorString string
  | WrapError string goerror
  | JoinError "goerror list"

fun error_text :: "goerror \<Rightarrow> string" where
  "error_text (ErrorString t) = t"
| "error_text (WrapError t e) = t"
| "error_text (JoinError es) = strings_Join (map error_text es) newline"

text \<open>\<open>fmt.Errorf("prefix: %w", err)\<close>, the wrapping the program uses on its error paths.\<close>

definition errorf :: "string \<Rightarrow> goerror \<Rightarrow> goerror" where
  "errorf prefix_text e = WrapError (prefix_text @ '': '' @ error_text e) e"

fun errors_Is :: "goerror \<Rightarrow> goerror \<Rightarrow> bool" where
  "errors_Is (ErrorString t) target = (ErrorString t = target)"
| "errors_Is (WrapError t e) target = (WrapError t e = target \<or> errors_Is e target)"
| "errors_Is (JoinError es) target =
     (JoinError es = target \<or> list_ex (\<lambda>e. errors_Is e target) es)"

text \<open>\<open>errors.Join\<close> of two errors: nil arguments are discarded, nil when nothing is left.\<close>

definition errors_Join :: "goerror option \<Rightarrow> goerror option \<Rightarrow> goerror option" where
  "errors_Join a b =
     (case (a, b) of
        (None, None) \<Rightarrow> None
      | (Some e, None) \<Rightarrow> Some (JoinError [e])
      | (None, Some f) \<Rightarrow> Some (JoinError [f])
      | (Some e, Some f) \<Rightarrow> Some (JoinError [e, f]))"

lemma errors_Is_refl [simp]: "errors_Is e e"
  by (cases e) simp_all

lemma errors_Is_errorf [simp]: "errors_Is e t \<Longrightarrow> errors_Is (errorf p e) t"
  by (simp add: errorf_def)

lemma error_text_errorf [simp]: "error_text (errorf p e) = p @ '': '' @ error_text e"
  by (simp add: errorf_def)

lemma errors_Join_None [simp]: "errors_Join a b = None \<longleftrightarrow> a = None \<and> b = None"
  by (simp add: errors_Join_def split: option.split)

lemma errors_Join_Is:
  "errors_Join a b = Some e \<Longrightarrow> a = Some f \<or> b = Some f \<Longrightarrow> errors_Is e f"
  by (auto simp: errors_Join_def split: option.splits)

end
