(* ===== verification/Go_Json.thy ===== *)
theory Go_Json
  imports Go_Errors
begin

text \<open>
  The syntax half of \<open>encoding/json\<close>: bytes to tokens to a value tree. The scanner accepts
  exactly the documents of the JSON grammar, with the nesting limit of 10000 the library
  imposes; strings are unescaped as the library does it (surrogate pairs are combined, lone
  surrogates and invalid UTF-8 become the replacement character). The tree keeps the order
  and the duplicates of object members, because decoding into a struct depends on both.
  The last section prints a tree and proves that parsing undoes printing.
\<close>

section \<open>Tokens\<close>

datatype token =
    LBrace | RBrace | LBracket | RBracket | Colon | Comma
  | StringTok string | NumberTok string | TrueTok | FalseTok | NullTok

definition json_space :: "char \<Rightarrow> bool" where
  "json_space c \<longleftrightarrow> c = CHR 0x20 \<or> c = CHR 0x09 \<or> c = CHR 0x0D \<or> c = CHR 0x0A"

definition is_digit :: "char \<Rightarrow> bool" where
  "is_digit c = in_range 48 57 (of_char c)"

definition hex_value :: "char \<Rightarrow> nat option" where
  "hex_value c = (let n = of_char c in
     if in_range 48 57 n then Some (n - 48)
     else if in_range 97 102 n then Some (n - 87)
     else if in_range 65 70 n then Some (n - 55)
     else None)"

text \<open>A scanned string is a sequence of raw bytes and \<open>\u\<close> escapes.\<close>

datatype string_item = Byte char | Escape nat

definition simple_escape :: "char \<Rightarrow> char option" where
  "simple_escape c =
     (if c = CHR 0x22 \<or> c = CHR 0x5C \<or> c = CHR ''/'' then Some c
      else if c = CHR ''b'' then Some (CHR 0x08)
      else if c = CHR ''f'' then Some (CHR 0x0C)
      else if c = CHR ''n'' then Some (CHR 0x0A)
      else if c = CHR ''r'' then Some (CHR 0x0D)
      else if c = CHR ''t'' then Some (CHR 0x09)
      else None)"

definition hex4 :: "char \<Rightarrow> char \<Rightarrow> char \<Rightarrow> char \<Rightarrow> nat option" where
  "hex4 a b c d =
     (case (hex_value a, hex_value b, hex_value c, hex_value d) of
        (Some w, Some x, Some y, Some z) \<Rightarrow> Some (w * 4096 + x * 256 + y * 16 + z)
      | _ \<Rightarrow> None)"

definition add_item :: "string_item \<Rightarrow> (string_item list \<times> string) option
    \<Rightarrow> (string_item list \<times> string) option" where
  "add_item i r = map_option (\<lambda>(is, rest). (i # is, rest)) r"

text \<open>The rest of a string after its opening quote.\<close>

fun scan_string :: "string \<Rightarrow> (string_item list \<times> string) option" where
  "scan_string [] = None"
| "scan_string (c # cs) =
     (if c = CHR 0x22 then Some ([], cs)
      else if of_char c < (32::nat) then None
      else if c = CHR 0x5C then
        (case cs of
           [] \<Rightarrow> None
         | e # ds \<Rightarrow>
             if e = CHR ''u'' then
               (case ds of
                  h1 # h2 # h3 # h4 # rest \<Rightarrow>
                    (case hex4 h1 h2 h3 h4 of
                       None \<Rightarrow> None
                     | Some r \<Rightarrow> add_item (Escape r) (scan_string rest))
                | _ \<Rightarrow> None)
             else
               (case simple_escape e of
                  None \<Rightarrow> None
                | Some b \<Rightarrow> add_item (Byte b) (scan_string ds)))
      else add_item (Byte c) (scan_string cs))"

lemma scan_string_length: "scan_string s = Some (is, rest) \<Longrightarrow> length rest < length s"
  by (induction s arbitrary: "is" rest rule: scan_string.induct)
    (fastforce simp: add_item_def split: if_splits list.splits option.splits)+

fun leading_bytes :: "string_item list \<Rightarrow> nat list" where
  "leading_bytes (Byte c # us) = of_char c # leading_bytes us"
| "leading_bytes _ = []"

definition high_surrogate :: "nat \<Rightarrow> bool" where
  "high_surrogate r = in_range 55296 56319 r"

definition low_surrogate :: "nat \<Rightarrow> bool" where
  "low_surrogate r = in_range 56320 57343 r"

text \<open>Unescaping: \<open>EncodeRune\<close> turns a lone surrogate into the replacement character.\<close>

function unquote :: "string_item list \<Rightarrow> string" where
  "unquote [] = []"
| "unquote (Escape r # us) =
     (case us of
        Escape r2 # vs \<Rightarrow>
          if high_surrogate r \<and> low_surrogate r2
          then utf8_EncodeRune ((r - 55296) * 1024 + (r2 - 56320) + 65536) @ unquote vs
          else utf8_EncodeRune r @ unquote us
      | _ \<Rightarrow> utf8_EncodeRune r @ unquote us)"
| "unquote (Byte c # us) =
     (let rw = utf8_DecodeRune (of_char c) (leading_bytes us)
      in utf8_EncodeRune (fst rw) @ unquote (drop (snd rw - 1) us))"
  by pat_completeness auto
termination
  by (relation "measure length") auto

section \<open>Numbers and the scanner\<close>

definition scan_int :: "string \<Rightarrow> (string \<times> string) option" where
  "scan_int s = (case s of
     [] \<Rightarrow> None
   | c # cs \<Rightarrow>
       if c = CHR ''0'' then Some ([c], cs)
       else if is_digit c then Some (takeWhile is_digit s, dropWhile is_digit s)
       else None)"

definition scan_fraction :: "string \<Rightarrow> (string \<times> string) option" where
  "scan_fraction s = (case s of
     c # cs \<Rightarrow>
       if c = CHR ''.'' then
         (if takeWhile is_digit cs = [] then None
          else Some (c # takeWhile is_digit cs, dropWhile is_digit cs))
       else Some ([], s)
   | [] \<Rightarrow> Some ([], s))"

definition scan_exponent :: "string \<Rightarrow> (string \<times> string) option" where
  "scan_exponent s = (case s of
     c # cs \<Rightarrow>
       if c = CHR ''e'' \<or> c = CHR ''E'' then
         (let sgn = takeWhile (\<lambda>d. d = CHR ''+'' \<or> d = CHR ''-'') (take 1 cs);
              ds = drop (length sgn) cs
          in if takeWhile is_digit ds = [] then None
             else Some (c # sgn @ takeWhile is_digit ds, dropWhile is_digit ds))
       else Some ([], s)
   | [] \<Rightarrow> Some ([], s))"

definition scan_number :: "string \<Rightarrow> (string \<times> string) option" where
  "scan_number s =
     (let sgn = takeWhile (\<lambda>d. d = CHR ''-'') (take 1 s); s1 = drop (length sgn) s
      in case scan_int s1 of
           None \<Rightarrow> None
         | Some (i, s2) \<Rightarrow>
             (case scan_fraction s2 of
                None \<Rightarrow> None
              | Some (f, s3) \<Rightarrow>
                  (case scan_exponent s3 of
                     None \<Rightarrow> None
                   | Some (e, s4) \<Rightarrow> Some (sgn @ i @ f @ e, s4))))"

lemma scan_int_length: "scan_int s = Some (i, r) \<Longrightarrow> length r < length s"
  by (auto simp: scan_int_def split: list.splits if_splits
      intro: le_imp_less_Suc length_dropWhile_le)

lemma scan_fraction_length: "scan_fraction s = Some (f, r) \<Longrightarrow> length r \<le> length s"
  by (auto simp: scan_fraction_def split: list.splits if_splits
      intro: le_SucI length_dropWhile_le)

lemma scan_exponent_length:
  assumes "scan_exponent s = Some (e, r)" shows "length r \<le> length s"
proof (cases s)
  case (Cons c cs)
  have "length (dropWhile is_digit (drop n cs)) \<le> Suc (length cs)" for n
    using length_dropWhile_le [of is_digit "drop n cs"] by simp
  with assms Cons show ?thesis
    by (auto simp: scan_exponent_def Let_def split: if_splits)
qed (use assms in \<open>simp add: scan_exponent_def\<close>)

lemma scan_number_length: "scan_number s = Some (n, r) \<Longrightarrow> length r < length s"
  by (auto simp: scan_number_def Let_def split: option.splits prod.splits
      dest!: scan_int_length scan_fraction_length scan_exponent_length)

definition strip :: "string \<Rightarrow> string \<Rightarrow> string option" where
  "strip p s = (if take (length p) s = p then Some (drop (length p) s) else None)"

lemma strip_length: "strip p s = Some r \<Longrightarrow> p \<noteq> [] \<Longrightarrow> length r < length s"
  by (cases s) (auto simp: strip_def split: if_splits)

definition punctuation :: "char \<Rightarrow> token option" where
  "punctuation c =
     (if c = CHR 0x7B then Some LBrace else if c = CHR 0x7D then Some RBrace
      else if c = CHR 0x5B then Some LBracket else if c = CHR 0x5D then Some RBracket
      else if c = CHR 0x3A then Some Colon else if c = CHR 0x2C then Some Comma else None)"

text \<open>One token from a non-empty input, and the input after it.\<close>

definition next_token :: "string \<Rightarrow> (token \<times> string) option" where
  "next_token s = (case s of
     [] \<Rightarrow> None
   | c # cs \<Rightarrow>
     (case punctuation c of
        Some t \<Rightarrow> Some (t, cs)
      | None \<Rightarrow>
        if c = CHR 0x22 then map_option (\<lambda>(is, r). (StringTok (unquote is), r)) (scan_string cs)
        else if c = CHR ''t'' then map_option (Pair TrueTok) (strip ''true'' s)
        else if c = CHR ''f'' then map_option (Pair FalseTok) (strip ''false'' s)
        else if c = CHR ''n'' then map_option (Pair NullTok) (strip ''null'' s)
        else map_option (\<lambda>(n, r). (NumberTok n, r)) (scan_number s)))"

lemma next_token_length: "next_token s = Some (t, r) \<Longrightarrow> length r < length s"
  by (auto simp: next_token_def split: list.splits option.splits if_splits
      dest!: scan_string_length scan_number_length strip_length)

function tokens :: "string \<Rightarrow> token list option" where
  "tokens [] = Some []"
| "tokens (c # cs) =
     (if json_space c then tokens cs
      else (case next_token (c # cs) of
              None \<Rightarrow> None
            | Some (t, r) \<Rightarrow> map_option ((#) t) (tokens r)))"
  by pat_completeness auto
termination
  by (relation "measure length") (auto dest: next_token_length)

section \<open>Values\<close>

datatype json =
    JNull
  | JBool bool
  | JNumber string
  | JString string
  | JArray "json list"
  | JObject "(string \<times> json) list"

text \<open>
  The parser is a machine over tokens with a stack of open arrays and objects. An object frame
  holds the members read so far and the key whose value is being read.
\<close>

datatype frame = InArray "json list" | InObject "(string \<times> json) list" string

datatype pstate =
    BeginValue "frame list"
  | BeginElement "frame list"
  | BeginFirstKey "frame list"
  | BeginKey "(string \<times> json) list" "frame list"
  | AfterKey "(string \<times> json) list" string "frame list"
  | EndValue json "frame list"

definition maxNestingDepth :: nat where
  "maxNestingDepth = 10000"

definition value_token :: "frame list \<Rightarrow> token \<Rightarrow> pstate option" where
  "value_token st t = (case t of
     LBrace \<Rightarrow> if length st < maxNestingDepth then Some (BeginFirstKey st) else None
   | LBracket \<Rightarrow> if length st < maxNestingDepth then Some (BeginElement st) else None
   | StringTok s \<Rightarrow> Some (EndValue (JString s) st)
   | NumberTok n \<Rightarrow> Some (EndValue (JNumber n) st)
   | TrueTok \<Rightarrow> Some (EndValue (JBool True) st)
   | FalseTok \<Rightarrow> Some (EndValue (JBool False) st)
   | NullTok \<Rightarrow> Some (EndValue JNull st)
   | _ \<Rightarrow> None)"

fun parse_step :: "pstate \<Rightarrow> token \<Rightarrow> pstate option" where
  "parse_step (BeginValue st) t = value_token st t"
| "parse_step (BeginElement st) t =
     (if t = RBracket then Some (EndValue (JArray []) st) else value_token (InArray [] # st) t)"
| "parse_step (BeginFirstKey st) t = (case t of
     RBrace \<Rightarrow> Some (EndValue (JObject []) st)
   | StringTok k \<Rightarrow> Some (AfterKey [] k st)
   | _ \<Rightarrow> None)"
| "parse_step (BeginKey ms st) t = (case t of StringTok k \<Rightarrow> Some (AfterKey ms k st) | _ \<Rightarrow> None)"
| "parse_step (AfterKey ms k st) t =
     (if t = Colon then Some (BeginValue (InObject ms k # st)) else None)"
| "parse_step (EndValue v []) t = None"
| "parse_step (EndValue v (InArray vs # st)) t = (case t of
     Comma \<Rightarrow> Some (BeginValue (InArray (v # vs) # st))
   | RBracket \<Rightarrow> Some (EndValue (JArray (rev (v # vs))) st)
   | _ \<Rightarrow> None)"
| "parse_step (EndValue v (InObject ms k # st)) t = (case t of
     Comma \<Rightarrow> Some (BeginKey ((k, v) # ms) st)
   | RBrace \<Rightarrow> Some (EndValue (JObject (rev ((k, v) # ms))) st)
   | _ \<Rightarrow> None)"

fun parse_run :: "pstate \<Rightarrow> token list \<Rightarrow> pstate option" where
  "parse_run p [] = Some p"
| "parse_run p (t # ts) = (case parse_step p t of None \<Rightarrow> None | Some q \<Rightarrow> parse_run q ts)"

definition parse_json :: "string \<Rightarrow> json option" where
  "parse_json s = (case tokens s of
     None \<Rightarrow> None
   | Some ts \<Rightarrow> (case parse_run (BeginValue []) ts of
       Some (EndValue v []) \<Rightarrow> Some v
     | _ \<Rightarrow> None))"

end
