(* ===== verification/Go_Json_Print.thy ===== *)
theory Go_Json_Print
  imports Go_Json
begin

text \<open>
  A printer for JSON trees (compact form, as \<open>json.Marshal\<close> writes plain data) and the proof
  that the scanner and parser of \<open>Go_Json\<close> undo it: on trees whose strings are plain
  printable ASCII, whose numbers are decimal naturals and whose nesting is within the limit.
  It is how the properties of the Helm value extraction talk about concrete documents.
\<close>

fun render :: "json \<Rightarrow> string" where
  "render JNull = ''null''"
| "render (JBool b) = (if b then ''true'' else ''false'')"
| "render (JNumber n) = n"
| "render (JString s) = dquote @ s @ dquote"
| "render (JArray vs) = [CHR 0x5B] @ strings_Join (map render vs) '','' @ [CHR 0x5D]"
| "render (JObject ms) =
     [CHR 0x7B] @ strings_Join (map (\<lambda>(k, v). dquote @ k @ dquote @ '':'' @ render v) ms) '',''
     @ [CHR 0x7D]"

definition decimal_nat :: "string \<Rightarrow> bool" where
  "decimal_nat n \<longleftrightarrow> n \<noteq> [] \<and> list_all is_digit n \<and> (hd n = CHR ''0'' \<longrightarrow> n = ''0'')"

fun plain_json :: "json \<Rightarrow> bool" where
  "plain_json JNull = True"
| "plain_json (JBool b) = True"
| "plain_json (JNumber n) = decimal_nat n"
| "plain_json (JString s) = plain_string s"
| "plain_json (JArray vs) = list_all plain_json vs"
| "plain_json (JObject ms) = list_all (\<lambda>(k, v). plain_string k \<and> plain_json v) ms"

fun json_depth :: "json \<Rightarrow> nat" where
  "json_depth (JArray vs) = Suc (foldr max (map json_depth vs) 0)"
| "json_depth (JObject ms) = Suc (foldr max (map (\<lambda>(k, v). json_depth v) ms) 0)"
| "json_depth _ = 0"

fun toks :: "json \<Rightarrow> token list" where
  "toks JNull = [NullTok]"
| "toks (JBool b) = [if b then TrueTok else FalseTok]"
| "toks (JNumber n) = [NumberTok n]"
| "toks (JString s) = [StringTok s]"
| "toks (JArray vs) = LBracket # (case map toks vs of [] \<Rightarrow> []
     | t # ts \<Rightarrow> t @ concat (map ((#) Comma) ts)) @ [RBracket]"
| "toks (JObject ms) =
     LBrace # (case map (\<lambda>(k, v). StringTok k # Colon # toks v) ms of [] \<Rightarrow> []
     | t # ts \<Rightarrow> t @ concat (map ((#) Comma) ts)) @ [RBrace]"

section \<open>The scanner on printed documents\<close>

lemma strings_Join_Cons:
  "strings_Join (s # ss) sep = s @ concat (map (\<lambda>t. sep @ t) ss)"
  by (induction ss arbitrary: s) simp_all

lemma scan_string_plain:
  "plain_string s \<Longrightarrow> scan_string (s @ CHR 0x22 # rest) = Some (map Byte s, rest)"
proof (induction s)
  case Nil
  show ?case by simp
next
  case (Cons c s)
  then have c: "plain_char c" and IH: "scan_string (s @ CHR 0x22 # rest) = Some (map Byte s, rest)"
    by (simp_all add: plain_string_def)
  have "c \<noteq> CHR 0x22" "c \<noteq> CHR 0x5C"
    using c by (simp_all add: plain_char_def)
  moreover have "\<not> of_char c < (32::nat)"
    using plain_char_codes [OF c] by simp
  ultimately show ?case
    using IH by (simp add: add_item_def)
qed

lemma unquote_plain: "plain_string s \<Longrightarrow> unquote (map Byte s) = s"
proof (induction s)
  case Nil
  show ?case by simp
next
  case (Cons c s)
  then have c: "plain_char c" and IH: "unquote (map Byte s) = s"
    by (simp_all add: plain_string_def)
  show ?case
    using IH plain_char_codes [OF c]
    by (simp add: utf8_DecodeRune_def utf8_EncodeRune_def valid_rune_def encode_valid_def)
qed

lemma json_space_iff: "json_space c \<longleftrightarrow> c = CHR 0x20 \<or> c = CHR 0x09 \<or> c = CHR 0x0D \<or> c = CHR 0x0A"
  by (simp add: json_space_def)

declare tokens.simps(2) [simp del]

lemma tokens_punct [simp]:
  "tokens (CHR 0x5B # r) = map_option ((#) LBracket) (tokens r)"
  "tokens (CHR 0x5D # r) = map_option ((#) RBracket) (tokens r)"
  "tokens (CHR 0x7B # r) = map_option ((#) LBrace) (tokens r)"
  "tokens (CHR 0x7D # r) = map_option ((#) RBrace) (tokens r)"
  "tokens (CHR 0x2C # r) = map_option ((#) Comma) (tokens r)"
  "tokens (CHR 0x3A # r) = map_option ((#) Colon) (tokens r)"
  by (simp_all add: tokens.simps(2) json_space_iff next_token_def punctuation_def)

lemma tokens_string [simp]:
  "plain_string s \<Longrightarrow>
    tokens (CHR 0x22 # s @ CHR 0x22 # r) = map_option ((#) (StringTok s)) (tokens r)"
  by (simp add: tokens.simps(2) json_space_iff next_token_def punctuation_def scan_string_plain
      unquote_plain)

lemma tokens_literal [simp]:
  "tokens (CHR ''n'' # CHR ''u'' # CHR ''l'' # CHR ''l'' # r) = map_option ((#) NullTok) (tokens r)"
  "tokens (CHR ''t'' # CHR ''r'' # CHR ''u'' # CHR ''e'' # r) = map_option ((#) TrueTok) (tokens r)"
  "tokens (CHR ''f'' # CHR ''a'' # CHR ''l'' # CHR ''s'' # CHR ''e'' # r)
     = map_option ((#) FalseTok) (tokens r)"
  by (simp_all add: tokens.simps(2) json_space_iff next_token_def punctuation_def strip_def)

definition delimited :: "string \<Rightarrow> bool" where
  "delimited r \<longleftrightarrow> r = [] \<or> hd r = CHR 0x2C \<or> hd r = CHR 0x5D \<or> hd r = CHR 0x7D"

lemma delimited_simps [simp]:
  "delimited []" "delimited (CHR 0x2C # r)" "delimited (CHR 0x5D # r)" "delimited (CHR 0x7D # r)"
  by (simp_all add: delimited_def)

lemma delimited_cases:
  assumes "delimited r"
  obtains "r = []" | r' where "r = CHR 0x2C # r'" | r' where "r = CHR 0x5D # r'"
    | r' where "r = CHR 0x7D # r'"
  using assms by (cases r) (auto simp: delimited_def)

lemma is_digit_char [simp]: "\<not> is_digit (CHR 0x2C)" "\<not> is_digit (CHR 0x5D)" "\<not> is_digit (CHR 0x7D)"
  "\<not> is_digit (CHR ''-'')"
  by (simp_all add: is_digit_def in_range_def)

lemma takeWhile_digits: "list_all is_digit n \<Longrightarrow> delimited r \<Longrightarrow>
    takeWhile is_digit (n @ r) = n \<and> dropWhile is_digit (n @ r) = r"
proof -
  assume n: "list_all is_digit n" and "delimited r"
  have "takeWhile is_digit r = [] \<and> dropWhile is_digit r = r"
    using \<open>delimited r\<close> by (rule delimited_cases) simp_all
  with n show ?thesis
    by (auto simp: list_all_iff takeWhile_append dropWhile_append)
qed

lemma scan_number_decimal:
  assumes n: "decimal_nat n" and r: "delimited r"
  shows "scan_number (n @ r) = Some (n, r)"
proof -
  obtain d ds where [simp]: "n = d # ds"
    using n by (cases n) (auto simp: decimal_nat_def)
  have digit: "is_digit d" and "d \<noteq> CHR ''-''"
    using n by (auto simp: decimal_nat_def)
  have "scan_int (n @ r) = Some (n, r)"
    using n takeWhile_digits [of n r] r digit
    by (auto simp: scan_int_def decimal_nat_def)
  moreover have "scan_fraction r = Some ([], r)" "scan_exponent r = Some ([], r)"
    using r by (auto elim!: delimited_cases simp: scan_fraction_def scan_exponent_def)
  ultimately show ?thesis
    using \<open>d \<noteq> CHR ''-''\<close> by (simp add: scan_number_def Let_def)
qed

lemma is_digit_range: "is_digit c \<Longrightarrow> (48::nat) \<le> of_char c \<and> of_char c \<le> (57::nat)"
  by (simp add: is_digit_def in_range_def)

lemma tokens_number:
  assumes n: "decimal_nat n" and r: "delimited r"
  shows "tokens (n @ r) = map_option ((#) (NumberTok n)) (tokens r)"
proof -
  obtain d ds where nd: "n = d # ds"
    using n by (cases n) (auto simp: decimal_nat_def)
  have "is_digit d"
    using n nd by (auto simp: decimal_nat_def)
  then have "\<not> json_space d" "punctuation d = None" "d \<noteq> CHR 0x22" "d \<noteq> CHR ''t''"
    "d \<noteq> CHR ''f''" "d \<noteq> CHR ''n''"
    using is_digit_range [of d] by (auto simp: json_space_iff punctuation_def)
  then have "next_token (n @ r) = Some (NumberTok n, r)"
    using scan_number_decimal [OF n r] nd by (simp add: next_token_def)
  with \<open>\<not> json_space d\<close> nd show ?thesis by (simp add: tokens.simps(2))
qed

lemma tokens_seq:
  assumes "\<And>x r. x \<in> set xs \<Longrightarrow> delimited r \<Longrightarrow>
      tokens (f x @ r) = map_option ((@) (g x)) (tokens r)" and "delimited r"
  shows "tokens (concat (map (\<lambda>x. CHR 0x2C # f x) xs) @ r)
     = map_option ((@) (concat (map (\<lambda>x. Comma # g x) xs))) (tokens r)"
  using assms
proof (induction xs)
  case Nil
  show ?case by (cases "tokens r") simp_all
next
  case (Cons x xs)
  have tail: "tokens (concat (map (\<lambda>x. CHR 0x2C # f x) xs) @ r)
     = map_option ((@) (concat (map (\<lambda>x. Comma # g x) xs))) (tokens r)"
    using Cons by simp
  have "delimited (concat (map (\<lambda>x. CHR 0x2C # f x) xs) @ r)"
    using Cons.prems(2) by (cases xs) simp_all
  then have "tokens (f x @ concat (map (\<lambda>x. CHR 0x2C # f x) xs) @ r)
      = map_option ((@) (g x)) (tokens (concat (map (\<lambda>x. CHR 0x2C # f x) xs) @ r))"
    using Cons.prems(1) by simp
  then show ?case
    by (simp add: tail option.map_comp comp_def)
qed

lemma tokens_list:
  assumes "\<And>x r. x \<in> set xs \<Longrightarrow> delimited r \<Longrightarrow>
      tokens (f x @ r) = map_option ((@) (g x)) (tokens r)" and "delimited r"
  shows "tokens (strings_Join (map f xs) '','' @ r)
     = map_option ((@) (case map g xs of [] \<Rightarrow> [] | t # ts \<Rightarrow> t @ concat (map ((#) Comma) ts))) (tokens r)"
proof (cases xs)
  case Nil
  then show ?thesis by (cases "tokens r") simp_all
next
  case (Cons x ys)
  have "delimited (concat (map (\<lambda>x. CHR 0x2C # f x) ys) @ r)"
    using assms(2) by (cases ys) simp_all
  then have "tokens (f x @ concat (map (\<lambda>x. CHR 0x2C # f x) ys) @ r)
      = map_option ((@) (g x)) (tokens (concat (map (\<lambda>x. CHR 0x2C # f x) ys) @ r))"
    using assms(1) Cons by simp
  also have "\<dots> = map_option ((@) (g x @ concat (map (\<lambda>x. Comma # g x) ys))) (tokens r)"
    using tokens_seq [of ys f g r] assms Cons by (cases "tokens r") simp_all
  finally show ?thesis
    using Cons by (simp only: list.map strings_Join_Cons) (simp add: comp_def)
qed

lemma append_singleton_fun: "(@) [x] = (#) x"
  by (rule ext) simp

lemma tokens_render:
  "plain_json v \<Longrightarrow> delimited r \<Longrightarrow> tokens (render v @ r) = map_option ((@) (toks v)) (tokens r)"
proof (induction v arbitrary: r)
  case (JNumber n)
  then show ?case by (simp add: tokens_number comp_def)
next
  case (JString s)
  then show ?case by simp
next
  case (JArray vs)
  have "tokens (strings_Join (map render vs) '','' @ (CHR 0x5D # r)) =
    map_option ((@) (case map toks vs of [] \<Rightarrow> [] | t # ts \<Rightarrow> t @ concat (map ((#) Comma) ts)))
      (tokens (CHR 0x5D # r))"
    by (rule tokens_list) (use JArray in \<open>auto simp: list_all_iff\<close>)
  then show ?case
    by (simp add: option.map_comp comp_def)
next
  case (JObject ms)
  let ?f = "\<lambda>(k, v). dquote @ k @ dquote @ '':'' @ render v"
  let ?g = "\<lambda>(k, v). StringTok k # Colon # toks v"
  have elem: "tokens (?f m @ q) = map_option ((@) (?g m)) (tokens q)"
    if "m \<in> set ms" "delimited q" for m q
  proof -
    obtain k w where m: "m = (k, w)" by (cases m)
    have "plain_string k" "plain_json w"
      using JObject.prems(1) that m by (auto simp: list_all_iff)
    moreover have "tokens (render w @ q) = map_option ((@) (toks w)) (tokens q)"
      using JObject.IH [of m w q] that m \<open>plain_json w\<close> by simp
    ultimately show ?thesis
      using m by (cases "tokens q") simp_all
  qed
  have "tokens (strings_Join (map ?f ms) '','' @ (CHR 0x7D # r)) =
    map_option ((@) (case map ?g ms of [] \<Rightarrow> [] | t # ts \<Rightarrow> t @ concat (map ((#) Comma) ts)))
      (tokens (CHR 0x7D # r))"
    by (rule tokens_list) (use elem in \<open>auto\<close>)
  then show ?case
    by (simp add: option.map_comp comp_def)
qed (simp_all add: append_singleton_fun)

section \<open>The parser on printed documents\<close>

lemma foldr_max_member: "x \<in> set xs \<Longrightarrow> (x::nat) \<le> foldr max xs 0"
  by (induction xs) auto

definition parses :: "json \<Rightarrow> bool" where
  "parses v \<longleftrightarrow> (\<forall>st ts. json_depth v + length st \<le> maxNestingDepth \<longrightarrow>
     parse_run (BeginValue st) (toks v @ ts) = parse_run (EndValue v st) ts)"

lemma parses_first:
  assumes "parses v" "json_depth v + length st < maxNestingDepth"
  shows "parse_run (BeginElement st) (toks v @ ts) = parse_run (EndValue v (InArray [] # st)) ts"
proof -
  have "\<exists>t rest. toks v = t # rest \<and> t \<noteq> RBracket"
    by (cases v) simp_all
  then obtain t rest where t: "toks v = t # rest" "t \<noteq> RBracket" by blast
  then have "parse_run (BeginElement st) (toks v @ ts)
      = parse_run (BeginValue (InArray [] # st)) (toks v @ ts)"
    by simp
  with assms show ?thesis by (simp add: parses_def)
qed

lemma parse_elements:
  "(\<And>w. w \<in> set vs \<Longrightarrow> parses w \<and> json_depth w + length st < maxNestingDepth) \<Longrightarrow>
   parse_run (EndValue v (InArray acc # st)) (concat (map (\<lambda>w. Comma # toks w) vs) @ RBracket # ts)
     = parse_run (EndValue (JArray (rev acc @ v # vs)) st) ts"
proof (induction vs arbitrary: v acc)
  case Nil
  show ?case by simp
next
  case (Cons w ws)
  then have "parses w" "json_depth w + length (InArray (v # acc) # st) \<le> maxNestingDepth"
    by (auto simp: Suc_le_eq)
  then have "parse_run (BeginValue (InArray (v # acc) # st))
      (toks w @ concat (map (\<lambda>w. Comma # toks w) ws) @ RBracket # ts)
    = parse_run (EndValue w (InArray (v # acc) # st))
      (concat (map (\<lambda>w. Comma # toks w) ws) @ RBracket # ts)"
    by (simp add: parses_def)
  with Cons.IH [of w "v # acc"] Cons.prems show ?case by simp
qed

lemma parse_members:
  "(\<And>m. m \<in> set ms \<Longrightarrow> parses (snd m) \<and> json_depth (snd m) + length st < maxNestingDepth) \<Longrightarrow>
   parse_run (EndValue v (InObject acc k # st))
     (concat (map (\<lambda>m. Comma # StringTok (fst m) # Colon # toks (snd m)) ms) @ RBrace # ts)
     = parse_run (EndValue (JObject (rev acc @ (k, v) # ms)) st) ts"
proof (induction ms arbitrary: k v acc)
  case Nil
  show ?case by simp
next
  case (Cons m ms)
  let ?st = "InObject ((k, v) # acc) (fst m) # st"
  have "parses (snd m)" "json_depth (snd m) + length ?st \<le> maxNestingDepth"
    using Cons.prems by (auto simp: Suc_le_eq)
  then have "parse_run (BeginValue ?st)
      (toks (snd m) @ concat (map (\<lambda>m. Comma # StringTok (fst m) # Colon # toks (snd m)) ms) @ RBrace # ts)
    = parse_run (EndValue (snd m) ?st)
      (concat (map (\<lambda>m. Comma # StringTok (fst m) # Colon # toks (snd m)) ms) @ RBrace # ts)"
    by (simp add: parses_def)
  with Cons.IH [of "snd m" "(k, v) # acc" "fst m"] Cons.prems show ?case by simp
qed

lemma parses_all: "parses v"
proof (induction v)
  case (JArray vs)
  show ?case
  proof (cases vs)
    case Nil
    then show ?thesis by (simp add: parses_def value_token_def)
  next
    case (Cons w ws)
    show ?thesis
      unfolding parses_def
    proof (intro allI impI)
      fix st :: "frame list" and ts
      assume d: "json_depth (JArray vs) + length st \<le> maxNestingDepth"
      have dw: "json_depth u + length st < maxNestingDepth" if "u \<in> set vs" for u
        using d that foldr_max_member [of "json_depth u" "map json_depth vs"] by simp
      have "parse_run (BeginElement st)
          (toks w @ concat (map (\<lambda>w. Comma # toks w) ws) @ RBracket # ts)
        = parse_run (EndValue w (InArray [] # st)) (concat (map (\<lambda>w. Comma # toks w) ws) @ RBracket # ts)"
        by (rule parses_first) (use JArray Cons dw in auto)
      also have "\<dots> = parse_run (EndValue (JArray (rev [] @ w # ws)) st) ts"
        by (rule parse_elements) (use JArray Cons dw in auto)
      finally show "parse_run (BeginValue st) (toks (JArray vs) @ ts) = parse_run (EndValue (JArray vs) st) ts"
        using Cons d by (simp add: value_token_def comp_def)
    qed
  qed
next
  case (JObject ms)
  show ?case
  proof (cases ms)
    case Nil
    then show ?thesis by (simp add: parses_def value_token_def)
  next
    case (Cons m ns)
    show ?thesis
      unfolding parses_def
    proof (intro allI impI)
      fix st :: "frame list" and ts
      assume d: "json_depth (JObject ms) + length st \<le> maxNestingDepth"
      have dw: "json_depth (snd u) + length st < maxNestingDepth" if "u \<in> set ms" for u
        using d that foldr_max_member [of "json_depth (snd u)" "map (\<lambda>(k, v). json_depth v) ms"]
        by (force simp: case_prod_beta)
      have p: "parses (snd u)" if "u \<in> set ms" for u
        using JObject that by (cases u) auto
      let ?rest = "concat (map (\<lambda>m. Comma # StringTok (fst m) # Colon # toks (snd m)) ns) @ RBrace # ts"
      have "parse_run (BeginValue (InObject [] (fst m) # st)) (toks (snd m) @ ?rest)
        = parse_run (EndValue (snd m) (InObject [] (fst m) # st)) ?rest"
        using p [of m] dw [of m] Cons by (simp add: parses_def)
      also have "\<dots> = parse_run (EndValue (JObject (rev [] @ (fst m, snd m) # ns)) st) ts"
        by (rule parse_members) (use Cons dw p in auto)
      finally show "parse_run (BeginValue st) (toks (JObject ms) @ ts) = parse_run (EndValue (JObject ms) st) ts"
        using Cons d by (simp add: value_token_def comp_def case_prod_beta)
    qed
  qed
qed (simp_all add: parses_def value_token_def)

theorem parse_render:
  assumes "plain_json v" "json_depth v \<le> maxNestingDepth"
  shows "parse_json (render v) = Some v"
proof -
  have "tokens (render v) = Some (toks v)"
    using tokens_render [OF assms(1), of "[]"] by simp
  moreover have "parse_run (BeginValue []) (toks v) = Some (EndValue v [])"
    using parses_all [of v, unfolded parses_def, rule_format, of "[]" "[]"] assms(2) by simp
  ultimately show ?thesis by (simp add: parse_json_def)
qed

end
