(* ===== verification/Objects.thy ===== *)
theory Objects
  imports Go_Json_Print
begin

text \<open>
  The data the program works on: the API types of \<open>api/v1alpha1\<close> and, as far as the program
  reads or writes them, the third-party types they embed or refer to (object metadata,
  conditions, secrets, Flux resources, access requests). A pointer field is an option, a Go
  map a partial function, a slice a list (nil and the empty slice are both the empty list),
  a duration the integer number of nanoseconds.
\<close>

section \<open>Third-party types\<close>

datatype Time = ZeroTime | Time int

text \<open>\<open>(*metav1.Time).IsZero\<close>: nil or the zero time.\<close>

definition IsZero :: "Time option \<Rightarrow> bool" where
  "IsZero t \<longleftrightarrow> t = None \<or> t = Some ZeroTime"

type_synonym Duration = int

definition time_Second :: Duration where
  "time_Second = 1000000000"

definition time_Minute :: Duration where
  "time_Minute = 60 * time_Second"

record ObjectKey =
  key_Namespace :: string
  key_Name :: string

record ObjectMeta =
  meta_Name :: string
  meta_Namespace :: string
  meta_Generation :: int
  meta_Annotations :: "string \<rightharpoonup> string"
  meta_Finalizers :: "string list"
  meta_DeletionTimestamp :: "Time option"

datatype ConditionStatus = ConditionTrue | ConditionFalse | ConditionUnknown

record Condition =
  cond_Type :: string
  cond_Status :: ConditionStatus
  cond_ObservedGeneration :: int
  cond_LastTransitionTime :: Time
  cond_Reason :: string
  cond_Message :: string

record Result =
  RequeueAfter :: Duration

text \<open>What a reconcile step returns: \<open>(ctrl.Result, error)\<close>.\<close>

type_synonym reply = "Result \<times> goerror option"

record Secret =
  secret_Data :: "string \<rightharpoonup> string"
  secret_Type :: string

record AccessRequest =
  ar_Namespace :: string
  ar_Name :: string
  ar_DeletionTimestamp :: "Time option"
  ar_SecretRef :: "string option"

text \<open>A \<open>*clusters.Cluster\<close> is an opaque handle.\<close>

datatype Cluster = Cluster string

section \<open>Flux resources\<close>

record OCIRepositorySpec =
  oci_Interval :: Duration
  oci_URL :: string
  oci_SecretRef :: "string option"
  oci_Tag :: string

record OCIRepository =
  oci_Name :: string
  oci_Namespace :: string
  oci_Spec :: OCIRepositorySpec
  oci_Conditions :: "Condition list"

datatype CRDsPolicy = Skip | Create | CreateReplace

datatype RemediationStrategy = RollbackRemediationStrategy | UninstallRemediationStrategy

record Install =
  install_CRDs :: CRDsPolicy
  install_CreateNamespace :: bool
  install_Retries :: int

record Upgrade =
  upgrade_CRDs :: CRDsPolicy
  upgrade_CleanupOnFail :: bool
  upgrade_Retries :: int
  upgrade_Strategy :: RemediationStrategy

record CrossNamespaceSourceReference =
  ref_Kind :: string
  ref_Name :: string
  ref_Namespace :: string

record SecretKeyReference =
  skr_Name :: string
  skr_Key :: string

record Selector =
  sel_Group :: string
  sel_Version :: string
  sel_Kind :: string

record Patch =
  patch_Patch :: string
  patch_Target :: Selector

record PostRenderer =
  Kustomize_Patches :: "Patch list"

record HelmReleaseSpec =
  hr_ReleaseName :: string
  hr_Interval :: Duration
  hr_TargetNamespace :: string
  hr_StorageNamespace :: string
  hr_Install :: Install
  hr_Upgrade :: Upgrade
  hr_ChartRef :: CrossNamespaceSourceReference
  hr_Values :: "string option"
  hr_KubeConfig_SecretRef :: SecretKeyReference
  hr_PostRenderers :: "PostRenderer list"

record HelmRelease =
  hr_Name :: string
  hr_Namespace :: string
  hr_Spec :: HelmReleaseSpec
  hr_Conditions :: "Condition list"

section \<open>The types of api/v1alpha1\<close>

datatype InstancePhase = Pending | Progressing | Ready | Failed | Terminating | Unknown

datatype ResourceLocation = ManagedControlPlane | PlatformCluster

record ManagedResource =
  res_APIGroup :: "string option"
  res_Kind :: string
  res_Name :: string
  res_Namespace :: "string option"
  res_Phase :: InstancePhase
  res_Message :: string
  res_Location :: ResourceLocation

record KroSpec =
  spec_Version :: string

record KroStatus =
  status_Phase :: string
  status_ObservedGeneration :: int
  status_Conditions :: "Condition list"
  status_Resources :: "ManagedResource list"

record Kro =
  kro_Meta :: ObjectMeta
  kro_Spec :: KroSpec
  kro_Status :: KroStatus

text \<open>The raw bytes of \<open>apiextensionsv1.JSON\<close> stand for the JSON value.\<close>

record KroVersion =
  ver_Version :: string
  ver_ChartVersion :: string
  ver_ChartURL :: "string option"
  ver_ChartPullSecret :: string
  ver_HelmValues :: "string option"

record ProviderConfigSpec =
  pcs_Versions :: "KroVersion list"
  pcs_PollInterval :: "Duration option"

record ProviderConfigStatus =
  pcst_Conditions :: "Condition list"

record ProviderConfig =
  pc_Meta :: ObjectMeta
  pc_Spec :: ProviderConfigSpec
  pc_Status :: ProviderConfigStatus

definition ObjectKeyFromMeta :: "ObjectMeta \<Rightarrow> ObjectKey" where
  "ObjectKeyFromMeta m = \<lparr>key_Namespace = meta_Namespace m, key_Name = meta_Name m\<rparr>"

end
