(* ===== verification/Libraries.thy ===== *)
theory Libraries
  imports Objects
begin

text \<open>
  The pure functions and constants the program takes from third-party packages, as one record
  of parameters: condition helpers of \<open>apimachinery/meta\<close>, error classification of
  \<open>apimachinery/errors\<close>, \<open>controller-runtime/client\<close> and \<open>controller-utils/errors\<close>,
  finalizer helpers of \<open>controllerutil\<close>, the naming functions of the openmcp operator
  library, and a few constants. Two fields are data of the Go standard library that the model
  does not spell out: the table of printable runes and the wording of JSON errors. The
  predicates below state the documented behaviour that the properties rely on, one group
  each; a property names the groups it needs.
\<close>

record libs =
  SetStatusCondition :: "Condition list \<Rightarrow> Condition \<Rightarrow> Condition list"
  FindStatusCondition :: "Condition list \<Rightarrow> string \<Rightarrow> Condition option"
  IsStatusConditionTrue :: "Condition list \<Rightarrow> string \<Rightarrow> bool"
  SemanticDeepEqual :: "KroStatus \<Rightarrow> KroStatus \<Rightarrow> bool"
  IsNotFound :: "goerror \<Rightarrow> bool"
  IsNoMatchError :: "goerror \<Rightarrow> bool"
  IgnoreNotFound :: "goerror \<Rightarrow> goerror option"
  IgnoreInvalidUserInput :: "goerror \<Rightarrow> goerror option"
  ErrInvalidUserInput :: goerror
  AddFinalizer :: "string list \<Rightarrow> string \<Rightarrow> string list"
  RemoveFinalizer :: "string list \<Rightarrow> string \<Rightarrow> string list"
  StableMCPNamespace :: "string \<Rightarrow> string \<Rightarrow> goerror + string"
  StableRequestNameFromLocalName :: "string \<Rightarrow> string \<Rightarrow> string"
  NamespacedName_String :: "ObjectKey \<Rightarrow> string"
  ExactNamePredicate :: "string \<Rightarrow> string \<Rightarrow> ObjectKey \<Rightarrow> bool"
  unicode_IsPrint :: "nat \<Rightarrow> bool"
  json_error_text :: "string \<Rightarrow> string"
  OperationAnnotation :: string
  OperationAnnotationValueIgnore :: string
  OperationAnnotationValueReconcile :: string
  flux_ReadyCondition :: string
  sourcev1_Group :: string
  helmv2_Group :: string
  SecretTypeOpaque :: string

text \<open>
  Conditions: after \<open>SetStatusCondition\<close> the condition of the given type carries the given
  status, reason, message and generation, and every other type reads as before.
\<close>

definition condition_agrees :: "Condition \<Rightarrow> Condition \<Rightarrow> bool" where
  "condition_agrees c d \<longleftrightarrow> cond_Type c = cond_Type d \<and> cond_Status c = cond_Status d
     \<and> cond_ObservedGeneration c = cond_ObservedGeneration d
     \<and> cond_Reason c = cond_Reason d \<and> cond_Message c = cond_Message d"

definition condition_laws :: "libs \<Rightarrow> bool" where
  "condition_laws L \<longleftrightarrow>
     (\<forall>cs c. \<exists>d. FindStatusCondition L (SetStatusCondition L cs c) (cond_Type c) = Some d
        \<and> condition_agrees d c)
   \<and> (\<forall>cs c t. t \<noteq> cond_Type c \<longrightarrow>
        FindStatusCondition L (SetStatusCondition L cs c) t = FindStatusCondition L cs t)
   \<and> (\<forall>cs t. IsStatusConditionTrue L cs t \<longleftrightarrow>
        (\<exists>c. FindStatusCondition L cs t = Some c \<and> cond_Status c = ConditionTrue))"

text \<open>Error classification: the two \<open>Ignore\<close> functions drop exactly their class.\<close>

definition not_found_laws :: "libs \<Rightarrow> bool" where
  "not_found_laws L \<longleftrightarrow>
     (\<forall>e. IgnoreNotFound L e = (if IsNotFound L e then None else Some e))"

definition user_input_laws :: "libs \<Rightarrow> bool" where
  "user_input_laws L \<longleftrightarrow>
     (\<forall>e. IgnoreInvalidUserInput L e = (if errors_Is e (ErrInvalidUserInput L) then None else Some e))"

definition finalizer_laws :: "libs \<Rightarrow> bool" where
  "finalizer_laws L \<longleftrightarrow>
     (\<forall>fs f. set (AddFinalizer L fs f) = insert f (set fs))
   \<and> (\<forall>fs f. set (RemoveFinalizer L fs f) = set fs - {f})"

definition annotation_laws :: "libs \<Rightarrow> bool" where
  "annotation_laws L \<longleftrightarrow> OperationAnnotationValueIgnore L \<noteq> OperationAnnotationValueReconcile L"

definition deep_equal_laws :: "libs \<Rightarrow> bool" where
  "deep_equal_laws L \<longleftrightarrow> (\<forall>s. SemanticDeepEqual L s s)"

lemma find_set_condition:
  assumes "condition_laws L"
  obtains d where "FindStatusCondition L (SetStatusCondition L cs c) (cond_Type c) = Some d"
    and "condition_agrees d c"
  using assms unfolding condition_laws_def by blast

lemma find_set_condition_other:
  "condition_laws L \<Longrightarrow> t \<noteq> cond_Type c \<Longrightarrow>
    FindStatusCondition L (SetStatusCondition L cs c) t = FindStatusCondition L cs t"
  by (simp add: condition_laws_def)

lemma is_true_condition:
  "condition_laws L \<Longrightarrow> IsStatusConditionTrue L cs t \<longleftrightarrow>
    (\<exists>c. FindStatusCondition L cs t = Some c \<and> cond_Status c = ConditionTrue)"
  by (simp add: condition_laws_def)

section \<open>A concrete library\<close>

text \<open>
  One record of functions that has the documented behaviour, so that the hypotheses above are
  known to be satisfiable together; the witnesses of the properties run the model on it.
\<close>

definition sample_set_condition :: "Condition list \<Rightarrow> Condition \<Rightarrow> Condition list" where
  "sample_set_condition cs c = c # filter (\<lambda>d. cond_Type d \<noteq> cond_Type c) cs"

definition sample_find_condition :: "Condition list \<Rightarrow> string \<Rightarrow> Condition option" where
  "sample_find_condition cs t = List.find (\<lambda>d. cond_Type d = t) cs"

definition sample_not_found :: goerror where
  "sample_not_found = ErrorString ''not found''"

definition sample_invalid_input :: goerror where
  "sample_invalid_input = ErrorString ''invalid user input''"

definition sample_libs :: libs where
  "sample_libs = \<lparr>
     SetStatusCondition = sample_set_condition,
     FindStatusCondition = sample_find_condition,
     IsStatusConditionTrue = (\<lambda>cs t. case sample_find_condition cs t of
        None \<Rightarrow> False | Some c \<Rightarrow> cond_Status c = ConditionTrue),
     SemanticDeepEqual = (=),
     IsNotFound = (\<lambda>e. e = sample_not_found),
     IsNoMatchError = (\<lambda>e. e = ErrorString ''no match''),
     IgnoreNotFound = (\<lambda>e. if e = sample_not_found then None else Some e),
     IgnoreInvalidUserInput = (\<lambda>e. if errors_Is e sample_invalid_input then None else Some e),
     ErrInvalidUserInput = sample_invalid_input,
     AddFinalizer = (\<lambda>fs f. if f \<in> set fs then fs else fs @ [f]),
     RemoveFinalizer = (\<lambda>fs f. filter (\<lambda>g. g \<noteq> f) fs),
     StableMCPNamespace = (\<lambda>n ns. Inr (''mcp--'' @ ns @ ''--'' @ n)),
     StableRequestNameFromLocalName = (\<lambda>c n. c @ ''--'' @ n),
     NamespacedName_String = (\<lambda>k. key_Namespace k @ ''/'' @ key_Name k),
     ExactNamePredicate = (\<lambda>n ns k. key_Name k = n \<and> key_Namespace k = ns),
     unicode_IsPrint = (\<lambda>r. True),
     json_error_text = (\<lambda>s. ''invalid JSON''),
     OperationAnnotation = ''openmcp.cloud/operation'',
     OperationAnnotationValueIgnore = ''ignore'',
     OperationAnnotationValueReconcile = ''reconcile'',
     flux_ReadyCondition = ''Ready'',
     sourcev1_Group = ''source.toolkit.fluxcd.io'',
     helmv2_Group = ''helm.toolkit.fluxcd.io'',
     SecretTypeOpaque = ''Opaque''\<rparr>"

lemma sample_find_filter:
  "sample_find_condition (filter (\<lambda>d. cond_Type d \<noteq> u) cs) t =
     (if t = u then None else sample_find_condition cs t)"
  by (induction cs) (auto simp: sample_find_condition_def)

lemma sample_condition_laws: "condition_laws sample_libs"
  by (auto simp: condition_laws_def sample_libs_def sample_set_condition_def condition_agrees_def
      sample_find_filter split: option.splits)
    (auto simp: sample_find_condition_def sample_find_filter [unfolded sample_find_condition_def])

lemma sample_not_found_laws: "not_found_laws sample_libs"
  by (simp add: not_found_laws_def sample_libs_def)

lemma sample_user_input_laws: "user_input_laws sample_libs"
  by (simp add: user_input_laws_def sample_libs_def)

lemma sample_finalizer_laws: "finalizer_laws sample_libs"
  by (auto simp: finalizer_laws_def sample_libs_def)

lemma sample_annotation_laws: "annotation_laws sample_libs"
  by (simp add: annotation_laws_def sample_libs_def)

lemma sample_deep_equal_laws: "deep_equal_laws sample_libs"
  by (simp add: deep_equal_laws_def sample_libs_def)

lemmas sample_laws = sample_condition_laws sample_not_found_laws sample_user_input_laws
  sample_finalizer_laws sample_annotation_laws sample_deep_equal_laws

end
