(* ===== verification/Api.thy ===== *)
theory Api
  imports Libraries
begin

text \<open>
  The functions of \<open>api/v1alpha1\<close>: resolving a tenant's version against the provider
  config, the chart URL, the poll interval, and the accessors that make \<open>Kro\<close> a service
  provider API object. A nil receiver of a \<open>ProviderConfig\<close> method is \<open>None\<close>.
\<close>

section \<open>Constants\<close>

definition GroupVersion_Group :: string where
  "GroupVersion_Group = ''kro.services.open-control-plane.io''"

definition GroupVersion_Version :: string where
  "GroupVersion_Version = ''v1alpha1''"

definition DefaultReleaseName :: string where
  "DefaultReleaseName = ''kro''"

definition DefaultChartURL :: string where
  "DefaultChartURL = ''oci://registry.k8s.io/kro/charts/kro''"

definition DefaultPollInterval :: Duration where
  "DefaultPollInterval = time_Minute"

definition ErrVersionNotAvailable :: "libs \<Rightarrow> goerror" where
  "ErrVersionNotAvailable L =
     WrapError (error_text (ErrInvalidUserInput L) @ '': requested version is not available'')
       (ErrInvalidUserInput L)"

section \<open>ProviderConfig\<close>

definition PollInterval :: "ProviderConfig option \<Rightarrow> Duration" where
  "PollInterval o' = (case o' of
     None \<Rightarrow> DefaultPollInterval
   | Some pc \<Rightarrow> (case pcs_PollInterval (pc_Spec pc) of
       None \<Rightarrow> DefaultPollInterval
     | Some d \<Rightarrow> d))"

text \<open>
  The three error returns of \<open>ResolveVersion\<close>: \<open>%w: %q, \<dots>\<close> over the sentinel error.
\<close>

definition version_error :: "libs \<Rightarrow> string \<Rightarrow> string \<Rightarrow> goerror" where
  "version_error L version detail =
     WrapError (error_text (ErrVersionNotAvailable L) @ '': ''
         @ go_quote (unicode_IsPrint L) version @ '', '' @ detail)
       (ErrVersionNotAvailable L)"

text \<open>The loop over the offered versions; \<open>available\<close> accumulates the names passed over.\<close>

fun resolve_loop :: "libs \<Rightarrow> string \<Rightarrow> string list \<Rightarrow> KroVersion list \<Rightarrow> goerror + KroVersion" where
  "resolve_loop L version available [] =
     (if available = []
      then Inl (version_error L version ''the provider config offers no versions'')
      else Inl (version_error L version
             (''available versions are: '' @ strings_Join available '', '')))"
| "resolve_loop L version available (candidate # rest) =
     (if ver_Version candidate = version then Inr candidate
      else resolve_loop L version (available @ [ver_Version candidate]) rest)"

definition ResolveVersion :: "libs \<Rightarrow> ProviderConfig option \<Rightarrow> string \<Rightarrow> goerror + KroVersion" where
  "ResolveVersion L o' version = (case o' of
     None \<Rightarrow> Inl (version_error L version ''no provider config is configured'')
   | Some pc \<Rightarrow> resolve_loop L version [] (pcs_Versions (pc_Spec pc)))"

section \<open>KroVersion\<close>

definition ensureOCIScheme :: "string \<Rightarrow> string" where
  "ensureOCIScheme url = (if \<not> strings_HasPrefix url ''oci://'' then ''oci://'' @ url else url)"

definition GetChartURL :: "KroVersion \<Rightarrow> string" where
  "GetChartURL v = (case ver_ChartURL v of
     None \<Rightarrow> DefaultChartURL
   | Some url \<Rightarrow> if url = '''' then DefaultChartURL else ensureOCIScheme url)"

section \<open>Kro as an API object\<close>

definition Kro_Finalizer :: string where
  "Kro_Finalizer = GroupVersion_Group @ ''/finalizer''"

definition Kro_GetStatus :: "Kro \<Rightarrow> KroStatus" where
  "Kro_GetStatus k = kro_Status k"

text \<open>\<open>GetConditions\<close> returns a pointer into the status: a reader and a writer.\<close>

definition Kro_GetConditions :: "Kro \<Rightarrow> Condition list" where
  "Kro_GetConditions k = status_Conditions (kro_Status k)"

definition Kro_PutConditions :: "Condition list \<Rightarrow> Kro \<Rightarrow> Kro" where
  "Kro_PutConditions cs k = k\<lparr>kro_Status := (kro_Status k)\<lparr>status_Conditions := cs\<rparr>\<rparr>"

definition Kro_SetPhase :: "string \<Rightarrow> Kro \<Rightarrow> Kro" where
  "Kro_SetPhase p k = k\<lparr>kro_Status := (kro_Status k)\<lparr>status_Phase := p\<rparr>\<rparr>"

definition Kro_SetObservedGeneration :: "int \<Rightarrow> Kro \<Rightarrow> Kro" where
  "Kro_SetObservedGeneration g k =
     k\<lparr>kro_Status := (kro_Status k)\<lparr>status_ObservedGeneration := g\<rparr>\<rparr>"

definition set_resources :: "ManagedResource list \<Rightarrow> Kro \<Rightarrow> Kro" where
  "set_resources rs k = k\<lparr>kro_Status := (kro_Status k)\<lparr>status_Resources := rs\<rparr>\<rparr>"

section \<open>Version resolution\<close>

lemma resolve_loop_spec:
  "resolve_loop L version available vs =
     (case List.find (\<lambda>v. ver_Version v = version) vs of
        Some v \<Rightarrow> Inr v
      | None \<Rightarrow> if available @ map ver_Version vs = []
          then Inl (version_error L version ''the provider config offers no versions'')
          else Inl (version_error L version
            (''available versions are: '' @ strings_Join (available @ map ver_Version vs) '', '')))"
  by (induction vs arbitrary: available) (auto split: option.split)

lemma find_Some_first:
  "List.find P xs = Some x \<longleftrightarrow>
     (\<exists>ys zs. xs = ys @ x # zs \<and> P x \<and> list_all (\<lambda>y. \<not> P y) ys)"
proof
  assume "List.find P xs = Some x"
  then obtain i where i: "i < length xs" "P (xs ! i)" "x = xs ! i" "\<forall>j<i. \<not> P (xs ! j)"
    by (auto simp: find_Some_iff)
  then have "xs = take i xs @ x # drop (Suc i) xs"
    by (metis id_take_nth_drop)
  moreover have "list_all (\<lambda>y. \<not> P y) (take i xs)"
    using i by (auto simp: list_all_length)
  ultimately show "\<exists>ys zs. xs = ys @ x # zs \<and> P x \<and> list_all (\<lambda>y. \<not> P y) ys"
    using i by metis
next
  assume "\<exists>ys zs. xs = ys @ x # zs \<and> P x \<and> list_all (\<lambda>y. \<not> P y) ys"
  then obtain ys zs where "xs = ys @ x # zs" "P x" "list_all (\<lambda>y. \<not> P y) ys" by blast
  then show "List.find P xs = Some x" by (induction ys arbitrary: xs) auto
qed

lemma version_error_Is:
  "errors_Is (version_error L v d) (ErrVersionNotAvailable L)"
  "errors_Is (version_error L v d) (ErrInvalidUserInput L)"
  by (simp_all add: version_error_def ErrVersionNotAvailable_def)

lemma ResolveVersion_error_Is:
  assumes "ResolveVersion L pc v = Inl e"
  shows "errors_Is e (ErrVersionNotAvailable L)" "errors_Is e (ErrInvalidUserInput L)"
proof -
  obtain d where "e = version_error L v d"
    using assms
    by (auto simp: ResolveVersion_def resolve_loop_spec split: option.splits if_splits)
  then show "errors_Is e (ErrVersionNotAvailable L)" "errors_Is e (ErrInvalidUserInput L)"
    by (simp_all add: version_error_Is)
qed

text \<open>
  C39. Resolving a version is first-match lookup: it succeeds exactly with the first entry of
  the provider config whose version is verbatim the requested one (no prefix is inferred), for
  every configuration and every request.
\<close>
theorem ResolveVersion_first_match:
  "ResolveVersion L (Some pc) version = Inr v \<longleftrightarrow>
     (\<exists>before after. pcs_Versions (pc_Spec pc) = before @ v # after
        \<and> ver_Version v = version \<and> list_all (\<lambda>u. ver_Version u \<noteq> version) before)"
proof -
  have "ResolveVersion L (Some pc) version = Inr v \<longleftrightarrow>
      List.find (\<lambda>u. ver_Version u = version) (pcs_Versions (pc_Spec pc)) = Some v"
    by (auto simp: ResolveVersion_def resolve_loop_spec split: option.splits if_splits)
  then show ?thesis by (simp add: find_Some_first)
qed

text \<open>
  Every failing resolution is a user error: it wraps both \<open>ErrVersionNotAvailable\<close> and
  \<open>ErrInvalidUserInput\<close>, the requested version is not among the offered ones, and the text
  quotes the request and names every version on offer, in order.
\<close>
theorem ResolveVersion_error:
  assumes "ResolveVersion L (Some pc) version = Inl e"
  shows "errors_Is e (ErrVersionNotAvailable L) \<and> errors_Is e (ErrInvalidUserInput L)
    \<and> version \<notin> ver_Version ` set (pcs_Versions (pc_Spec pc))
    \<and> error_text e = error_text (ErrVersionNotAvailable L) @ '': ''
        @ go_quote (unicode_IsPrint L) version @ '', ''
        @ (if pcs_Versions (pc_Spec pc) = [] then ''the provider config offers no versions''
           else ''available versions are: ''
             @ strings_Join (map ver_Version (pcs_Versions (pc_Spec pc))) '', '')"
proof -
  have "List.find (\<lambda>u. ver_Version u = version) (pcs_Versions (pc_Spec pc)) = None"
    using assms by (auto simp: ResolveVersion_def resolve_loop_spec split: option.splits)
  then have "version \<notin> ver_Version ` set (pcs_Versions (pc_Spec pc))"
    by (auto simp: find_None_iff)
  with assms ResolveVersion_error_Is [OF assms] show ?thesis
    by (auto simp: ResolveVersion_def resolve_loop_spec version_error_def
        split: option.splits if_splits)
qed

definition sample_version :: KroVersion where
  "sample_version = \<lparr>ver_Version = ''v0.9.3'', ver_ChartVersion = ''0.9.3'',
     ver_ChartURL = Some ''registry.example.com/kro'', ver_ChartPullSecret = ''regcred'',
     ver_HelmValues = None\<rparr>"

definition sample_meta :: "string \<Rightarrow> ObjectMeta" where
  "sample_meta n = \<lparr>meta_Name = n, meta_Namespace = ''tenant'', meta_Generation = 1,
     meta_Annotations = Map.empty, meta_Finalizers = [], meta_DeletionTimestamp = None\<rparr>"

definition sample_config :: "KroVersion list \<Rightarrow> ProviderConfig" where
  "sample_config vs = \<lparr>pc_Meta = sample_meta ''kro'',
     pc_Spec = \<lparr>pcs_Versions = vs, pcs_PollInterval = None\<rparr>,
     pc_Status = \<lparr>pcst_Conditions = []\<rparr>\<rparr>"

theorem ResolveVersion_error_witness:
  "\<exists>e. ResolveVersion sample_libs (Some (sample_config [sample_version])) ''9.9.9'' = Inl e
     \<and> error_text e = ''invalid user input: requested version is not available: ''
         @ dquote @ ''9.9.9'' @ dquote @ '', available versions are: v0.9.3''"
proof -
  have plain: "plain_string ''9.9.9''"
    by (simp add: plain_string_def plain_char_def in_range_def)
  obtain e where e: "ResolveVersion sample_libs (Some (sample_config [sample_version])) ''9.9.9'' = Inl e"
    by (simp add: ResolveVersion_def sample_config_def sample_version_def)
  from ResolveVersion_error [OF e] e show ?thesis
    by (simp add: go_quote_plain [OF plain] sample_libs_def sample_invalid_input_def
        ErrVersionNotAvailable_def sample_config_def sample_version_def)
qed

section \<open>Chart URL\<close>

lemma ensureOCIScheme_prefix: "strings_HasPrefix (ensureOCIScheme url) ''oci://''"
  by (simp add: ensureOCIScheme_def strings_HasPrefix_def)

lemma ensureOCIScheme_idem [simp]: "ensureOCIScheme (ensureOCIScheme url) = ensureOCIScheme url"
  using ensureOCIScheme_prefix [of url] by (simp add: ensureOCIScheme_def [of "ensureOCIScheme url"])

text \<open>
  The chart URL of every version carries the \<open>oci://\<close> scheme exactly as a normal form:
  an unset or empty URL is the default, a URL with the scheme is kept, any other URL gets
  the scheme, and normalising again changes nothing.
\<close>
theorem GetChartURL_normal_form:
  "strings_HasPrefix (GetChartURL v) ''oci://'' \<and> ensureOCIScheme (GetChartURL v) = GetChartURL v
   \<and> GetChartURL (v\<lparr>ver_ChartURL := Some (GetChartURL v)\<rparr>) = GetChartURL v
   \<and> GetChartURL (v\<lparr>ver_ChartURL := None\<rparr>) = DefaultChartURL
   \<and> GetChartURL (v\<lparr>ver_ChartURL := Some (''oci://'' @ u)\<rparr>) = ''oci://'' @ u"
proof -
  have "strings_HasPrefix (GetChartURL v) ''oci://''"
    using ensureOCIScheme_prefix
    by (auto simp: GetChartURL_def DefaultChartURL_def strings_HasPrefix_def split: option.split)
  moreover from this have "GetChartURL v \<noteq> ''''" "ensureOCIScheme (GetChartURL v) = GetChartURL v"
    by (auto simp: strings_HasPrefix_def ensureOCIScheme_def)
  ultimately show ?thesis
    by (simp add: GetChartURL_def [of "v\<lparr>ver_ChartURL := x\<rparr>" for x]
        ensureOCIScheme_def strings_HasPrefix_def)
qed

end
