(* ===== verification/Helm_Values.thy ===== *)
theory Helm_Values
  imports Api
begin

text \<open>
  \<open>internal/controller/helm_values.go\<close>: reading the image pull secrets out of a version's raw
  Helm values, and the Flux post renderers. Decoding follows \<open>encoding/json\<close> into the struct
  \<open>HelmValues\<close>: field names match up to case folding, unknown members are skipped, null leaves
  a string and a struct alone and resets a slice, a member that occurs twice is decoded again
  over the slice of the first occurrence, whose cells keep their old contents.
\<close>

section \<open>Constants of the controller used here\<close>

definition mcpKubeconfigSecretName :: string where
  "mcpKubeconfigSecretName = ''kro-mcp-kubeconfig''"

definition mcpKubeconfigMountPath :: string where
  "mcpKubeconfigMountPath = ''/etc/kro/kubeconfig''"

definition mcpKubeconfigKey :: string where
  "mcpKubeconfigKey = ''kubeconfig''"

section \<open>Decoding into HelmValues\<close>

record HelmValues =
  ImagePullSecrets :: "string list"

text \<open>
  Case folding of member names. Besides ASCII letters only the long s (U+017F) and the Kelvin
  sign (U+212A) fold to ASCII; any other rune folds to a non-ASCII one, which matches neither
  field name, so its bytes may stay as they are.
\<close>

definition fold_ascii :: "char \<Rightarrow> char" where
  "fold_ascii c = (if in_range 97 122 (of_char c) then char_of (of_char c - 32 :: nat) else c)"

function fold_name :: "string \<Rightarrow> string" where
  "fold_name [] = []"
| "fold_name (c # cs) =
     (if c = CHR 0xC5 \<and> take 1 cs = [CHR 0xBF] then CHR ''S'' # fold_name (drop 1 cs)
      else if c = CHR 0xE2 \<and> take 2 cs = [CHR 0x84, CHR 0xAA] then CHR ''K'' # fold_name (drop 2 cs)
      else fold_ascii c # fold_name cs)"
  by pat_completeness auto
termination
  by (relation "measure length") auto

definition matches_field :: "string \<Rightarrow> string \<Rightarrow> bool" where
  "matches_field field key \<longleftrightarrow> fold_name key = fold_name field"

text \<open>
  \<open>None\<close> is a type mismatch (an \<open>UnmarshalTypeError\<close>, after which the result is dropped).
\<close>

definition decode_string :: "string \<Rightarrow> json \<Rightarrow> string option" where
  "decode_string old v = (case v of JString s \<Rightarrow> Some s | JNull \<Rightarrow> Some old | _ \<Rightarrow> None)"

fun decode_ref_members :: "string \<Rightarrow> (string \<times> json) list \<Rightarrow> string option" where
  "decode_ref_members old [] = Some old"
| "decode_ref_members old ((k, v) # ms) =
     (if matches_field ''name'' k
      then (case decode_string old v of None \<Rightarrow> None | Some s \<Rightarrow> decode_ref_members s ms)
      else decode_ref_members old ms)"

text \<open>A \<open>LocalObjectReference\<close> is its name.\<close>

definition decode_ref :: "string \<Rightarrow> json \<Rightarrow> string option" where
  "decode_ref old v = (case v of
     JObject ms \<Rightarrow> decode_ref_members old ms | JNull \<Rightarrow> Some old | _ \<Rightarrow> None)"

text \<open>The cells of a slice's backing array; cells beyond it are zero.\<close>

definition cell :: "string list \<Rightarrow> nat \<Rightarrow> string" where
  "cell cells i = (if i < length cells then cells ! i else '''')"

definition put_cell :: "string list \<Rightarrow> nat \<Rightarrow> string \<Rightarrow> string list" where
  "put_cell cells i s = take i cells @ [s] @ drop (Suc i) cells"

fun decode_elements :: "string list \<Rightarrow> nat \<Rightarrow> json list \<Rightarrow> string list option" where
  "decode_elements cells i [] = Some cells"
| "decode_elements cells i (v # vs) =
     (case decode_ref (cell cells i) v of
        None \<Rightarrow> None
      | Some s \<Rightarrow> decode_elements (put_cell cells i s) (Suc i) vs)"

definition decode_slice :: "string list \<times> nat \<Rightarrow> json \<Rightarrow> (string list \<times> nat) option" where
  "decode_slice sl v = (case v of
     JArray vs \<Rightarrow>
       (if vs = [] then Some ([], 0)
        else map_option (\<lambda>cells. (cells, length vs)) (decode_elements (fst sl) 0 vs))
   | JNull \<Rightarrow> Some ([], 0)
   | _ \<Rightarrow> None)"

fun decode_members :: "string list \<times> nat \<Rightarrow> (string \<times> json) list \<Rightarrow> (string list \<times> nat) option" where
  "decode_members sl [] = Some sl"
| "decode_members sl ((k, v) # ms) =
     (if matches_field ''imagePullSecrets'' k
      then (case decode_slice sl v of None \<Rightarrow> None | Some sl' \<Rightarrow> decode_members sl' ms)
      else decode_members sl ms)"

definition decode_HelmValues :: "json \<Rightarrow> HelmValues option" where
  "decode_HelmValues v = (case v of
     JObject ms \<Rightarrow>
       map_option (\<lambda>(cells, n). \<lparr>ImagePullSecrets = take n cells\<rparr>) (decode_members ([], 0) ms)
   | JNull \<Rightarrow> Some \<lparr>ImagePullSecrets = []\<rparr>
   | _ \<Rightarrow> None)"

definition json_Unmarshal_HelmValues :: "libs \<Rightarrow> string \<Rightarrow> goerror + HelmValues" where
  "json_Unmarshal_HelmValues L raw =
     (case parse_json raw of
        None \<Rightarrow> Inl (ErrorString (json_error_text L raw))
      | Some v \<Rightarrow> (case decode_HelmValues v of
          None \<Rightarrow> Inl (ErrorString (json_error_text L raw))
        | Some hv \<Rightarrow> Inr hv))"

definition ExtractHelmValues :: "libs \<Rightarrow> string option \<Rightarrow> goerror + HelmValues" where
  "ExtractHelmValues L values = (case values of
     None \<Rightarrow> Inr \<lparr>ImagePullSecrets = []\<rparr>
   | Some raw \<Rightarrow>
       if length raw = 0 then Inr \<lparr>ImagePullSecrets = []\<rparr>
       else (case json_Unmarshal_HelmValues L raw of
          Inl err \<Rightarrow> Inl (errorf ''failed to parse helm values'' err)
        | Inr out \<Rightarrow> Inr out))"

section \<open>Post renderers\<close>

text \<open>The template of the raw string literal, line by line.\<close>

definition kubeconfig_patch :: "string \<Rightarrow> string \<Rightarrow> string \<Rightarrow> string" where
  "kubeconfig_patch filePath mountPath secretName = strings_Join
     [''apiVersion: apps/v1'',
      ''kind: Deployment'',
      ''metadata:'',
      ''  name: kro'',
      ''spec:'',
      ''  template:'',
      ''    spec:'',
      ''      containers:'',
      ''        - name: kro'',
      ''          env:'',
      ''            - name: KUBECONFIG'',
      ''              value: '' @ filePath,
      ''          volumeMounts:'',
      ''            - name: mcp-kubeconfig'',
      ''              mountPath: '' @ mountPath,
      ''              readOnly: true'',
      ''      volumes:'',
      ''        - name: mcp-kubeconfig'',
      ''          secret:'',
      ''            secretName: '' @ secretName] newline"

definition kubeconfigPostRenderers :: "PostRenderer list" where
  "kubeconfigPostRenderers =
     (let kubeconfigFilePath = mcpKubeconfigMountPath @ ''/'' @ mcpKubeconfigKey;
          patch = kubeconfig_patch kubeconfigFilePath mcpKubeconfigMountPath mcpKubeconfigSecretName
      in [\<lparr>Kustomize_Patches =
            [\<lparr>patch_Patch = patch,
              patch_Target = \<lparr>sel_Group = ''apps'', sel_Version = ''v1'', sel_Kind = ''Deployment''\<rparr>\<rparr>]\<rparr>])"

definition delete_patch :: "string \<Rightarrow> string \<Rightarrow> string" where
  "delete_patch apiVersion kind =
     ''$patch: delete'' @ newline @ ''apiVersion: '' @ apiVersion @ newline
     @ ''kind: '' @ kind @ newline @ ''metadata:'' @ newline @ ''  name: kro'' @ newline"

definition crdOnlyPostRenderers :: "PostRenderer list" where
  "crdOnlyPostRenderers =
     (let targets =
        [\<lparr>patch_Patch = delete_patch ''apps/v1'' ''Deployment'',
          patch_Target = \<lparr>sel_Group = ''apps'', sel_Version = ''v1'', sel_Kind = ''Deployment''\<rparr>\<rparr>,
         \<lparr>patch_Patch = delete_patch ''v1'' ''ServiceAccount'',
          patch_Target = \<lparr>sel_Group = '''', sel_Version = ''v1'', sel_Kind = ''ServiceAccount''\<rparr>\<rparr>,
         \<lparr>patch_Patch = delete_patch ''rbac.authorization.k8s.io/v1'' ''ClusterRole'',
          patch_Target = \<lparr>sel_Group = ''rbac.authorization.k8s.io'', sel_Version = ''v1'',
                          sel_Kind = ''ClusterRole''\<rparr>\<rparr>,
         \<lparr>patch_Patch = delete_patch ''rbac.authorization.k8s.io/v1'' ''ClusterRoleBinding'',
          patch_Target = \<lparr>sel_Group = ''rbac.authorization.k8s.io'', sel_Version = ''v1'',
                          sel_Kind = ''ClusterRoleBinding''\<rparr>\<rparr>,
         \<lparr>patch_Patch = delete_patch ''v1'' ''Service'',
          patch_Target = \<lparr>sel_Group = '''', sel_Version = ''v1'', sel_Kind = ''Service''\<rparr>\<rparr>]
      in [\<lparr>Kustomize_Patches = targets\<rparr>])"

section \<open>Properties\<close>

lemma decode_elements_fresh:
  "decode_elements cells (length cells) (map (\<lambda>n. JObject [(''name'', JString n)]) names)
     = Some (cells @ names)"
proof (induction names arbitrary: cells)
  case Nil
  show ?case by simp
next
  case (Cons n names)
  have "put_cell cells (length cells) n = cells @ [n]"
    by (simp add: put_cell_def)
  with Cons.IH [of "cells @ [n]"] show ?case
    by (simp add: decode_ref_def decode_string_def matches_field_def)
qed

lemma decode_members_skip:
  "list_all (\<lambda>(k, v). \<not> matches_field ''imagePullSecrets'' k) ms \<Longrightarrow>
    decode_members sl (ms @ ns) = decode_members sl ns"
  by (induction ms) auto

definition pull_secret_list :: "string list \<Rightarrow> json" where
  "pull_secret_list names = JArray (map (\<lambda>n. JObject [(''name'', JString n)]) names)"

lemma decode_slice_pull_secrets:
  "decode_slice ([], 0) (pull_secret_list names) = Some (names, length names)"
  using decode_elements_fresh [of "[]" names]
  by (cases names) (simp_all add: decode_slice_def pull_secret_list_def)



text \<open>
  The deletion patches of the CRD-only release fit their selectors: each removes the object
  named \<open>kro\<close> of the group, version and kind that its selector picks.
\<close>

definition selector_apiVersion :: "Selector \<Rightarrow> string" where
  "selector_apiVersion s = (if sel_Group s = '''' then sel_Version s
     else sel_Group s @ ''/'' @ sel_Version s)"

lemma crdOnly_patches_fit:
  "pr \<in> set crdOnlyPostRenderers \<Longrightarrow> p \<in> set (Kustomize_Patches pr) \<Longrightarrow>
    patch_Patch p = delete_patch (selector_apiVersion (patch_Target p)) (sel_Kind (patch_Target p))"
  by (auto simp: crdOnlyPostRenderers_def selector_apiVersion_def)

end
