(* ===== verification/Status.thy ===== *)
theory Status
  imports Helm_Values
begin

text \<open>
  \<open>pkg/spruntime/status.go\<close>: the functions that report a reconcile state on a service provider
  API object. They are written against the Go interface \<open>ServiceProviderAPI\<close>; its method set
  is the record \<open>ServiceProviderAPI\<close>, the contract its implementations keep is the locale
  \<open>service_provider_api\<close>, and \<open>Kro\<close> is shown to keep it.
\<close>

section \<open>The interface\<close>

record 'o ServiceProviderAPI =
  api_GetConditions :: "'o \<Rightarrow> Condition list"
  api_PutConditions :: "Condition list \<Rightarrow> 'o \<Rightarrow> 'o"
  api_GetGeneration :: "'o \<Rightarrow> int"
  api_SetPhase :: "string \<Rightarrow> 'o \<Rightarrow> 'o"
  api_SetObservedGeneration :: "int \<Rightarrow> 'o \<Rightarrow> 'o"

definition ServiceProviderConditionReady :: string where
  "ServiceProviderConditionReady = ''Ready''"

definition StatusPhaseReady :: string where
  "StatusPhaseReady = ''Ready''"

definition StatusPhaseProgressing :: string where
  "StatusPhaseProgressing = ''Progressing''"

definition StatusPhaseTerminating :: string where
  "StatusPhaseTerminating = ''Terminating''"

definition reasonReconcileError :: string where
  "reasonReconcileError = ''ReconcileError''"

section \<open>The status functions\<close>

text \<open>\<open>meta.SetStatusCondition(obj.GetConditions(), c)\<close> updates the list behind the pointer.\<close>

definition set_condition :: "libs \<Rightarrow> 'o ServiceProviderAPI \<Rightarrow> Condition \<Rightarrow> 'o \<Rightarrow> 'o" where
  "set_condition L A c obj = api_PutConditions A (SetStatusCondition L (api_GetConditions A obj) c) obj"

definition StatusProgressing ::
    "libs \<Rightarrow> 'o ServiceProviderAPI \<Rightarrow> string \<Rightarrow> string \<Rightarrow> 'o \<Rightarrow> 'o" where
  "StatusProgressing L A reason message obj =
     (let obj = set_condition L A \<lparr>
            cond_Type = ServiceProviderConditionReady,
            cond_Status = ConditionFalse,
            cond_ObservedGeneration = api_GetGeneration A obj,
            cond_LastTransitionTime = ZeroTime,
            cond_Reason = reason,
            cond_Message = message\<rparr> obj;
          obj = api_SetObservedGeneration A (api_GetGeneration A obj) obj
      in api_SetPhase A StatusPhaseProgressing obj)"

definition StatusReady :: "libs \<Rightarrow> 'o ServiceProviderAPI \<Rightarrow> 'o \<Rightarrow> 'o" where
  "StatusReady L A obj =
     (let obj = set_condition L A \<lparr>
            cond_Type = ServiceProviderConditionReady,
            cond_Status = ConditionTrue,
            cond_ObservedGeneration = api_GetGeneration A obj,
            cond_LastTransitionTime = ZeroTime,
            cond_Reason = ''ReconcileSuccess'',
            cond_Message = ''Domain Service is ready''\<rparr> obj;
          obj = api_SetObservedGeneration A (api_GetGeneration A obj) obj
      in api_SetPhase A StatusPhaseReady obj)"

definition StatusTerminating :: "libs \<Rightarrow> 'o ServiceProviderAPI \<Rightarrow> 'o \<Rightarrow> 'o" where
  "StatusTerminating L A obj =
     (let obj = set_condition L A \<lparr>
            cond_Type = ServiceProviderConditionReady,
            cond_Status = ConditionFalse,
            cond_ObservedGeneration = api_GetGeneration A obj,
            cond_LastTransitionTime = ZeroTime,
            cond_Reason = ''Terminating'',
            cond_Message = ''Cleanup in progress''\<rparr> obj;
          obj = api_SetObservedGeneration A (api_GetGeneration A obj) obj
      in api_SetPhase A StatusPhaseTerminating obj)"

definition StatusTerminatingWithReason ::
    "libs \<Rightarrow> 'o ServiceProviderAPI \<Rightarrow> string \<Rightarrow> string \<Rightarrow> 'o \<Rightarrow> 'o" where
  "StatusTerminatingWithReason L A reason message obj =
     (let obj = set_condition L A \<lparr>
            cond_Type = ServiceProviderConditionReady,
            cond_Status = ConditionFalse,
            cond_ObservedGeneration = api_GetGeneration A obj,
            cond_LastTransitionTime = ZeroTime,
            cond_Reason = reason,
            cond_Message = message\<rparr> obj;
          obj = api_SetObservedGeneration A (api_GetGeneration A obj) obj
      in api_SetPhase A StatusPhaseTerminating obj)"

definition StatusTerminatingMessage ::
    "libs \<Rightarrow> 'o ServiceProviderAPI \<Rightarrow> string \<Rightarrow> 'o \<Rightarrow> 'o" where
  "StatusTerminatingMessage L A message obj =
     StatusTerminatingWithReason L A ''Terminating'' message obj"

section \<open>The contract\<close>

text \<open>
  What a status function promises: the Ready condition carries the given status, reason and
  message for the object's generation, and the conditions of the other types are untouched.
\<close>

definition ready_condition ::
    "libs \<Rightarrow> Condition list \<Rightarrow> ConditionStatus \<Rightarrow> int \<Rightarrow> string \<Rightarrow> string \<Rightarrow> bool" where
  "ready_condition L cs st gen reason message \<longleftrightarrow>
     (case FindStatusCondition L cs ServiceProviderConditionReady of
        None \<Rightarrow> False
      | Some c \<Rightarrow> cond_Status c = st \<and> cond_ObservedGeneration c = gen
          \<and> cond_Reason c = reason \<and> cond_Message c = message)"

definition other_conditions_kept :: "libs \<Rightarrow> Condition list \<Rightarrow> Condition list \<Rightarrow> bool" where
  "other_conditions_kept L old new \<longleftrightarrow>
     (\<forall>t. t \<noteq> ServiceProviderConditionReady \<longrightarrow> FindStatusCondition L new t = FindStatusCondition L old t)"

text \<open>
  The observers \<open>phase_of\<close> and \<open>observed_of\<close> read what the setters write; \<open>frame_of\<close> is
  everything of the object outside the reported status.
\<close>

locale service_provider_api =
  fixes A :: "'o ServiceProviderAPI"
    and phase_of :: "'o \<Rightarrow> string"
    and observed_of :: "'o \<Rightarrow> int"
    and frame_of :: "'o \<Rightarrow> 'f"
  assumes conditions_put: "api_GetConditions A (api_PutConditions A cs x) = cs"
    and conditions_phase: "api_GetConditions A (api_SetPhase A p x) = api_GetConditions A x"
    and conditions_observed: "api_GetConditions A (api_SetObservedGeneration A g x) = api_GetConditions A x"
    and generation_put: "api_GetGeneration A (api_PutConditions A cs x) = api_GetGeneration A x"
    and generation_phase: "api_GetGeneration A (api_SetPhase A p x) = api_GetGeneration A x"
    and generation_observed: "api_GetGeneration A (api_SetObservedGeneration A g x) = api_GetGeneration A x"
    and phase_set: "phase_of (api_SetPhase A p x) = p"
    and observed_set: "observed_of (api_SetObservedGeneration A g x) = g"
    and observed_phase: "observed_of (api_SetPhase A p x) = observed_of x"
    and frame_put: "frame_of (api_PutConditions A cs x) = frame_of x"
    and frame_phase: "frame_of (api_SetPhase A p x) = frame_of x"
    and frame_observed: "frame_of (api_SetObservedGeneration A g x) = frame_of x"
begin

lemmas api_laws = conditions_put conditions_phase conditions_observed generation_put
  generation_phase generation_observed phase_set observed_set observed_phase
  frame_put frame_phase frame_observed

text \<open>One lemma carries the five functions: reporting a condition and a phase.\<close>

lemma report:
  assumes "condition_laws L" "cond_Type c = ServiceProviderConditionReady"
    and y: "y = api_SetPhase A p (api_SetObservedGeneration A g (set_condition L A c x))"
  shows "phase_of y = p" "observed_of y = g" "frame_of y = frame_of x"
    "api_GetGeneration A y = api_GetGeneration A x"
    "ready_condition L (api_GetConditions A y) (cond_Status c) (cond_ObservedGeneration c)
       (cond_Reason c) (cond_Message c)"
    "other_conditions_kept L (api_GetConditions A x) (api_GetConditions A y)"
proof -
  have cs: "api_GetConditions A y = SetStatusCondition L (api_GetConditions A x) c"
    by (simp add: y set_condition_def api_laws)
  obtain d where "FindStatusCondition L (api_GetConditions A y) ServiceProviderConditionReady = Some d"
    and "condition_agrees d c"
    using find_set_condition [OF assms(1)] assms(2) cs by metis
  then show "ready_condition L (api_GetConditions A y) (cond_Status c) (cond_ObservedGeneration c)
       (cond_Reason c) (cond_Message c)"
    by (simp add: ready_condition_def condition_agrees_def)
  show "other_conditions_kept L (api_GetConditions A x) (api_GetConditions A y)"
    using assms(1,2) cs by (simp add: other_conditions_kept_def find_set_condition_other)
qed (simp_all add: y set_condition_def api_laws)

lemma progressing:
  assumes "condition_laws L"
  shows "phase_of (StatusProgressing L A r m x) = StatusPhaseProgressing"
    "observed_of (StatusProgressing L A r m x) = api_GetGeneration A x"
    "frame_of (StatusProgressing L A r m x) = frame_of x"
    "ready_condition L (api_GetConditions A (StatusProgressing L A r m x)) ConditionFalse
       (api_GetGeneration A x) r m"
    "other_conditions_kept L (api_GetConditions A x) (api_GetConditions A (StatusProgressing L A r m x))"
  using report [OF assms _ StatusProgressing_def [unfolded Let_def]]
  by (simp_all add: set_condition_def api_laws)

lemma ready:
  assumes "condition_laws L"
  shows "phase_of (StatusReady L A x) = StatusPhaseReady"
    "observed_of (StatusReady L A x) = api_GetGeneration A x"
    "frame_of (StatusReady L A x) = frame_of x"
    "ready_condition L (api_GetConditions A (StatusReady L A x)) ConditionTrue
       (api_GetGeneration A x) ''ReconcileSuccess'' ''Domain Service is ready''"
    "other_conditions_kept L (api_GetConditions A x) (api_GetConditions A (StatusReady L A x))"
  using report [OF assms _ StatusReady_def [unfolded Let_def]]
  by (simp_all add: set_condition_def api_laws)

lemma terminating:
  assumes "condition_laws L"
  shows "phase_of (StatusTerminatingWithReason L A r m x) = StatusPhaseTerminating"
    "observed_of (StatusTerminatingWithReason L A r m x) = api_GetGeneration A x"
    "frame_of (StatusTerminatingWithReason L A r m x) = frame_of x"
    "ready_condition L (api_GetConditions A (StatusTerminatingWithReason L A r m x)) ConditionFalse
       (api_GetGeneration A x) r m"
    "other_conditions_kept L (api_GetConditions A x)
       (api_GetConditions A (StatusTerminatingWithReason L A r m x))"
  using report [OF assms _ StatusTerminatingWithReason_def [unfolded Let_def]]
  by (simp_all add: set_condition_def api_laws)

end

lemma StatusTerminating_eq:
  "StatusTerminating L A x = StatusTerminatingWithReason L A ''Terminating'' ''Cleanup in progress'' x"
  by (simp add: StatusTerminating_def StatusTerminatingWithReason_def)

section \<open>Kro implements the interface\<close>

definition Kro_API :: "Kro ServiceProviderAPI" where
  "Kro_API = \<lparr>
     api_GetConditions = Kro_GetConditions,
     api_PutConditions = Kro_PutConditions,
     api_GetGeneration = (\<lambda>k. meta_Generation (kro_Meta k)),
     api_SetPhase = Kro_SetPhase,
     api_SetObservedGeneration = Kro_SetObservedGeneration\<rparr>"

definition kro_frame :: "Kro \<Rightarrow> ObjectMeta \<times> KroSpec \<times> ManagedResource list" where
  "kro_frame k = (kro_Meta k, kro_Spec k, status_Resources (kro_Status k))"

lemmas kro_accessors = Kro_GetConditions_def Kro_PutConditions_def Kro_SetPhase_def
  Kro_SetObservedGeneration_def Kro_GetStatus_def

interpretation kro: service_provider_api Kro_API "\<lambda>k. status_Phase (kro_Status k)"
    "\<lambda>k. status_ObservedGeneration (kro_Status k)" kro_frame
  by unfold_locales (simp_all add: Kro_API_def kro_accessors kro_frame_def)

text \<open>The status functions at \<open>Kro\<close> leave metadata and spec alone, whatever the library does.\<close>

lemma kro_status_frame [simp]:
  "kro_Meta (StatusProgressing L Kro_API r m k) = kro_Meta k"
  "kro_Meta (StatusReady L Kro_API k) = kro_Meta k"
  "kro_Meta (StatusTerminating L Kro_API k) = kro_Meta k"
  "kro_Meta (StatusTerminatingWithReason L Kro_API r m k) = kro_Meta k"
  "kro_Meta (StatusTerminatingMessage L Kro_API m k) = kro_Meta k"
  "kro_Spec (StatusProgressing L Kro_API r m k) = kro_Spec k"
  "kro_Spec (StatusReady L Kro_API k) = kro_Spec k"
  "kro_Spec (StatusTerminating L Kro_API k) = kro_Spec k"
  "kro_Spec (StatusTerminatingWithReason L Kro_API r m k) = kro_Spec k"
  "kro_Spec (StatusTerminatingMessage L Kro_API m k) = kro_Spec k"
  "status_Resources (kro_Status (StatusProgressing L Kro_API r m k)) = status_Resources (kro_Status k)"
  "status_Resources (kro_Status (StatusReady L Kro_API k)) = status_Resources (kro_Status k)"
  "status_Resources (kro_Status (StatusTerminating L Kro_API k)) = status_Resources (kro_Status k)"
  "status_Resources (kro_Status (StatusTerminatingWithReason L Kro_API r m k))
     = status_Resources (kro_Status k)"
  "status_Resources (kro_Status (StatusTerminatingMessage L Kro_API m k))
     = status_Resources (kro_Status k)"
  by (simp_all add: StatusProgressing_def StatusReady_def StatusTerminating_def
      StatusTerminatingWithReason_def StatusTerminatingMessage_def Let_def set_condition_def
      Kro_API_def kro_accessors)

lemma kro_status_phase [simp]:
  "status_Phase (kro_Status (StatusProgressing L Kro_API r m k)) = StatusPhaseProgressing"
  "status_Phase (kro_Status (StatusReady L Kro_API k)) = StatusPhaseReady"
  "status_Phase (kro_Status (StatusTerminating L Kro_API k)) = StatusPhaseTerminating"
  "status_Phase (kro_Status (StatusTerminatingWithReason L Kro_API r m k)) = StatusPhaseTerminating"
  "status_Phase (kro_Status (StatusTerminatingMessage L Kro_API m k)) = StatusPhaseTerminating"
  by (simp_all add: StatusProgressing_def StatusReady_def StatusTerminating_def
      StatusTerminatingWithReason_def StatusTerminatingMessage_def Let_def
      Kro_API_def kro_accessors)

text \<open>Reading a reported status back at \<open>Kro\<close>.\<close>

definition kro_ready :: "libs \<Rightarrow> Kro \<Rightarrow> ConditionStatus \<Rightarrow> string \<Rightarrow> string \<Rightarrow> bool" where
  "kro_ready L k st reason message \<longleftrightarrow>
     ready_condition L (Kro_GetConditions k) st (meta_Generation (kro_Meta k)) reason message
     \<and> status_ObservedGeneration (kro_Status k) = meta_Generation (kro_Meta k)"

lemma kro_ready_reported:
  assumes "condition_laws L"
  shows "kro_ready L (StatusProgressing L Kro_API r m k) ConditionFalse r m"
    "kro_ready L (StatusReady L Kro_API k) ConditionTrue ''ReconcileSuccess'' ''Domain Service is ready''"
    "kro_ready L (StatusTerminatingWithReason L Kro_API r m k) ConditionFalse r m"
    "kro_ready L (StatusTerminating L Kro_API k) ConditionFalse ''Terminating'' ''Cleanup in progress''"
    "kro_ready L (StatusTerminatingMessage L Kro_API m k) ConditionFalse ''Terminating'' m"
  using kro.progressing [OF assms, where r = r and m = m and x = k] kro.ready [OF assms, where x = k]
    kro.terminating [OF assms, where r = r and m = m and x = k]
    kro.terminating [OF assms, where r = "''Terminating''" and m = m and x = k]
    kro.terminating [OF assms, where r = "''Terminating''" and m = "''Cleanup in progress''" and x = k]
  by (simp_all add: kro_ready_def Kro_API_def [THEN arg_cong, of api_GetConditions]
      Kro_API_def [THEN arg_cong, of api_GetGeneration] StatusTerminatingMessage_def
      StatusTerminating_eq)

lemma kro_ready_set_resources [simp]:
  "kro_ready L (set_resources rs k) st r m = kro_ready L k st r m"
  "kro_Meta (set_resources rs k) = kro_Meta k"
  "kro_Spec (set_resources rs k) = kro_Spec k"
  "status_Phase (kro_Status (set_resources rs k)) = status_Phase (kro_Status k)"
  "status_Resources (kro_Status (set_resources rs k)) = rs"
  by (simp_all add: kro_ready_def set_resources_def Kro_GetConditions_def)

section \<open>Properties\<close>

text \<open>
  What a caller of a status function can rely on: the phase, the Ready condition at the object's
  generation, the observed generation, the other conditions as they were, and metadata, spec
  and resources as they were.
\<close>

definition reports ::
    "libs \<Rightarrow> (Kro \<Rightarrow> Kro) \<Rightarrow> string \<Rightarrow> ConditionStatus \<Rightarrow> string \<Rightarrow> string \<Rightarrow> bool" where
  "reports L f phase st reason message \<longleftrightarrow> (\<forall>k.
     status_Phase (kro_Status (f k)) = phase
   \<and> kro_ready L (f k) st reason message
   \<and> other_conditions_kept L (Kro_GetConditions k) (Kro_GetConditions (f k))
   \<and> kro_frame (f k) = kro_frame k)"

lemma Kro_API_fields [simp]: "api_GetConditions Kro_API = Kro_GetConditions"
  by (simp add: Kro_API_def)

lemma kro_frame_status [simp]:
  "kro_frame (StatusProgressing L Kro_API r m k) = kro_frame k"
  "kro_frame (StatusReady L Kro_API k) = kro_frame k"
  "kro_frame (StatusTerminatingWithReason L Kro_API r m k) = kro_frame k"
  by (simp_all add: kro_frame_def)

text \<open>
  C40. The five status functions say what their names say, for every object and whatever it
  reported before: phase, Ready condition with reason and message, observed generation; they
  touch no other condition and nothing outside the status. A terminating message is a
  termination with reason \<open>Terminating\<close>.
\<close>
theorem status_functions_report:
  assumes laws: "condition_laws L"
  shows "reports L (StatusProgressing L Kro_API r m) ''Progressing'' ConditionFalse r m
    \<and> reports L (StatusReady L Kro_API) ''Ready'' ConditionTrue ''ReconcileSuccess'' ''Domain Service is ready''
    \<and> reports L (StatusTerminating L Kro_API) ''Terminating'' ConditionFalse ''Terminating'' ''Cleanup in progress''
    \<and> reports L (StatusTerminatingWithReason L Kro_API r m) ''Terminating'' ConditionFalse r m
    \<and> reports L (StatusTerminatingMessage L Kro_API m) ''Terminating'' ConditionFalse ''Terminating'' m"
  using kro_ready_reported [OF laws] kro.progressing(5) [OF laws] kro.ready(5) [OF laws]
    kro.terminating(5) [OF laws]
  by (simp add: reports_def StatusPhaseProgressing_def StatusPhaseReady_def StatusPhaseTerminating_def
      StatusTerminating_eq StatusTerminatingMessage_def)

theorem status_functions_report_witness:
  "reports sample_libs (StatusReady sample_libs Kro_API) ''Ready'' ConditionTrue
     ''ReconcileSuccess'' ''Domain Service is ready''"
  using status_functions_report [OF sample_condition_laws] by blast

end
