(* ===== verification/Environment.thy ===== *)
theory Environment
  imports Status
begin

text \<open>
  The outside of the program: the API servers of the four kinds of cluster (platform,
  onboarding, workload, managed control plane), the cluster access library and the update
  channel. None of it is code of the repository, so it is a parameter: the record \<open>env\<close> holds,
  for every call the program makes, a function that answers it. An answer may depend on the
  arguments and on the whole history of calls so far, so an environment may keep any state,
  fail at any time and change objects between two calls; a property proved for every \<open>env\<close>
  holds for every behaviour of the outside, other controllers included.

  The history is part of the state: a list of events, one per call, with its answer. Safety
  properties are statements about the events a function appends.
\<close>

section \<open>Calls and their answers\<close>

datatype managed_object =
    OCIRepositoryObject ObjectKey
  | HelmReleaseObject ObjectKey

record GroupVersionKind =
  gvk_Group :: string
  gvk_Version :: string
  gvk_Kind :: string

datatype event =
    PlatformGetSecret ObjectKey "goerror + Secret"
  | PlatformUpsertSecret ObjectKey Secret "goerror option"
  | PlatformUpsertOCIRepository ObjectKey OCIRepositorySpec "goerror + OCIRepository"
  | PlatformUpsertHelmRelease ObjectKey HelmReleaseSpec "goerror + HelmRelease"
  | PlatformGetAccessRequest ObjectKey "goerror + AccessRequest"
  | PlatformDelete managed_object "goerror option"
  | PlatformGet managed_object "goerror option"
  | WorkloadEnsureNamespace Cluster string "goerror option"
  | WorkloadUpsertSecret Cluster ObjectKey Secret "goerror option"
  | ListObjects Cluster GroupVersionKind "goerror + nat"
  | OnboardingGet ObjectKey "goerror + Kro"
  | OnboardingPatch Kro Kro "goerror + Kro"
  | OnboardingCreateOrUpdate Kro "Kro \<times> goerror option"
  | OnboardingUpdate Kro "Kro \<times> goerror option"
  | OnboardingStatusPatch Kro Kro "goerror option"
  | OnboardingList GroupVersionKind "goerror + ObjectKey list"
  | AccessReconcile ObjectKey reply
  | AccessReconcileDelete ObjectKey reply
  | AccessMCPCluster ObjectKey "Cluster option \<times> goerror option"
  | AccessMCPAccessRequest ObjectKey "AccessRequest option \<times> goerror option"
  | AccessWorkloadCluster ObjectKey "Cluster option \<times> goerror option"
  | AccessWorkloadAccessRequest ObjectKey "AccessRequest option \<times> goerror option"
  | PlatformGetProviderConfig ObjectKey "goerror + ProviderConfig"
  | SendUpdate "ProviderConfig option"

text \<open>
  \<open>CreateOrUpdate\<close> of controller-runtime is answered as a whole: it reads the object, applies
  the mutation and writes. Where the mutation overwrites fixed fields, the event carries the
  values written; for the Kro object the answer is the object the call leaves behind, which
  depends on the mutation.
\<close>

record env =
  lib :: libs
  on_get_secret :: "event list \<Rightarrow> ObjectKey \<Rightarrow> goerror + Secret"
  on_upsert_secret :: "event list \<Rightarrow> ObjectKey \<Rightarrow> Secret \<Rightarrow> goerror option"
  on_upsert_oci :: "event list \<Rightarrow> ObjectKey \<Rightarrow> OCIRepositorySpec \<Rightarrow> goerror + OCIRepository"
  on_upsert_hr :: "event list \<Rightarrow> ObjectKey \<Rightarrow> HelmReleaseSpec \<Rightarrow> goerror + HelmRelease"
  on_get_access_request :: "event list \<Rightarrow> ObjectKey \<Rightarrow> goerror + AccessRequest"
  on_delete :: "event list \<Rightarrow> managed_object \<Rightarrow> goerror option"
  on_get :: "event list \<Rightarrow> managed_object \<Rightarrow> goerror option"
  on_workload_namespace :: "event list \<Rightarrow> Cluster \<Rightarrow> string \<Rightarrow> goerror option"
  on_workload_secret :: "event list \<Rightarrow> Cluster \<Rightarrow> ObjectKey \<Rightarrow> Secret \<Rightarrow> goerror option"
  on_list :: "event list \<Rightarrow> Cluster \<Rightarrow> GroupVersionKind \<Rightarrow> goerror + nat"
  on_onboarding_get :: "event list \<Rightarrow> ObjectKey \<Rightarrow> goerror + Kro"
  on_onboarding_patch :: "event list \<Rightarrow> Kro \<Rightarrow> Kro \<Rightarrow> goerror + Kro"
  on_onboarding_upsert :: "event list \<Rightarrow> Kro \<Rightarrow> (Kro \<Rightarrow> Kro) \<Rightarrow> Kro \<times> goerror option"
  on_onboarding_update :: "event list \<Rightarrow> Kro \<Rightarrow> Kro \<times> goerror option"
  on_status_patch :: "event list \<Rightarrow> Kro \<Rightarrow> Kro \<Rightarrow> goerror option"
  onboarding_kro_gvk :: "goerror + GroupVersionKind"
  on_onboarding_list :: "event list \<Rightarrow> GroupVersionKind \<Rightarrow> goerror + ObjectKey list"
  on_access_reconcile :: "event list \<Rightarrow> ObjectKey \<Rightarrow> reply"
  on_access_delete :: "event list \<Rightarrow> ObjectKey \<Rightarrow> reply"
  on_mcp_cluster :: "event list \<Rightarrow> ObjectKey \<Rightarrow> Cluster option \<times> goerror option"
  on_mcp_request :: "event list \<Rightarrow> ObjectKey \<Rightarrow> AccessRequest option \<times> goerror option"
  on_workload_cluster :: "event list \<Rightarrow> ObjectKey \<Rightarrow> Cluster option \<times> goerror option"
  on_workload_request :: "event list \<Rightarrow> ObjectKey \<Rightarrow> AccessRequest option \<times> goerror option"
  on_get_config :: "event list \<Rightarrow> ObjectKey \<Rightarrow> goerror + ProviderConfig"

section \<open>State and calls\<close>

record world =
  hist :: "event list"

text \<open>The Kro object a reconcile run works on is a pointer the functions share: it is state.\<close>

record gostate = world +
  obj :: Kro

definition call :: "(event list \<Rightarrow> 'r) \<Rightarrow> ('r \<Rightarrow> event) \<Rightarrow> ('w world_scheme, 'r) state" where
  "call answer ev = do {
     s \<leftarrow> State_Monad.get;
     let r = answer (hist s);
     _ \<leftarrow> State_Monad.set (s\<lparr>hist := hist s @ [ev r]\<rparr>);
     State_Monad.return r }"

definition get_obj :: "(gostate, Kro) state" where
  "get_obj = do { s \<leftarrow> State_Monad.get; State_Monad.return (obj s) }"

definition modify_obj :: "(Kro \<Rightarrow> Kro) \<Rightarrow> (gostate, unit) state" where
  "modify_obj f = do { s \<leftarrow> State_Monad.get; State_Monad.set (s\<lparr>obj := f (obj s)\<rparr>) }"

lemma run_call [simp]:
  "run_state (call q ev) s = (q (hist s), s\<lparr>hist := hist s @ [ev (q (hist s))]\<rparr>)"
  by (simp add: call_def Let_def)

lemma run_get_obj [simp]: "run_state get_obj s = (obj s, s)"
  by (simp add: get_obj_def)

lemma run_modify_obj [simp]: "run_state (modify_obj f) s = ((), s\<lparr>obj := f (obj s)\<rparr>)"
  by (simp add: modify_obj_def)

section \<open>What a computation may emit\<close>

text \<open>
  \<open>emits_only P m\<close>: whatever the state, \<open>m\<close> extends the history, and every event it appends
  satisfies \<open>P\<close>. The rules in \<open>emits\<close> follow the program text.
\<close>

named_theorems emits \<open>introduction rules for emits_only\<close>

definition emits_only :: "(event \<Rightarrow> bool) \<Rightarrow> ('w world_scheme, 'a) state \<Rightarrow> bool" where
  "emits_only P m \<longleftrightarrow> (\<forall>s. \<exists>evs. hist (snd (run_state m s)) = hist s @ evs \<and> list_all P evs)"

lemma emits_onlyD:
  assumes "emits_only P m" "run_state m s = (a, t)"
  obtains evs where "hist t = hist s @ evs" "list_all P evs"
  using assms by (auto simp: emits_only_def dest: spec [of _ s])

lemma emits_only_return [emits]: "emits_only P (State_Monad.return x)"
  by (simp add: emits_only_def)

lemma emits_only_call [emits]: "(\<And>r. P (ev r)) \<Longrightarrow> emits_only P (call q ev)"
  by (simp add: emits_only_def)

lemma emits_only_get_obj [emits]: "emits_only P get_obj"
  by (simp add: emits_only_def)

lemma emits_only_modify_obj [emits]: "emits_only P (modify_obj f)"
  by (simp add: emits_only_def)

lemma emits_only_bind [emits]:
  assumes "emits_only P m" "\<And>a. emits_only P (f a)"
  shows "emits_only P (State_Monad.bind m f)"
  unfolding emits_only_def
proof
  fix s
  obtain a t where run: "run_state m s = (a, t)" by (cases "run_state m s")
  obtain evs where "hist t = hist s @ evs" "list_all P evs"
    using assms(1) run by (rule emits_onlyD)
  moreover obtain evs' where "hist (snd (run_state (f a) t)) = hist t @ evs'" "list_all P evs'"
    using assms(2) [of a] by (auto simp: emits_only_def)
  ultimately show "\<exists>evs. hist (snd (run_state (State_Monad.bind m f) s)) = hist s @ evs \<and> list_all P evs"
    using run by simp
qed

lemma emits_only_Let [emits]: "(\<And>x. emits_only P (f x)) \<Longrightarrow> emits_only P (Let v f)"
  by simp

lemma emits_only_if [emits]:
  "(b \<Longrightarrow> emits_only P m) \<Longrightarrow> (\<not> b \<Longrightarrow> emits_only P n) \<Longrightarrow> emits_only P (if b then m else n)"
  by simp

lemma emits_only_case_option [emits]:
  "(x = None \<Longrightarrow> emits_only P m) \<Longrightarrow> (\<And>y. x = Some y \<Longrightarrow> emits_only P (f y)) \<Longrightarrow>
    emits_only P (case x of None \<Rightarrow> m | Some y \<Rightarrow> f y)"
  by (cases x) simp_all

lemma emits_only_case_sum [emits]:
  "(\<And>e. x = Inl e \<Longrightarrow> emits_only P (f e)) \<Longrightarrow> (\<And>y. x = Inr y \<Longrightarrow> emits_only P (g y)) \<Longrightarrow>
    emits_only P (case x of Inl e \<Rightarrow> f e | Inr y \<Rightarrow> g y)"
  by (cases x) simp_all

lemma emits_only_case_prod [emits]:
  "(\<And>a b. x = (a, b) \<Longrightarrow> emits_only P (f a b)) \<Longrightarrow> emits_only P (case x of (a, b) \<Rightarrow> f a b)"
  by (cases x) simp

lemma emits_only_case_outcome [emits]:
  "(\<And>a. x = Returned a \<Longrightarrow> emits_only P (f a)) \<Longrightarrow> emits_only P m \<Longrightarrow>
    emits_only P (case x of Returned a \<Rightarrow> f a | Panicked \<Rightarrow> m)"
  by (cases x) simp_all

lemma emits_only_mono:
  "emits_only P m \<Longrightarrow> (\<And>e. P e \<Longrightarrow> Q e) \<Longrightarrow> emits_only Q m"
  unfolding emits_only_def by (metis list_all_iff)

section \<open>Steps that only append to the history\<close>

text \<open>
  \<open>logged s evs t\<close>: from \<open>s\<close> to \<open>t\<close> exactly the events \<open>evs\<close> were appended and nothing else
  changed. \<open>appends m\<close>: every run of \<open>m\<close> is such a step.
\<close>

definition logged :: "'w world_scheme \<Rightarrow> event list \<Rightarrow> 'w world_scheme \<Rightarrow> bool" where
  "logged s evs t \<longleftrightarrow> t = s\<lparr>hist := hist s @ evs\<rparr>"

lemma logged_hist: "logged s evs t \<Longrightarrow> hist t = hist s @ evs"
  by (simp add: logged_def)

lemma logged_obj: "logged s evs t \<Longrightarrow> obj t = obj s"
  by (simp add: logged_def)

lemma logged_update [simp]: "logged s evs (s\<lparr>hist := hist s @ evs'\<rparr>) \<longleftrightarrow> evs = evs'"
proof
  assume "logged s evs (s\<lparr>hist := hist s @ evs'\<rparr>)"
  from logged_hist [OF this] show "evs = evs'" by simp
qed (simp add: logged_def)

lemma logged_refl [simp]: "logged s evs s \<longleftrightarrow> evs = []"
proof
  assume "logged s evs s"
  from logged_hist [OF this] show "evs = []" by simp
qed (simp add: logged_def)

lemma logged_trans: "logged s evs t \<Longrightarrow> logged t evs' u \<Longrightarrow> logged s (evs @ evs') u"
  by (simp add: logged_def)

lemma logged_after: "logged (s\<lparr>hist := hist s @ evs\<rparr>) evs' t \<Longrightarrow> logged s (evs @ evs') t"
  by (simp add: logged_def)

named_theorems appending \<open>introduction rules for appends\<close>

definition appends :: "('w world_scheme, 'a) state \<Rightarrow> bool" where
  "appends m \<longleftrightarrow> (\<forall>s. \<exists>evs. logged s evs (snd (run_state m s)))"

lemma appendsD:
  assumes "appends m" "run_state m s = (a, t)"
  obtains evs where "logged s evs t"
  using assms by (auto simp: appends_def dest: spec [of _ s])

lemma appends_return [appending]: "appends (State_Monad.return x)"
  by (simp add: appends_def)

lemma appends_call [appending]: "appends (call q ev)"
  by (simp add: appends_def)

lemma appends_bind [appending]:
  assumes "appends m" "\<And>a. appends (f a)"
  shows "appends (State_Monad.bind m f)"
  unfolding appends_def
proof
  fix s
  obtain a t where run: "run_state m s = (a, t)" by (cases "run_state m s")
  obtain evs where t: "logged s evs t"
    using assms(1) run by (rule appendsD)
  obtain evs' where "logged t evs' (snd (run_state (f a) t))"
    using assms(2) [of a] by (auto simp: appends_def)
  with run t show "\<exists>evs. logged s evs (snd (run_state (State_Monad.bind m f) s))"
    by (auto intro: logged_trans)
qed

lemma appends_Let [appending]: "(\<And>x. appends (f x)) \<Longrightarrow> appends (Let v f)"
  by simp

lemma appends_if [appending]: "(b \<Longrightarrow> appends m) \<Longrightarrow> (\<not> b \<Longrightarrow> appends n) \<Longrightarrow> appends (if b then m else n)"
  by simp

lemma appends_case_option [appending]:
  "(x = None \<Longrightarrow> appends m) \<Longrightarrow> (\<And>y. x = Some y \<Longrightarrow> appends (f y)) \<Longrightarrow>
    appends (case x of None \<Rightarrow> m | Some y \<Rightarrow> f y)"
  by (cases x) simp_all

lemma appends_case_sum [appending]:
  "(\<And>e. x = Inl e \<Longrightarrow> appends (f e)) \<Longrightarrow> (\<And>y. x = Inr y \<Longrightarrow> appends (g y)) \<Longrightarrow>
    appends (case x of Inl e \<Rightarrow> f e | Inr y \<Rightarrow> g y)"
  by (cases x) simp_all

lemma appends_case_outcome [appending]:
  "(\<And>a. x = Returned a \<Longrightarrow> appends (f a)) \<Longrightarrow> appends m \<Longrightarrow>
    appends (case x of Returned a \<Rightarrow> f a | Panicked \<Rightarrow> m)"
  by (cases x) simp_all

section \<open>What a computation keeps of the object\<close>

text \<open>
  \<open>keeps_meta m\<close>: the computation leaves metadata and spec of the shared object as they are
  (a service provider reconciler only reports status on it).
\<close>

named_theorems keeps \<open>introduction rules for keeps_meta\<close>

definition keeps_meta :: "(gostate, 'a) state \<Rightarrow> bool" where
  "keeps_meta m \<longleftrightarrow> (\<forall>s. kro_Meta (obj (snd (run_state m s))) = kro_Meta (obj s)
      \<and> kro_Spec (obj (snd (run_state m s))) = kro_Spec (obj s))"

lemma keeps_metaD:
  "keeps_meta m \<Longrightarrow> run_state m s = (a, t) \<Longrightarrow>
    kro_Meta (obj t) = kro_Meta (obj s) \<and> kro_Spec (obj t) = kro_Spec (obj s)"
  by (auto simp: keeps_meta_def dest: spec [of _ s])

lemma keeps_meta_return [keeps]: "keeps_meta (State_Monad.return x)"
  by (simp add: keeps_meta_def)

lemma keeps_meta_call [keeps]: "keeps_meta (call q ev)"
  by (simp add: keeps_meta_def)

lemma keeps_meta_get_obj [keeps]: "keeps_meta get_obj"
  by (simp add: keeps_meta_def)

lemma keeps_meta_modify_obj [keeps]:
  "(\<And>k. kro_Meta (f k) = kro_Meta k \<and> kro_Spec (f k) = kro_Spec k) \<Longrightarrow> keeps_meta (modify_obj f)"
  by (simp add: keeps_meta_def)

lemma keeps_meta_bind [keeps]:
  assumes "keeps_meta m" "\<And>a. keeps_meta (f a)"
  shows "keeps_meta (State_Monad.bind m f)"
  unfolding keeps_meta_def
proof
  fix s
  obtain a t where run: "run_state m s = (a, t)" by (cases "run_state m s")
  with assms(1) have "kro_Meta (obj t) = kro_Meta (obj s) \<and> kro_Spec (obj t) = kro_Spec (obj s)"
    by (rule keeps_metaD)
  with run assms(2) [of a] show
    "kro_Meta (obj (snd (run_state (State_Monad.bind m f) s))) = kro_Meta (obj s)
      \<and> kro_Spec (obj (snd (run_state (State_Monad.bind m f) s))) = kro_Spec (obj s)"
    by (simp add: keeps_meta_def)
qed

lemma keeps_meta_Let [keeps]: "(\<And>x. keeps_meta (f x)) \<Longrightarrow> keeps_meta (Let v f)"
  by simp

lemma keeps_meta_if [keeps]:
  "(b \<Longrightarrow> keeps_meta m) \<Longrightarrow> (\<not> b \<Longrightarrow> keeps_meta n) \<Longrightarrow> keeps_meta (if b then m else n)"
  by simp

lemma keeps_meta_case_option [keeps]:
  "(x = None \<Longrightarrow> keeps_meta m) \<Longrightarrow> (\<And>y. x = Some y \<Longrightarrow> keeps_meta (f y)) \<Longrightarrow>
    keeps_meta (case x of None \<Rightarrow> m | Some y \<Rightarrow> f y)"
  by (cases x) simp_all

lemma keeps_meta_case_sum [keeps]:
  "(\<And>e. x = Inl e \<Longrightarrow> keeps_meta (f e)) \<Longrightarrow> (\<And>y. x = Inr y \<Longrightarrow> keeps_meta (g y)) \<Longrightarrow>
    keeps_meta (case x of Inl e \<Rightarrow> f e | Inr y \<Rightarrow> g y)"
  by (cases x) simp_all

lemma keeps_meta_case_prod [keeps]:
  "(\<And>a b. x = (a, b) \<Longrightarrow> keeps_meta (f a b)) \<Longrightarrow> keeps_meta (case x of (a, b) \<Rightarrow> f a b)"
  by (cases x) simp

lemma keeps_meta_case_outcome [keeps]:
  "(\<And>a. x = Returned a \<Longrightarrow> keeps_meta (f a)) \<Longrightarrow> keeps_meta m \<Longrightarrow>
    keeps_meta (case x of Returned a \<Rightarrow> f a | Panicked \<Rightarrow> m)"
  by (cases x) simp_all

section \<open>Nil errors and the helpers on them\<close>

definition ignore_not_found :: "libs \<Rightarrow> goerror option \<Rightarrow> goerror option" where
  "ignore_not_found L err = (case err of None \<Rightarrow> None | Some e \<Rightarrow> IgnoreNotFound L e)"

definition is_not_found :: "libs \<Rightarrow> goerror option \<Rightarrow> bool" where
  "is_not_found L err = (case err of None \<Rightarrow> False | Some e \<Rightarrow> IsNotFound L e)"

abbreviation no_requeue :: Result where
  "no_requeue \<equiv> \<lparr>RequeueAfter = 0\<rparr>"

text \<open>The runtime type \<open>ClusterContext\<close>: the clusters that belong to one reconcile request.\<close>

record ClusterContext =
  cc_MCPCluster :: "Cluster option"
  cc_MCPAccessSecretKey :: ObjectKey
  cc_WorkloadCluster :: "Cluster option"
  cc_WorkloadAccessSecretKey :: ObjectKey


section \<open>A concrete environment\<close>

text \<open>
  An environment in which every call succeeds at once, on the sample library: secrets hold a
  kubeconfig, Flux resources come back ready, access is granted, deleted objects are gone.
  Witnesses run the model on it or on variants of it.
\<close>

definition sample_condition :: "ConditionStatus \<Rightarrow> string \<Rightarrow> Condition" where
  "sample_condition st msg = \<lparr>cond_Type = ''Ready'', cond_Status = st, cond_ObservedGeneration = 1,
     cond_LastTransitionTime = ZeroTime, cond_Reason = ''Test'', cond_Message = msg\<rparr>"

definition sample_secret :: Secret where
  "sample_secret = \<lparr>secret_Data = [''kubeconfig'' \<mapsto> ''data''], secret_Type = ''Opaque''\<rparr>"

definition sample_access :: "string \<Rightarrow> AccessRequest" where
  "sample_access n = \<lparr>ar_Namespace = ''tenant-ns'', ar_Name = n, ar_DeletionTimestamp = None,
     ar_SecretRef = Some (n @ ''-kubeconfig'')\<rparr>"

definition sample_kro :: "string \<Rightarrow> Kro" where
  "sample_kro v = \<lparr>kro_Meta = sample_meta ''mcp-01'', kro_Spec = \<lparr>spec_Version = v\<rparr>,
     kro_Status = \<lparr>status_Phase = '''', status_ObservedGeneration = 0, status_Conditions = [],
                   status_Resources = []\<rparr>\<rparr>"

definition sample_env :: env where
  "sample_env = \<lparr>
     lib = sample_libs,
     on_get_secret = (\<lambda>h k. Inr sample_secret),
     on_upsert_secret = (\<lambda>h k s. None),
     on_upsert_oci = (\<lambda>h k spec. Inr \<lparr>oci_Name = key_Name k, oci_Namespace = key_Namespace k,
        oci_Spec = spec, oci_Conditions = [sample_condition ConditionTrue ''stored'']\<rparr>),
     on_upsert_hr = (\<lambda>h k spec. Inr \<lparr>hr_Name = key_Name k, hr_Namespace = key_Namespace k,
        hr_Spec = spec, hr_Conditions = [sample_condition ConditionTrue ''installed'']\<rparr>),
     on_get_access_request = (\<lambda>h k. Inr (sample_access (key_Name k))),
     on_delete = (\<lambda>h m. None),
     on_get = (\<lambda>h m. Some sample_not_found),
     on_workload_namespace = (\<lambda>h c ns. None),
     on_workload_secret = (\<lambda>h c k s. None),
     on_list = (\<lambda>h c g. Inr 0),
     on_onboarding_get = (\<lambda>h k. Inr (sample_kro ''v0.9.3'')),
     on_onboarding_patch = (\<lambda>h new old. Inr new),
     on_onboarding_upsert = (\<lambda>h k f. (f k, None)),
     on_onboarding_update = (\<lambda>h k. (k, None)),
     on_status_patch = (\<lambda>h new old. None),
     onboarding_kro_gvk = Inr \<lparr>gvk_Group = ''kro.services.open-control-plane.io'',
        gvk_Version = ''v1alpha1'', gvk_Kind = ''Kro''\<rparr>,
     on_onboarding_list = (\<lambda>h g. Inr [\<lparr>key_Namespace = ''tenant'', key_Name = ''mcp-01''\<rparr>]),
     on_access_reconcile = (\<lambda>h k. (no_requeue, None)),
     on_access_delete = (\<lambda>h k. (no_requeue, None)),
     on_mcp_cluster = (\<lambda>h k. (Some (Cluster ''mcp''), None)),
     on_mcp_request = (\<lambda>h k. (Some (sample_access ''mcp''), None)),
     on_workload_cluster = (\<lambda>h k. (Some (Cluster ''workload''), None)),
     on_workload_request = (\<lambda>h k. (Some (sample_access ''workload''), None)),
     on_get_config = (\<lambda>h k. Inr (sample_config [sample_version]))\<rparr>"

definition sample_context :: ClusterContext where
  "sample_context = \<lparr>
     cc_MCPCluster = Some (Cluster ''mcp''),
     cc_MCPAccessSecretKey = \<lparr>key_Namespace = ''tenant-ns'', key_Name = ''mcp-kubeconfig''\<rparr>,
     cc_WorkloadCluster = Some (Cluster ''workload''),
     cc_WorkloadAccessSecretKey = \<lparr>key_Namespace = ''tenant-ns'', key_Name = ''workload-kubeconfig''\<rparr>\<rparr>"

definition sample_state :: "string \<Rightarrow> gostate" where
  "sample_state v = \<lparr>hist = [], obj = sample_kro v\<rparr>"

lemma sample_env_lib [simp]: "lib sample_env = sample_libs"
  by (simp add: sample_env_def)

lemma sample_namespace:
  "lib E = sample_libs \<Longrightarrow>
    StableMCPNamespace (lib E) (meta_Name (kro_Meta (obj (sample_state v))))
      (meta_Namespace (kro_Meta (obj (sample_state v)))) = Inr ''mcp--tenant--mcp-01''"
  by (simp add: sample_libs_def sample_state_def sample_kro_def sample_meta_def)

end
