(* ===== verification/Kro_Controller.thy ===== *)
theory Kro_Controller
  imports Environment
begin

text \<open>
  \<open>internal/controller/kro_controller.go\<close>: the domain reconciler. Every function is a
  computation over the shared state (call history and the Kro object the run works on); a
  function that can run into a nil dereference returns an \<open>outcome\<close>. Logging is left out.
\<close>

section \<open>Constants and the reconciler\<close>

definition HelmReleaseName :: string where
  "HelmReleaseName = ''kro-helm-release''"

definition MCPHelmReleaseName :: string where
  "MCPHelmReleaseName = ''kro-mcp-crds-helm-release''"

definition OCIRepositoryName :: string where
  "OCIRepositoryName = ''kro-oci-repository''"

definition KroSystemNamespace :: string where
  "KroSystemNamespace = ''kro-system''"

definition requestSuffixWorkload :: string where
  "requestSuffixWorkload = ''--wl''"

definition resourceGraphDefinitionList :: GroupVersionKind where
  "resourceGraphDefinitionList =
     \<lparr>gvk_Group = ''kro.run'', gvk_Version = ''v1alpha1'', gvk_Kind = ''ResourceGraphDefinitionList''\<rparr>"

definition deletionBlockedRequeue :: Duration where
  "deletionBlockedRequeue = 10 * time_Second"

definition conditionReasonError :: string where
  "conditionReasonError = ''ReconcileError''"

definition ClusterAccessName :: string where
  "ClusterAccessName = GroupVersion_Group"

text \<open>
  The cluster handles only ever serve to reach a client; the calls of the platform client are
  the platform calls of the environment.
\<close>

record KroReconciler =
  kr_OnboardingCluster :: "Cluster option"
  kr_PlatformCluster :: "Cluster option"
  PodNamespace :: string

abbreviation quoted :: "env \<Rightarrow> string \<Rightarrow> string" where
  "quoted E s \<equiv> go_quote (unicode_IsPrint (lib E)) s"

abbreviation object_key :: "string \<Rightarrow> string \<Rightarrow> ObjectKey" where
  "object_key ns n \<equiv> \<lparr>key_Namespace = ns, key_Name = n\<rparr>"

section \<open>Status of managed resources\<close>

definition resourceStatus :: "libs \<Rightarrow> Condition list \<Rightarrow> InstancePhase \<times> string" where
  "resourceStatus L conditions =
     (if IsStatusConditionTrue L conditions (flux_ReadyCondition L) then (Ready, '''')
      else (case FindStatusCondition L conditions (flux_ReadyCondition L) of
              Some cond \<Rightarrow> (Progressing, cond_Message cond)
            | None \<Rightarrow> (Progressing, '''')))"

definition managed_resource ::
    "string \<Rightarrow> string \<Rightarrow> string \<Rightarrow> string \<Rightarrow> InstancePhase \<Rightarrow> string \<Rightarrow> ManagedResource" where
  "managed_resource apiGroup kind name tenantNamespace phase msg =
     \<lparr>res_APIGroup = Some apiGroup, res_Kind = kind, res_Name = name,
      res_Namespace = Some tenantNamespace, res_Phase = phase, res_Message = msg,
      res_Location = PlatformCluster\<rparr>"

definition managedResources :: "libs \<Rightarrow> string \<Rightarrow> InstancePhase \<Rightarrow> ManagedResource list" where
  "managedResources L tenantNamespace phase =
     [managed_resource (sourcev1_Group L) ''OCIRepository'' OCIRepositoryName tenantNamespace phase '''',
      managed_resource (helmv2_Group L) ''HelmRelease'' HelmReleaseName tenantNamespace phase '''',
      managed_resource (helmv2_Group L) ''HelmRelease'' MCPHelmReleaseName tenantNamespace phase '''']"

definition countResourceGraphDefinitions ::
    "env \<Rightarrow> Cluster \<Rightarrow> ('w world_scheme, goerror + nat) state" where
  "countResourceGraphDefinitions E mcpCluster = do {
     list \<leftarrow> call (\<lambda>h. on_list E h mcpCluster resourceGraphDefinitionList)
               (ListObjects mcpCluster resourceGraphDefinitionList);
     case list of
       Inl err \<Rightarrow>
         if IsNoMatchError (lib E) err \<or> IsNotFound (lib E) err then State_Monad.return (Inr 0)
         else State_Monad.return (Inl err)
     | Inr items \<Rightarrow> State_Monad.return (Inr items) }"

section \<open>Replication of secrets\<close>

text \<open>The two calls both replication loops are made of.\<close>

definition platform_get_secret :: "env \<Rightarrow> ObjectKey \<Rightarrow> ('w world_scheme, goerror + Secret) state" where
  "platform_get_secret E k = call (\<lambda>h. on_get_secret E h k) (PlatformGetSecret k)"

definition platform_upsert_secret ::
    "env \<Rightarrow> ObjectKey \<Rightarrow> Secret \<Rightarrow> ('w world_scheme, goerror option) state" where
  "platform_upsert_secret E k s = call (\<lambda>h. on_upsert_secret E h k s) (PlatformUpsertSecret k s)"

definition workload_upsert_secret ::
    "env \<Rightarrow> Cluster \<Rightarrow> ObjectKey \<Rightarrow> Secret \<Rightarrow> ('w world_scheme, goerror option) state" where
  "workload_upsert_secret E c k s =
     call (\<lambda>h. on_workload_secret E h c k s) (WorkloadUpsertSecret c k s)"

definition workload_ensure_namespace ::
    "env \<Rightarrow> Cluster \<Rightarrow> string \<Rightarrow> ('w world_scheme, goerror option) state" where
  "workload_ensure_namespace E c ns =
     call (\<lambda>h. on_workload_namespace E h c ns) (WorkloadEnsureNamespace c ns)"

definition replicateChartPullSecret ::
    "env \<Rightarrow> KroReconciler \<Rightarrow> string \<Rightarrow> string \<Rightarrow> ('w world_scheme, goerror option) state" where
  "replicateChartPullSecret E r secretName targetNamespace =
     (if secretName = '''' then State_Monad.return None
      else do {
        got \<leftarrow> platform_get_secret E (object_key (PodNamespace r) secretName);
        case got of
          Inl err \<Rightarrow> State_Monad.return (Some (errorf
            (''failed to get secret '' @ quoted E secretName @ '' from namespace ''
             @ quoted E (PodNamespace r)) err))
        | Inr sourceSecret \<Rightarrow> do {
            done \<leftarrow> platform_upsert_secret E (object_key targetNamespace secretName)
              \<lparr>secret_Data = secret_Data sourceSecret, secret_Type = secret_Type sourceSecret\<rparr>;
            case done of
              Some err \<Rightarrow> State_Monad.return (Some (errorf
                (''failed to replicate secret '' @ quoted E secretName @ '' to namespace ''
                 @ quoted E targetNamespace) err))
            | None \<Rightarrow> State_Monad.return None } })"

text \<open>The loop over the referenced pull secrets; it stops at the first error.\<close>

fun replicate_refs ::
    "env \<Rightarrow> KroReconciler \<Rightarrow> Cluster \<Rightarrow> string list \<Rightarrow> ('w world_scheme, goerror option) state" where
  "replicate_refs E r c [] = State_Monad.return None"
| "replicate_refs E r c (ref # refs) = do {
     got \<leftarrow> platform_get_secret E (object_key (PodNamespace r) ref);
     case got of
       Inl err \<Rightarrow> State_Monad.return (Some (errorf
         (''failed to get image pull secret '' @ quoted E ref @ '' from namespace ''
          @ quoted E (PodNamespace r)) err))
     | Inr source \<Rightarrow> do {
         done \<leftarrow> workload_upsert_secret E c (object_key KroSystemNamespace ref)
           \<lparr>secret_Data = secret_Data source, secret_Type = secret_Type source\<rparr>;
         case done of
           Some err \<Rightarrow> State_Monad.return (Some (errorf
             (''failed to replicate image pull secret '' @ quoted E ref
              @ '' to workload namespace '' @ quoted E KroSystemNamespace) err))
         | None \<Rightarrow> replicate_refs E r c refs } }"

definition ensure_namespace_error :: "env \<Rightarrow> goerror \<Rightarrow> goerror" where
  "ensure_namespace_error E err = errorf
     (''failed to ensure namespace '' @ quoted E KroSystemNamespace @ '' on workload cluster'') err"

definition replicateImagePullSecrets ::
    "env \<Rightarrow> KroReconciler \<Rightarrow> Cluster option \<Rightarrow> string option
      \<Rightarrow> ('w world_scheme, goerror option) state" where
  "replicateImagePullSecrets E r workloadCluster values =
     (case ExtractHelmValues (lib E) values of
        Inl err \<Rightarrow> State_Monad.return (Some err)
      | Inr helmValues \<Rightarrow>
          if length (ImagePullSecrets helmValues) = 0 then State_Monad.return None
          else (case workloadCluster of
            None \<Rightarrow> State_Monad.return (Some (ErrorString
              ''workload cluster is required to replicate image pull secrets but was nil''))
          | Some c \<Rightarrow> do {
              done \<leftarrow> workload_ensure_namespace E c KroSystemNamespace;
              case done of
                Some err \<Rightarrow> State_Monad.return (Some (ensure_namespace_error E err))
              | None \<Rightarrow> replicate_refs E r c (ImagePullSecrets helmValues) }))"

definition replicateMCPKubeconfig ::
    "env \<Rightarrow> ClusterContext \<Rightarrow> ('w world_scheme, goerror option) state" where
  "replicateMCPKubeconfig E clusterCtx =
     (case cc_WorkloadCluster clusterCtx of
        None \<Rightarrow> State_Monad.return (Some (ErrorString
          ''workload cluster is required to replicate MCP kubeconfig but was nil''))
      | Some c \<Rightarrow> do {
          got \<leftarrow> platform_get_secret E (cc_MCPAccessSecretKey clusterCtx);
          case got of
            Inl err \<Rightarrow> State_Monad.return (Some (errorf ''failed to get MCP kubeconfig secret'' err))
          | Inr mcpSecret \<Rightarrow>
              (case secret_Data mcpSecret mcpKubeconfigKey of
                 None \<Rightarrow> State_Monad.return (Some (ErrorString
                   (''MCP kubeconfig secret ''
                    @ quoted E (NamespacedName_String (lib E) (cc_MCPAccessSecretKey clusterCtx))
                    @ '' does not contain key '' @ quoted E mcpKubeconfigKey)))
               | Some kubeconfigData \<Rightarrow> do {
                   done \<leftarrow> workload_ensure_namespace E c KroSystemNamespace;
                   case done of
                     Some err \<Rightarrow> State_Monad.return (Some (ensure_namespace_error E err))
                   | None \<Rightarrow> do {
                       put \<leftarrow> workload_upsert_secret E c
                         (object_key KroSystemNamespace mcpKubeconfigSecretName)
                         \<lparr>secret_Data = [mcpKubeconfigKey \<mapsto> kubeconfigData],
                          secret_Type = SecretTypeOpaque (lib E)\<rparr>;
                       case put of
                         Some err \<Rightarrow> State_Monad.return (Some (errorf
                           ''failed to replicate MCP kubeconfig to workload cluster'' err))
                       | None \<Rightarrow> State_Monad.return None } }) })"

section \<open>Flux resources\<close>

definition createOciRepository :: "KroVersion \<Rightarrow> string \<Rightarrow> OCIRepository" where
  "createOciRepository version namespace =
     (let secretRef = (if ver_ChartPullSecret version \<noteq> ''''
                       then Some (ver_ChartPullSecret version) else None)
      in \<lparr>oci_Name = OCIRepositoryName, oci_Namespace = namespace,
          oci_Spec = \<lparr>oci_Interval = time_Minute, oci_URL = GetChartURL version,
                      oci_SecretRef = secretRef, oci_Tag = ver_ChartVersion version\<rparr>,
          oci_Conditions = []\<rparr>)"

definition createOrUpdateOCIRepository ::
    "env \<Rightarrow> KroVersion \<Rightarrow> string \<Rightarrow> ('w world_scheme, goerror + OCIRepository) state" where
  "createOrUpdateOCIRepository E version namespace =
     (let ociRepository = createOciRepository version namespace;
          k = object_key namespace (oci_Name ociRepository)
      in call (\<lambda>h. on_upsert_oci E h k (oci_Spec ociRepository))
           (PlatformUpsertOCIRepository k (oci_Spec ociRepository)))"

text \<open>The access request's secret reference is a pointer: a nil one is dereferenced.\<close>

definition getWorkloadFluxConfig ::
    "env \<Rightarrow> string \<Rightarrow> string \<Rightarrow> ('w world_scheme, (goerror + SecretKeyReference) outcome) state" where
  "getWorkloadFluxConfig E namespace objectName =
     (let k = object_key namespace
          (StableRequestNameFromLocalName (lib E) ClusterAccessName objectName @ requestSuffixWorkload)
      in do {
        got \<leftarrow> call (\<lambda>h. on_get_access_request E h k) (PlatformGetAccessRequest k);
        case got of
          Inl err \<Rightarrow> State_Monad.return (Returned (Inl
            (errorf ''failed to get Workload AccessRequest'' err)))
        | Inr workloadAccessRequest \<Rightarrow>
            (case ar_SecretRef workloadAccessRequest of
               None \<Rightarrow> State_Monad.return Panicked
             | Some n \<Rightarrow> State_Monad.return (Returned (Inr
                 \<lparr>skr_Name = n, skr_Key = ''kubeconfig''\<rparr>))) })"

definition kro_release_spec :: "string \<Rightarrow> SecretKeyReference \<Rightarrow> string option \<Rightarrow> HelmReleaseSpec" where
  "kro_release_spec namespace fluxConfigRef helmValues =
     \<lparr>hr_ReleaseName = DefaultReleaseName,
      hr_Interval = time_Minute,
      hr_TargetNamespace = KroSystemNamespace,
      hr_StorageNamespace = KroSystemNamespace,
      hr_Install = \<lparr>install_CRDs = Skip, install_CreateNamespace = True, install_Retries = 3\<rparr>,
      hr_Upgrade = \<lparr>upgrade_CRDs = Skip, upgrade_CleanupOnFail = True, upgrade_Retries = 3,
                    upgrade_Strategy = RollbackRemediationStrategy\<rparr>,
      hr_ChartRef = \<lparr>ref_Kind = ''OCIRepository'', ref_Name = OCIRepositoryName,
                     ref_Namespace = namespace\<rparr>,
      hr_Values = helmValues,
      hr_KubeConfig_SecretRef = fluxConfigRef,
      hr_PostRenderers = kubeconfigPostRenderers\<rparr>"

definition createHelmRelease ::
    "env \<Rightarrow> string \<Rightarrow> Kro \<Rightarrow> string option \<Rightarrow> ('w world_scheme, (goerror + HelmRelease) outcome) state" where
  "createHelmRelease E namespace svcobj helmValues = do {
     ref \<leftarrow> getWorkloadFluxConfig E namespace (meta_Name (kro_Meta svcobj));
     case ref of
       Panicked \<Rightarrow> State_Monad.return Panicked
     | Returned res \<Rightarrow>
         (case res of
            Inl err \<Rightarrow> State_Monad.return (Returned (Inl
              (errorf ''failed to get workload FluxConfig'' err)))
          | Inr fluxConfigRef \<Rightarrow> State_Monad.return (Returned (Inr
              \<lparr>hr_Name = HelmReleaseName, hr_Namespace = namespace,
               hr_Spec = kro_release_spec namespace fluxConfigRef helmValues,
               hr_Conditions = []\<rparr>))) }"

definition platform_upsert_release ::
    "env \<Rightarrow> ObjectKey \<Rightarrow> HelmReleaseSpec \<Rightarrow> ('w world_scheme, goerror + HelmRelease) state" where
  "platform_upsert_release E k spec =
     call (\<lambda>h. on_upsert_hr E h k spec) (PlatformUpsertHelmRelease k spec)"

definition createOrUpdateHelmRelease ::
    "env \<Rightarrow> string \<Rightarrow> Kro \<Rightarrow> string option \<Rightarrow> ('w world_scheme, (goerror + HelmRelease) outcome) state" where
  "createOrUpdateHelmRelease E namespace svcobj values = do {
     rel \<leftarrow> createHelmRelease E namespace svcobj values;
     case rel of
       Panicked \<Rightarrow> State_Monad.return Panicked
     | Returned res \<Rightarrow>
         (case res of
            Inl err \<Rightarrow> State_Monad.return (Returned (Inl (errorf ''failed to create helm release'' err)))
          | Inr helmRelease \<Rightarrow> do {
              managed \<leftarrow> platform_upsert_release E (object_key namespace (hr_Name helmRelease))
                (hr_Spec helmRelease);
              State_Monad.return (Returned managed) }) }"

definition crds_release_spec :: "string \<Rightarrow> SecretKeyReference \<Rightarrow> HelmReleaseSpec" where
  "crds_release_spec namespace mcpSecretRef =
     \<lparr>hr_ReleaseName = ''kro-crds'',
      hr_Interval = time_Minute,
      hr_TargetNamespace = KroSystemNamespace,
      hr_StorageNamespace = KroSystemNamespace,
      hr_Install = \<lparr>install_CRDs = CreateReplace, install_CreateNamespace = True, install_Retries = 3\<rparr>,
      hr_Upgrade = \<lparr>upgrade_CRDs = CreateReplace, upgrade_CleanupOnFail = True, upgrade_Retries = 3,
                    upgrade_Strategy = RollbackRemediationStrategy\<rparr>,
      hr_ChartRef = \<lparr>ref_Kind = ''OCIRepository'', ref_Name = OCIRepositoryName,
                     ref_Namespace = namespace\<rparr>,
      hr_Values = None,
      hr_KubeConfig_SecretRef = mcpSecretRef,
      hr_PostRenderers = crdOnlyPostRenderers\<rparr>"

definition createOrUpdateMCPCRDsHelmRelease ::
    "env \<Rightarrow> string \<Rightarrow> ClusterContext \<Rightarrow> ('w world_scheme, goerror + HelmRelease) state" where
  "createOrUpdateMCPCRDsHelmRelease E namespace clusterCtx =
     (let mcpSecretRef = \<lparr>skr_Name = key_Name (cc_MCPAccessSecretKey clusterCtx),
                          skr_Key = ''kubeconfig''\<rparr>
      in platform_upsert_release E (object_key namespace MCPHelmReleaseName)
           (crds_release_spec namespace mcpSecretRef))"

section \<open>CreateOrUpdate\<close>

text \<open>The two lines every failing step ends with: report the error, return it wrapped.\<close>

definition fail_progressing :: "env \<Rightarrow> string \<Rightarrow> goerror \<Rightarrow> (gostate, reply outcome) state" where
  "fail_progressing E context err = do {
     _ \<leftarrow> modify_obj (StatusProgressing (lib E) Kro_API conditionReasonError (error_text err));
     State_Monad.return (Returned (no_requeue, Some (errorf context err))) }"

text \<open>The status the last lines of \<open>CreateOrUpdate\<close> compute from the three Flux resources.\<close>

definition report_resources ::
    "env \<Rightarrow> string \<Rightarrow> OCIRepository \<Rightarrow> HelmRelease \<Rightarrow> HelmRelease \<Rightarrow> (gostate, unit) state" where
  "report_resources E tenantNamespace ociRepo helmRel mcpCRDsRel =
     (case (resourceStatus (lib E) (oci_Conditions ociRepo),
            resourceStatus (lib E) (hr_Conditions helmRel),
            resourceStatus (lib E) (hr_Conditions mcpCRDsRel)) of
        ((ociPhase, ociMsg), (hrPhase, hrMsg), (mcpCRDsPhase, mcpCRDsMsg)) \<Rightarrow> do {
          _ \<leftarrow> modify_obj (set_resources
            [managed_resource (sourcev1_Group (lib E)) ''OCIRepository'' OCIRepositoryName
               tenantNamespace ociPhase ociMsg,
             managed_resource (helmv2_Group (lib E)) ''HelmRelease'' HelmReleaseName
               tenantNamespace hrPhase hrMsg,
             managed_resource (helmv2_Group (lib E)) ''HelmRelease'' MCPHelmReleaseName
               tenantNamespace mcpCRDsPhase mcpCRDsMsg]);
          if ociPhase = Ready \<and> hrPhase = Ready \<and> mcpCRDsPhase = Ready
          then modify_obj (StatusReady (lib E) Kro_API)
          else modify_obj (StatusProgressing (lib E) Kro_API ''Reconciling''
                 ''Waiting for managed resources to become ready'') })"

text \<open>
  The part of \<open>CreateOrUpdate\<close> after the version is resolved: the six steps in order, each
  with its error return, and the status.
\<close>

definition apply_version ::
    "env \<Rightarrow> KroReconciler \<Rightarrow> ClusterContext \<Rightarrow> string \<Rightarrow> KroVersion \<Rightarrow> Kro
      \<Rightarrow> (gostate, reply outcome) state" where
  "apply_version E r clusterCtx tenantNamespace version svcobj = do {
     pulled \<leftarrow> replicateChartPullSecret E r (ver_ChartPullSecret version) tenantNamespace;
     case pulled of
       Some err \<Rightarrow> fail_progressing E ''failed to replicate chart pull secret'' err
     | None \<Rightarrow> do {
     oci \<leftarrow> createOrUpdateOCIRepository E version tenantNamespace;
     case oci of
       Inl err \<Rightarrow> fail_progressing E ''failed to reconcile OCI Repository'' err
     | Inr ociRepo \<Rightarrow> do {
     images \<leftarrow> replicateImagePullSecrets E r (cc_WorkloadCluster clusterCtx) (ver_HelmValues version);
     case images of
       Some err \<Rightarrow>
         fail_progressing E ''failed to replicate image pull secrets to workload cluster'' err
     | None \<Rightarrow> do {
     kubeconfig \<leftarrow> replicateMCPKubeconfig E clusterCtx;
     case kubeconfig of
       Some err \<Rightarrow> fail_progressing E ''failed to replicate MCP kubeconfig to workload cluster'' err
     | None \<Rightarrow> do {
     crds \<leftarrow> createOrUpdateMCPCRDsHelmRelease E tenantNamespace clusterCtx;
     case crds of
       Inl err \<Rightarrow> fail_progressing E ''failed to reconcile MCP CRDs HelmRelease'' err
     | Inr mcpCRDsRel \<Rightarrow> do {
     rel \<leftarrow> createOrUpdateHelmRelease E tenantNamespace svcobj (ver_HelmValues version);
     case rel of
       Panicked \<Rightarrow> State_Monad.return Panicked
     | Returned res \<Rightarrow>
     (case res of
       Inl err \<Rightarrow> fail_progressing E ''failed to reconcile HelmRelease'' err
     | Inr helmRel \<Rightarrow> do {
     _ \<leftarrow> report_resources E tenantNamespace ociRepo helmRel mcpCRDsRel;
     State_Monad.return (Returned (no_requeue, None)) }) } } } } } }"

definition CreateOrUpdate ::
    "env \<Rightarrow> KroReconciler \<Rightarrow> ProviderConfig option \<Rightarrow> ClusterContext
      \<Rightarrow> (gostate, reply outcome) state" where
  "CreateOrUpdate E r providerConfig clusterCtx = do {
     _ \<leftarrow> modify_obj (StatusProgressing (lib E) Kro_API ''Reconciling'' ''Reconcile in progress'');
     svcobj \<leftarrow> get_obj;
     case StableMCPNamespace (lib E) (meta_Name (kro_Meta svcobj)) (meta_Namespace (kro_Meta svcobj)) of
       Inl err \<Rightarrow> State_Monad.return (Returned (no_requeue,
         Some (errorf ''failed to determine stable namespace for Kro instance'' err)))
     | Inr tenantNamespace \<Rightarrow>
         (case ResolveVersion (lib E) providerConfig (spec_Version (kro_Spec svcobj)) of
            Inl err \<Rightarrow> do {
              _ \<leftarrow> modify_obj (StatusProgressing (lib E) Kro_API conditionReasonError (error_text err));
              State_Monad.return (Returned (no_requeue, IgnoreInvalidUserInput (lib E) err)) }
          | Inr version \<Rightarrow> apply_version E r clusterCtx tenantNamespace version svcobj) }"

section \<open>Delete\<close>

text \<open>
  The loop over the managed objects: \<open>Inl\<close> is the early return with the wrapped error, \<open>Inr\<close>
  says whether some object may still exist.
\<close>

fun delete_objects :: "env \<Rightarrow> managed_object list \<Rightarrow> bool \<Rightarrow> (gostate, goerror + bool) state" where
  "delete_objects E [] objectsStillExist = State_Monad.return (Inr objectsStillExist)"
| "delete_objects E (managedObj # rest) objectsStillExist = do {
     del \<leftarrow> call (\<lambda>h. on_delete E h managedObj) (PlatformDelete managedObj);
     case (ignore_not_found (lib E) del, del) of
       (Some _, Some err) \<Rightarrow> do {
         _ \<leftarrow> modify_obj (StatusTerminatingWithReason (lib E) Kro_API conditionReasonError (error_text err));
         State_Monad.return (Inl (errorf ''delete object failed'' err)) }
     | _ \<Rightarrow> do {
         got \<leftarrow> call (\<lambda>h. on_get E h managedObj) (PlatformGet managedObj);
         delete_objects E rest (if \<not> is_not_found (lib E) got then True else objectsStillExist) } }"

definition managed_objects :: "string \<Rightarrow> managed_object list" where
  "managed_objects tenantNamespace =
     [OCIRepositoryObject (object_key tenantNamespace OCIRepositoryName),
      HelmReleaseObject (object_key tenantNamespace HelmReleaseName),
      HelmReleaseObject (object_key tenantNamespace MCPHelmReleaseName)]"

text \<open>The part of \<open>Delete\<close> after the guard: tear down and confirm.\<close>

definition delete_managed :: "env \<Rightarrow> string \<Rightarrow> (gostate, reply outcome) state" where
  "delete_managed E tenantNamespace = do {
     _ \<leftarrow> modify_obj (set_resources (managedResources (lib E) tenantNamespace Terminating));
     res \<leftarrow> delete_objects E (managed_objects tenantNamespace) False;
     case res of
       Inl err \<Rightarrow> State_Monad.return (Returned (no_requeue, Some err))
     | Inr objectsStillExist \<Rightarrow>
         if objectsStillExist
         then State_Monad.return (Returned (\<lparr>RequeueAfter = time_Second * 10\<rparr>, None))
         else do {
           _ \<leftarrow> modify_obj (set_resources []);
           _ \<leftarrow> modify_obj (StatusReady (lib E) Kro_API);
           State_Monad.return (Returned (no_requeue, None)) } }"

definition blocked_message :: "nat \<Rightarrow> string" where
  "blocked_message remaining =
     ''deletion blocked: waiting for '' @ nat_decimal remaining
     @ '' kro ResourceGraphDefinition(s) to be removed from the control plane''"

definition Delete ::
    "env \<Rightarrow> KroReconciler \<Rightarrow> ProviderConfig option \<Rightarrow> ClusterContext
      \<Rightarrow> (gostate, reply outcome) state" where
  "Delete E r pc clusterCtx = do {
     _ \<leftarrow> modify_obj (StatusTerminating (lib E) Kro_API);
     obj \<leftarrow> get_obj;
     case StableMCPNamespace (lib E) (meta_Name (kro_Meta obj)) (meta_Namespace (kro_Meta obj)) of
       Inl err \<Rightarrow> State_Monad.return (Returned (no_requeue,
         Some (errorf ''failed to determine stable namespace for Kro instance'' err)))
     | Inr tenantNamespace \<Rightarrow>
     (case cc_MCPCluster clusterCtx of
        None \<Rightarrow> delete_managed E tenantNamespace
      | Some mcpCluster \<Rightarrow> do {
          count \<leftarrow> countResourceGraphDefinitions E mcpCluster;
          case count of
            Inl err \<Rightarrow> do {
              _ \<leftarrow> modify_obj (StatusTerminatingWithReason (lib E) Kro_API conditionReasonError
                     (error_text err));
              State_Monad.return (Returned (no_requeue,
                Some (errorf ''failed to check for remaining ResourceGraphDefinitions'' err))) }
          | Inr remaining \<Rightarrow>
              if remaining > 0
              then do {
                _ \<leftarrow> modify_obj (StatusTerminatingMessage (lib E) Kro_API (blocked_message remaining));
                _ \<leftarrow> modify_obj (set_resources (managedResources (lib E) tenantNamespace Terminating));
                State_Monad.return (Returned (\<lparr>RequeueAfter = deletionBlockedRequeue\<rparr>, None)) }
              else delete_managed E tenantNamespace }) }"

section \<open>A concrete reconciler\<close>

definition sample_reconciler :: KroReconciler where
  "sample_reconciler = \<lparr>kr_OnboardingCluster = Some (Cluster ''onboarding''),
     kr_PlatformCluster = Some (Cluster ''platform''), PodNamespace = ''kro-pod''\<rparr>"

lemmas sample_runs = sample_env_def sample_libs_def sample_context_def sample_state_def
  sample_reconciler_def sample_kro_def sample_meta_def

end
