(* ===== verification/Kro_Apply.thy ===== *)
theory Kro_Apply
  imports Kro_Controller
begin

text \<open>
  What \<open>CreateOrUpdate\<close> does to the outside: the exact calls of a successful run, where it may
  read and write, what it reports when a step fails, and when it can panic.
\<close>

section \<open>The steps\<close>

lemmas cluster_calls = platform_get_secret_def platform_upsert_secret_def
  workload_upsert_secret_def workload_ensure_namespace_def platform_upsert_release_def

lemma appends_steps [appending]:
  "appends (replicateChartPullSecret E r n ns)"
  "appends (replicateImagePullSecrets E r wl vals)"
  "appends (replicateMCPKubeconfig E cc)"
  "appends (createOrUpdateOCIRepository E v ns)"
  "appends (createOrUpdateMCPCRDsHelmRelease E ns cc)"
  "appends (createOrUpdateHelmRelease E ns k vals)"
  "appends (countResourceGraphDefinitions E c)"
proof -
  have "appends (replicate_refs E r c refs :: ('w world_scheme, goerror option) state)" for c refs
    by (induction refs) (auto simp: cluster_calls intro!: appending)
  then show "appends (replicateImagePullSecrets E r wl vals)"
    by (auto simp: replicateImagePullSecrets_def cluster_calls intro!: appending)
qed (auto simp: replicateChartPullSecret_def replicateMCPKubeconfig_def
    createOrUpdateOCIRepository_def createOrUpdateMCPCRDsHelmRelease_def
    createOrUpdateHelmRelease_def createHelmRelease_def getWorkloadFluxConfig_def
    countResourceGraphDefinitions_def cluster_calls Let_def intro!: appending)

section \<open>The calls of a successful step\<close>

definition chart_secret_calls :: "KroReconciler \<Rightarrow> string \<Rightarrow> string \<Rightarrow> event list \<Rightarrow> bool" where
  "chart_secret_calls r secretName targetNamespace evs \<longleftrightarrow>
     (if secretName = '''' then evs = []
      else \<exists>src. evs = [PlatformGetSecret (object_key (PodNamespace r) secretName) (Inr src),
                       PlatformUpsertSecret (object_key targetNamespace secretName) src None])"

fun ref_calls :: "KroReconciler \<Rightarrow> Cluster \<Rightarrow> string list \<Rightarrow> event list \<Rightarrow> bool" where
  "ref_calls r c [] evs = (evs = [])"
| "ref_calls r c (ref # refs) evs =
     (\<exists>src rest. evs = PlatformGetSecret (object_key (PodNamespace r) ref) (Inr src)
        # WorkloadUpsertSecret c (object_key KroSystemNamespace ref) src None # rest
      \<and> ref_calls r c refs rest)"

definition image_secret_calls :: "KroReconciler \<Rightarrow> Cluster option \<Rightarrow> string list \<Rightarrow> event list \<Rightarrow> bool" where
  "image_secret_calls r wl refs evs \<longleftrightarrow>
     (if refs = [] then evs = []
      else \<exists>c rest. wl = Some c \<and> evs = WorkloadEnsureNamespace c KroSystemNamespace None # rest
        \<and> ref_calls r c refs rest)"

definition kubeconfig_calls :: "env \<Rightarrow> ClusterContext \<Rightarrow> event list \<Rightarrow> bool" where
  "kubeconfig_calls E cc evs \<longleftrightarrow>
     (\<exists>c mcpSecret data. cc_WorkloadCluster cc = Some c
        \<and> secret_Data mcpSecret mcpKubeconfigKey = Some data
        \<and> evs = [PlatformGetSecret (cc_MCPAccessSecretKey cc) (Inr mcpSecret),
                 WorkloadEnsureNamespace c KroSystemNamespace None,
                 WorkloadUpsertSecret c (object_key KroSystemNamespace mcpKubeconfigSecretName)
                   \<lparr>secret_Data = [mcpKubeconfigKey \<mapsto> data], secret_Type = SecretTypeOpaque (lib E)\<rparr> None])"

lemmas outcome_splits = option.splits sum.splits outcome.splits if_splits

lemma secret_copy [simp]: "\<lparr>secret_Data = secret_Data s, secret_Type = secret_Type s\<rparr> = (s :: Secret)"
  by simp

lemma replicateChartPullSecret_done:
  assumes "run_state (replicateChartPullSecret E r n ns) s = (None, t)"
  shows "\<exists>evs. logged s evs t \<and> chart_secret_calls r n ns evs"
  using assms
  by (auto simp: replicateChartPullSecret_def cluster_calls chart_secret_calls_def
      split: outcome_splits)

lemma replicate_refs_done:
  "run_state (replicate_refs E r c refs) s = (None, t) \<Longrightarrow>
    \<exists>evs. logged s evs t \<and> ref_calls r c refs evs"
proof (induction refs arbitrary: s)
  case Nil
  then show ?case by auto
next
  case (Cons ref refs)
  then obtain src where
      got: "on_get_secret E (hist s) (object_key (PodNamespace r) ref) = Inr src" and
      run: "run_state (replicate_refs E r c refs) (s\<lparr>hist := hist s
        @ [PlatformGetSecret (object_key (PodNamespace r) ref) (Inr src),
           WorkloadUpsertSecret c (object_key KroSystemNamespace ref) src None]\<rparr>) = (None, t)"
    by (auto simp: cluster_calls split: outcome_splits)
  from Cons.IH [OF run] obtain evs where "ref_calls r c refs evs"
    "logged s ([PlatformGetSecret (object_key (PodNamespace r) ref) (Inr src),
       WorkloadUpsertSecret c (object_key KroSystemNamespace ref) src None] @ evs) t"
    by (auto dest: logged_after)
  then show ?case by force
qed

lemma replicateImagePullSecrets_done:
  assumes "run_state (replicateImagePullSecrets E r wl vals) s = (None, t)"
  shows "\<exists>hv evs. ExtractHelmValues (lib E) vals = Inr hv \<and> logged s evs t
    \<and> image_secret_calls r wl (ImagePullSecrets hv) evs"
proof -
  obtain hv where hv: "ExtractHelmValues (lib E) vals = Inr hv"
    using assms by (auto simp: replicateImagePullSecrets_def split: outcome_splits)
  show ?thesis
  proof (cases "ImagePullSecrets hv = []")
    case True
    then show ?thesis
      using assms hv
      by (auto simp: replicateImagePullSecrets_def image_secret_calls_def)
  next
    case False
    then obtain c where c: "wl = Some c" and
      run: "run_state (replicate_refs E r c (ImagePullSecrets hv))
        (s\<lparr>hist := hist s @ [WorkloadEnsureNamespace c KroSystemNamespace None]\<rparr>) = (None, t)"
      using assms hv
      by (auto simp: replicateImagePullSecrets_def cluster_calls split: outcome_splits)
    from replicate_refs_done [OF run] obtain evs where
      "logged s ([WorkloadEnsureNamespace c KroSystemNamespace None] @ evs) t"
      "ref_calls r c (ImagePullSecrets hv) evs"
      by (auto dest: logged_after)
    with hv c False show ?thesis by (force simp: image_secret_calls_def)
  qed
qed

lemma replicateMCPKubeconfig_done:
  assumes "run_state (replicateMCPKubeconfig E cc) s = (None, t)"
  shows "\<exists>evs. logged s evs t \<and> kubeconfig_calls E cc evs"
  using assms
  by (auto simp: replicateMCPKubeconfig_def cluster_calls kubeconfig_calls_def split: outcome_splits)

definition workload_request_key :: "env \<Rightarrow> string \<Rightarrow> string \<Rightarrow> ObjectKey" where
  "workload_request_key E ns n = object_key ns
     (StableRequestNameFromLocalName (lib E) ClusterAccessName n @ requestSuffixWorkload)"

lemma createOrUpdateHelmRelease_done:
  assumes "run_state (createOrUpdateHelmRelease E ns k vals) s = (Returned (Inr rel), t)"
  shows "\<exists>ar n. ar_SecretRef ar = Some n \<and> logged s
     [PlatformGetAccessRequest (workload_request_key E ns (meta_Name (kro_Meta k))) (Inr ar),
      PlatformUpsertHelmRelease (object_key ns HelmReleaseName)
        (kro_release_spec ns \<lparr>skr_Name = n, skr_Key = ''kubeconfig''\<rparr> vals) (Inr rel)] t"
  using assms
  by (auto simp: createOrUpdateHelmRelease_def createHelmRelease_def getWorkloadFluxConfig_def
      workload_request_key_def cluster_calls Let_def split: outcome_splits)

lemma createOrUpdateHelmRelease_panics:
  assumes "run_state (createOrUpdateHelmRelease E ns k vals) s = (Panicked, t)"
  shows "\<exists>ar. ar_SecretRef ar = None \<and> logged s
     [PlatformGetAccessRequest (workload_request_key E ns (meta_Name (kro_Meta k))) (Inr ar)] t"
  using assms
  by (auto simp: createOrUpdateHelmRelease_def createHelmRelease_def getWorkloadFluxConfig_def
      workload_request_key_def cluster_calls Let_def split: outcome_splits)


section \<open>The run of CreateOrUpdate\<close>

text \<open>The calls of a successful run, with their answers.\<close>

definition apply_calls ::
    "env \<Rightarrow> KroReconciler \<Rightarrow> ClusterContext \<Rightarrow> string \<Rightarrow> KroVersion \<Rightarrow> string
      \<Rightarrow> OCIRepository \<Rightarrow> HelmRelease \<Rightarrow> HelmRelease \<Rightarrow> event list \<Rightarrow> bool" where
  "apply_calls E r cc tns v name oci helm crds evs \<longleftrightarrow>
     (\<exists>hv chart images kc ar n.
        ExtractHelmValues (lib E) (ver_HelmValues v) = Inr hv
      \<and> chart_secret_calls r (ver_ChartPullSecret v) tns chart
      \<and> image_secret_calls r (cc_WorkloadCluster cc) (ImagePullSecrets hv) images
      \<and> kubeconfig_calls E cc kc
      \<and> ar_SecretRef ar = Some n
      \<and> evs = chart
        @ [PlatformUpsertOCIRepository (object_key tns OCIRepositoryName)
             (oci_Spec (createOciRepository v tns)) (Inr oci)]
        @ images @ kc
        @ [PlatformUpsertHelmRelease (object_key tns MCPHelmReleaseName)
             (crds_release_spec tns
               \<lparr>skr_Name = key_Name (cc_MCPAccessSecretKey cc), skr_Key = ''kubeconfig''\<rparr>) (Inr crds),
           PlatformGetAccessRequest (workload_request_key E tns name) (Inr ar),
           PlatformUpsertHelmRelease (object_key tns HelmReleaseName)
             (kro_release_spec tns \<lparr>skr_Name = n, skr_Key = ''kubeconfig''\<rparr> (ver_HelmValues v))
             (Inr helm)])"

lemma apply_callsI:
  assumes "ExtractHelmValues (lib E) (ver_HelmValues v) = Inr hv"
    "chart_secret_calls r (ver_ChartPullSecret v) tns chart"
    "image_secret_calls r (cc_WorkloadCluster cc) (ImagePullSecrets hv) images"
    "kubeconfig_calls E cc kc" "ar_SecretRef ar = Some n"
    and "evs = chart
        @ [PlatformUpsertOCIRepository (object_key tns OCIRepositoryName)
             (oci_Spec (createOciRepository v tns)) (Inr oci)]
        @ images @ kc
        @ [PlatformUpsertHelmRelease (object_key tns MCPHelmReleaseName)
             (crds_release_spec tns
               \<lparr>skr_Name = key_Name (cc_MCPAccessSecretKey cc), skr_Key = ''kubeconfig''\<rparr>) (Inr crds),
           PlatformGetAccessRequest (workload_request_key E tns name) (Inr ar),
           PlatformUpsertHelmRelease (object_key tns HelmReleaseName)
             (kro_release_spec tns \<lparr>skr_Name = n, skr_Key = ''kubeconfig''\<rparr> (ver_HelmValues v))
             (Inr helm)]"
  shows "apply_calls E r cc tns v name oci helm crds evs"
  using assms unfolding apply_calls_def by blast

lemma createOrUpdateOCIRepository_run:
  "run_state (createOrUpdateOCIRepository E v ns) s = (Inr oci, t) \<Longrightarrow>
    logged s [PlatformUpsertOCIRepository (object_key ns OCIRepositoryName)
      (oci_Spec (createOciRepository v ns)) (Inr oci)] t"
  by (auto simp: createOrUpdateOCIRepository_def createOciRepository_def Let_def)

lemma createOrUpdateMCPCRDsHelmRelease_run:
  "run_state (createOrUpdateMCPCRDsHelmRelease E ns cc) s = (Inr crds, t) \<Longrightarrow>
    logged s [PlatformUpsertHelmRelease (object_key ns MCPHelmReleaseName) (crds_release_spec ns
      \<lparr>skr_Name = key_Name (cc_MCPAccessSecretKey cc), skr_Key = ''kubeconfig''\<rparr>) (Inr crds)] t"
  by (auto simp: createOrUpdateMCPCRDsHelmRelease_def cluster_calls Let_def)

lemma fail_progressing_run:
  "run_state (fail_progressing E context err) s =
     (Returned (no_requeue, Some (errorf context err)),
      s\<lparr>obj := StatusProgressing (lib E) Kro_API conditionReasonError (error_text err) (obj s)\<rparr>)"
  by (simp add: fail_progressing_def)

text \<open>A successful run, step by step.\<close>

lemma apply_version_success:
  assumes "run_state (apply_version E r cc tns v k) s = (Returned (res, None), t)"
  obtains oci helm crds evs u where
    "res = no_requeue" "apply_calls E r cc tns v (meta_Name (kro_Meta k)) oci helm crds evs"
    "logged s evs u" "run_state (report_resources E tns oci helm crds) u = ((), t)"
proof -
  from assms obtain s1 s2 s3 s4 s5 u oci crds helm where
    steps: "run_state (replicateChartPullSecret E r (ver_ChartPullSecret v) tns) s = (None, s1)"
    "run_state (createOrUpdateOCIRepository E v tns) s1 = (Inr oci, s2)"
    "run_state (replicateImagePullSecrets E r (cc_WorkloadCluster cc) (ver_HelmValues v)) s2 = (None, s3)"
    "run_state (replicateMCPKubeconfig E cc) s3 = (None, s4)"
    "run_state (createOrUpdateMCPCRDsHelmRelease E tns cc) s4 = (Inr crds, s5)"
    "run_state (createOrUpdateHelmRelease E tns k (ver_HelmValues v)) s5 = (Returned (Inr helm), u)"
    and report: "run_state (report_resources E tns oci helm crds) u = ((), t)"
    and res: "res = no_requeue"
    by (auto simp: apply_version_def fail_progressing_run split: outcome_splits prod.splits)
  obtain chart where chart: "logged s chart s1" "chart_secret_calls r (ver_ChartPullSecret v) tns chart"
    using replicateChartPullSecret_done [OF steps(1)] by blast
  obtain hv images where images: "ExtractHelmValues (lib E) (ver_HelmValues v) = Inr hv"
    "logged s2 images s3" "image_secret_calls r (cc_WorkloadCluster cc) (ImagePullSecrets hv) images"
    using replicateImagePullSecrets_done [OF steps(3)] by blast
  obtain kc where kc: "logged s3 kc s4" "kubeconfig_calls E cc kc"
    using replicateMCPKubeconfig_done [OF steps(4)] by blast
  obtain ar n where ar: "ar_SecretRef ar = Some n" and rel: "logged s5
     [PlatformGetAccessRequest (workload_request_key E tns (meta_Name (kro_Meta k))) (Inr ar),
      PlatformUpsertHelmRelease (object_key tns HelmReleaseName)
        (kro_release_spec tns \<lparr>skr_Name = n, skr_Key = ''kubeconfig''\<rparr> (ver_HelmValues v)) (Inr helm)] u"
    using createOrUpdateHelmRelease_done [OF steps(6)] by blast
  note log = logged_trans [OF logged_trans [OF logged_trans [OF logged_trans [OF logged_trans
      [OF chart(1) createOrUpdateOCIRepository_run [OF steps(2)]] images(2)] kc(1)]
      createOrUpdateMCPCRDsHelmRelease_run [OF steps(5)]] rel]
  show thesis
  proof (rule that [OF res _ log report])
    show "apply_calls E r cc tns v (meta_Name (kro_Meta k)) oci helm crds (((((chart @
        [PlatformUpsertOCIRepository (object_key tns OCIRepositoryName)
           (oci_Spec (createOciRepository v tns)) (Inr oci)]) @ images) @ kc) @
        [PlatformUpsertHelmRelease (object_key tns MCPHelmReleaseName) (crds_release_spec tns
           \<lparr>skr_Name = key_Name (cc_MCPAccessSecretKey cc), skr_Key = ''kubeconfig''\<rparr>) (Inr crds)]) @
        [PlatformGetAccessRequest (workload_request_key E tns (meta_Name (kro_Meta k))) (Inr ar),
         PlatformUpsertHelmRelease (object_key tns HelmReleaseName)
           (kro_release_spec tns \<lparr>skr_Name = n, skr_Key = ''kubeconfig''\<rparr> (ver_HelmValues v)) (Inr helm)])"
      by (rule apply_callsI [OF images(1) chart(2) images(3) kc(2) ar]) simp
  qed
qed

lemma CreateOrUpdate_resolved:
  assumes "StableMCPNamespace (lib E) (meta_Name (kro_Meta (obj s))) (meta_Namespace (kro_Meta (obj s)))
      = Inr tns"
    and "ResolveVersion (lib E) pc (spec_Version (kro_Spec (obj s))) = Inr v"
  shows "\<exists>k. kro_Meta k = kro_Meta (obj s) \<and> kro_Spec k = kro_Spec (obj s)
    \<and> run_state (CreateOrUpdate E r pc cc) s = run_state (apply_version E r cc tns v k) (s\<lparr>obj := k\<rparr>)"
  using assms by (simp add: CreateOrUpdate_def)
    (rule exI [of _ "StatusProgressing (lib E) Kro_API ''Reconciling'' ''Reconcile in progress'' (obj s)"],
     simp)


section \<open>The reported status\<close>

definition flux_ready :: "libs \<Rightarrow> Condition list \<Rightarrow> bool" where
  "flux_ready L cs \<longleftrightarrow> IsStatusConditionTrue L cs (flux_ReadyCondition L)"

lemma resourceStatus_ready: "fst (resourceStatus L cs) = Ready \<longleftrightarrow> flux_ready L cs"
  by (simp add: resourceStatus_def flux_ready_def split: option.split)

definition listed :: "libs \<Rightarrow> string \<Rightarrow> OCIRepository \<Rightarrow> HelmRelease \<Rightarrow> HelmRelease \<Rightarrow> ManagedResource list" where
  "listed L tns oci helm crds =
     [managed_resource (sourcev1_Group L) ''OCIRepository'' OCIRepositoryName tns
        (fst (resourceStatus L (oci_Conditions oci))) (snd (resourceStatus L (oci_Conditions oci))),
      managed_resource (helmv2_Group L) ''HelmRelease'' HelmReleaseName tns
        (fst (resourceStatus L (hr_Conditions helm))) (snd (resourceStatus L (hr_Conditions helm))),
      managed_resource (helmv2_Group L) ''HelmRelease'' MCPHelmReleaseName tns
        (fst (resourceStatus L (hr_Conditions crds))) (snd (resourceStatus L (hr_Conditions crds)))]"

definition all_ready :: "libs \<Rightarrow> OCIRepository \<Rightarrow> HelmRelease \<Rightarrow> HelmRelease \<Rightarrow> bool" where
  "all_ready L oci helm crds \<longleftrightarrow> flux_ready L (oci_Conditions oci)
     \<and> flux_ready L (hr_Conditions helm) \<and> flux_ready L (hr_Conditions crds)"

lemma report_resources_run:
  assumes "run_state (report_resources E tns oci helm crds) s = ((), t)"
  shows "t = s\<lparr>obj :=
    (if all_ready (lib E) oci helm crds then StatusReady (lib E) Kro_API
     else StatusProgressing (lib E) Kro_API ''Reconciling'' ''Waiting for managed resources to become ready'')
    (set_resources (listed (lib E) tns oci helm crds) (obj s))\<rparr>"
  using assms
  by (auto simp: report_resources_def listed_def all_ready_def resourceStatus_ready [symmetric]
      case_prod_beta split: if_splits)

section \<open>Where CreateOrUpdate reads and writes\<close>

text \<open>
  The events \<open>CreateOrUpdate\<close> may emit for a tenant: writes on the platform only in the tenant's
  namespace, writes on the workload cluster only there and only in the kro namespace, secrets
  read only from the controller's own namespace or through the MCP access key; no deletion, and
  nothing on the onboarding cluster.
\<close>

fun confined :: "KroReconciler \<Rightarrow> ClusterContext \<Rightarrow> string \<Rightarrow> event \<Rightarrow> bool" where
  "confined r cc tns (PlatformGetSecret k _) \<longleftrightarrow>
     key_Namespace k = PodNamespace r \<or> k = cc_MCPAccessSecretKey cc"
| "confined r cc tns (PlatformUpsertSecret k _ _) \<longleftrightarrow> key_Namespace k = tns"
| "confined r cc tns (PlatformUpsertOCIRepository k _ _) \<longleftrightarrow> k = object_key tns OCIRepositoryName"
| "confined r cc tns (PlatformUpsertHelmRelease k _ _) \<longleftrightarrow>
     k = object_key tns HelmReleaseName \<or> k = object_key tns MCPHelmReleaseName"
| "confined r cc tns (PlatformGetAccessRequest k _) \<longleftrightarrow> key_Namespace k = tns"
| "confined r cc tns (WorkloadEnsureNamespace c ns _) \<longleftrightarrow>
     cc_WorkloadCluster cc = Some c \<and> ns = KroSystemNamespace"
| "confined r cc tns (WorkloadUpsertSecret c k _ _) \<longleftrightarrow>
     cc_WorkloadCluster cc = Some c \<and> key_Namespace k = KroSystemNamespace"
| "confined r cc tns _ = False"

lemma confined_refs:
  "cc_WorkloadCluster cc = Some c \<Longrightarrow> emits_only (confined r cc tns) (replicate_refs E r c refs)"
  by (induction refs) (auto simp: cluster_calls intro!: emits)

lemma createOrUpdateHelmRelease_eq:
  "createOrUpdateHelmRelease E ns k vals = do {
     ref \<leftarrow> getWorkloadFluxConfig E ns (meta_Name (kro_Meta k));
     case ref of
       Panicked \<Rightarrow> State_Monad.return Panicked
     | Returned res \<Rightarrow>
         (case res of
            Inl err \<Rightarrow> State_Monad.return (Returned (Inl (errorf ''failed to create helm release''
              (errorf ''failed to get workload FluxConfig'' err))))
          | Inr fluxConfigRef \<Rightarrow> do {
              managed \<leftarrow> platform_upsert_release E (object_key ns HelmReleaseName)
                (kro_release_spec ns fluxConfigRef vals);
              State_Monad.return (Returned managed) }) }"
  unfolding createOrUpdateHelmRelease_def createHelmRelease_def State_Monad.bind_assoc
  by (rule arg_cong [where f = "State_Monad.bind m" for m], rule ext)
    (auto split: outcome.split sum.split)

lemma confined_steps [emits]:
  "emits_only (confined r cc tns) (replicateChartPullSecret E r n tns)"
  "emits_only (confined r cc tns) (createOrUpdateOCIRepository E v tns)"
  "emits_only (confined r cc tns) (replicateImagePullSecrets E r (cc_WorkloadCluster cc) vals)"
  "emits_only (confined r cc tns) (replicateMCPKubeconfig E cc)"
  "emits_only (confined r cc tns) (createOrUpdateMCPCRDsHelmRelease E tns cc)"
  "emits_only (confined r cc tns) (createOrUpdateHelmRelease E tns k vals)"
  by (auto simp: replicateChartPullSecret_def createOrUpdateOCIRepository_def createOciRepository_def
      replicateImagePullSecrets_def replicateMCPKubeconfig_def createOrUpdateMCPCRDsHelmRelease_def
      createOrUpdateHelmRelease_eq getWorkloadFluxConfig_def cluster_calls
      Let_def intro!: emits confined_refs)

lemma emits_only_fail [emits]: "emits_only P (fail_progressing E ctx err)"
  by (auto simp: fail_progressing_def intro!: emits)

lemma emits_only_report [emits]: "emits_only P (report_resources E tns oci helm crds)"
  by (auto simp: report_resources_def intro!: emits)

lemma confined_apply: "emits_only (confined r cc tns) (apply_version E r cc tns v k)"
  unfolding apply_version_def by (intro emits)


lemma kubeconfig_calls_last:
  assumes "kubeconfig_calls E cc kc"
  obtains before c data where "kc = before
      @ [WorkloadUpsertSecret c (object_key KroSystemNamespace mcpKubeconfigSecretName)
          \<lparr>secret_Data = [mcpKubeconfigKey \<mapsto> data], secret_Type = SecretTypeOpaque (lib E)\<rparr> None]"
    "cc_WorkloadCluster cc = Some c"
proof -
  obtain c sec data where "cc_WorkloadCluster cc = Some c"
    "kc = [PlatformGetSecret (cc_MCPAccessSecretKey cc) (Inr sec),
       WorkloadEnsureNamespace c KroSystemNamespace None,
       WorkloadUpsertSecret c (object_key KroSystemNamespace mcpKubeconfigSecretName)
         \<lparr>secret_Data = [mcpKubeconfigKey \<mapsto> data], secret_Type = SecretTypeOpaque (lib E)\<rparr> None]"
    using assms by (auto simp: kubeconfig_calls_def)
  then show thesis
    by (intro that [of "[PlatformGetSecret (cc_MCPAccessSecretKey cc) (Inr sec),
       WorkloadEnsureNamespace c KroSystemNamespace None]" c data]) simp_all
qed

lemma apply_calls_kubeconfig:
  assumes "apply_calls E r cc tns v name oci helm crds evs"
  obtains before kc between n where "evs = before @ kc @ between
      @ [PlatformUpsertHelmRelease (object_key tns HelmReleaseName)
          (kro_release_spec tns n (ver_HelmValues v)) (Inr helm)]" "kubeconfig_calls E cc kc"
  using assms unfolding apply_calls_def
  by (elim exE conjE) (auto intro!: that [of "chart @ x # images" for chart x images, simplified])

lemma confined_run:
  assumes run: "run_state (CreateOrUpdate E r pc cc) s = (out, t)"
    and ns: "StableMCPNamespace (lib E) (meta_Name (kro_Meta (obj s))) (meta_Namespace (kro_Meta (obj s)))
      = Inr tns"
  shows "\<exists>evs. hist t = hist s @ evs \<and> list_all (confined r cc tns) evs"
proof (cases "ResolveVersion (lib E) pc (spec_Version (kro_Spec (obj s)))")
  case (Inl e)
  with run ns show ?thesis by (auto simp: CreateOrUpdate_def)
next
  case (Inr v)
  then obtain k where
    "run_state (CreateOrUpdate E r pc cc) s = run_state (apply_version E r cc tns v k) (s\<lparr>obj := k\<rparr>)"
    using CreateOrUpdate_resolved [OF ns] by blast
  with run have "run_state (apply_version E r cc tns v k) (s\<lparr>obj := k\<rparr>) = (out, t)" by simp
  with confined_apply show ?thesis by (rule emits_onlyD) auto
qed

lemma CreateOrUpdate_panic_run:
  assumes run: "run_state (CreateOrUpdate E r pc cc) s = (Panicked, t)"
  shows "\<exists>tns ar before. StableMCPNamespace (lib E) (meta_Name (kro_Meta (obj s)))
      (meta_Namespace (kro_Meta (obj s))) = Inr tns
    \<and> hist t = hist s @ before
      @ [PlatformGetAccessRequest (workload_request_key E tns (meta_Name (kro_Meta (obj s)))) (Inr ar)]
    \<and> ar_SecretRef ar = None"
proof -
  obtain tns where ns: "StableMCPNamespace (lib E) (meta_Name (kro_Meta (obj s)))
      (meta_Namespace (kro_Meta (obj s))) = Inr tns"
    using run by (auto simp: CreateOrUpdate_def split: sum.splits)
  obtain v where v: "ResolveVersion (lib E) pc (spec_Version (kro_Spec (obj s))) = Inr v"
    using run ns by (auto simp: CreateOrUpdate_def split: sum.splits)
  obtain k where k: "kro_Meta k = kro_Meta (obj s)" and
    eq: "run_state (CreateOrUpdate E r pc cc) s = run_state (apply_version E r cc tns v k) (s\<lparr>obj := k\<rparr>)"
    using CreateOrUpdate_resolved [OF ns v] by blast
  from run [unfolded eq] obtain s1 s2 s3 s4 s5 p o1 i1 m1 c1 where
    steps: "run_state (replicateChartPullSecret E r p tns) (s\<lparr>obj := k\<rparr>) = (o1, s1)"
    "run_state (createOrUpdateOCIRepository E v tns) s1 = (i1, s2)"
    "run_state (replicateImagePullSecrets E r (cc_WorkloadCluster cc) (ver_HelmValues v)) s2 = (m1, s3)"
    "run_state (replicateMCPKubeconfig E cc) s3 = (None, s4)"
    "run_state (createOrUpdateMCPCRDsHelmRelease E tns cc) s4 = (c1, s5)"
    and panic: "run_state (createOrUpdateHelmRelease E tns k (ver_HelmValues v)) s5 = (Panicked, t)"
    by (auto simp: apply_version_def fail_progressing_run split: outcome_splits prod.splits)
  obtain e1 where e1: "logged (s\<lparr>obj := k\<rparr>) e1 s1" using appends_steps(1) steps(1) by (rule appendsD)
  obtain e2 where e2: "logged s1 e2 s2" using appends_steps(4) steps(2) by (rule appendsD)
  obtain e3 where e3: "logged s2 e3 s3" using appends_steps(2) steps(3) by (rule appendsD)
  obtain e4 where e4: "logged s3 e4 s4" using appends_steps(3) steps(4) by (rule appendsD)
  obtain e5 where e5: "logged s4 e5 s5" using appends_steps(5) steps(5) by (rule appendsD)
  have "hist s5 = hist s @ (e1 @ e2 @ e3 @ e4 @ e5)"
    using logged_hist [OF e1] logged_hist [OF e2] logged_hist [OF e3] logged_hist [OF e4]
      logged_hist [OF e5] by simp
  with createOrUpdateHelmRelease_panics [OF panic] k ns show ?thesis
    by (auto dest!: logged_hist)
qed

lemma CreateOrUpdate_no_namespace:
  assumes "StableMCPNamespace (lib E) (meta_Name (kro_Meta (obj s))) (meta_Namespace (kro_Meta (obj s)))
      = Inl e" and "run_state (CreateOrUpdate E r pc cc) s = (out, t)"
  shows "hist t = hist s" "out \<noteq> Panicked"
  using assms by (auto simp: CreateOrUpdate_def)

text \<open>What the last lines of a successful run report.\<close>

definition reported :: "libs \<Rightarrow> bool \<Rightarrow> Kro \<Rightarrow> bool" where
  "reported L ready k \<longleftrightarrow> (\<exists>k'. kro_Meta k' = kro_Meta k \<and>
     k = (if ready then StatusReady L Kro_API k'
          else StatusProgressing L Kro_API ''Reconciling''
            ''Waiting for managed resources to become ready'' k'))"

lemma reported_ready:
  assumes "condition_laws L" "reported L ready k"
  shows "if ready
    then status_Phase (kro_Status k) = StatusPhaseReady
      \<and> kro_ready L k ConditionTrue ''ReconcileSuccess'' ''Domain Service is ready''
    else status_Phase (kro_Status k) = StatusPhaseProgressing
      \<and> kro_ready L k ConditionFalse ''Reconciling'' ''Waiting for managed resources to become ready''"
proof -
  obtain k' where k: "k = (if ready then StatusReady L Kro_API k'
      else StatusProgressing L Kro_API ''Reconciling''
        ''Waiting for managed resources to become ready'' k')"
    using assms(2) by (auto simp: reported_def)
  show ?thesis
    using kro_ready_reported(1,2) [OF assms(1)] by (cases ready) (simp_all add: k)
qed

lemma CreateOrUpdate_success:
  assumes run: "run_state (CreateOrUpdate E r pc cc) s = (Returned (res, None), t)"
    and ns: "StableMCPNamespace (lib E) (meta_Name (kro_Meta (obj s))) (meta_Namespace (kro_Meta (obj s)))
      = Inr tns"
    and v: "ResolveVersion (lib E) pc (spec_Version (kro_Spec (obj s))) = Inr v"
  shows "res = no_requeue \<and> (\<exists>oci helm crds evs. hist t = hist s @ evs
    \<and> apply_calls E r cc tns v (meta_Name (kro_Meta (obj s))) oci helm crds evs
    \<and> status_Resources (kro_Status (obj t)) = listed (lib E) tns oci helm crds
    \<and> kro_Meta (obj t) = kro_Meta (obj s) \<and> kro_Spec (obj t) = kro_Spec (obj s)
    \<and> reported (lib E) (all_ready (lib E) oci helm crds) (obj t))"
proof -
  obtain k where k: "kro_Meta k = kro_Meta (obj s)" "kro_Spec k = kro_Spec (obj s)" and
    eq: "run_state (CreateOrUpdate E r pc cc) s = run_state (apply_version E r cc tns v k) (s\<lparr>obj := k\<rparr>)"
    using CreateOrUpdate_resolved [OF ns v] by blast
  obtain oci helm crds evs u where res: "res = no_requeue"
    and calls: "apply_calls E r cc tns v (meta_Name (kro_Meta k)) oci helm crds evs"
    and log: "logged (s\<lparr>obj := k\<rparr>) evs u"
    and rep: "run_state (report_resources E tns oci helm crds) u = ((), t)"
    using run [unfolded eq] by (rule apply_version_success)
  have u: "obj u = k" "hist u = hist s @ evs"
    using logged_obj [OF log] logged_hist [OF log] by simp_all
  have "reported (lib E) (all_ready (lib E) oci helm crds) (obj t)"
    unfolding reported_def report_resources_run [OF rep]
    by (rule exI [of _ "set_resources (listed (lib E) tns oci helm crds) (obj u)"]) simp
  with res calls k u report_resources_run [OF rep] show ?thesis
    by (intro conjI exI [of _ oci] exI [of _ helm] exI [of _ crds] exI [of _ evs]) simp_all
qed

section \<open>Properties\<close>

text \<open>
  C3. A successful \<open>CreateOrUpdate\<close> of a resolved version makes exactly these calls, in this
  order: copy the chart pull secret (if any) into the tenant namespace, write the OCI
  repository of the version, ensure the kro namespace and copy every image pull secret there
  (if any), copy the MCP kubeconfig, write the CRD release, look up the workload access and
  write the kro release; every one of them succeeded, and no requeue is asked for.
\<close>
theorem CreateOrUpdate_calls:
  assumes run: "run_state (CreateOrUpdate E r pc cc) s = (Returned (res, None), t)"
    and ns: "StableMCPNamespace (lib E) (meta_Name (kro_Meta (obj s))) (meta_Namespace (kro_Meta (obj s)))
      = Inr tns"
    and v: "ResolveVersion (lib E) pc (spec_Version (kro_Spec (obj s))) = Inr v"
  shows "res = no_requeue \<and> (\<exists>oci helm crds evs. hist t = hist s @ evs
    \<and> apply_calls E r cc tns v (meta_Name (kro_Meta (obj s))) oci helm crds evs)"
  using CreateOrUpdate_success [OF run ns v] by blast

text \<open>
  C5. The status after a successful run is truthful: the object is reported Ready exactly when
  all three Flux resources, as the API server returned them, have a true Ready condition;
  otherwise it is Progressing. The condition has the object's generation, the three managed
  resources are listed with their phase and message, and metadata and spec are untouched.
\<close>
theorem CreateOrUpdate_status:
  assumes laws: "condition_laws (lib E)"
    and run: "run_state (CreateOrUpdate E r pc cc) s = (Returned (res, None), t)"
    and ns: "StableMCPNamespace (lib E) (meta_Name (kro_Meta (obj s))) (meta_Namespace (kro_Meta (obj s)))
      = Inr tns"
    and v: "ResolveVersion (lib E) pc (spec_Version (kro_Spec (obj s))) = Inr v"
  shows "\<exists>oci helm crds evs. hist t = hist s @ evs
    \<and> apply_calls E r cc tns v (meta_Name (kro_Meta (obj s))) oci helm crds evs
    \<and> status_Resources (kro_Status (obj t)) = listed (lib E) tns oci helm crds
    \<and> kro_Meta (obj t) = kro_Meta (obj s) \<and> kro_Spec (obj t) = kro_Spec (obj s)
    \<and> (if all_ready (lib E) oci helm crds
       then status_Phase (kro_Status (obj t)) = StatusPhaseReady
         \<and> kro_ready (lib E) (obj t) ConditionTrue ''ReconcileSuccess'' ''Domain Service is ready''
       else status_Phase (kro_Status (obj t)) = StatusPhaseProgressing
         \<and> kro_ready (lib E) (obj t) ConditionFalse ''Reconciling''
             ''Waiting for managed resources to become ready'')"
proof -
  obtain oci helm crds evs where calls: "hist t = hist s @ evs"
      "apply_calls E r cc tns v (meta_Name (kro_Meta (obj s))) oci helm crds evs"
    and status: "status_Resources (kro_Status (obj t)) = listed (lib E) tns oci helm crds"
      "kro_Meta (obj t) = kro_Meta (obj s)" "kro_Spec (obj t) = kro_Spec (obj s)"
      "reported (lib E) (all_ready (lib E) oci helm crds) (obj t)"
    using CreateOrUpdate_success [OF run ns v] by blast
  from reported_ready [OF laws status(4)] calls status(1,2,3) show ?thesis by blast
qed

text \<open>
  C9. Tenant isolation: whatever the environment answers, and whether the run succeeds, fails
  or panics, \<open>CreateOrUpdate\<close> writes on the platform only objects of this tenant's namespace
  (the OCI repository, the two releases, the copied pull secret), on the workload cluster
  only the kro namespace and secrets in it, and reads secrets only from the controller's own
  namespace or through the MCP access key. It deletes nothing and leaves the onboarding
  cluster alone.
\<close>
theorem CreateOrUpdate_confined:
  assumes run: "run_state (CreateOrUpdate E r pc cc) s = (out, t)"
    and ns: "StableMCPNamespace (lib E) (meta_Name (kro_Meta (obj s))) (meta_Namespace (kro_Meta (obj s)))
      = Inr tns"
  shows "\<exists>evs. hist t = hist s @ evs \<and> list_all (confined r cc tns) evs"
  using run ns by (rule confined_run)




section \<open>A concrete run, and the witnesses\<close>

lemmas sample_apply = sample_runs CreateOrUpdate_def apply_version_def replicateChartPullSecret_def
  createOrUpdateOCIRepository_def createOciRepository_def replicateImagePullSecrets_def
  replicateMCPKubeconfig_def createOrUpdateMCPCRDsHelmRelease_def createOrUpdateHelmRelease_def
  createHelmRelease_def getWorkloadFluxConfig_def cluster_calls fail_progressing_def
  report_resources_def resourceStatus_def ResolveVersion_def sample_config_def sample_version_def
  ExtractHelmValues_def sample_secret_def sample_access_def sample_condition_def
  sample_find_condition_def

definition sample_pc :: "ProviderConfig option" where
  "sample_pc = Some (sample_config [sample_version])"

lemma sample_resolves:
  "lib E = sample_libs \<Longrightarrow>
    ResolveVersion (lib E) sample_pc (spec_Version (kro_Spec (obj (sample_state ''v0.9.3'')))) = Inr sample_version"
  by (simp add: sample_pc_def sample_config_def ResolveVersion_def sample_version_def sample_state_def sample_kro_def)

lemma sample_apply_done:
  "fst (run_state (CreateOrUpdate sample_env sample_reconciler sample_pc sample_context)
     (sample_state ''v0.9.3'')) = Returned (no_requeue, None)"
  by (simp add: sample_apply sample_pc_def mcpKubeconfigKey_def Let_def)

theorem CreateOrUpdate_calls_witness:
  "\<exists>t oci helm crds.
     run_state (CreateOrUpdate sample_env sample_reconciler sample_pc sample_context)
       (sample_state ''v0.9.3'') = (Returned (no_requeue, None), t)
   \<and> apply_calls sample_env sample_reconciler sample_context ''mcp--tenant--mcp-01'' sample_version
       ''mcp-01'' oci helm crds (hist t) \<and> length (hist t) = 9"
proof -
  have "length (hist (snd (run_state (CreateOrUpdate sample_env sample_reconciler sample_pc sample_context)
      (sample_state ''v0.9.3'')))) = 9"
    by (simp add: sample_apply sample_pc_def mcpKubeconfigKey_def Let_def)
  moreover have "meta_Name (kro_Meta (obj (sample_state ''v0.9.3''))) = ''mcp-01''"
      "hist (sample_state ''v0.9.3'') = []"
    by (simp_all add: sample_runs)
  ultimately show ?thesis
    using CreateOrUpdate_calls [OF run_fst [OF sample_apply_done] sample_namespace sample_resolves]
      run_fst [OF sample_apply_done]
    by auto
qed

theorem CreateOrUpdate_status_witness:
  "\<exists>t oci helm crds evs.
     run_state (CreateOrUpdate sample_env sample_reconciler sample_pc sample_context)
       (sample_state ''v0.9.3'') = (Returned (no_requeue, None), t)
   \<and> hist t = evs \<and> status_Resources (kro_Status (obj t)) = listed sample_libs ''mcp--tenant--mcp-01'' oci helm crds
   \<and> status_Phase (kro_Status (obj t)) = StatusPhaseReady"
proof -
  have "status_Phase (kro_Status (obj (snd (run_state (CreateOrUpdate sample_env sample_reconciler
      sample_pc sample_context) (sample_state ''v0.9.3''))))) = StatusPhaseReady"
    by (simp add: sample_apply sample_pc_def mcpKubeconfigKey_def Let_def)
  with CreateOrUpdate_status [OF _ run_fst [OF sample_apply_done] sample_namespace sample_resolves]
    sample_condition_laws run_fst [OF sample_apply_done]
  show ?thesis by auto
qed

theorem CreateOrUpdate_confined_witness:
  "\<exists>t. run_state (CreateOrUpdate sample_env sample_reconciler sample_pc sample_context)
       (sample_state ''v0.9.3'') = (Returned (no_requeue, None), t)
   \<and> list_all (confined sample_reconciler sample_context ''mcp--tenant--mcp-01'') (hist t)
   \<and> hist t \<noteq> []"
proof -
  have "hist (snd (run_state (CreateOrUpdate sample_env sample_reconciler sample_pc sample_context)
      (sample_state ''v0.9.3''))) \<noteq> []"
    by (simp add: sample_apply sample_pc_def mcpKubeconfigKey_def Let_def)
  with CreateOrUpdate_confined [OF run_fst [OF sample_apply_done] sample_namespace]
    run_fst [OF sample_apply_done]
  show ?thesis by (auto simp: sample_state_def)
qed




text \<open>
  C20. The kro deployment is wired to the tenant's control plane: a successful \<open>CreateOrUpdate\<close>
  has put the kubeconfig on the workload cluster, in the namespace the kro release targets,
  before it writes that release, and the release's one patch mounts a secret of exactly the
  name written and points \<open>KUBECONFIG\<close> at a file below the mount path whose name is exactly the
  key written.
\<close>
theorem CreateOrUpdate_mounts_kubeconfig:
  assumes run: "run_state (CreateOrUpdate E r pc cc) s = (Returned (res, None), t)"
    and ns: "StableMCPNamespace (lib E) (meta_Name (kro_Meta (obj s))) (meta_Namespace (kro_Meta (obj s)))
      = Inr tns"
    and v: "ResolveVersion (lib E) pc (spec_Version (kro_Spec (obj s))) = Inr v"
  shows "\<exists>before between c secretName fileName kubeconfig dir spec helm.
      hist t = hist s @ before
        @ WorkloadUpsertSecret c (object_key (hr_TargetNamespace spec) secretName)
            \<lparr>secret_Data = [fileName \<mapsto> kubeconfig], secret_Type = SecretTypeOpaque (lib E)\<rparr> None
        # between @ [PlatformUpsertHelmRelease (object_key tns HelmReleaseName) spec (Inr helm)]
    \<and> cc_WorkloadCluster cc = Some c \<and> hr_ChartRef spec = \<lparr>ref_Kind = ''OCIRepository'',
        ref_Name = OCIRepositoryName, ref_Namespace = tns\<rparr>
    \<and> map patch_Patch (concat (map Kustomize_Patches (hr_PostRenderers spec)))
        = [kubeconfig_patch (dir @ ''/'' @ fileName) dir secretName]"
proof -
  obtain k where k: "kro_Meta k = kro_Meta (obj s)" and
    eq: "run_state (CreateOrUpdate E r pc cc) s = run_state (apply_version E r cc tns v k) (s\<lparr>obj := k\<rparr>)"
    using CreateOrUpdate_resolved [OF ns v] by blast
  obtain oci helm crds evs u where
    calls: "apply_calls E r cc tns v (meta_Name (kro_Meta k)) oci helm crds evs"
    and log: "logged (s\<lparr>obj := k\<rparr>) evs u"
    and rep: "run_state (report_resources E tns oci helm crds) u = ((), t)"
    using run [unfolded eq] by (rule apply_version_success)
  have "hist t = hist s @ evs"
    using logged_hist [OF log] report_resources_run [OF rep] by simp
  moreover from calls obtain pre kc mid n where evs: "evs = pre @ kc @ mid
      @ [PlatformUpsertHelmRelease (object_key tns HelmReleaseName)
          (kro_release_spec tns n (ver_HelmValues v)) (Inr helm)]" "kubeconfig_calls E cc kc"
    by (rule apply_calls_kubeconfig)
  moreover from evs(2) obtain pre' c data where "kc = pre'
      @ [WorkloadUpsertSecret c (object_key KroSystemNamespace mcpKubeconfigSecretName)
          \<lparr>secret_Data = [mcpKubeconfigKey \<mapsto> data], secret_Type = SecretTypeOpaque (lib E)\<rparr> None]"
      "cc_WorkloadCluster cc = Some c"
    by (rule kubeconfig_calls_last)
  ultimately show ?thesis
    by (intro exI [of _ "pre @ pre'"] exI [of _ mid] exI [of _ c] exI [of _ mcpKubeconfigSecretName]
        exI [of _ mcpKubeconfigKey] exI [of _ data] exI [of _ mcpKubeconfigMountPath]
        exI [of _ "kro_release_spec tns n (ver_HelmValues v)"] exI [of _ helm])
      (simp add: kro_release_spec_def kubeconfigPostRenderers_def)
qed

theorem CreateOrUpdate_mounts_kubeconfig_witness:
  "\<exists>t spec helm. run_state (CreateOrUpdate sample_env sample_reconciler sample_pc sample_context)
       (sample_state ''v0.9.3'') = (Returned (no_requeue, None), t)
   \<and> last (hist t) = PlatformUpsertHelmRelease
       (object_key ''mcp--tenant--mcp-01'' HelmReleaseName) spec (Inr helm)"
  using CreateOrUpdate_mounts_kubeconfig [OF run_fst [OF sample_apply_done] sample_namespace sample_resolves]
    run_fst [OF sample_apply_done]
  by auto

end
