(* ===== verification/Kro_Delete.thy ===== *)
theory Kro_Delete
  imports Kro_Apply
begin

text \<open>
  What \<open>Delete\<close> does: the guard on the control plane's resource graph definitions, the
  tear-down of the three Flux objects with its confirmation, and the reported status.
\<close>

section \<open>The loop over the managed objects\<close>

text \<open>Each object: a deletion that succeeded or found nothing, then a read.\<close>

fun teardown_calls :: "libs \<Rightarrow> managed_object list \<Rightarrow> event list \<Rightarrow> bool" where
  "teardown_calls L [] evs = (evs = [])"
| "teardown_calls L (m # ms) evs =
     (\<exists>d g rest. evs = PlatformDelete m d # PlatformGet m g # rest
        \<and> ignore_not_found L d = None \<and> teardown_calls L ms rest)"

text \<open>Only a read that answers NotFound confirms that the object is gone.\<close>

fun confirmed_gone :: "libs \<Rightarrow> event \<Rightarrow> bool" where
  "confirmed_gone L (PlatformGet m g) = is_not_found L g"
| "confirmed_gone L _ = True"

lemma delete_objects_step:
  "run_state (delete_objects E (m # ms) b) s =
     (let d = on_delete E (hist s) m; s1 = s\<lparr>hist := hist s @ [PlatformDelete m d]\<rparr>
      in case (ignore_not_found (lib E) d, d) of
           (Some _, Some err) \<Rightarrow>
             (Inl (errorf ''delete object failed'' err),
              s1\<lparr>obj := StatusTerminatingWithReason (lib E) Kro_API conditionReasonError
                   (error_text err) (obj s1)\<rparr>)
         | _ \<Rightarrow>
             (let g = on_get E (hist s1) m
              in run_state (delete_objects E ms (if \<not> is_not_found (lib E) g then True else b))
                   (s1\<lparr>hist := hist s1 @ [PlatformGet m g]\<rparr>)))"
  by (simp add: Let_def split: option.split)

lemma ignore_not_found_Some: "ignore_not_found L d = Some e \<Longrightarrow> \<exists>e'. d = Some e'"
  by (cases d) (simp_all add: ignore_not_found_def)

lemma delete_objects_done:
  "run_state (delete_objects E ms b) s = (Inr still, t) \<Longrightarrow>
    \<exists>evs. logged s evs t \<and> teardown_calls (lib E) ms evs
      \<and> (still \<longleftrightarrow> b \<or> \<not> list_all (confirmed_gone (lib E)) evs)"
proof (induction ms arbitrary: b s)
  case Nil
  then show ?case by auto
next
  case (Cons m ms)
  define d where "d = on_delete E (hist s) m"
  define g where "g = on_get E (hist s @ [PlatformDelete m d]) m"
  define s2 where "s2 = s\<lparr>hist := hist s @ [PlatformDelete m d, PlatformGet m g]\<rparr>"
  have d: "ignore_not_found (lib E) d = None"
    using Cons.prems ignore_not_found_Some [of "lib E" d]
    by (auto simp del: delete_objects.simps simp: delete_objects_step Let_def d_def split: option.splits)
  have run: "run_state (delete_objects E ms (if \<not> is_not_found (lib E) g then True else b)) s2
      = (Inr still, t)"
    using Cons.prems d
    by (simp del: delete_objects.simps add: delete_objects_step Let_def d_def [symmetric]
        g_def [symmetric] s2_def)
  from Cons.IH [OF run] obtain evs where evs: "logged s2 evs t" "teardown_calls (lib E) ms evs"
    "still \<longleftrightarrow> (if \<not> is_not_found (lib E) g then True else b) \<or> \<not> list_all (confirmed_gone (lib E)) evs"
    by blast
  have "logged s ([PlatformDelete m d, PlatformGet m g] @ evs) t"
    using evs(1) by (auto simp: s2_def dest: logged_after)
  with d evs show ?case
    by (intro exI [of _ "PlatformDelete m d # PlatformGet m g # evs"]) auto
qed

lemma delete_objects_failed:
  "run_state (delete_objects E ms b) s = (Inl err, t) \<Longrightarrow>
    \<exists>before m after evs e. ms = before @ m # after \<and> teardown_calls (lib E) before evs
      \<and> IgnoreNotFound (lib E) e \<noteq> None \<and> err = errorf ''delete object failed'' e
      \<and> hist t = hist s @ evs @ [PlatformDelete m (Some e)]
      \<and> obj t = StatusTerminatingWithReason (lib E) Kro_API conditionReasonError (error_text e) (obj s)"
proof (induction ms arbitrary: b s)
  case Nil
  then show ?case by simp
next
  case (Cons m ms)
  define d where "d = on_delete E (hist s) m"
  show ?case
  proof (cases "ignore_not_found (lib E) d")
    case (Some e0)
    then obtain e where e: "d = Some e" "IgnoreNotFound (lib E) e \<noteq> None"
      by (cases d) (simp_all add: ignore_not_found_def)
    then show ?thesis
      using Cons.prems Some
      by (intro exI [of _ "[]"] exI [of _ m] exI [of _ ms] exI [of _ e])
        (auto simp del: delete_objects.simps simp: delete_objects_step Let_def d_def [symmetric])
  next
    case None
    define g where "g = on_get E (hist s @ [PlatformDelete m d]) m"
    define s2 where "s2 = s\<lparr>hist := hist s @ [PlatformDelete m d, PlatformGet m g]\<rparr>"
    have run: "run_state (delete_objects E ms (if \<not> is_not_found (lib E) g then True else b)) s2
        = (Inl err, t)"
      using Cons.prems None
      by (simp del: delete_objects.simps add: delete_objects_step Let_def d_def [symmetric]
          g_def [symmetric] s2_def)
    from Cons.IH [OF run] obtain before m' after evs e where
      "ms = before @ m' # after" "teardown_calls (lib E) before evs" "IgnoreNotFound (lib E) e \<noteq> None"
      "err = errorf ''delete object failed'' e" "hist t = hist s2 @ evs @ [PlatformDelete m' (Some e)]"
      "obj t = StatusTerminatingWithReason (lib E) Kro_API conditionReasonError (error_text e) (obj s2)"
      by blast
    with None show ?thesis
      by (intro exI [of _ "m # before"] exI [of _ m'] exI [of _ after]
          exI [of _ "PlatformDelete m d # PlatformGet m g # evs"] exI [of _ e])
        (simp add: s2_def)
  qed
qed

section \<open>The tear-down\<close>

lemma delete_managed_cases:
  assumes "run_state (delete_managed E tns) s = (out, t)"
  obtains (failed) before m after evs e where
      "managed_objects tns = before @ m # after" "teardown_calls (lib E) before evs"
      "out = Returned (no_requeue, Some (errorf ''delete object failed'' e))"
      "hist t = hist s @ evs @ [PlatformDelete m (Some e)]"
      "obj t = StatusTerminatingWithReason (lib E) Kro_API conditionReasonError (error_text e)
         (set_resources (managedResources (lib E) tns Terminating) (obj s))"
    | (pending) evs where
      "teardown_calls (lib E) (managed_objects tns) evs" "\<not> list_all (confirmed_gone (lib E)) evs"
      "out = Returned (\<lparr>RequeueAfter = 10 * time_Second\<rparr>, None)" "hist t = hist s @ evs"
      "obj t = set_resources (managedResources (lib E) tns Terminating) (obj s)"
    | (gone) evs where
      "teardown_calls (lib E) (managed_objects tns) evs" "list_all (confirmed_gone (lib E)) evs"
      "out = Returned (no_requeue, None)" "hist t = hist s @ evs"
      "obj t = StatusReady (lib E) Kro_API (set_resources []
         (set_resources (managedResources (lib E) tns Terminating) (obj s)))"
proof -
  define s1 where "s1 = s\<lparr>obj := set_resources (managedResources (lib E) tns Terminating) (obj s)\<rparr>"
  obtain res u where run: "run_state (delete_objects E (managed_objects tns) False) s1 = (res, u)"
    by (cases "run_state (delete_objects E (managed_objects tns) False) s1")
  show thesis
  proof (cases res)
    case (Inl err)
    from delete_objects_failed [OF run [unfolded Inl]] assms run Inl show thesis
      by (elim exE conjE, intro failed) (auto simp: delete_managed_def s1_def [symmetric], simp_all add: s1_def)
  next
    case (Inr still)
    from delete_objects_done [OF run [unfolded Inr]] obtain evs where evs: "logged s1 evs u"
      "teardown_calls (lib E) (managed_objects tns) evs" "still \<longleftrightarrow> \<not> list_all (confirmed_gone (lib E)) evs"
      by auto
    show thesis
    proof (cases still)
      case True
      with assms run Inr evs logged_hist [OF evs(1)] logged_obj [OF evs(1)] show thesis
        by (intro pending) (auto simp: delete_managed_def s1_def mult.commute)
    next
      case False
      with assms run Inr evs logged_hist [OF evs(1)] logged_obj [OF evs(1)] show thesis
        by (intro gone) (auto simp: delete_managed_def s1_def)
    qed
  qed
qed

section \<open>The run of Delete\<close>

text \<open>The control plane has no resource graph definitions, or not even their type.\<close>

definition no_graphs :: "libs \<Rightarrow> goerror + nat \<Rightarrow> bool" where
  "no_graphs L r \<longleftrightarrow> (case r of Inl e \<Rightarrow> IsNoMatchError L e \<or> IsNotFound L e | Inr n \<Rightarrow> n = 0)"

definition graph_list :: "Cluster \<Rightarrow> (goerror + nat) \<Rightarrow> event" where
  "graph_list c r = ListObjects c resourceGraphDefinitionList r"

lemma countResourceGraphDefinitions_run:
  "run_state (countResourceGraphDefinitions E c) s =
     (let r = on_list E (hist s) c resourceGraphDefinitionList
      in (case r of Inl e \<Rightarrow> if no_graphs (lib E) r then Inr 0 else Inl e | Inr n \<Rightarrow> Inr n,
          s\<lparr>hist := hist s @ [graph_list c r]\<rparr>))"
  by (simp add: countResourceGraphDefinitions_def graph_list_def no_graphs_def Let_def split: sum.split)

lemma delete_managed_runs:
  obtains out t where "run_state (delete_managed E tns) s = (out, t)"
  by (cases "run_state (delete_managed E tns) s")

lemma Delete_cases:
  assumes run: "run_state (Delete E r pc cc) s = (out, t)"
    and ns: "StableMCPNamespace (lib E) (meta_Name (kro_Meta (obj s))) (meta_Namespace (kro_Meta (obj s)))
      = Inr tns"
  obtains (unguarded) u where "cc_MCPCluster cc = None" "hist u = hist s"
      "obj u = StatusTerminating (lib E) Kro_API (obj s)"
      "run_state (delete_managed E tns) u = (out, t)"
    | (unknown) c e where "cc_MCPCluster cc = Some c"
      "on_list E (hist s) c resourceGraphDefinitionList = Inl e" "\<not> no_graphs (lib E) (Inl e)"
      "out = Returned (no_requeue,
         Some (errorf ''failed to check for remaining ResourceGraphDefinitions'' e))"
      "hist t = hist s @ [graph_list c (Inl e)]"
      "obj t = StatusTerminatingWithReason (lib E) Kro_API conditionReasonError (error_text e)
         (StatusTerminating (lib E) Kro_API (obj s))"
    | (blocked) c n where "cc_MCPCluster cc = Some c" "n > 0"
      "on_list E (hist s) c resourceGraphDefinitionList = Inr n"
      "out = Returned (\<lparr>RequeueAfter = 10 * time_Second\<rparr>, None)"
      "hist t = hist s @ [graph_list c (Inr n)]"
      "obj t = set_resources (managedResources (lib E) tns Terminating)
         (StatusTerminatingMessage (lib E) Kro_API (blocked_message n)
           (StatusTerminating (lib E) Kro_API (obj s)))"
    | (clear) c g u where "cc_MCPCluster cc = Some c" "no_graphs (lib E) g"
      "on_list E (hist s) c resourceGraphDefinitionList = g"
      "hist u = hist s @ [graph_list c g]"
      "obj u = StatusTerminating (lib E) Kro_API (obj s)"
      "run_state (delete_managed E tns) u = (out, t)"
proof (cases "cc_MCPCluster cc")
  case None
  with run ns show thesis
    by (intro unguarded [of "s\<lparr>obj := StatusTerminating (lib E) Kro_API (obj s)\<rparr>"])
      (simp_all add: Delete_def)
next
  case (Some c)
  define g where "g = on_list E (hist s) c resourceGraphDefinitionList"
  note facts = run ns Some g_def [symmetric]
  show thesis
  proof (cases g)
    case (Inl e)
    show thesis
    proof (cases "no_graphs (lib E) g")
      case True
      with facts Inl show thesis
        by (auto simp: Delete_def countResourceGraphDefinitions_run Let_def intro!: clear [of c g])
    next
      case False
      with facts Inl show thesis
        by (auto simp: Delete_def countResourceGraphDefinitions_run Let_def intro!: unknown [of c e])
    qed
  next
    case (Inr n)
    show thesis
    proof (cases "n > 0")
      case True
      with facts Inr show thesis
        by (auto simp: Delete_def countResourceGraphDefinitions_run Let_def deletionBlockedRequeue_def
            intro!: blocked [of c n])
    next
      case False
      then have "no_graphs (lib E) g" using Inr by (simp add: no_graphs_def)
      with facts Inr False show thesis
        by (auto simp: Delete_def countResourceGraphDefinitions_run Let_def intro!: clear [of c g])
    qed
  qed
qed

lemma Delete_no_namespace:
  assumes "StableMCPNamespace (lib E) (meta_Name (kro_Meta (obj s))) (meta_Namespace (kro_Meta (obj s)))
      = Inl e"
  shows "run_state (Delete E r pc cc) s =
    (Returned (no_requeue, Some (errorf ''failed to determine stable namespace for Kro instance'' e)),
     s\<lparr>obj := StatusTerminating (lib E) Kro_API (obj s)\<rparr>)"
  using assms by (simp add: Delete_def)

text \<open>The calls \<open>Delete\<close> may make.\<close>

fun delete_confined :: "ClusterContext \<Rightarrow> string \<Rightarrow> event \<Rightarrow> bool" where
  "delete_confined cc tns (ListObjects c g _) \<longleftrightarrow>
     cc_MCPCluster cc = Some c \<and> g = resourceGraphDefinitionList"
| "delete_confined cc tns (PlatformDelete m _) \<longleftrightarrow> m \<in> set (managed_objects tns)"
| "delete_confined cc tns (PlatformGet m _) \<longleftrightarrow> m \<in> set (managed_objects tns)"
| "delete_confined cc tns _ = False"

lemma delete_confined_objects:
  "set ms \<subseteq> set (managed_objects tns) \<Longrightarrow> emits_only (delete_confined cc tns) (delete_objects E ms b)"
  by (induction ms arbitrary: b) (auto intro!: emits split: option.splits prod.splits)

lemma delete_confined_managed [emits]: "emits_only (delete_confined cc tns) (delete_managed E tns)"
  by (auto simp: delete_managed_def intro!: emits delete_confined_objects)

lemma delete_confined_count [emits]:
  "cc_MCPCluster cc = Some c \<Longrightarrow> emits_only (delete_confined cc tns) (countResourceGraphDefinitions E c)"
  by (auto simp: countResourceGraphDefinitions_def intro!: emits)

fun is_delete :: "event \<Rightarrow> bool" where
  "is_delete (PlatformDelete m r) = True"
| "is_delete _ = False"

lemma is_delete_graph_list [simp]: "\<not> is_delete (graph_list c r)"
  by (simp add: graph_list_def)

lemma teardown_starts:
  assumes "run_state (delete_managed E tns) u = (out, t)"
  shows "\<exists>d rest. hist t = hist u @ PlatformDelete (OCIRepositoryObject (object_key tns OCIRepositoryName)) d # rest"
  using assms
proof (cases rule: delete_managed_cases)
  case (failed before m after evs e)
  then show ?thesis
    by (cases before) (auto simp: managed_objects_def)
qed (auto simp: managed_objects_def)

lemma delete_confined_run:
  assumes run: "run_state (Delete E r pc cc) s = (out, t)"
    and ns: "StableMCPNamespace (lib E) (meta_Name (kro_Meta (obj s))) (meta_Namespace (kro_Meta (obj s)))
      = Inr tns"
  shows "out \<noteq> Panicked \<and> (\<exists>evs. hist t = hist s @ evs \<and> list_all (delete_confined cc tns) evs)"
proof -
  have managed: ?thesis if tail: "run_state (delete_managed E tns) u = (out, t)"
    and u: "hist u = hist s @ before" "list_all (delete_confined cc tns) before" for u before
  proof -
    obtain evs where "hist t = hist u @ evs" "list_all (delete_confined cc tns) evs"
      using delete_confined_managed tail by (rule emits_onlyD)
    moreover from tail have "out \<noteq> Panicked" by (cases rule: delete_managed_cases) auto
    ultimately show ?thesis using u by auto
  qed
  from run ns show ?thesis
  proof (cases rule: Delete_cases)
    case (unguarded u)
    with managed [of u "[]"] show ?thesis by simp
  next
    case (clear c g u)
    with managed [of u "[graph_list c g]"] show ?thesis by (simp add: graph_list_def)
  qed (simp_all add: graph_list_def)
qed

lemma Delete_finished:
  assumes run: "run_state (Delete E r pc cc) s = (Returned (res, None), t)"
    and res: "\<not> RequeueAfter res > 0"
  obtains tns before evs where
    "StableMCPNamespace (lib E) (meta_Name (kro_Meta (obj s))) (meta_Namespace (kro_Meta (obj s))) = Inr tns"
    "hist t = hist s @ before @ evs" "teardown_calls (lib E) (managed_objects tns) evs"
    "list_all (confirmed_gone (lib E)) evs"
    "\<And>c. cc_MCPCluster cc = Some c \<Longrightarrow> \<exists>g. before = [graph_list c g] \<and> no_graphs (lib E) g"
    "cc_MCPCluster cc = None \<Longrightarrow> before = []"
proof (cases "StableMCPNamespace (lib E) (meta_Name (kro_Meta (obj s))) (meta_Namespace (kro_Meta (obj s)))")
  case (Inl e)
  with run show thesis by (simp add: Delete_no_namespace)
next
  case (Inr tns)
  note finish = that [OF Inr]
  have managed: thesis if tail: "run_state (delete_managed E tns) u = (Returned (res, None), t)"
    and u: "hist u = hist s @ before"
    and guard: "\<And>c. cc_MCPCluster cc = Some c \<Longrightarrow> \<exists>g. before = [graph_list c g] \<and> no_graphs (lib E) g"
    and unguarded: "cc_MCPCluster cc = None \<Longrightarrow> before = []" for u before
    using tail
  proof (cases rule: delete_managed_cases)
    case (pending evs)
    with res show thesis by (simp add: time_Second_def)
  next
    case (gone evs)
    with u guard unguarded show thesis by (intro finish [of before evs]) simp_all
  qed auto
  from run Inr show thesis
  proof (cases rule: Delete_cases)
    case (unguarded u)
    then show thesis by (intro managed [of u "[]"]) simp_all
  next
    case (clear c g u)
    then show thesis by (intro managed [of u "[graph_list c g]"]) auto
  next
    case (blocked c n)
    with res show thesis by (simp add: time_Second_def)
  qed simp
qed

lemma unguarded_run:
  assumes run: "run_state (Delete E r pc cc) s = (out, t)"
    and ns: "StableMCPNamespace (lib E) (meta_Name (kro_Meta (obj s))) (meta_Namespace (kro_Meta (obj s)))
      = Inr tns"
    and cc: "cc_MCPCluster cc = None"
  shows "\<exists>d rest. hist t = hist s
      @ PlatformDelete (OCIRepositoryObject (object_key tns OCIRepositoryName)) d # rest
    \<and> (\<forall>c g. graph_list c g \<notin> set rest)"
proof -
  obtain u where u: "hist u = hist s" "run_state (delete_managed E tns) u = (out, t)"
    using run ns by (cases rule: Delete_cases) (auto simp: cc)
  obtain evs where evs: "hist t = hist u @ evs" "list_all (delete_confined cc tns) evs"
    using delete_confined_managed u(2) by (rule emits_onlyD)
  have "graph_list c g \<notin> set evs" for c g
    using evs(2) cc by (auto simp: list_all_iff graph_list_def)
  with teardown_starts [OF u(2)] u evs show ?thesis by auto
qed

section \<open>Properties\<close>

text \<open>
  C6. The guard: when the managed control plane is reachable, \<open>Delete\<close> deletes nothing on the
  platform unless its very first call listed the resource graph definitions there and found
  none (or found that the type is not installed).
\<close>
theorem Delete_guard:
  assumes run: "run_state (Delete E r pc cc) s = (out, t)"
    and c: "cc_MCPCluster cc = Some c"
    and evs: "hist t = hist s @ evs" and del: "PlatformDelete m d \<in> set evs"
  shows "\<exists>g rest. evs = graph_list c g # rest \<and> no_graphs (lib E) g"
proof (cases "StableMCPNamespace (lib E) (meta_Name (kro_Meta (obj s))) (meta_Namespace (kro_Meta (obj s)))")
  case (Inl e)
  then have "hist t = hist s" using run Delete_no_namespace [of E s e r pc cc] by auto
  with evs del show ?thesis by simp
next
  case (Inr tns)
  from run Inr show ?thesis
  proof (cases rule: Delete_cases)
    case (clear c' g u)
    obtain rest where "hist t = hist u @ rest"
      using teardown_starts [OF clear(6)] by blast
    with clear c evs show ?thesis by auto
  qed (use c evs del in \<open>auto simp: graph_list_def\<close>)
qed

theorem Delete_guard_witness:
  "\<exists>t rest. run_state (Delete sample_env sample_reconciler None sample_context) (sample_state ''v0.9.3'')
      = (Returned (no_requeue, None), t)
    \<and> hist t = graph_list (Cluster ''mcp'') (Inr 0) # rest"
proof -
  define out t where "out = fst (run_state (Delete sample_env sample_reconciler None sample_context) (sample_state ''v0.9.3''))"
    and "t = snd (run_state (Delete sample_env sample_reconciler None sample_context) (sample_state ''v0.9.3''))"
  have run: "run_state (Delete sample_env sample_reconciler None sample_context) (sample_state ''v0.9.3'') = (out, t)"
    by (simp add: out_def t_def)
  have out: "out = Returned (no_requeue, None)"
    and hist: "PlatformDelete (OCIRepositoryObject \<lparr>key_Namespace = ''mcp--tenant--mcp-01'', key_Name = OCIRepositoryName\<rparr>) None \<in> set (hist t)"
    by (simp_all add: out_def t_def sample_runs Delete_def delete_managed_def
        managed_objects_def countResourceGraphDefinitions_def ignore_not_found_def is_not_found_def)
  have "\<exists>g rest. hist t = graph_list (Cluster ''mcp'') g # rest \<and> no_graphs (lib sample_env) g"
    by (rule Delete_guard [OF run _ _ hist]) (simp_all add: sample_context_def sample_state_def)
  then obtain g rest where "hist t = graph_list (Cluster ''mcp'') g # rest" by blast
  moreover have "hd (hist t) = graph_list (Cluster ''mcp'') (Inr 0)"
    by (simp add: out_def t_def sample_runs Delete_def delete_managed_def graph_list_def
        managed_objects_def countResourceGraphDefinitions_def ignore_not_found_def is_not_found_def)
  ultimately show ?thesis using run out by auto
qed

text \<open>
  C29. Deletion is blocked, not failed, while \<open>n\<close> resource graph definitions remain: the listing is
  the only call, nothing is deleted, the run asks to be called again in ten seconds, and the
  tenant sees phase Terminating, a message with the number, and the three resources.
\<close>
theorem Delete_blocked:
  assumes laws: "condition_laws (lib E)"
    and ns: "StableMCPNamespace (lib E) (meta_Name (kro_Meta (obj s))) (meta_Namespace (kro_Meta (obj s)))
      = Inr tns"
    and c: "cc_MCPCluster cc = Some c"
    and n: "on_list E (hist s) c resourceGraphDefinitionList = Inr n" "n > 0"
  shows "\<exists>k. run_state (Delete E r pc cc) s = (Returned (\<lparr>RequeueAfter = 10 * time_Second\<rparr>, None),
        s\<lparr>hist := hist s @ [graph_list c (Inr n)], obj := k\<rparr>)
    \<and> status_Phase (kro_Status k) = ''Terminating''
    \<and> kro_ready (lib E) k ConditionFalse ''Terminating''
        (''deletion blocked: waiting for '' @ nat_decimal n
          @ '' kro ResourceGraphDefinition(s) to be removed from the control plane'')
    \<and> status_Resources (kro_Status k) = managedResources (lib E) tns Terminating
    \<and> kro_Meta k = kro_Meta (obj s) \<and> kro_Spec k = kro_Spec (obj s)"
  unfolding blocked_message_def [symmetric]
  using ns c n kro_ready_reported(5) [OF laws]
  by (simp add: Delete_def countResourceGraphDefinitions_run Let_def deletionBlockedRequeue_def)
    (intro exI conjI, rule refl, simp_all add: StatusPhaseTerminating_def)

theorem Delete_blocked_witness:
  "let E = sample_env\<lparr>on_list := \<lambda>h c g. Inr 2\<rparr>
   in \<exists>t. run_state (Delete E sample_reconciler None sample_context) (sample_state ''v0.9.3'')
        = (Returned (\<lparr>RequeueAfter = 10000000000\<rparr>, None), t)
      \<and> hist t = [graph_list (Cluster ''mcp'') (Inr 2)]
      \<and> status_Phase (kro_Status (obj t)) = ''Terminating''"
proof -
  define E where "E = sample_env\<lparr>on_list := \<lambda>h c g. Inr 2\<rparr>"
  have "\<exists>k. run_state (Delete E sample_reconciler None sample_context) (sample_state ''v0.9.3'')
      = (Returned (\<lparr>RequeueAfter = 10 * time_Second\<rparr>, None),
         (sample_state ''v0.9.3'')\<lparr>hist := hist (sample_state ''v0.9.3'')
           @ [graph_list (Cluster ''mcp'') (Inr 2)], obj := k\<rparr>)
    \<and> status_Phase (kro_Status k) = ''Terminating''"
    using Delete_blocked [where E = E and s = "sample_state ''v0.9.3''" and cc = sample_context
        and c = "Cluster ''mcp''" and n = 2 and r = sample_reconciler and pc = None
        and tns = "''mcp--tenant--mcp-01''"] sample_condition_laws
    by (auto simp: E_def sample_runs)
  then show ?thesis
    by (fold E_def) (auto simp: Let_def time_Second_def sample_state_def)
qed

text \<open>
  C7. Deletion is reported as finished only when it is: a run of \<open>Delete\<close> that returns without
  error and without a requeue has deleted the OCI repository and both releases, each followed
  by a read that answered NotFound, and lists no resources any more. Every other run without an error
  asks to be called again in ten seconds, with phase Terminating and the three resources.
\<close>
theorem Delete_outcome:
  assumes laws: "condition_laws (lib E)"
    and run: "run_state (Delete E r pc cc) s = (Returned (res, None), t)"
    and ns: "StableMCPNamespace (lib E) (meta_Name (kro_Meta (obj s))) (meta_Namespace (kro_Meta (obj s)))
      = Inr tns"
  shows "if RequeueAfter res = 0
    then (\<exists>before evs. hist t = hist s @ before @ evs
        \<and> teardown_calls (lib E) (managed_objects tns) evs \<and> list_all (confirmed_gone (lib E)) evs)
      \<and> status_Resources (kro_Status (obj t)) = []
      \<and> status_Phase (kro_Status (obj t)) = StatusPhaseReady
      \<and> kro_ready (lib E) (obj t) ConditionTrue ''ReconcileSuccess'' ''Domain Service is ready''
    else RequeueAfter res = 10 * time_Second
      \<and> status_Resources (kro_Status (obj t)) = managedResources (lib E) tns Terminating
      \<and> status_Phase (kro_Status (obj t)) = StatusPhaseTerminating"
proof -
  have managed: ?thesis if tail: "run_state (delete_managed E tns) u = (Returned (res, None), t)"
    and u: "hist u = hist s @ before" "obj u = StatusTerminating (lib E) Kro_API (obj s)" for u before
    using tail
  proof (cases rule: delete_managed_cases)
    case (pending evs)
    with u show ?thesis by (simp add: time_Second_def)
  next
    case (gone evs)
    then have "\<exists>before evs. hist t = hist s @ before @ evs
        \<and> teardown_calls (lib E) (managed_objects tns) evs \<and> list_all (confirmed_gone (lib E)) evs"
      using u by (intro exI [of _ before] exI [of _ evs]) simp
    with gone kro_ready_reported(2) [OF laws] show ?thesis by simp
  qed auto
  from run ns show ?thesis
  proof (cases rule: Delete_cases)
    case (unguarded u)
    with managed [of u "[]"] show ?thesis by simp
  next
    case (clear c g u)
    with managed [of u "[graph_list c g]"] show ?thesis by simp
  next
    case (blocked c n)
    then show ?thesis by (simp add: time_Second_def)
  qed simp
qed

lemmas sample_delete = sample_runs Delete_def delete_managed_def managed_objects_def
  countResourceGraphDefinitions_def ignore_not_found_def is_not_found_def

theorem Delete_outcome_witness:
  "(\<exists>t. run_state (Delete sample_env sample_reconciler None sample_context) (sample_state ''v0.9.3'')
      = (Returned (no_requeue, None), t) \<and> status_Resources (kro_Status (obj t)) = [])
   \<and> (let E = sample_env\<lparr>on_get := \<lambda>h m. None\<rparr>
      in \<exists>t. run_state (Delete E sample_reconciler None sample_context) (sample_state ''v0.9.3'')
        = (Returned (\<lparr>RequeueAfter = 10000000000\<rparr>, None), t)
        \<and> status_Phase (kro_Status (obj t)) = StatusPhaseTerminating)"
proof -
  define E where "E = sample_env\<lparr>on_get := \<lambda>h m. None\<rparr>"
  have E: "lib E = sample_libs" by (simp add: E_def)
  have gone: "fst (run_state (Delete sample_env sample_reconciler None sample_context)
      (sample_state ''v0.9.3'')) = Returned (no_requeue, None)"
    by (simp add: sample_delete)
  have pending: "fst (run_state (Delete E sample_reconciler None sample_context)
      (sample_state ''v0.9.3'')) = Returned (\<lparr>RequeueAfter = 10000000000\<rparr>, None)"
    by (simp add: E_def sample_delete time_Second_def)
  show ?thesis
    using Delete_outcome [OF _ run_fst [OF gone] sample_namespace]
      Delete_outcome [OF _ run_fst [OF pending] sample_namespace] sample_condition_laws
      run_fst [OF gone] run_fst [OF pending]
    by (fold E_def) (auto simp: E)
qed



text \<open>
  Whatever the environment answers, \<open>Delete\<close> never panics, lists nothing but the resource
  graph definitions of this tenant's control plane, and deletes and reads nothing but the three
  managed objects in the tenant's namespace; it creates and changes nothing.
\<close>
theorem Delete_confined:
  assumes run: "run_state (Delete E r pc cc) s = (out, t)"
    and ns: "StableMCPNamespace (lib E) (meta_Name (kro_Meta (obj s))) (meta_Namespace (kro_Meta (obj s)))
      = Inr tns"
  shows "out \<noteq> Panicked \<and> (\<exists>evs. hist t = hist s @ evs \<and> list_all (delete_confined cc tns) evs)"
  using run ns by (rule delete_confined_run)

theorem Delete_confined_witness:
  "\<exists>t. run_state (Delete sample_env sample_reconciler None sample_context) (sample_state ''v0.9.3'')
      = (Returned (no_requeue, None), t)
    \<and> list_all (delete_confined sample_context ''mcp--tenant--mcp-01'') (hist t) \<and> length (hist t) = 7"
proof -
  have gone: "fst (run_state (Delete sample_env sample_reconciler None sample_context)
      (sample_state ''v0.9.3'')) = Returned (no_requeue, None)"
    by (simp add: sample_delete)
  have "length (hist (snd (run_state (Delete sample_env sample_reconciler None sample_context)
      (sample_state ''v0.9.3'')))) = 7"
    by (simp add: sample_delete)
  with Delete_confined [OF run_fst [OF gone] sample_namespace] run_fst [OF gone] show ?thesis
    by (auto simp: sample_state_def)
qed

text \<open>
  Without access to the control plane there is no guard: the deletion starts at once, with
  no listing before it, whatever resource graph definitions the control plane may hold.
\<close>
theorem Delete_without_access:
  assumes run: "run_state (Delete E r pc cc) s = (out, t)"
    and ns: "StableMCPNamespace (lib E) (meta_Name (kro_Meta (obj s))) (meta_Namespace (kro_Meta (obj s)))
      = Inr tns"
    and cc: "cc_MCPCluster cc = None"
  shows "\<exists>d rest. hist t = hist s
      @ PlatformDelete (OCIRepositoryObject (object_key tns OCIRepositoryName)) d # rest
    \<and> (\<forall>c g. graph_list c g \<notin> set rest)"
  using run ns cc by (rule unguarded_run)

theorem Delete_without_access_witness:
  "\<exists>t d rest. run_state (Delete (sample_env\<lparr>on_list := \<lambda>h c g. Inr 2\<rparr>) sample_reconciler None
      (sample_context\<lparr>cc_MCPCluster := None\<rparr>)) (sample_state ''v0.9.3'')
      = (Returned (no_requeue, None), t)
    \<and> hist t = PlatformDelete (OCIRepositoryObject
        (object_key ''mcp--tenant--mcp-01'' OCIRepositoryName)) d # rest"
proof -
  define E cc where "E = sample_env\<lparr>on_list := \<lambda>h c g. Inr 2\<rparr>"
    and "cc = sample_context\<lparr>cc_MCPCluster := None\<rparr>"
  have E: "lib E = sample_libs" by (simp add: E_def)
  have gone: "fst (run_state (Delete E sample_reconciler None cc) (sample_state ''v0.9.3''))
      = Returned (no_requeue, None)"
    by (simp add: E_def cc_def sample_delete)
  have "\<exists>d rest. hist (snd (run_state (Delete E sample_reconciler None cc) (sample_state ''v0.9.3'')))
      = PlatformDelete (OCIRepositoryObject (object_key ''mcp--tenant--mcp-01'' OCIRepositoryName)) d # rest"
    using Delete_without_access [OF run_fst [OF gone] sample_namespace [OF E]]
    by (auto simp: cc_def sample_state_def)
  with run_fst [OF gone] show ?thesis by (fold E_def cc_def) blast
qed

end
