(* ===== verification/SP_Reconciler.thy ===== *)
theory SP_Reconciler
  imports Kro_Delete
begin

text \<open>
  \<open>pkg/spruntime/spreconciler.go\<close>: the generic service provider reconciler, at the types
  \<open>main.go\<close> instantiates it with (\<open>Kro\<close> and \<open>ProviderConfig\<close>). The Go interface
  \<open>ServiceProviderReconciler\<close> is a record of two computations, so everything here is stated for
  any domain reconciler; the interface \<open>ClusterAccessProvider\<close> is implemented by third-party
  code and its calls are calls of the environment. Logging is left out.
\<close>

section \<open>The reconciler\<close>

text \<open>A watched secret: its metadata and its content.\<close>

type_synonym WatchedSecret = "ObjectMeta \<times> Secret"

text \<open>
  \<open>SecretWatcher\<close> is an optional interface of the domain reconciler: the third component is what
  the type assertion yields.
\<close>

record ServiceProviderReconciler =
  sp_CreateOrUpdate :: "ProviderConfig \<Rightarrow> ClusterContext \<Rightarrow> (gostate, reply outcome) state"
  sp_Delete :: "ProviderConfig \<Rightarrow> ClusterContext \<Rightarrow> (gostate, reply outcome) state"
  sp_IsReferencedSecret :: "(WatchedSecret \<Rightarrow> ProviderConfig option \<Rightarrow> bool) option"

text \<open>
  The cluster access reconciler is an opaque handle: \<open>main\<close> always sets it, and what its methods
  answer is up to the environment.
\<close>

datatype ClusterAccessProvider = ClusterAccessProvider string

record SPReconciler =
  platformCluster :: "Cluster option"
  onboardingCluster :: "Cluster option"
  clusterAccessReconciler :: "ClusterAccessProvider option"
  serviceProviderReconciler :: "ServiceProviderReconciler option"
  providerConfig :: "ProviderConfig option"
  withWorkloadCluster :: bool
  secretNamespace :: string

definition NewSPReconciler :: SPReconciler where
  "NewSPReconciler = \<lparr>platformCluster = None, onboardingCluster = None,
     clusterAccessReconciler = None, serviceProviderReconciler = None, providerConfig = None, withWorkloadCluster = False,
     secretNamespace = ''''\<rparr>"

definition WithPlatformCluster :: "Cluster option \<Rightarrow> SPReconciler \<Rightarrow> SPReconciler" where
  "WithPlatformCluster c r = r\<lparr>platformCluster := c\<rparr>"

definition WithOnboardingCluster :: "Cluster option \<Rightarrow> SPReconciler \<Rightarrow> SPReconciler" where
  "WithOnboardingCluster c r = r\<lparr>onboardingCluster := c\<rparr>"

definition WithClusterAccessReconciler :: "ClusterAccessProvider \<Rightarrow> SPReconciler \<Rightarrow> SPReconciler" where
  "WithClusterAccessReconciler car r = r\<lparr>clusterAccessReconciler := Some car\<rparr>"

definition WithServiceProviderReconciler :: "ServiceProviderReconciler \<Rightarrow> SPReconciler \<Rightarrow> SPReconciler" where
  "WithServiceProviderReconciler dsr r = r\<lparr>serviceProviderReconciler := Some dsr\<rparr>"

definition WithWorkloadCluster :: "bool \<Rightarrow> SPReconciler \<Rightarrow> SPReconciler" where
  "WithWorkloadCluster b r = r\<lparr>withWorkloadCluster := b\<rparr>"

definition WithSecretNamespace :: "string \<Rightarrow> SPReconciler \<Rightarrow> SPReconciler" where
  "WithSecretNamespace ns r = r\<lparr>secretNamespace := ns\<rparr>"

definition WithProviderConfig :: "ProviderConfig \<Rightarrow> SPReconciler \<Rightarrow> SPReconciler" where
  "WithProviderConfig config r = r\<lparr>providerConfig := Some config\<rparr>"

text \<open>
  The calls through the interface field; a method call on a nil interface panics, and a type
  assertion on it fails.
\<close>

definition domain_CreateOrUpdate ::
    "SPReconciler \<Rightarrow> ProviderConfig \<Rightarrow> ClusterContext \<Rightarrow> (gostate, reply outcome) state" where
  "domain_CreateOrUpdate r pc clusterCtx = (case serviceProviderReconciler r of
     None \<Rightarrow> State_Monad.return Panicked
   | Some D \<Rightarrow> sp_CreateOrUpdate D pc clusterCtx)"

definition domain_Delete ::
    "SPReconciler \<Rightarrow> ProviderConfig \<Rightarrow> ClusterContext \<Rightarrow> (gostate, reply outcome) state" where
  "domain_Delete r pc clusterCtx = (case serviceProviderReconciler r of
     None \<Rightarrow> State_Monad.return Panicked
   | Some D \<Rightarrow> sp_Delete D pc clusterCtx)"

definition secret_watcher :: "SPReconciler \<Rightarrow> (WatchedSecret \<Rightarrow> ProviderConfig option \<Rightarrow> bool) option" where
  "secret_watcher r = (case serviceProviderReconciler r of
     None \<Rightarrow> None | Some D \<Rightarrow> sp_IsReferencedSecret D)"

text \<open>\<open>emptyObj\<close> at \<open>Kro\<close>: the zero value.\<close>

definition emptyKro :: Kro where
  "emptyKro = \<lparr>
     kro_Meta = \<lparr>meta_Name = '''', meta_Namespace = '''', meta_Generation = 0,
       meta_Annotations = Map.empty, meta_Finalizers = [], meta_DeletionTimestamp = None\<rparr>,
     kro_Spec = \<lparr>spec_Version = ''''\<rparr>,
     kro_Status = \<lparr>status_Phase = '''', status_ObservedGeneration = 0, status_Conditions = [],
       status_Resources = []\<rparr>\<rparr>"

section \<open>Calls of the cluster access provider\<close>

definition access_Reconcile :: "env \<Rightarrow> ObjectKey \<Rightarrow> ('w world_scheme, reply) state" where
  "access_Reconcile E req = call (\<lambda>h. on_access_reconcile E h req) (AccessReconcile req)"

definition access_ReconcileDelete :: "env \<Rightarrow> ObjectKey \<Rightarrow> ('w world_scheme, reply) state" where
  "access_ReconcileDelete E req = call (\<lambda>h. on_access_delete E h req) (AccessReconcileDelete req)"

definition access_MCPCluster ::
    "env \<Rightarrow> ObjectKey \<Rightarrow> ('w world_scheme, Cluster option \<times> goerror option) state" where
  "access_MCPCluster E req = call (\<lambda>h. on_mcp_cluster E h req) (AccessMCPCluster req)"

definition access_MCPAccessRequest ::
    "env \<Rightarrow> ObjectKey \<Rightarrow> ('w world_scheme, AccessRequest option \<times> goerror option) state" where
  "access_MCPAccessRequest E req = call (\<lambda>h. on_mcp_request E h req) (AccessMCPAccessRequest req)"

definition access_WorkloadCluster ::
    "env \<Rightarrow> ObjectKey \<Rightarrow> ('w world_scheme, Cluster option \<times> goerror option) state" where
  "access_WorkloadCluster E req = call (\<lambda>h. on_workload_cluster E h req) (AccessWorkloadCluster req)"

definition access_WorkloadAccessRequest ::
    "env \<Rightarrow> ObjectKey \<Rightarrow> ('w world_scheme, AccessRequest option \<times> goerror option) state" where
  "access_WorkloadAccessRequest E req =
     call (\<lambda>h. on_workload_request E h req) (AccessWorkloadAccessRequest req)"

lemmas access_calls = access_Reconcile_def access_ReconcileDelete_def access_MCPCluster_def
  access_MCPAccessRequest_def access_WorkloadCluster_def access_WorkloadAccessRequest_def

section \<open>Cluster access\<close>

text \<open>A nil access request is dereferenced; a nil secret reference is the empty key.\<close>

definition retrieveSecretKey :: "AccessRequest option \<Rightarrow> ObjectKey outcome" where
  "retrieveSecretKey ar = (case ar of
     None \<Rightarrow> Panicked
   | Some a \<Rightarrow> (case ar_SecretRef a of
       None \<Rightarrow> Returned \<lparr>key_Namespace = '''', key_Name = ''''\<rparr>
     | Some n \<Rightarrow> Returned \<lparr>key_Namespace = ar_Namespace a, key_Name = n\<rparr>))"

text \<open>The condition both checks of \<open>areAccessRequestsInDeletion\<close> make.\<close>

definition request_gone :: "libs \<Rightarrow> AccessRequest option \<times> goerror option \<Rightarrow> bool" where
  "request_gone L answer = (case answer of (accessRequest, err) \<Rightarrow>
     is_not_found L err \<or>
     (case accessRequest of None \<Rightarrow> False | Some a \<Rightarrow> ar_DeletionTimestamp a \<noteq> None))"

definition areAccessRequestsInDeletion ::
    "env \<Rightarrow> SPReconciler \<Rightarrow> ObjectKey \<Rightarrow> ('w world_scheme, goerror + bool) state" where
  "areAccessRequestsInDeletion E r req = do {
     mcp \<leftarrow> access_MCPAccessRequest E req;
     if request_gone (lib E) mcp then State_Monad.return (Inr True)
     else (case snd mcp of
       Some err \<Rightarrow> State_Monad.return (Inl err)
     | None \<Rightarrow>
         if withWorkloadCluster r
         then do {
           workload \<leftarrow> access_WorkloadAccessRequest E req;
           if request_gone (lib E) workload then State_Monad.return (Inr True)
           else (case snd workload of
             Some err \<Rightarrow> State_Monad.return (Inl err)
           | None \<Rightarrow> State_Monad.return (Inr False)) }
         else State_Monad.return (Inr False)) }"

definition no_clusters :: ClusterContext where
  "no_clusters = \<lparr>cc_MCPCluster = None,
     cc_MCPAccessSecretKey = \<lparr>key_Namespace = '''', key_Name = ''''\<rparr>,
     cc_WorkloadCluster = None,
     cc_WorkloadAccessSecretKey = \<lparr>key_Namespace = '''', key_Name = ''''\<rparr>\<rparr>"

type_synonym clusters_answer = "(ClusterContext \<times> Result \<times> goerror option) outcome"

text \<open>Lines 388 to 406 of \<open>clusters\<close>: the workload cluster and the final return.\<close>

definition workload_clusters ::
    "env \<Rightarrow> SPReconciler \<Rightarrow> ObjectKey \<Rightarrow> bool \<Rightarrow> Result \<Rightarrow> ClusterContext
      \<Rightarrow> ('w world_scheme, clusters_answer) state" where
  "workload_clusters E r req requireAll res clusters =
     (if withWorkloadCluster r
      then do {
        got \<leftarrow> access_WorkloadCluster E req;
        case got of
          (_, Some err) \<Rightarrow> State_Monad.return (Returned (clusters, no_requeue, Some err))
        | (None, None) \<Rightarrow>
            if requireAll
            then State_Monad.return (Returned (clusters, \<lparr>RequeueAfter = 10 * time_Second\<rparr>, None))
            else State_Monad.return (Returned (clusters, res, None))
        | (Some workloadCluster, None) \<Rightarrow> do {
            let clusters = clusters\<lparr>cc_WorkloadCluster := Some workloadCluster\<rparr>;
            ar \<leftarrow> access_WorkloadAccessRequest E req;
            case ar of
              (_, Some err) \<Rightarrow> State_Monad.return (Returned (clusters, no_requeue, Some err))
            | (request, None) \<Rightarrow>
                (case retrieveSecretKey request of
                   Panicked \<Rightarrow> State_Monad.return Panicked
                 | Returned k \<Rightarrow> State_Monad.return (Returned
                     (clusters\<lparr>cc_WorkloadAccessSecretKey := k\<rparr>, res, None))) } }
      else State_Monad.return (Returned (clusters, res, None)))"

definition clusters ::
    "env \<Rightarrow> SPReconciler \<Rightarrow> ObjectKey \<Rightarrow> bool \<Rightarrow> ('w world_scheme, clusters_answer) state" where
  "clusters E r req requireAll = do {
     access \<leftarrow> access_Reconcile E req;
     case access of
       (_, Some err) \<Rightarrow> State_Monad.return (Returned (no_clusters, no_requeue, Some err))
     | (res, None) \<Rightarrow>
         if RequeueAfter res > 0
         then (if requireAll then State_Monad.return (Returned (no_clusters, res, None))
               else State_Monad.return (Returned (no_clusters, no_requeue, None)))
         else do {
           got \<leftarrow> access_MCPCluster E req;
           case got of
             (_, Some err) \<Rightarrow> State_Monad.return (Returned (no_clusters, no_requeue, Some err))
           | (None, None) \<Rightarrow>
               if requireAll
               then State_Monad.return (Returned (no_clusters, \<lparr>RequeueAfter = 10 * time_Second\<rparr>, None))
               else State_Monad.return (Returned (no_clusters, no_requeue, None))
           | (Some mcpCluster, None) \<Rightarrow> do {
               let clusters = no_clusters\<lparr>cc_MCPCluster := Some mcpCluster\<rparr>;
               ar \<leftarrow> access_MCPAccessRequest E req;
               case ar of
                 (_, Some err) \<Rightarrow> State_Monad.return (Returned (clusters, no_requeue, Some err))
               | (request, None) \<Rightarrow>
                   (case retrieveSecretKey request of
                      Panicked \<Rightarrow> State_Monad.return Panicked
                    | Returned k \<Rightarrow> workload_clusters E r req requireAll res
                        (clusters\<lparr>cc_MCPAccessSecretKey := k\<rparr>)) } } }"

section \<open>The two branches of a reconcile run\<close>

text \<open>
  Lines 293 to 309 of \<open>delete\<close>: remove the cluster access, then the finalizer. \<open>Update\<close> writes
  the server's answer into the object.
\<close>

definition remove_access :: "env \<Rightarrow> ObjectKey \<Rightarrow> (gostate, reply outcome) state" where
  "remove_access E req = do {
     access \<leftarrow> access_ReconcileDelete E req;
     case access of
       (_, Some err) \<Rightarrow> do {
         _ \<leftarrow> modify_obj (StatusTerminatingWithReason (lib E) Kro_API reasonReconcileError
                ''failed cluster access reconcile delete'');
         State_Monad.return (Returned (no_requeue, Some err)) }
     | (res, None) \<Rightarrow>
         if RequeueAfter res > 0 then State_Monad.return (Returned (res, None))
         else do {
           _ \<leftarrow> modify_obj (\<lambda>k. k\<lparr>kro_Meta := (kro_Meta k)\<lparr>meta_Finalizers :=
                  RemoveFinalizer (lib E) (meta_Finalizers (kro_Meta k)) Kro_Finalizer\<rparr>\<rparr>);
           sent \<leftarrow> get_obj;
           upd \<leftarrow> call (\<lambda>h. on_onboarding_update E h sent) (OnboardingUpdate sent);
           _ \<leftarrow> modify_obj (\<lambda>_. fst upd);
           case snd upd of
             Some err \<Rightarrow> do {
               _ \<leftarrow> modify_obj (StatusTerminatingWithReason (lib E) Kro_API reasonReconcileError
                      ''failed to remove finalizer'');
               State_Monad.return (Returned (no_requeue, Some err)) }
           | None \<Rightarrow> State_Monad.return (Returned (no_requeue, None)) } }"

text \<open>
  Lines 278 to 291 of \<open>delete\<close>: hand over to the domain reconciler. \<open>Some\<close> is an early return
  of \<open>delete\<close>.
\<close>

definition domain_delete ::
    "env \<Rightarrow> SPReconciler \<Rightarrow> ProviderConfig \<Rightarrow> ObjectKey
      \<Rightarrow> (gostate, reply option outcome) state" where
  "domain_delete E r pc req = do {
     got \<leftarrow> clusters E r req False;
     case got of
       Panicked \<Rightarrow> State_Monad.return Panicked
     | Returned (_, _, Some err) \<Rightarrow> do {
         _ \<leftarrow> modify_obj (StatusTerminatingWithReason (lib E) Kro_API reasonReconcileError
                ''cluster cleanup error'');
         State_Monad.return (Returned (Some (no_requeue, Some err))) }
     | Returned (clusterCtx, res, None) \<Rightarrow>
         if RequeueAfter res = 0
         then do {
           out \<leftarrow> domain_Delete r pc clusterCtx;
           case out of
             Panicked \<Rightarrow> State_Monad.return Panicked
           | Returned (_, Some err) \<Rightarrow> State_Monad.return (Returned (Some (no_requeue, Some err)))
           | Returned (res, None) \<Rightarrow>
               if RequeueAfter res > 0 then State_Monad.return (Returned (Some (res, None)))
               else State_Monad.return (Returned None) }
         else State_Monad.return (Returned None) }"

definition delete ::
    "env \<Rightarrow> SPReconciler \<Rightarrow> ProviderConfig \<Rightarrow> (gostate, reply outcome) state" where
  "delete E r pc = do {
     obj \<leftarrow> get_obj;
     let req = ObjectKeyFromMeta (kro_Meta obj);
     check \<leftarrow> areAccessRequestsInDeletion E r req;
     case check of
       Inl err \<Rightarrow> do {
         _ \<leftarrow> modify_obj (StatusProgressing (lib E) Kro_API reasonReconcileError
                ''failed to check access requests in deletion'');
         State_Monad.return (Returned (no_requeue, Some err)) }
     | Inr accessRequestsInDeletion \<Rightarrow>
         if \<not> accessRequestsInDeletion
         then do {
           early \<leftarrow> domain_delete E r pc req;
           case early of
             Panicked \<Rightarrow> State_Monad.return Panicked
           | Returned (Some reply) \<Rightarrow> State_Monad.return (Returned reply)
           | Returned None \<Rightarrow> remove_access E req }
         else remove_access E req }"

text \<open>The mutation \<open>createOrUpdate\<close> passes to controller-runtime.\<close>

definition add_finalizer :: "libs \<Rightarrow> Kro \<Rightarrow> Kro" where
  "add_finalizer L k = k\<lparr>kro_Meta := (kro_Meta k)\<lparr>meta_Finalizers :=
     AddFinalizer L (meta_Finalizers (kro_Meta k)) Kro_Finalizer\<rparr>\<rparr>"

definition createOrUpdate ::
    "env \<Rightarrow> SPReconciler \<Rightarrow> ProviderConfig \<Rightarrow> (gostate, reply outcome) state" where
  "createOrUpdate E r pc = do {
     sent \<leftarrow> get_obj;
     upsert \<leftarrow> call (\<lambda>h. on_onboarding_upsert E h sent (add_finalizer (lib E)))
       (OnboardingCreateOrUpdate sent);
     _ \<leftarrow> modify_obj (\<lambda>_. fst upsert);
     case snd upsert of
       Some err \<Rightarrow> do {
         _ \<leftarrow> modify_obj (StatusProgressing (lib E) Kro_API reasonReconcileError ''failed to add finalizer'');
         State_Monad.return (Returned (no_requeue, Some err)) }
     | None \<Rightarrow> do {
         obj \<leftarrow> get_obj;
         let req = ObjectKeyFromMeta (kro_Meta obj);
         got \<leftarrow> clusters E r req True;
         case got of
           Panicked \<Rightarrow> State_Monad.return Panicked
         | Returned (_, _, Some err) \<Rightarrow> do {
             _ \<leftarrow> modify_obj (StatusProgressing (lib E) Kro_API reasonReconcileError ''cluster setup error'');
             State_Monad.return (Returned (no_requeue, Some err)) }
         | Returned (clusterCtx, res, None) \<Rightarrow>
             if RequeueAfter res > 0 then State_Monad.return (Returned (res, None))
             else domain_CreateOrUpdate r pc clusterCtx } }"

section \<open>Reconcile\<close>

definition updateStatus :: "env \<Rightarrow> Kro \<Rightarrow> (gostate, goerror option) state" where
  "updateStatus E oldObj = do {
     newObj \<leftarrow> get_obj;
     if SemanticDeepEqual (lib E) (Kro_GetStatus oldObj) (Kro_GetStatus newObj)
     then State_Monad.return None
     else do {
       err \<leftarrow> call (\<lambda>h. on_status_patch E h newObj oldObj) (OnboardingStatusPatch newObj oldObj);
       State_Monad.return (ignore_not_found (lib E) err) } }"

text \<open>Lines 230 to 256 of \<open>Reconcile\<close>: everything the deferred status update comes after.\<close>

definition reconcile_body ::
    "env \<Rightarrow> SPReconciler \<Rightarrow> (gostate, reply outcome) state" where
  "reconcile_body E r = (case providerConfig r of
     None \<Rightarrow> do {
       _ \<leftarrow> modify_obj (StatusProgressing (lib E) Kro_API reasonReconcileError ''No ProviderConfig found'');
       State_Monad.return (Returned (no_requeue, Some (ErrorString ''provider config missing''))) }
   | Some pc \<Rightarrow> do {
       obj \<leftarrow> get_obj;
       out \<leftarrow> (if \<not> IsZero (meta_DeletionTimestamp (kro_Meta obj)) then delete E r pc
               else createOrUpdate E r pc);
       case out of
         Panicked \<Rightarrow> State_Monad.return Panicked
       | Returned (_, Some err) \<Rightarrow> State_Monad.return (Returned (no_requeue, Some err))
       | Returned (res, None) \<Rightarrow>
           if RequeueAfter res > 0 then State_Monad.return (Returned (res, None))
           else State_Monad.return (Returned (\<lparr>RequeueAfter = PollInterval (Some pc)\<rparr>, None)) })"

text \<open>
  The deferred function: it runs when the body returns and when it panics; a panic goes on
  after it. \<open>errors.Join\<close> is only called when the status update failed.
\<close>

definition with_status_update :: "env \<Rightarrow> (gostate, reply outcome) state \<Rightarrow> (gostate, reply outcome) state" where
  "with_status_update E body = do {
     oldObj \<leftarrow> get_obj;
     out \<leftarrow> body;
     failed \<leftarrow> updateStatus E oldObj;
     case out of
       Panicked \<Rightarrow> State_Monad.return Panicked
     | Returned (res, reconcileErr) \<Rightarrow> State_Monad.return (Returned (res,
         case failed of None \<Rightarrow> reconcileErr | Some err \<Rightarrow> errors_Join reconcileErr (Some err))) }"

text \<open>\<open>obj.GetAnnotations()[apiconst.OperationAnnotation]\<close>: a missing key reads as the empty string.\<close>

definition operation_annotation :: "libs \<Rightarrow> Kro \<Rightarrow> string" where
  "operation_annotation L k =
     (case meta_Annotations (kro_Meta k) (OperationAnnotation L) of None \<Rightarrow> '''' | Some v \<Rightarrow> v)"

definition drop_operation_annotation :: "libs \<Rightarrow> Kro \<Rightarrow> Kro" where
  "drop_operation_annotation L k = k\<lparr>kro_Meta := (kro_Meta k)\<lparr>meta_Annotations :=
     (meta_Annotations (kro_Meta k))(OperationAnnotation L := None)\<rparr>\<rparr>"

definition Reconcile ::
    "env \<Rightarrow> SPReconciler \<Rightarrow> ObjectKey \<Rightarrow> (gostate, reply outcome) state" where
  "Reconcile E r req = do {
     _ \<leftarrow> modify_obj (\<lambda>_. emptyKro);
     got \<leftarrow> call (\<lambda>h. on_onboarding_get E h req) (OnboardingGet req);
     case got of
       Inl err \<Rightarrow> State_Monad.return (Returned (no_requeue, IgnoreNotFound (lib E) err))
     | Inr found \<Rightarrow> do {
         _ \<leftarrow> modify_obj (\<lambda>_. found);
         if operation_annotation (lib E) found = OperationAnnotationValueIgnore (lib E)
         then State_Monad.return (Returned (no_requeue, None))
         else if operation_annotation (lib E) found = OperationAnnotationValueReconcile (lib E)
         then do {
           let patched = drop_operation_annotation (lib E) found;
           answer \<leftarrow> call (\<lambda>h. on_onboarding_patch E h patched found) (OnboardingPatch patched found);
           case answer of
             Inl err \<Rightarrow> State_Monad.return (Returned (no_requeue, Some err))
           | Inr stored \<Rightarrow> do {
               _ \<leftarrow> modify_obj (\<lambda>_. stored);
               with_status_update E (reconcile_body E r) } }
         else with_status_update E (reconcile_body E r) } }"

section \<open>Watches\<close>

definition enqueueAllObjects :: "env \<Rightarrow> ('w world_scheme, ObjectKey list) state" where
  "enqueueAllObjects E = (case onboarding_kro_gvk E of
     Inl err \<Rightarrow> State_Monad.return []
   | Inr gvk \<Rightarrow> do {
       list \<leftarrow> call (\<lambda>h. on_onboarding_list E h gvk) (OnboardingList gvk);
       case list of
         Inl err \<Rightarrow> State_Monad.return []
       | Inr items \<Rightarrow> State_Monad.return items })"

text \<open>
  The map function of the config channel: store the config the event carries (or none), then
  enqueue every object. The reconciler is returned with the pointer updated.
\<close>

definition config_update ::
    "env \<Rightarrow> SPReconciler \<Rightarrow> ProviderConfig option \<Rightarrow> ('w world_scheme, SPReconciler \<times> ObjectKey list) state" where
  "config_update E r ev = do {
     let r = (case ev of Some c \<Rightarrow> r\<lparr>providerConfig := Some c\<rparr> | None \<Rightarrow> r\<lparr>providerConfig := None\<rparr>);
     reqs \<leftarrow> enqueueAllObjects E;
     State_Monad.return (r, reqs) }"

definition mapSecretToRequests ::
    "env \<Rightarrow> SPReconciler \<Rightarrow> (WatchedSecret \<Rightarrow> ProviderConfig option \<Rightarrow> bool) \<Rightarrow> WatchedSecret
      \<Rightarrow> ('w world_scheme, ObjectKey list) state" where
  "mapSecretToRequests E r sw secret =
     (if \<not> sw secret (providerConfig r) then State_Monad.return []
      else enqueueAllObjects E)"

text \<open>
  What \<open>SetupWithManager\<close> watches: the API objects, the config channel, and the secrets of a
  namespace if the domain reconciler is a \<open>SecretWatcher\<close>.
\<close>

datatype watch = ForObject | ConfigChannel | SecretsIn string

definition SetupWithManager :: "SPReconciler \<Rightarrow> watch list" where
  "SetupWithManager r = [ForObject, ConfigChannel] @
     (case secret_watcher r of
        Some sw \<Rightarrow> if secretNamespace r \<noteq> '''' then [SecretsIn (secretNamespace r)] else []
      | None \<Rightarrow> [])"

text \<open>The secret watch with its predicate: an event of another namespace is dropped.\<close>

definition secret_event ::
    "env \<Rightarrow> SPReconciler \<Rightarrow> WatchedSecret
      \<Rightarrow> ('w world_scheme, ObjectKey list) state" where
  "secret_event E r secret = (case secret_watcher r of
     None \<Rightarrow> State_Monad.return []
   | Some sw \<Rightarrow>
       if SecretsIn (secretNamespace r) \<in> set (SetupWithManager r)
          \<and> meta_Namespace (fst secret) = secretNamespace r
       then mapSecretToRequests E r sw secret
       else State_Monad.return [])"

end
