(* ===== verification/SP_Runs.thy ===== *)
theory SP_Runs
  imports SP_Reconciler
begin

text \<open>
  How the generic reconciler runs: case lemmas for its functions, the contract of a domain
  reconciler as a locale with the runtime's guarantees under it, and its interpretation on the
  Kro domain reconciler.
\<close>

section \<open>Cluster access\<close>

text \<open>The calls of the cluster access provider.\<close>

fun access_event :: "event \<Rightarrow> bool" where
  "access_event (AccessReconcile k r) = True"
| "access_event (AccessMCPCluster k r) = True"
| "access_event (AccessMCPAccessRequest k r) = True"
| "access_event (AccessWorkloadCluster k r) = True"
| "access_event (AccessWorkloadAccessRequest k r) = True"
| "access_event _ = False"

text \<open>The reads of access requests among them.\<close>

fun request_event :: "event \<Rightarrow> bool" where
  "request_event (AccessMCPAccessRequest k r) = True"
| "request_event (AccessWorkloadAccessRequest k r) = True"
| "request_event _ = False"

lemma request_is_access: "request_event e \<Longrightarrow> access_event e"
  by (cases e) simp_all

text \<open>An answer that shows an access request of \<open>req\<close> deleted or in deletion.\<close>

fun gone_event :: "libs \<Rightarrow> ObjectKey \<Rightarrow> event \<Rightarrow> bool" where
  "gone_event L req (AccessMCPAccessRequest k a) \<longleftrightarrow> k = req \<and> request_gone L a"
| "gone_event L req (AccessWorkloadAccessRequest k a) \<longleftrightarrow> k = req \<and> request_gone L a"
| "gone_event L req _ = False"

lemma areAccessRequestsInDeletion_appends [appending]: "appends (areAccessRequestsInDeletion E r req)"
  by (auto simp: areAccessRequestsInDeletion_def access_calls intro!: appending)

lemma areAccessRequestsInDeletion_emits [emits]:
  "emits_only request_event (areAccessRequestsInDeletion E r req)"
  by (auto simp: areAccessRequestsInDeletion_def access_calls intro!: emits)

lemma areAccessRequestsInDeletion_run:
  assumes "run_state (areAccessRequestsInDeletion E r req) s = (res, t)"
  shows "\<exists>evs. logged s evs t \<and> list_all request_event evs
    \<and> (res = Inr True \<longleftrightarrow> list_ex (gone_event (lib E) req) evs)"
  using assms
  by (auto simp: areAccessRequestsInDeletion_def access_calls split: if_splits option.splits)

lemma workload_clusters_appends [appending]: "appends (workload_clusters E r req b res cc)"
  by (auto simp: workload_clusters_def access_calls Let_def intro!: appending
      split: prod.splits option.splits outcome.splits)

lemma clusters_appends [appending]: "appends (clusters E r req b)"
  by (auto simp: clusters_def access_calls Let_def intro!: appending
      split: prod.splits option.splits outcome.splits)

lemma workload_clusters_emits [emits]: "emits_only access_event (workload_clusters E r req b res cc)"
  by (auto simp: workload_clusters_def access_calls Let_def intro!: emits
      split: prod.splits option.splits outcome.splits)

lemma clusters_emits [emits]: "emits_only access_event (clusters E r req b)"
  by (auto simp: clusters_def access_calls Let_def intro!: emits
      split: prod.splits option.splits outcome.splits)

lemma logged_emits:
  assumes "appends m" "emits_only P m" "run_state m s = (a, t)"
  obtains evs where "logged s evs t" "list_all P evs"
proof -
  obtain evs where log: "logged s evs t" using assms(1,3) by (rule appendsD)
  moreover obtain evs' where "hist t = hist s @ evs'" "list_all P evs'"
    using assms(2,3) by (rule emits_onlyD)
  ultimately show thesis using logged_hist [OF log] by (intro that) simp_all
qed

section \<open>The branches\<close>

definition without_finalizer :: "libs \<Rightarrow> Kro \<Rightarrow> Kro" where
  "without_finalizer L k = k\<lparr>kro_Meta := (kro_Meta k)\<lparr>meta_Finalizers :=
     RemoveFinalizer L (meta_Finalizers (kro_Meta k)) Kro_Finalizer\<rparr>\<rparr>"

lemma remove_access_cases:
  assumes "run_state (remove_access E req) s = (out, t)"
  obtains (failed) res err where "hist t = hist s @ [AccessReconcileDelete req (res, Some err)]"
      "out = Returned (no_requeue, Some err)"
      "obj t = StatusTerminatingWithReason (lib E) Kro_API reasonReconcileError
         ''failed cluster access reconcile delete'' (obj s)"
    | (waiting) res where "RequeueAfter res > 0" "hist t = hist s @ [AccessReconcileDelete req (res, None)]"
      "out = Returned (res, None)" "obj t = obj s"
    | (updated) res k err where "\<not> RequeueAfter res > 0"
      "hist t = hist s @ [AccessReconcileDelete req (res, None),
         OnboardingUpdate (without_finalizer (lib E) (obj s)) (k, err)]"
      "out = Returned (no_requeue, err)"
  using assms
  by (auto simp: remove_access_def access_calls without_finalizer_def split: prod.splits option.splits if_splits)
    (metis prod.collapse)+

text \<open>How \<open>domain_delete\<close> reads the answer of the domain reconciler.\<close>

definition after_domain :: "reply outcome \<Rightarrow> reply option outcome" where
  "after_domain out = (case out of
     Panicked \<Rightarrow> Panicked
   | Returned (res, Some err) \<Rightarrow> Returned (Some (no_requeue, Some err))
   | Returned (res, None) \<Rightarrow> if RequeueAfter res > 0 then Returned (Some (res, None)) else Returned None)"

lemma domain_delete_cases:
  assumes run: "run_state (domain_delete E r pc req) s = (early, t)"
  obtains (panicked) "run_state (clusters E r req False) s = (Panicked, t)" "early = Panicked"
    | (failed) cc res err u where
      "run_state (clusters E r req False) s = (Returned (cc, res, Some err), u)"
      "early = Returned (Some (no_requeue, Some err))" "hist t = hist u"
      "obj t = StatusTerminatingWithReason (lib E) Kro_API reasonReconcileError
         ''cluster cleanup error'' (obj u)"
    | (skipped) cc res where "run_state (clusters E r req False) s = (Returned (cc, res, None), t)"
      "RequeueAfter res \<noteq> 0" "early = Returned None"
    | (domain) cc res u out where
      "run_state (clusters E r req False) s = (Returned (cc, res, None), u)" "RequeueAfter res = 0"
      "run_state (domain_Delete r pc cc) u = (out, t)" "early = after_domain out"
proof -
  obtain got u where got: "run_state (clusters E r req False) s = (got, u)" by (cases "run_state (clusters E r req False) s")
  show thesis
  proof (cases got)
    case Panicked
    with got run show thesis by (intro panicked) (simp_all add: domain_delete_def)
  next
    case (Returned answer)
    obtain cc res err where answer: "answer = (cc, res, err)" by (cases answer)
    show thesis
    proof (cases err)
      case (Some e)
      with got run Returned answer show thesis
        by (intro failed [of cc res e u]) (auto simp: domain_delete_def)
    next
      case None
      show thesis
      proof (cases "RequeueAfter res = 0")
        case False
        with None got run Returned answer show thesis
          by (intro skipped [of cc res]) (simp_all add: domain_delete_def)
      next
        case True
        obtain out v where dom: "run_state (domain_Delete r pc cc) u = (out, v)"
          by (cases "run_state (domain_Delete r pc cc) u")
        with True None got run Returned answer show thesis
          by (intro domain [of cc res u out])
            (auto simp: domain_delete_def after_domain_def
              split: outcome.splits prod.splits option.splits if_splits)
      qed
    qed
  qed
qed

lemma after_domain_None: "after_domain out = Returned None \<longleftrightarrow>
    (\<exists>res. out = Returned (res, None) \<and> \<not> RequeueAfter res > 0)"
  by (auto simp: after_domain_def split: outcome.splits prod.splits option.splits if_splits)

lemma delete_cases:
  assumes run: "run_state (delete E r pc) s = (out, t)"
    and req: "req = ObjectKeyFromMeta (kro_Meta (obj s))"
  obtains (undecided) evs err where "list_all request_event evs" "hist t = hist s @ evs"
      "out = Returned (no_requeue, Some err)"
      "obj t = StatusProgressing (lib E) Kro_API reasonReconcileError
         ''failed to check access requests in deletion'' (obj s)"
    | (in_deletion) evs u where "list_all request_event evs" "logged s evs u"
      "list_ex (gone_event (lib E) req) evs" "run_state (remove_access E req) u = (out, t)"
    | (early) evs u step where "list_all request_event evs" "logged s evs u"
      "\<not> list_ex (gone_event (lib E) req) evs"
      "run_state (domain_delete E r pc req) u = (step, t)"
      "step \<noteq> Returned None" "out = (case step of Returned (Some x) \<Rightarrow> Returned x | _ \<Rightarrow> Panicked)"
    | (cleaned) evs u v where "list_all request_event evs" "logged s evs u"
      "\<not> list_ex (gone_event (lib E) req) evs"
      "run_state (domain_delete E r pc req) u = (Returned None, v)"
      "run_state (remove_access E req) v = (out, t)"
proof -
  obtain check u where check: "run_state (areAccessRequestsInDeletion E r req) s = (check, u)"
    by (cases "run_state (areAccessRequestsInDeletion E r req) s")
  obtain evs where evs: "logged s evs u" "list_all request_event evs"
    "check = Inr True \<longleftrightarrow> list_ex (gone_event (lib E) req) evs"
    using areAccessRequestsInDeletion_run [OF check] by blast
  note facts = run [unfolded delete_def] check req evs logged_obj [OF evs(1)] logged_hist [OF evs(1)]
  consider err where "check = Inl err" | "check = Inr True" | "check = Inr False"
    by (cases check) auto
  then show thesis
  proof cases
    case 1
    with facts show thesis by (intro undecided) (auto simp: Let_def)
  next
    case 2
    with facts show thesis by (intro in_deletion) (auto simp: Let_def)
  next
    case 3
    obtain step v where step: "run_state (domain_delete E r pc req) u = (step, v)"
      by (cases "run_state (domain_delete E r pc req) u")
    show thesis
    proof (cases "step = Returned None")
      case True
      with facts 3 step show thesis by (intro cleaned [of evs u v]) (auto simp: Let_def)
    next
      case False
      with facts 3 step have "v = t" "out = (case step of Returned (Some x) \<Rightarrow> Returned x | _ \<Rightarrow> Panicked)"
        by (auto simp: Let_def split: outcome.splits option.splits)
      with facts 3 step False show thesis by (intro early [of evs u step]) auto
    qed
  qed
qed

lemma createOrUpdate_cases:
  assumes run: "run_state (createOrUpdate E r pc) s = (out, t)"
  obtains (rejected) k err where
      "on_onboarding_upsert E (hist s) (obj s) (add_finalizer (lib E)) = (k, Some err)"
      "hist t = hist s @ [OnboardingCreateOrUpdate (obj s) (k, Some err)]"
      "out = Returned (no_requeue, Some err)"
      "obj t = StatusProgressing (lib E) Kro_API reasonReconcileError ''failed to add finalizer'' k"
    | (stored) k u got v where
      "on_onboarding_upsert E (hist s) (obj s) (add_finalizer (lib E)) = (k, None)"
      "hist u = hist s @ [OnboardingCreateOrUpdate (obj s) (k, None)]" "obj u = k"
      "run_state (clusters E r (ObjectKeyFromMeta (kro_Meta k)) True) u = (got, v)"
      "case got of
         Panicked \<Rightarrow> out = Panicked \<and> t = v
       | Returned (_, _, Some err) \<Rightarrow> out = Returned (no_requeue, Some err) \<and> hist t = hist v
           \<and> obj t = StatusProgressing (lib E) Kro_API reasonReconcileError ''cluster setup error'' (obj v)
       | Returned (cc, res, None) \<Rightarrow>
           if RequeueAfter res > 0 then out = Returned (res, None) \<and> t = v
           else run_state (domain_CreateOrUpdate r pc cc) v = (out, t)"
proof -
  obtain k err where upsert: "on_onboarding_upsert E (hist s) (obj s) (add_finalizer (lib E)) = (k, err)"
    by (cases "on_onboarding_upsert E (hist s) (obj s) (add_finalizer (lib E))")
  show thesis
  proof (cases err)
    case (Some e)
    with run upsert show thesis by (intro rejected [of k e]) (auto simp: createOrUpdate_def)
  next
    case None
    define u where "u = s\<lparr>hist := hist s @ [OnboardingCreateOrUpdate (obj s) (k, None)], obj := k\<rparr>"
    obtain got v where got: "run_state (clusters E r (ObjectKeyFromMeta (kro_Meta k)) True) u = (got, v)"
      by (cases "run_state (clusters E r (ObjectKeyFromMeta (kro_Meta k)) True) u")
    show thesis
    proof (rule stored [OF _ _ _ got])
      show "case got of
         Panicked \<Rightarrow> out = Panicked \<and> t = v
       | Returned (_, _, Some err) \<Rightarrow> out = Returned (no_requeue, Some err) \<and> hist t = hist v
           \<and> obj t = StatusProgressing (lib E) Kro_API reasonReconcileError ''cluster setup error'' (obj v)
       | Returned (cc, res, None) \<Rightarrow>
           if RequeueAfter res > 0 then out = Returned (res, None) \<and> t = v
           else run_state (domain_CreateOrUpdate r pc cc) v = (out, t)"
        using run upsert None got
        by (auto simp: createOrUpdate_def Let_def u_def split: outcome.splits prod.splits option.splits if_splits)
    qed (use upsert None in \<open>auto simp: u_def\<close>)
  qed
qed

section \<open>Reconcile\<close>

lemma updateStatus_run:
  "run_state (updateStatus E old) s =
     (if SemanticDeepEqual (lib E) (kro_Status old) (kro_Status (obj s)) then (None, s)
      else let err = on_status_patch E (hist s) (obj s) old
           in (ignore_not_found (lib E) err,
               s\<lparr>hist := hist s @ [OnboardingStatusPatch (obj s) old err]\<rparr>))"
  by (simp add: updateStatus_def Kro_GetStatus_def Let_def)

lemma with_status_update_run:
  "run_state (with_status_update E body) s =
     (let (out, u) = run_state body s; (failed, t) = run_state (updateStatus E (obj s)) u
      in (case out of
            Panicked \<Rightarrow> Panicked
          | Returned (res, err) \<Rightarrow> Returned (res,
              case failed of None \<Rightarrow> err | Some e \<Rightarrow> errors_Join err (Some e)), t))"
  by (simp add: with_status_update_def Let_def case_prod_beta split: outcome.split prod.split)

lemma Reconcile_cases:
  assumes run: "run_state (Reconcile E r req) s = (out, t)"
  obtains (missing) err where "on_onboarding_get E (hist s) req = Inl err"
      "hist t = hist s @ [OnboardingGet req (Inl err)]"
      "out = Returned (no_requeue, IgnoreNotFound (lib E) err)"
    | (ignored) k where "on_onboarding_get E (hist s) req = Inr k"
      "operation_annotation (lib E) k = OperationAnnotationValueIgnore (lib E)"
      "hist t = hist s @ [OnboardingGet req (Inr k)]" "out = Returned (no_requeue, None)" "obj t = k"
    | (unpatched) k err where "on_onboarding_get E (hist s) req = Inr k"
      "operation_annotation (lib E) k = OperationAnnotationValueReconcile (lib E)"
      "hist t = hist s @ [OnboardingGet req (Inr k),
         OnboardingPatch (drop_operation_annotation (lib E) k) k (Inl err)]"
      "out = Returned (no_requeue, Some err)" "obj t = k"
    | (triggered) k k' u where "on_onboarding_get E (hist s) req = Inr k"
      "operation_annotation (lib E) k \<noteq> OperationAnnotationValueIgnore (lib E)"
      "operation_annotation (lib E) k = OperationAnnotationValueReconcile (lib E)"
      "hist u = hist s @ [OnboardingGet req (Inr k),
         OnboardingPatch (drop_operation_annotation (lib E) k) k (Inr k')]" "obj u = k'"
      "run_state (with_status_update E (reconcile_body E r)) u = (out, t)"
    | (normal) k u where "on_onboarding_get E (hist s) req = Inr k"
      "operation_annotation (lib E) k \<noteq> OperationAnnotationValueIgnore (lib E)"
      "operation_annotation (lib E) k \<noteq> OperationAnnotationValueReconcile (lib E)"
      "hist u = hist s @ [OnboardingGet req (Inr k)]" "obj u = k"
      "run_state (with_status_update E (reconcile_body E r)) u = (out, t)"
proof (cases "on_onboarding_get E (hist s) req")
  case (Inl err)
  with run show thesis by (intro missing [of err]) (auto simp: Reconcile_def)
next
  case (Inr k)
  define u where "u = s\<lparr>hist := hist s @ [OnboardingGet req (Inr k)], obj := k\<rparr>"
  consider "operation_annotation (lib E) k = OperationAnnotationValueIgnore (lib E)"
    | "operation_annotation (lib E) k \<noteq> OperationAnnotationValueIgnore (lib E)"
      "operation_annotation (lib E) k = OperationAnnotationValueReconcile (lib E)"
    | "operation_annotation (lib E) k \<noteq> OperationAnnotationValueIgnore (lib E)"
      "operation_annotation (lib E) k \<noteq> OperationAnnotationValueReconcile (lib E)" by blast
  then show thesis
  proof cases
    case 1
    with run Inr show thesis by (intro ignored [of k]) (auto simp: Reconcile_def)
  next
    case 3
    with run Inr show thesis by (intro normal [of k u]) (auto simp: Reconcile_def u_def)
  next
    case 2
    define a where "a = on_onboarding_patch E (hist u) (drop_operation_annotation (lib E) k) k"
    show thesis
    proof (cases a)
      case (Inl err)
      with 2 run Inr show thesis
        by (intro unpatched [of k err]) (auto simp: Reconcile_def a_def u_def Let_def)
    next
      case (Inr k')
      with 2 run \<open>on_onboarding_get E (hist s) req = Inr k\<close> show thesis
        by (intro triggered [of k "s\<lparr>hist := hist s @ [OnboardingGet req (Inr k),
           OnboardingPatch (drop_operation_annotation (lib E) k) k (Inr k')], obj := k'\<rparr>" k'])
          (auto simp: Reconcile_def a_def u_def Let_def)
    qed
  qed
qed


section \<open>The contract of a domain reconciler\<close>

text \<open>
  The calls reserved to the runtime: everything on the onboarding cluster (the API object, its
  status and finalizer), the cluster access, and the config channel.
\<close>

fun runtime_event :: "event \<Rightarrow> bool" where
  "runtime_event (OnboardingGet k r) = True"
| "runtime_event (OnboardingPatch n k r) = True"
| "runtime_event (OnboardingCreateOrUpdate k r) = True"
| "runtime_event (OnboardingUpdate k r) = True"
| "runtime_event (OnboardingStatusPatch n k r) = True"
| "runtime_event (OnboardingList g r) = True"
| "runtime_event (AccessReconcileDelete k r) = True"
| "runtime_event (PlatformGetProviderConfig k r) = True"
| "runtime_event (SendUpdate c) = True"
| "runtime_event e = access_event e"

lemma access_is_runtime [simp]: "access_event e \<Longrightarrow> runtime_event e"
  by (cases e) simp_all

text \<open>
  What the runtime relies on: a domain reconciler reports on the object only through its
  status, and leaves the runtime's calls to the runtime.
\<close>

locale domain_reconciler =
  fixes D :: ServiceProviderReconciler
  assumes create_keeps: "keeps_meta (sp_CreateOrUpdate D pc cc)"
    and delete_keeps: "keeps_meta (sp_Delete D pc cc)"
    and create_events: "emits_only (\<lambda>e. \<not> runtime_event e) (sp_CreateOrUpdate D pc cc)"
    and delete_events: "emits_only (\<lambda>e. \<not> runtime_event e) (sp_Delete D pc cc)"

fun is_update :: "event \<Rightarrow> bool" where
  "is_update (OnboardingUpdate k r) = True"
| "is_update _ = False"

lemma access_no_update: "access_event e \<Longrightarrow> \<not> is_update e"
  by (cases e) simp_all

lemmas quiet_events = access_no_update access_no_update [OF request_is_access]

lemma domain_no_update: "\<not> runtime_event e \<Longrightarrow> \<not> is_update e"
  by (cases e) simp_all

text \<open>
  A finished domain deletion inside a run: from a state whose object still has the metadata
  and spec of \<open>k\<close>, the domain reconciler returned without error and without a requeue; if the
  control plane was reached before (in the part \<open>before\<close> of the run), it was handed over.
\<close>

definition domain_finished ::
    "ServiceProviderReconciler \<Rightarrow> ProviderConfig \<Rightarrow> Kro \<Rightarrow> event list \<Rightarrow> event list \<Rightarrow> event list \<Rightarrow> bool" where
  "domain_finished D pc k h before evs \<longleftrightarrow>
     (\<exists>cc res u v. run_state (sp_Delete D pc cc) u = (Returned (res, None), v)
        \<and> hist u = h @ before \<and> hist v = h @ before @ evs \<and> \<not> RequeueAfter res > 0
        \<and> kro_Meta (obj u) = kro_Meta k \<and> kro_Spec (obj u) = kro_Spec k
        \<and> (\<forall>req c. AccessMCPCluster req (Some c, None) \<in> set before \<longrightarrow> cc_MCPCluster cc = Some c))"

lemma clusters_False_run:
  assumes "run_state (clusters E r req False) s = (Returned (cc, res, None), t)"
  shows "\<exists>evs. logged s evs t \<and> list_all access_event evs
    \<and> (RequeueAfter res = 0 \<or> AccessReconcile req (res, None) \<in> set evs \<and> RequeueAfter res < 0)
    \<and> (\<forall>k c. AccessMCPCluster k (Some c, None) \<in> set evs \<longrightarrow> cc_MCPCluster cc = Some c)"
  using assms
  by (auto simp: clusters_def workload_clusters_def access_calls Let_def no_clusters_def
      split: if_splits option.splits prod.splits outcome.splits)

context domain_reconciler
begin

lemma domain_delete_done:
  assumes run: "run_state (domain_delete E r pc req) s = (Returned None, t)"
    and dom: "serviceProviderReconciler r = Some D"
  obtains (skipped) evs res where "hist t = hist s @ evs" "list_all access_event evs" "obj t = obj s"
      "AccessReconcile req (res, None) \<in> set evs" "RequeueAfter res < 0"
    | (finished) evs evs' where "hist t = hist s @ evs @ evs'" "list_all access_event evs"
      "list_all (\<lambda>e. \<not> runtime_event e) evs'"
      "domain_finished D pc (obj s) (hist s) evs evs'"
      "kro_Meta (obj t) = kro_Meta (obj s)" "kro_Spec (obj t) = kro_Spec (obj s)"
  using run
proof (cases rule: domain_delete_cases)
  case (skipped cc res)
  from clusters_False_run [OF skipped(1)] skipped(2) that(1) show thesis
    by (auto dest: logged_hist logged_obj)
next
  case (domain cc res u out)
  obtain evs where evs: "logged s evs u" "list_all access_event evs"
    "\<forall>k c. AccessMCPCluster k (Some c, None) \<in> set evs \<longrightarrow> cc_MCPCluster cc = Some c"
    using clusters_False_run [OF domain(1)] by blast
  obtain res' where out: "out = Returned (res', None)" "\<not> RequeueAfter res' > 0"
    using domain(4) after_domain_None [of out] by auto
  have del: "run_state (sp_Delete D pc cc) u = (Returned (res', None), t)"
    using domain(3) dom out by (simp add: domain_Delete_def)
  obtain evs' where evs': "hist t = hist u @ evs'" "list_all (\<lambda>e. \<not> runtime_event e) evs'"
    using delete_events del by (rule emits_onlyD)
  have keep: "kro_Meta (obj t) = kro_Meta (obj u)" "kro_Spec (obj t) = kro_Spec (obj u)"
    using keeps_metaD [OF delete_keeps del] by simp_all
  note u = logged_hist [OF evs(1)] logged_obj [OF evs(1)]
  have "domain_finished D pc (obj s) (hist s) evs evs'"
    unfolding domain_finished_def using del out(2) u evs(3) evs'(1) by fastforce
  with evs(2) evs' keep u that(2) show thesis by simp
qed simp_all

text \<open>
  The finalizer goes last: a run of \<open>delete\<close> that updates the object has first seen the cluster
  access removed, and before that either saw an access request gone, or was told by the domain
  reconciler that it is finished.
\<close>

lemma delete_update:
  assumes run: "run_state (delete E r pc) s = (out, t)"
    and dom: "serviceProviderReconciler r = Some D"
    and evs: "hist t = hist s @ evs" and upd: "OnboardingUpdate k a \<in> set evs"
    and req: "req = ObjectKeyFromMeta (kro_Meta (obj s))"
  obtains before res where
    "evs = before @ [AccessReconcileDelete req (res, None), OnboardingUpdate k a]"
    "\<not> RequeueAfter res > 0" "list_all (\<lambda>e. \<not> is_update e) before"
    "kro_Meta k = kro_Meta (without_finalizer (lib E) (obj s))" "kro_Spec k = kro_Spec (obj s)"
    "list_ex (gone_event (lib E) req) before
     \<or> (\<exists>b1 b2. before = b1 @ b2 \<and> domain_finished D pc (obj s) (hist s) b1 b2)
     \<or> (\<exists>res. AccessReconcile req (res, None) \<in> set before \<and> RequeueAfter res < 0)"
proof -
  note finish = that
  have last: thesis
    if tail: "run_state (remove_access E req) v = (out, t)" and v: "hist v = hist s @ before"
      and meta: "kro_Meta (obj v) = kro_Meta (obj s)" "kro_Spec (obj v) = kro_Spec (obj s)"
      and quiet: "list_all (\<lambda>e. \<not> is_update e) before"
      and why: "list_ex (gone_event (lib E) req) before
        \<or> (\<exists>b1 b2. before = b1 @ b2 \<and> domain_finished D pc (obj s) (hist s) b1 b2)
        \<or> (\<exists>res. AccessReconcile req (res, None) \<in> set before \<and> RequeueAfter res < 0)"
    for v before
    using tail
  proof (cases rule: remove_access_cases)
    case (failed res err)
    with v evs upd quiet show thesis by (force simp: list_all_iff)
  next
    case (waiting res)
    with v evs upd quiet show thesis by (force simp: list_all_iff)
  next
    case (updated res k' err)
    then have "evs = before @ [AccessReconcileDelete req (res, None),
        OnboardingUpdate (without_finalizer (lib E) (obj v)) (k', err)]"
      using v evs by simp
    moreover from this upd quiet have "k = without_finalizer (lib E) (obj v)" "a = (k', err)"
      by (force simp: list_all_iff)+
    ultimately show thesis
      using updated(1) why meta quiet by (intro finish [of before res]) (simp_all add: without_finalizer_def)
  qed
  from run req show thesis
  proof (cases rule: delete_cases)
    case (undecided evs' err)
    with evs upd show thesis by (force simp: list_all_iff)
  next
    case (in_deletion evs' u)
    with last [of u evs'] quiet_events logged_hist [OF in_deletion(2)]
      logged_obj [OF in_deletion(2)] show thesis
      by (auto simp: list_all_iff)
  next
    case (early evs' u step)
    have "emits_only (\<lambda>e. \<not> is_update e) (domain_delete E r pc req)"
      unfolding domain_delete_def domain_Delete_def
      by (intro emits emits_only_mono [OF clusters_emits access_no_update])
        (auto simp: dom intro: emits_only_mono [OF delete_events domain_no_update] emits)
    from this early(4) obtain e2 where "hist t = hist u @ e2" "list_all (\<lambda>e. \<not> is_update e) e2"
      by (rule emits_onlyD)
    with early evs upd quiet_events logged_hist [OF early(2)] show thesis
      by (force simp: list_all_iff)
  next
    case (cleaned evs' u v)
    from cleaned(4) dom show thesis
    proof (cases rule: domain_delete_done)
      case (skipped e2 res)
      with cleaned last [of v "evs' @ e2"] quiet_events logged_hist [OF cleaned(2)]
        logged_obj [OF cleaned(2)] show thesis
        by (auto simp: list_all_iff)
    next
      case (finished e2 e3)
      note u = logged_hist [OF cleaned(2)] logged_obj [OF cleaned(2)]
      show thesis
      proof (rule last [of v "evs' @ e2 @ e3"])
        show "list_all (\<lambda>e. \<not> is_update e) (evs' @ e2 @ e3)"
          using finished(2,3) cleaned(1) quiet_events domain_no_update by (auto simp: list_all_iff)
        have "AccessMCPCluster k c \<notin> set evs'" for k c
          using cleaned(1) by (auto simp: list_all_iff)
        then have "domain_finished D pc (obj s) (hist s) (evs' @ e2) e3"
          using finished(4) u unfolding domain_finished_def by fastforce
        then show "list_ex (gone_event (lib E) req) (evs' @ e2 @ e3)
          \<or> (\<exists>b1 b2. evs' @ e2 @ e3 = b1 @ b2 \<and> domain_finished D pc (obj s) (hist s) b1 b2)
          \<or> (\<exists>res. AccessReconcile req (res, None) \<in> set (evs' @ e2 @ e3) \<and> RequeueAfter res < 0)"
          by (intro disjI2 disjI1 exI [of _ "evs' @ e2"] exI [of _ e3]) simp
      qed (use finished cleaned(5) u in simp_all)
    qed
  qed
qed

end

lemma appends_keeps: "appends m \<Longrightarrow> keeps_meta m"
  unfolding appends_def keeps_meta_def by (metis logged_obj)

lemma kro_apply_keeps [keeps]: "keeps_meta (apply_version E r cc tns v k)"
  unfolding apply_version_def fail_progressing_def report_resources_def
  by (intro keeps appends_keeps [OF appends_steps(1)] appends_keeps [OF appends_steps(2)]
      appends_keeps [OF appends_steps(3)] appends_keeps [OF appends_steps(4)]
      appends_keeps [OF appends_steps(5)] appends_keeps [OF appends_steps(6)]) simp_all

lemma kro_delete_objects_keeps [keeps]: "keeps_meta (delete_objects E ms b)"
  by (induction ms arbitrary: b) (auto intro!: keeps split: option.splits)

lemma kro_delete_managed_keeps [keeps]: "keeps_meta (delete_managed E tns)"
  unfolding delete_managed_def by (intro keeps) simp_all

definition kro_domain :: "env \<Rightarrow> KroReconciler \<Rightarrow> ServiceProviderReconciler" where
  "kro_domain E kr = \<lparr>
     sp_CreateOrUpdate = (\<lambda>pc cc. CreateOrUpdate E kr (Some pc) cc),
     sp_Delete = (\<lambda>pc cc. Delete E kr (Some pc) cc),
     sp_IsReferencedSecret = None\<rparr>"

lemma confined_not_runtime: "confined r cc tns e \<Longrightarrow> \<not> runtime_event e"
  by (cases e) auto

lemma delete_confined_not_runtime: "delete_confined cc tns e \<Longrightarrow> \<not> runtime_event e"
  by (cases e) auto

interpretation kro_domain: domain_reconciler "kro_domain E kr" for E kr
proof
  fix pc cc
  show "keeps_meta (sp_CreateOrUpdate (kro_domain E kr) pc cc)"
    unfolding kro_domain_def CreateOrUpdate_def by (simp, intro keeps) simp_all
  show "keeps_meta (sp_Delete (kro_domain E kr) pc cc)"
    unfolding kro_domain_def Delete_def by (simp, intro keeps appends_keeps [OF appends_steps(7)]) simp_all
  show "emits_only (\<lambda>e. \<not> runtime_event e) (sp_CreateOrUpdate (kro_domain E kr) pc cc)"
    unfolding kro_domain_def CreateOrUpdate_def
    by (simp, intro emits emits_only_mono [OF confined_apply confined_not_runtime])
  show "emits_only (\<lambda>e. \<not> runtime_event e) (sp_Delete (kro_domain E kr) pc cc)"
    unfolding kro_domain_def Delete_def
    by (simp, intro emits emits_only_mono [OF delete_confined_managed delete_confined_not_runtime]
        emits_only_mono [OF delete_confined_count delete_confined_not_runtime])
qed

section \<open>Complete cluster access\<close>

definition secret_key :: "AccessRequest \<Rightarrow> ObjectKey" where
  "secret_key a = (case ar_SecretRef a of
     None \<Rightarrow> \<lparr>key_Namespace = '''', key_Name = ''''\<rparr>
   | Some n \<Rightarrow> \<lparr>key_Namespace = ar_Namespace a, key_Name = n\<rparr>)"

lemma retrieveSecretKey_Some [simp]: "retrieveSecretKey (Some a) = Returned (secret_key a)"
  by (simp add: retrieveSecretKey_def secret_key_def split: option.split)

lemma retrieveSecretKey_None [simp]: "retrieveSecretKey None = Panicked"
  by (simp add: retrieveSecretKey_def)

text \<open>
  The calls that hand over complete access: access reconciled without a delay, then every
  cluster and access request read, and the context made of exactly these answers.
\<close>

definition complete_access :: "SPReconciler \<Rightarrow> ObjectKey \<Rightarrow> ClusterContext \<Rightarrow> event list \<Rightarrow> bool" where
  "complete_access r req cc evs \<longleftrightarrow>
     (\<exists>res c a rest. evs = AccessReconcile req (res, None) # AccessMCPCluster req (Some c, None)
          # AccessMCPAccessRequest req (Some a, None) # rest
        \<and> \<not> RequeueAfter res > 0
        \<and> cc_MCPCluster cc = Some c \<and> cc_MCPAccessSecretKey cc = secret_key a
        \<and> (if withWorkloadCluster r
           then \<exists>w b. rest = [AccessWorkloadCluster req (Some w, None),
                AccessWorkloadAccessRequest req (Some b, None)]
              \<and> cc_WorkloadCluster cc = Some w \<and> cc_WorkloadAccessSecretKey cc = secret_key b
           else rest = [] \<and> cc_WorkloadCluster cc = None))"

lemma workload_clusters_True_run:
  assumes "run_state (workload_clusters E r req True res0 cc0) s = (Returned (cc, res, None), t)"
    and "\<not> RequeueAfter res > 0"
  shows "\<exists>rest. logged s rest t \<and> cc_MCPCluster cc = cc_MCPCluster cc0
    \<and> cc_MCPAccessSecretKey cc = cc_MCPAccessSecretKey cc0
    \<and> (if withWorkloadCluster r
       then \<exists>w b. rest = [AccessWorkloadCluster req (Some w, None),
            AccessWorkloadAccessRequest req (Some b, None)]
          \<and> cc_WorkloadCluster cc = Some w \<and> cc_WorkloadAccessSecretKey cc = secret_key b
       else rest = [] \<and> cc = cc0)"
proof (cases "withWorkloadCluster r")
  case False
  with assms show ?thesis by (auto simp: workload_clusters_def)
next
  case True
  obtain wc err where wc: "on_workload_cluster E (hist s) req = (wc, err)" by force
  from assms True wc obtain w where w: "wc = Some w" "err = None"
    by (auto simp: workload_clusters_def access_calls time_Second_def split: option.splits)
  define h where "h = hist s @ [AccessWorkloadCluster req (Some w, None)]"
  obtain b err' where b: "on_workload_request E h req = (b, err')" by force
  from assms True wc w b obtain b' where "b = Some b'" "err' = None"
    by (cases b) (auto simp: workload_clusters_def access_calls h_def Let_def split: option.splits)
  with assms True wc w b show ?thesis
    by (auto simp: workload_clusters_def access_calls h_def Let_def)
qed

lemma clusters_True_run:
  assumes run: "run_state (clusters E r req True) s = (Returned (cc, res, None), t)"
    and res: "\<not> RequeueAfter res > 0"
  shows "\<exists>evs. logged s evs t \<and> complete_access r req cc evs"
proof -
  obtain ra err where ra: "on_access_reconcile E (hist s) req = (ra, err)" by force
  from run res ra have ra': "err = None" "\<not> RequeueAfter ra > 0"
    by (auto simp: clusters_def access_calls split: option.splits if_splits)
  define h where "h = hist s @ [AccessReconcile req (ra, None)]"
  obtain mc err where mc: "on_mcp_cluster E h req = (mc, err)" by force
  from run res ra ra' mc obtain c where c: "mc = Some c" "err = None"
    by (auto simp: clusters_def access_calls h_def time_Second_def split: option.splits)
  define h' where "h' = h @ [AccessMCPCluster req (Some c, None)]"
  obtain a err where a: "on_mcp_request E h' req = (a, err)" by force
  from run res ra ra' mc c a obtain b where b: "a = Some b" "err = None"
    by (cases a) (auto simp: clusters_def access_calls h_def h'_def Let_def split: option.splits)
  define u where "u = s\<lparr>hist := hist s @ [AccessReconcile req (ra, None),
    AccessMCPCluster req (Some c, None), AccessMCPAccessRequest req (Some b, None)]\<rparr>"
  have tail: "run_state (workload_clusters E r req True ra
      (no_clusters\<lparr>cc_MCPCluster := Some c, cc_MCPAccessSecretKey := secret_key b\<rparr>)) u
      = (Returned (cc, res, None), t)"
    using run ra ra' mc c a b by (simp add: clusters_def access_calls h_def h'_def u_def Let_def)
  from workload_clusters_True_run [OF tail res] obtain rest where rest: "logged u rest t"
    "cc_MCPCluster cc = Some c" "cc_MCPAccessSecretKey cc = secret_key b"
    "if withWorkloadCluster r
       then \<exists>w b. rest = [AccessWorkloadCluster req (Some w, None),
            AccessWorkloadAccessRequest req (Some b, None)]
          \<and> cc_WorkloadCluster cc = Some w \<and> cc_WorkloadAccessSecretKey cc = secret_key b
       else rest = [] \<and> cc_WorkloadCluster cc = None"
    by (auto simp: no_clusters_def split: if_splits)
  have log: "logged s ([AccessReconcile req (ra, None), AccessMCPCluster req (Some c, None),
      AccessMCPAccessRequest req (Some b, None)] @ rest) t"
    using rest(1) unfolding u_def by (rule logged_after)
  have "complete_access r req cc ([AccessReconcile req (ra, None), AccessMCPCluster req (Some c, None),
      AccessMCPAccessRequest req (Some b, None)] @ rest)"
    using rest ra' by (auto simp: complete_access_def)
  with log show ?thesis by blast
qed

lemma complete_access_events: "complete_access r req cc evs \<Longrightarrow> list_all access_event evs"
  by (auto simp: complete_access_def split: if_splits)

context domain_reconciler
begin

text \<open>
  Domain calls of \<open>createOrUpdate\<close> come last: the object was stored with the finalizer's
  mutation applied, and the clusters were handed over completely.
\<close>

lemma create_domain_event:
  assumes run: "run_state (createOrUpdate E r pc) s = (out, t)"
    and dom: "serviceProviderReconciler r = Some D"
    and evs: "hist t = hist s @ evs" and e: "e \<in> set evs" "\<not> runtime_event e"
  obtains k access domain_evs cc u where
    "on_onboarding_upsert E (hist s) (obj s) (add_finalizer (lib E)) = (k, None)"
    "evs = OnboardingCreateOrUpdate (obj s) (k, None) # access @ domain_evs"
    "complete_access r (ObjectKeyFromMeta (kro_Meta k)) cc access"
    "list_all (\<lambda>e. \<not> runtime_event e) domain_evs" "e \<in> set domain_evs"
    "run_state (sp_CreateOrUpdate D pc cc) u = (out, t)" "obj u = k"
    "hist u = hist s @ OnboardingCreateOrUpdate (obj s) (k, None) # access"
  using run
proof (cases rule: createOrUpdate_cases)
  case (rejected k err)
  with evs e show thesis by auto
next
  case (stored k u got v)
  obtain access where access: "logged u access v" "list_all access_event access"
    using clusters_appends clusters_emits stored(4) by (rule logged_emits)
  have no: False if "hist t = hist v"
  proof -
    have "evs = OnboardingCreateOrUpdate (obj s) (k, None) # access"
      using that evs stored(2) logged_hist [OF access(1)] by simp
    with e access(2) show False by (auto simp: list_all_iff)
  qed
  then obtain cc res where got: "got = Returned (cc, res, None)" "\<not> RequeueAfter res > 0"
    "run_state (domain_CreateOrUpdate r pc cc) v = (out, t)"
    using stored(5) by (cases got) (auto split: prod.splits option.splits if_splits)
  then have del: "run_state (sp_CreateOrUpdate D pc cc) v = (out, t)"
    using dom by (simp add: domain_CreateOrUpdate_def)
  from clusters_True_run [OF stored(4) [unfolded got(1)] got(2)] obtain access'
    where access': "logged u access' v" "complete_access r (ObjectKeyFromMeta (kro_Meta k)) cc access'"
    by blast
  obtain devs where devs: "hist t = hist v @ devs" "list_all (\<lambda>e. \<not> runtime_event e) devs"
    using create_events del by (rule emits_onlyD)
  have eq: "evs = OnboardingCreateOrUpdate (obj s) (k, None) # access' @ devs"
    using evs stored(2) logged_hist [OF access'(1)] devs(1) by simp
  have "e \<in> set devs"
    using e eq complete_access_events [OF access'(2)] by (auto simp: list_all_iff)
  with that [OF stored(1) eq access'(2) devs(2) _ del] show thesis
    using logged_obj [OF access'(1)] logged_hist [OF access'(1)] stored by simp
qed

end

section \<open>The frame of a reconcile run\<close>

fun front_event :: "event \<Rightarrow> bool" where
  "front_event (OnboardingGet k r) = True"
| "front_event (OnboardingPatch n k r) = True"
| "front_event _ = False"

text \<open>The events that load the object \<open>k\<close> a run works on: the read, and the annotation's removal.\<close>

definition loaded :: "libs \<Rightarrow> ObjectKey \<Rightarrow> Kro \<Rightarrow> event list \<Rightarrow> bool" where
  "loaded L req k evs \<longleftrightarrow> evs = [OnboardingGet req (Inr k)]
     \<or> (\<exists>k0. evs = [OnboardingGet req (Inr k0),
          OnboardingPatch (drop_operation_annotation L k0) k0 (Inr k)])"

text \<open>The status patch at the end of a run, if the status changed.\<close>

definition status_events :: "libs \<Rightarrow> Kro \<Rightarrow> Kro \<Rightarrow> event list \<Rightarrow> bool" where
  "status_events L old new evs \<longleftrightarrow>
     (if SemanticDeepEqual L (kro_Status old) (kro_Status new) then evs = []
      else \<exists>err. evs = [OnboardingStatusPatch new old err])"

definition with_status_error :: "reply outcome \<Rightarrow> goerror option \<Rightarrow> reply outcome" where
  "with_status_error out failed = (case out of
     Panicked \<Rightarrow> Panicked
   | Returned (res, err) \<Rightarrow> Returned (res,
       case failed of None \<Rightarrow> err | Some e \<Rightarrow> errors_Join err (Some e)))"

text \<open>The error the deferred function makes of its status patch.\<close>

definition status_error :: "libs \<Rightarrow> event list \<Rightarrow> goerror option" where
  "status_error L evs = (case evs of
     OnboardingStatusPatch new old err # rest \<Rightarrow> ignore_not_found L err
   | _ \<Rightarrow> None)"

lemma Reconcile_frame:
  assumes run: "run_state (Reconcile E r req) s = (out, t)"
  obtains (quiet) evs where "hist t = hist s @ evs" "list_all front_event evs" "out \<noteq> Panicked"
    | (body) k u front bo v final where "hist u = hist s @ front" "loaded (lib E) req k front"
      "obj u = k"
      "run_state (reconcile_body E r) u = (bo, v)" "hist t = hist v @ final" "obj t = obj v"
      "status_events (lib E) k (obj v) final" "out = with_status_error bo (status_error (lib E) final)"
proof -
  have frame: thesis if "run_state (with_status_update E (reconcile_body E r)) u = (out, t)"
    "hist u = hist s @ front" "loaded (lib E) req k front" "obj u = k" for u front k
  proof -
    obtain bo v where bo: "run_state (reconcile_body E r) u = (bo, v)"
      by (cases "run_state (reconcile_body E r) u")
    show thesis
    proof (rule body [OF that(2,3,4) bo])
      show "hist t = hist v @ (if SemanticDeepEqual (lib E) (kro_Status k) (kro_Status (obj v)) then []
        else [OnboardingStatusPatch (obj v) k (on_status_patch E (hist v) (obj v) k)])" "obj t = obj v"
        "status_events (lib E) k (obj v) (if SemanticDeepEqual (lib E) (kro_Status k) (kro_Status (obj v)) then []
        else [OnboardingStatusPatch (obj v) k (on_status_patch E (hist v) (obj v) k)])"
        "out = with_status_error bo (status_error (lib E)
          (if SemanticDeepEqual (lib E) (kro_Status k) (kro_Status (obj v)) then []
           else [OnboardingStatusPatch (obj v) k (on_status_patch E (hist v) (obj v) k)]))"
        using that bo
        by (auto simp: with_status_update_run updateStatus_run Let_def status_events_def
            with_status_error_def status_error_def split: outcome.splits if_splits)
    qed
  qed
  from run show thesis
  proof (cases rule: Reconcile_cases)
    case (triggered k k' u)
    then show thesis by (intro frame) (auto simp: loaded_def)
  next
    case (normal k u)
    then show thesis by (intro frame) (auto simp: loaded_def)
  next
    case (missing err)
    then show thesis by (intro quiet) auto
  next
    case (ignored k)
    then show thesis by (intro quiet) auto
  next
    case (unpatched k err)
    then show thesis by (intro quiet) auto
  qed
qed

lemma loaded_front: "loaded L req k evs \<Longrightarrow> list_all front_event evs"
  by (auto simp: loaded_def)

definition after_run :: "ProviderConfig \<Rightarrow> reply outcome \<Rightarrow> reply outcome" where
  "after_run pc out = (case out of
     Panicked \<Rightarrow> Panicked
   | Returned (res, Some err) \<Rightarrow> Returned (no_requeue, Some err)
   | Returned (res, None) \<Rightarrow> if RequeueAfter res > 0 then Returned (res, None)
       else Returned (\<lparr>RequeueAfter = PollInterval (Some pc)\<rparr>, None))"

lemma reconcile_body_cases:
  assumes run: "run_state (reconcile_body E r) s = (out, t)"
  obtains (unconfigured) "providerConfig r = None" "hist t = hist s"
      "out = Returned (no_requeue, Some (ErrorString ''provider config missing''))"
      "obj t = StatusProgressing (lib E) Kro_API reasonReconcileError ''No ProviderConfig found'' (obj s)"
    | (deleted) pc step where "providerConfig r = Some pc"
      "\<not> IsZero (meta_DeletionTimestamp (kro_Meta (obj s)))"
      "run_state (delete E r pc) s = (step, t)" "out = after_run pc step"
    | (live) pc step where "providerConfig r = Some pc"
      "IsZero (meta_DeletionTimestamp (kro_Meta (obj s)))"
      "run_state (createOrUpdate E r pc) s = (step, t)" "out = after_run pc step"
proof (cases "providerConfig r")
  case None
  with run show thesis by (intro unconfigured) (auto simp: reconcile_body_def)
next
  case (Some pc)
  show thesis
  proof (cases "IsZero (meta_DeletionTimestamp (kro_Meta (obj s)))")
    case True
    obtain step v where "run_state (createOrUpdate E r pc) s = (step, v)"
      by (cases "run_state (createOrUpdate E r pc) s")
    with run Some True show thesis
      by (intro live [of pc step]) (auto simp: reconcile_body_def after_run_def
          split: outcome.splits prod.splits option.splits if_splits)
  next
    case False
    obtain step v where "run_state (delete E r pc) s = (step, v)"
      by (cases "run_state (delete E r pc) s")
    with run Some False show thesis
      by (intro deleted [of pc step]) (auto simp: reconcile_body_def after_run_def
          split: outcome.splits prod.splits option.splits if_splits)
  qed
qed

section \<open>The body under the contract\<close>

context domain_reconciler
begin

lemma delete_extends:
  "serviceProviderReconciler r = Some D \<Longrightarrow> emits_only (\<lambda>e. True) (delete E r pc)"
  unfolding delete_def domain_delete_def domain_Delete_def remove_access_def access_calls
  by (intro emits emits_only_mono [OF clusters_emits]
      emits_only_mono [OF areAccessRequestsInDeletion_emits])
    (auto intro: emits_only_mono [OF delete_events] emits)

lemma create_no_update:
  "serviceProviderReconciler r = Some D \<Longrightarrow> emits_only (\<lambda>e. \<not> is_update e) (createOrUpdate E r pc)"
  unfolding createOrUpdate_def domain_CreateOrUpdate_def
  by (intro emits emits_only_mono [OF clusters_emits access_no_update])
    (auto intro: emits_only_mono [OF create_events domain_no_update] emits)

lemma body_extends:
  assumes "serviceProviderReconciler r = Some D" "run_state (reconcile_body E r) u = (bo, v)"
  obtains mid where "hist v = hist u @ mid"
proof -
  have "emits_only (\<lambda>e. True) (reconcile_body E r)"
    unfolding reconcile_body_def
    by (intro emits delete_extends emits_only_mono [OF create_no_update] assms TrueI)
  from this assms(2) show thesis by (rule emits_onlyD) (rule that)
qed

text \<open>An update of the object in a run comes from the branch of a deleted object.\<close>

lemma body_update:
  assumes dom: "serviceProviderReconciler r = Some D" and run: "run_state (reconcile_body E r) u = (bo, v)"
    and mid: "hist v = hist u @ mid" and upd: "OnboardingUpdate k a \<in> set mid"
  obtains pc step where "providerConfig r = Some pc" "run_state (delete E r pc) u = (step, v)"
    "\<not> IsZero (meta_DeletionTimestamp (kro_Meta (obj u)))"
  using run
proof (cases rule: reconcile_body_cases)
  case (live pc step)
  from create_no_update [OF dom] live(3) obtain e where "hist v = hist u @ e" "list_all (\<lambda>e. \<not> is_update e) e"
    by (rule emits_onlyD)
  with mid upd show thesis by (force simp: list_all_iff)
qed (use mid upd that in auto)

end

lemma kro_domain_finished:
  assumes "domain_finished (kro_domain E kr) pc k h before evs"
  obtains tns guard tear where
    "StableMCPNamespace (lib E) (meta_Name (kro_Meta k)) (meta_Namespace (kro_Meta k)) = Inr tns"
    "evs = guard @ tear" "teardown_calls (lib E) (managed_objects tns) tear"
    "list_all (confirmed_gone (lib E)) tear"
    "\<And>req c. AccessMCPCluster req (Some c, None) \<in> set before \<Longrightarrow>
      \<exists>g. guard = [graph_list c g] \<and> no_graphs (lib E) g"
proof -
  obtain cc res u v where run: "run_state (Delete E kr (Some pc) cc) u = (Returned (res, None), v)"
    "hist u = h @ before" "hist v = h @ before @ evs" "\<not> RequeueAfter res > 0"
    "kro_Meta (obj u) = kro_Meta k"
    "\<And>req c. AccessMCPCluster req (Some c, None) \<in> set before \<Longrightarrow> cc_MCPCluster cc = Some c"
    using assms by (auto simp: domain_finished_def kro_domain_def)
  from run(1,4) obtain tns guard tear where
    "StableMCPNamespace (lib E) (meta_Name (kro_Meta (obj u))) (meta_Namespace (kro_Meta (obj u))) = Inr tns"
    "hist v = hist u @ guard @ tear" "teardown_calls (lib E) (managed_objects tns) tear"
    "list_all (confirmed_gone (lib E)) tear"
    "\<And>c. cc_MCPCluster cc = Some c \<Longrightarrow> \<exists>g. guard = [graph_list c g] \<and> no_graphs (lib E) g"
    by (rule Delete_finished) blast
  with run show thesis by (intro that [of tns guard tear]) auto
qed

lemma clusters_run:
  assumes "run_state (clusters E r req b) s = (got, t)"
  obtains evs where "logged s evs t" "list_all access_event evs"
  using clusters_appends clusters_emits assms by (rule logged_emits)

context domain_reconciler
begin

lemma delete_step_extends:
  "serviceProviderReconciler r = Some D \<Longrightarrow> emits_only (\<lambda>e. True) (domain_delete E r pc req)"
  unfolding domain_delete_def domain_Delete_def
  by (intro emits emits_only_mono [OF clusters_emits])
    (auto intro: emits_only_mono [OF delete_events] emits)

text \<open>A domain call of \<open>delete\<close> is a call of the domain deletion, on an object with the same metadata.\<close>

lemma delete_domain_event:
  assumes run: "run_state (delete E r pc) s = (out, t)"
    and dom: "serviceProviderReconciler r = Some D"
    and evs: "hist t = hist s @ evs" and e: "e \<in> set evs" "\<not> runtime_event e"
  obtains cc u v out' devs where "run_state (sp_Delete D pc cc) u = (out', v)"
    "hist v = hist u @ devs" "e \<in> set devs"
    "kro_Meta (obj u) = kro_Meta (obj s)" "kro_Spec (obj u) = kro_Spec (obj s)"
proof -
  note finish = that
  have quiet: "e \<notin> set xs" if "list_all request_event xs" for xs
    using e(2) that request_is_access access_is_runtime by (metis list_all_iff)
  have no_tail: "e \<notin> set tail" if "run_state (remove_access E req) u = (o', t)" "hist t = hist u @ tail"
    for req u o' tail
    using that(1) by (cases rule: remove_access_cases) (use that(2) e(2) in auto)
  have dom_part: thesis
    if step: "run_state (domain_delete E r pc req) u = (step, v)" and u: "obj u = obj s"
      and tail: "hist v = hist u @ tail" "e \<in> set tail" for req u v step tail
    using step
  proof (cases rule: domain_delete_cases)
    case panicked
    obtain a where "logged u a v" "list_all access_event a" using panicked(1) by (rule clusters_run)
    with tail e show thesis by (auto simp: list_all_iff dest!: logged_hist)
  next
    case (failed cc res err w)
    obtain a where "logged u a w" "list_all access_event a" using failed(1) by (rule clusters_run)
    with failed tail e show thesis by (auto simp: list_all_iff dest!: logged_hist)
  next
    case (skipped cc res)
    obtain a where "logged u a v" "list_all access_event a" using skipped(1) by (rule clusters_run)
    with tail e show thesis by (auto simp: list_all_iff dest!: logged_hist)
  next
    case (domain cc res w out')
    obtain a where a: "logged u a w" "list_all access_event a" using domain(1) by (rule clusters_run)
    have del: "run_state (sp_Delete D pc cc) w = (out', v)"
      using domain(3) dom by (simp add: domain_Delete_def)
    obtain devs where devs: "hist v = hist w @ devs" using delete_events del by (rule emits_onlyD)
    have "e \<in> set devs"
      using tail e a devs logged_hist [OF a(1)] by (auto simp: list_all_iff)
    with finish [OF del devs] u logged_obj [OF a(1)] show thesis by simp
  qed
  from run refl show thesis
  proof (cases rule: delete_cases)
    case (undecided evs' err)
    with evs e quiet show thesis by auto
  next
    case (in_deletion evs' u)
    obtain tail where tail: "hist t = hist u @ tail"
      using in_deletion(4) by (cases rule: remove_access_cases) auto
    with no_tail [OF in_deletion(4) tail] evs e quiet [OF in_deletion(1)]
      logged_hist [OF in_deletion(2)] show thesis
      by auto
  next
    case (early evs' u step)
    obtain tail where tail: "hist t = hist u @ tail"
      using delete_step_extends [OF dom] early(4) by (rule emits_onlyD)
    have "e \<in> set tail"
      using evs e quiet [OF early(1)] tail logged_hist [OF early(2)] by auto
    with dom_part [OF early(4) logged_obj [OF early(2)] tail] show thesis .
  next
    case (cleaned evs' u v)
    obtain tail where tail: "hist v = hist u @ tail"
      using delete_step_extends [OF dom] cleaned(4) by (rule emits_onlyD)
    obtain tail' where tail': "hist t = hist v @ tail'"
      using cleaned(5) by (cases rule: remove_access_cases) auto
    have "e \<in> set tail"
      using evs e quiet [OF cleaned(1)] tail tail' logged_hist [OF cleaned(2)]
        no_tail [OF cleaned(5) tail'] by auto
    with dom_part [OF cleaned(4) logged_obj [OF cleaned(2)] tail] show thesis .
  qed
qed

end

end
