(* ===== verification/SP_Properties.thy ===== *)
theory SP_Properties
  imports SP_Runs
begin

text \<open>
  What a reconcile run of the generic reconciler guarantees, in part for every domain
  reconciler, in part for the runtime and the Kro domain reconciler together.
\<close>

section \<open>A concrete run\<close>

definition sample_sp :: "env \<Rightarrow> SPReconciler" where
  "sample_sp E = WithServiceProviderReconciler (kro_domain E sample_reconciler)
     (WithWorkloadCluster True (WithProviderConfig (sample_config [sample_version]) NewSPReconciler))"

definition sample_deleted :: Kro where
  "sample_deleted = (sample_kro ''v0.9.3'')\<lparr>kro_Meta := (sample_meta ''mcp-01'')\<lparr>
     meta_Finalizers := [Kro_Finalizer], meta_DeletionTimestamp := Some (Time 1)\<rparr>\<rparr>"

definition sample_key :: ObjectKey where
  "sample_key = object_key ''tenant'' ''mcp-01''"

definition annotated :: "string \<Rightarrow> Kro" where
  "annotated v = sample_deleted\<lparr>kro_Meta := (kro_Meta sample_deleted)\<lparr>meta_Annotations :=
     [''openmcp.cloud/operation'' \<mapsto> v]\<rparr>\<rparr>"

text \<open>The environment \<open>E\<close> with the object \<open>k\<close> on the onboarding cluster.\<close>

definition serving :: "Kro \<Rightarrow> env \<Rightarrow> env" where
  "serving k E = E\<lparr>on_onboarding_get := \<lambda>h req. Inr k\<rparr>"

lemma serving_fields [simp]:
  "lib (serving k E) = lib E" "on_onboarding_get (serving k E) h req = Inr k"
  by (simp_all add: serving_def)

definition refusing :: "env \<Rightarrow> env" where
  "refusing E = (serving (annotated ''reconcile'') E)
     \<lparr>on_onboarding_patch := \<lambda>h new old. Inl (ErrorString ''conflict'')\<rparr>"

lemma sample_sp_fields [simp]:
  "serviceProviderReconciler (sample_sp E) = Some (kro_domain E sample_reconciler)"
  "providerConfig (sample_sp E) = Some (sample_config [sample_version])"
  "withWorkloadCluster (sample_sp E)" "secretNamespace (sample_sp E) = []"
  by (simp_all add: sample_sp_def WithServiceProviderReconciler_def WithWorkloadCluster_def
      WithProviderConfig_def NewSPReconciler_def)

lemmas sample_access_defs = areAccessRequestsInDeletion_def clusters_def workload_clusters_def
  access_calls request_gone_def is_not_found_def no_clusters_def secret_key_def

lemmas sample_reconcile = Reconcile_def with_status_update_run updateStatus_run reconcile_body_def
  operation_annotation_def domain_Delete_def domain_CreateOrUpdate_def kro_domain_def

lemmas sample_status = StatusReady_def StatusTerminating_def StatusTerminatingWithReason_def
  StatusTerminatingMessage_def StatusProgressing_def set_condition_def Kro_API_def kro_accessors set_resources_def


lemma SemanticDeepEqual_sample: "SemanticDeepEqual sample_libs a b \<longleftrightarrow> a = b"
  by (simp add: sample_libs_def)

lemmas sample_delete_run = sample_reconcile delete_def domain_delete_def remove_access_def
  sample_access_defs sample_delete serving_def sample_deleted_def IsZero_def ObjectKeyFromMeta_def
  Let_def sample_access_def PollInterval_def sample_config_def DefaultPollInterval_def sample_status
  StatusPhaseReady_def

lemmas sample_live_run = sample_reconcile createOrUpdate_def add_finalizer_def sample_access_defs
  sample_apply IsZero_def ObjectKeyFromMeta_def Let_def PollInterval_def DefaultPollInterval_def
  sample_status StatusPhaseReady_def mcpKubeconfigKey_def ignore_not_found_def

section \<open>Deletion\<close>

lemma loaded_no_update: "loaded L req k evs \<Longrightarrow> list_all (\<lambda>e. \<not> is_update e) evs"
  by (auto simp: loaded_def)

lemma finalizer_last_run:
  assumes dom: "serviceProviderReconciler r = Some (kro_domain E kr)"
    and run: "run_state (Reconcile E r req) s = (out, t)"
    and evs: "hist t = hist s @ evs" and upd: "OnboardingUpdate k a \<in> set evs"
  shows "\<exists>front stored key mid res final.
      evs = front @ mid @ [AccessReconcileDelete key (res, None), OnboardingUpdate k a] @ final
    \<and> \<not> RequeueAfter res > 0
    \<and> list_all (\<lambda>e. \<not> is_update e) (front @ mid @ final)
    \<and> loaded (lib E) req stored front \<and> key = ObjectKeyFromMeta (kro_Meta stored)
    \<and> \<not> IsZero (meta_DeletionTimestamp (kro_Meta stored))
    \<and> kro_Spec k = kro_Spec stored
    \<and> kro_Meta k = (kro_Meta stored)\<lparr>meta_Finalizers :=
        RemoveFinalizer (lib E) (meta_Finalizers (kro_Meta stored)) Kro_Finalizer\<rparr>
    \<and> (list_ex (gone_event (lib E) key) mid
      \<or> (\<exists>tns b1 b2 b3. mid = b1 @ b2 @ b3
          \<and> StableMCPNamespace (lib E) (meta_Name (kro_Meta stored)) (meta_Namespace (kro_Meta stored)) = Inr tns
          \<and> teardown_calls (lib E) (managed_objects tns) b3 \<and> list_all (confirmed_gone (lib E)) b3
          \<and> (\<forall>k c. AccessMCPCluster k (Some c, None) \<in> set b1 \<longrightarrow>
               (\<exists>g. b2 = [graph_list c g] \<and> no_graphs (lib E) g)))
      \<or> (\<exists>wait. AccessReconcile key (wait, None) \<in> set mid \<and> RequeueAfter wait < 0))"
  using run
proof (cases rule: Reconcile_frame)
  case (quiet e)
  with evs upd show ?thesis by (force simp: list_all_iff)
next
  case (body stored u front bo v final)
  obtain mid where mid: "hist v = hist u @ mid"
    using kro_domain.body_extends [OF dom body(4)] by blast
  have eq: "evs = front @ mid @ final" using body evs mid by simp
  have "OnboardingUpdate k a \<notin> set front" "OnboardingUpdate k a \<notin> set final"
    using loaded_front [OF body(2)] body(7)
    by (force simp: list_all_iff status_events_def split: if_splits)+
  with eq upd have upd': "OnboardingUpdate k a \<in> set mid" by simp
  obtain pc step where del: "run_state (delete E r pc) u = (step, v)"
      "\<not> IsZero (meta_DeletionTimestamp (kro_Meta (obj u)))"
    using kro_domain.body_update [OF dom body(4) mid upd'] by blast
  obtain pre res where pre: "mid = pre @ [AccessReconcileDelete (ObjectKeyFromMeta (kro_Meta (obj u))) (res, None),
        OnboardingUpdate k a]" "\<not> RequeueAfter res > 0" "list_all (\<lambda>e. \<not> is_update e) pre"
      "kro_Meta k = kro_Meta (without_finalizer (lib E) (obj u))" "kro_Spec k = kro_Spec (obj u)"
      "list_ex (gone_event (lib E) (ObjectKeyFromMeta (kro_Meta (obj u)))) pre
       \<or> (\<exists>b1 b2. pre = b1 @ b2 \<and> domain_finished (kro_domain E kr) pc (obj u) (hist u) b1 b2)
       \<or> (\<exists>res. AccessReconcile (ObjectKeyFromMeta (kro_Meta (obj u))) (res, None) \<in> set pre
            \<and> RequeueAfter res < 0)"
    using kro_domain.delete_update [OF del(1) dom mid upd' refl] by blast
  have torn_down: "\<exists>tns b1 b2 b3. pre = b1 @ b2 @ b3
          \<and> StableMCPNamespace (lib E) (meta_Name (kro_Meta stored)) (meta_Namespace (kro_Meta stored)) = Inr tns
          \<and> teardown_calls (lib E) (managed_objects tns) b3 \<and> list_all (confirmed_gone (lib E)) b3
          \<and> (\<forall>k c. AccessMCPCluster k (Some c, None) \<in> set b1 \<longrightarrow>
               (\<exists>g. b2 = [graph_list c g] \<and> no_graphs (lib E) g))"
    if "pre = b1 @ b2" "domain_finished (kro_domain E kr) pc (obj u) (hist u) b1 b2" for b1 b2
    using that(2)
  proof (rule kro_domain_finished)
    fix tns guard tear
    assume "StableMCPNamespace (lib E) (meta_Name (kro_Meta (obj u))) (meta_Namespace (kro_Meta (obj u))) = Inr tns"
      "b2 = guard @ tear" "teardown_calls (lib E) (managed_objects tns) tear"
      "list_all (confirmed_gone (lib E)) tear"
      "\<And>req c. AccessMCPCluster req (Some c, None) \<in> set b1 \<Longrightarrow> \<exists>g. guard = [graph_list c g] \<and> no_graphs (lib E) g"
    with that(1) body(3) show ?thesis
      by (intro exI [of _ tns] exI [of _ b1] exI [of _ guard] exI [of _ tear]) simp
  qed
  have "list_ex (gone_event (lib E) (ObjectKeyFromMeta (kro_Meta stored))) pre
      \<or> (\<exists>tns b1 b2 b3. pre = b1 @ b2 @ b3
          \<and> StableMCPNamespace (lib E) (meta_Name (kro_Meta stored)) (meta_Namespace (kro_Meta stored)) = Inr tns
          \<and> teardown_calls (lib E) (managed_objects tns) b3 \<and> list_all (confirmed_gone (lib E)) b3
          \<and> (\<forall>k c. AccessMCPCluster k (Some c, None) \<in> set b1 \<longrightarrow>
               (\<exists>g. b2 = [graph_list c g] \<and> no_graphs (lib E) g)))
      \<or> (\<exists>wait. AccessReconcile (ObjectKeyFromMeta (kro_Meta stored)) (wait, None) \<in> set pre
            \<and> RequeueAfter wait < 0)"
    using pre(6) torn_down unfolding body(3) by blast
  moreover have "list_all (\<lambda>e. \<not> is_update e) (front @ pre @ final)"
    using loaded_no_update [OF body(2)] pre(3) body(7)
    by (auto simp: status_events_def split: if_splits)
  ultimately show ?thesis using eq pre body(2,3) del(2)
    by (intro exI [of _ front] exI [of _ stored] exI [of _ "ObjectKeyFromMeta (kro_Meta stored)"]
        exI [of _ pre] exI [of _ res] exI [of _ final]) (auto simp: without_finalizer_def)
qed



section \<open>The frame of a run\<close>

text \<open>
  An object with the ignore annotation is left alone: the read of the object is the only
  call, nothing is written, and no further reconcile is asked for.
\<close>
theorem Reconcile_ignored:
  assumes get: "on_onboarding_get E (hist s) req = Inr k"
    and ignore: "meta_Annotations (kro_Meta k) (OperationAnnotation (lib E))
      = Some (OperationAnnotationValueIgnore (lib E))"
  shows "run_state (Reconcile E r req) s = (Returned (no_requeue, None),
    s\<lparr>hist := hist s @ [OnboardingGet req (Inr k)], obj := k\<rparr>)"
  using assms by (simp add: Reconcile_def operation_annotation_def)

theorem Reconcile_ignored_witness:
  "run_state (Reconcile (serving (annotated ''ignore'') sample_env)
      (sample_sp (serving (annotated ''ignore'') sample_env)) sample_key) (sample_state ''v0.9.3'')
    = (Returned (no_requeue, None),
       \<lparr>hist = [OnboardingGet sample_key (Inr (annotated ''ignore''))], obj = annotated ''ignore''\<rparr>)"
  by (subst Reconcile_ignored) (simp_all add: sample_libs_def annotated_def sample_state_def)

text \<open>
  A manual trigger is consumed exactly once: with the reconcile annotation on the object,
  the second call is a patch whose new object lacks that annotation and is the read object
  otherwise; the run goes on only if the patch was accepted, and if it was not, its error is
  returned and nothing else is called.
\<close>
theorem Reconcile_consumes_annotation:
  assumes laws: "annotation_laws (lib E)"
    and get: "on_onboarding_get E (hist s) req = Inr k"
    and trigger: "meta_Annotations (kro_Meta k) (OperationAnnotation (lib E))
      = Some (OperationAnnotationValueReconcile (lib E))"
  defines "patched \<equiv> k\<lparr>kro_Meta := (kro_Meta k)\<lparr>meta_Annotations :=
        (meta_Annotations (kro_Meta k))(OperationAnnotation (lib E) := None)\<rparr>\<rparr>"
    and "h \<equiv> hist s @ [OnboardingGet req (Inr k)]"
  defines "answer \<equiv> on_onboarding_patch E h patched k"
  defines "u \<equiv> s\<lparr>hist := h @ [OnboardingPatch patched k answer], obj := k\<rparr>"
  shows "run_state (Reconcile E r req) s = (case answer of
      Inl err \<Rightarrow> (Returned (no_requeue, Some err), u)
    | Inr stored \<Rightarrow> run_state (with_status_update E (reconcile_body E r)) (u\<lparr>obj := stored\<rparr>))"
  using assms
  by (auto simp: Reconcile_def operation_annotation_def annotation_laws_def Let_def
      drop_operation_annotation_def split: sum.split)

theorem Reconcile_consumes_annotation_witness:
  "\<exists>patched. run_state (Reconcile (refusing sample_env) (sample_sp (refusing sample_env)) sample_key)
       (sample_state ''v0.9.3'') = (Returned (no_requeue, Some (ErrorString ''conflict'')),
       \<lparr>hist = [OnboardingGet sample_key (Inr (annotated ''reconcile'')),
           OnboardingPatch patched (annotated ''reconcile'') (Inl (ErrorString ''conflict''))],
         obj = annotated ''reconcile''\<rparr>)
     \<and> meta_Annotations (kro_Meta patched) ''openmcp.cloud/operation'' = None"
proof -
  have "meta_Annotations (kro_Meta (annotated ''reconcile'')) (OperationAnnotation (lib (refusing sample_env)))
      = Some (OperationAnnotationValueReconcile (lib (refusing sample_env)))"
    by (simp add: refusing_def annotated_def sample_libs_def)
  from Reconcile_consumes_annotation [OF _ _ this, where s = "sample_state ''v0.9.3''"
      and r = "sample_sp (refusing sample_env)" and req = sample_key] sample_annotation_laws
  show ?thesis
    by (simp add: refusing_def sample_state_def) (simp add: sample_libs_def)
qed





text \<open>
  C35. Without a provider config nothing is reconciled and nothing is deleted: apart from the
  read and the status patch the run makes no call, the tenant sees phase Progressing with
  reason \<open>ReconcileError\<close>, and the run fails with \<open>provider config missing\<close>.
\<close>
theorem Reconcile_unconfigured:
  assumes laws: "condition_laws (lib E)"
    and run: "run_state (Reconcile E r req) s = (out, t)"
    and get: "on_onboarding_get E (hist s) req = Inr k"
    and plain: "operation_annotation (lib E) k \<notin>
      {OperationAnnotationValueIgnore (lib E), OperationAnnotationValueReconcile (lib E)}"
    and pc: "providerConfig r = None"
  shows "\<exists>final e. hist t = hist s @ OnboardingGet req (Inr k) # final
    \<and> status_events (lib E) k (obj t) final
    \<and> out = Returned (no_requeue, Some e) \<and> errors_Is e (ErrorString ''provider config missing'')
    \<and> status_Phase (kro_Status (obj t)) = StatusPhaseProgressing
    \<and> kro_ready (lib E) (obj t) ConditionFalse ''ReconcileError'' ''No ProviderConfig found''"
  using run
proof (cases rule: Reconcile_cases)
  case (normal k' u)
  obtain bo v where bo: "run_state (reconcile_body E r) u = (bo, v)"
    by (cases "run_state (reconcile_body E r) u")
  have body: "hist v = hist u" "bo = Returned (no_requeue, Some (ErrorString ''provider config missing''))"
    "obj v = StatusProgressing (lib E) Kro_API reasonReconcileError ''No ProviderConfig found'' (obj u)"
    using bo pc by (cases rule: reconcile_body_cases, auto)+
  have "errors_Is e f" if "errors_Join (Some f) (Some g) = Some e" for e f g
    using errors_Join_Is [OF that] by simp
  with normal(6) bo body normal(1,4,5) get kro_ready_reported(1) [OF laws] show ?thesis
    by (auto simp: with_status_update_run updateStatus_run Let_def status_events_def
        reasonReconcileError_def errors_Join_def split: if_splits option.splits)
qed (use get plain in auto)

theorem Reconcile_unconfigured_witness:
  "\<exists>t. run_state (Reconcile (serving sample_deleted sample_env)
       ((sample_sp sample_env)\<lparr>providerConfig := None\<rparr>) sample_key) (sample_state ''v0.9.3'')
       = (Returned (no_requeue, Some (ErrorString ''provider config missing'')), t)
     \<and> status_Phase (kro_Status (obj t)) = StatusPhaseProgressing"
proof -
  define E r where "E = serving sample_deleted sample_env" and "r = (sample_sp sample_env)\<lparr>providerConfig := None\<rparr>"
  have failed: "fst (run_state (Reconcile E r sample_key) (sample_state ''v0.9.3''))
      = Returned (no_requeue, Some (ErrorString ''provider config missing''))"
    by (simp add: E_def r_def sample_delete_run StatusPhaseProgressing_def)
  have E: "lib E = sample_libs" "providerConfig r = None"
    "on_onboarding_get E (hist (sample_state ''v0.9.3'')) sample_key = Inr sample_deleted"
    by (simp_all add: E_def r_def)
  have "operation_annotation (lib E) sample_deleted \<notin>
      {OperationAnnotationValueIgnore (lib E), OperationAnnotationValueReconcile (lib E)}"
    by (simp add: E operation_annotation_def sample_deleted_def sample_libs_def sample_meta_def)
  from Reconcile_unconfigured [OF _ run_fst [OF failed] E(3) this E(2)] sample_condition_laws E(1)
    run_fst [OF failed]
  show ?thesis by (fold E_def, fold r_def) auto
qed


section \<open>The runtime and the Kro domain reconciler together\<close>

text \<open>
  What controller-runtime promises of \<open>CreateOrUpdate\<close>: when it succeeds, the object it leaves
  behind has the finalizers the mutation gave to the object the server holds.
\<close>

definition upsert_laws :: "env \<Rightarrow> bool" where
  "upsert_laws E \<longleftrightarrow> (\<forall>h k f k'. on_onboarding_upsert E h k f = (k', None) \<longrightarrow>
     (\<exists>server. meta_Finalizers (kro_Meta k') = meta_Finalizers (kro_Meta (f server))))"

lemma sample_upsert_laws: "upsert_laws sample_env"
  by (auto simp: upsert_laws_def sample_env_def)

lemma after_upsert:
  assumes "upsert_laws E" "finalizer_laws (lib E)"
    and "on_onboarding_upsert E h k (add_finalizer (lib E)) = (k', None)"
  shows "Kro_Finalizer \<in> set (meta_Finalizers (kro_Meta k'))"
proof -
  obtain server where "meta_Finalizers (kro_Meta k') = meta_Finalizers (kro_Meta (add_finalizer (lib E) server))"
    using assms(1,3) unfolding upsert_laws_def by blast
  with assms(2) show ?thesis by (simp add: add_finalizer_def finalizer_laws_def)
qed

lemma kro_domain_fields:
  "sp_CreateOrUpdate (kro_domain E kr) pc cc = CreateOrUpdate E kr (Some pc) cc"
  "sp_Delete (kro_domain E kr) pc cc = Delete E kr (Some pc) cc"
  by (simp_all add: kro_domain_def)




definition not_ready :: "env \<Rightarrow> env" where
  "not_ready E = E\<lparr>on_access_reconcile := \<lambda>h k. (\<lparr>RequeueAfter = 10\<rparr>, None),
     on_list := \<lambda>h c g. Inr 2\<rparr>"


fun nil_answer :: "event \<Rightarrow> bool" where
  "nil_answer (AccessMCPAccessRequest k a) \<longleftrightarrow> a = (None, None)"
| "nil_answer (AccessWorkloadAccessRequest k a) \<longleftrightarrow> a = (None, None)"
| "nil_answer (PlatformGetAccessRequest k a) \<longleftrightarrow> (\<exists>ar. a = Inr ar \<and> ar_SecretRef ar = None)"
| "nil_answer _ = False"

lemma workload_clusters_panic:
  assumes "run_state (workload_clusters E r req b res cc) s = (Panicked, t)"
  shows "\<exists>evs. hist t = hist s @ evs \<and> list_ex nil_answer evs"
  using assms
  by (auto simp: workload_clusters_def access_calls Let_def retrieveSecretKey_def
      split: if_splits option.splits prod.splits outcome.splits)

lemma clusters_panic:
  assumes "run_state (clusters E r req b) s = (Panicked, t)"
  shows "\<exists>evs. hist t = hist s @ evs \<and> list_ex nil_answer evs"
  using assms
  by (auto simp: clusters_def access_calls Let_def retrieveSecretKey_def dest!: workload_clusters_panic
      split: if_splits option.splits prod.splits outcome.splits)

lemma delete_panic:
  assumes run: "run_state (delete E r pc) s = (Panicked, t)"
    and dom: "serviceProviderReconciler r = Some (kro_domain E kr)"
  shows "\<exists>evs. hist t = hist s @ evs \<and> list_ex nil_answer evs"
  using run refl
proof (cases rule: delete_cases)
  case (in_deletion evs u)
  from in_deletion(4) show ?thesis by (cases rule: remove_access_cases) simp_all
next
  case (cleaned evs u v)
  from cleaned(5) show ?thesis by (cases rule: remove_access_cases) simp_all
next
  case (early evs u step)
  have step: "step = Panicked" using early(5,6) by (auto split: outcome.splits option.splits)
  from early(4) [unfolded step] show ?thesis
  proof (cases rule: domain_delete_cases)
    case panicked
    from clusters_panic [OF panicked(1)] logged_hist [OF early(2)] show ?thesis by auto
  next
    case (domain cc res w out)
    have del: "run_state (Delete E kr (Some pc) cc) w = (Panicked, t)"
      using domain(3,4) dom
      by (auto simp: domain_Delete_def kro_domain_fields after_domain_def
          split: outcome.splits option.splits if_splits)
    show ?thesis
    proof (cases "StableMCPNamespace (lib E) (meta_Name (kro_Meta (obj w))) (meta_Namespace (kro_Meta (obj w)))")
      case (Inl err)
      with del Delete_no_namespace [OF Inl] show ?thesis by simp
    next
      case (Inr tns)
      from delete_confined_run [OF del Inr] show ?thesis by simp
    qed
  qed simp_all
qed simp_all

lemma createOrUpdate_panic:
  assumes run: "run_state (createOrUpdate E r pc) s = (Panicked, t)"
    and dom: "serviceProviderReconciler r = Some (kro_domain E kr)"
  shows "\<exists>evs. hist t = hist s @ evs \<and> list_ex nil_answer evs"
  using run
proof (cases rule: createOrUpdate_cases)
  case (stored k u got v)
  show ?thesis
  proof (cases got)
    case Panicked
    with stored clusters_panic show ?thesis by force
  next
    case (Returned answer)
    obtain cc res where answer: "answer = (cc, res, None)" "\<not> RequeueAfter res > 0"
      "run_state (domain_CreateOrUpdate r pc cc) v = (Panicked, t)"
      using stored(5) Returned by (auto split: prod.splits option.splits if_splits)
    obtain a where a: "logged u a v" using stored(4) by (rule clusters_run)
    have "run_state (CreateOrUpdate E kr (Some pc) cc) v = (Panicked, t)"
      using answer(3) dom by (simp add: domain_CreateOrUpdate_def kro_domain_fields)
    from CreateOrUpdate_panic_run [OF this] obtain before k' ar where
      "hist t = hist v @ before @ [PlatformGetAccessRequest k' (Inr ar)]" "ar_SecretRef ar = None"
      by blast
    with logged_hist [OF a] stored(2) show ?thesis by simp
  qed
qed simp_all

definition no_answer :: "env \<Rightarrow> env" where
  "no_answer E = E\<lparr>on_mcp_request := \<lambda>h k. (None, None)\<rparr>"



end
