(* ===== verification/Kro_Progress.thy ===== *)
theory Kro_Progress
  imports Kro_Delete
begin

text \<open>
  Progress of the domain reconciler: on clusters where every call succeeds, one run installs kro
  and reports it ready. (The safety properties of the other theories say what a run that
  returns has done; here runs are shown to return.)
\<close>

section \<open>Healthy clusters\<close>

text \<open>
  From the \<open>n\<close>-th call on, every call of \<open>CreateOrUpdate\<close> succeeds, and Flux reports what it is
  given as ready.
\<close>

definition healthy :: "nat \<Rightarrow> env \<Rightarrow> bool" where
  "healthy n E \<longleftrightarrow> (\<forall>h. n \<le> length h \<longrightarrow>
     (\<forall>k. \<exists>sec data. on_get_secret E h k = Inr sec \<and> secret_Data sec mcpKubeconfigKey = Some data)
   \<and> (\<forall>k sec. on_upsert_secret E h k sec = None)
   \<and> (\<forall>k spec. \<exists>oci. on_upsert_oci E h k spec = Inr oci \<and> flux_ready (lib E) (oci_Conditions oci))
   \<and> (\<forall>k spec. \<exists>rel. on_upsert_hr E h k spec = Inr rel \<and> flux_ready (lib E) (hr_Conditions rel))
   \<and> (\<forall>k. \<exists>ar ref. on_get_access_request E h k = Inr ar \<and> ar_SecretRef ar = Some ref)
   \<and> (\<forall>c ns. on_workload_namespace E h c ns = None)
   \<and> (\<forall>c k sec. on_workload_secret E h c k sec = None))"

lemma healthy_reads:
  assumes "healthy n E" "n \<le> length h"
  shows "\<exists>sec data. on_get_secret E h k = Inr sec \<and> secret_Data sec mcpKubeconfigKey = Some data"
    "\<exists>oci. on_upsert_oci E h k spec = Inr oci \<and> flux_ready (lib E) (oci_Conditions oci)"
    "\<exists>rel. on_upsert_hr E h k spec' = Inr rel \<and> flux_ready (lib E) (hr_Conditions rel)"
    "\<exists>ar ref. on_get_access_request E h k = Inr ar \<and> ar_SecretRef ar = Some ref"
  using assms by (simp_all add: healthy_def)

lemma healthy_writes:
  assumes "healthy n E" "n \<le> length h"
  shows "on_upsert_secret E h k sec = None" "on_workload_namespace E h c ns = None"
    "on_workload_secret E h c k sec = None"
  using assms by (simp_all add: healthy_def)

lemma healthy_later: "healthy n E \<Longrightarrow> n \<le> m \<Longrightarrow> healthy m E"
  by (simp add: healthy_def)

lemma chart_secret_progress:
  assumes "healthy n E" "n \<le> length (hist s)"
  shows "\<exists>t. run_state (replicateChartPullSecret E r sn ns) (s :: gostate) = (None, t) \<and> obj t = obj s
    \<and> n \<le> length (hist t)"
proof -
  obtain sec where "on_get_secret E (hist s) (object_key (PodNamespace r) sn) = Inr sec"
    using healthy_reads(1) [OF assms] by blast
  with assms(2) healthy_writes [OF assms(1)] show ?thesis
    by (simp add: replicateChartPullSecret_def cluster_calls)
qed

lemma refs_progress:
  assumes "healthy n E"
  shows "n \<le> length (hist s) \<Longrightarrow>
    \<exists>t. run_state (replicate_refs E r c refs) (s :: gostate) = (None, t) \<and> obj t = obj s
      \<and> n \<le> length (hist t)"
proof (induction refs arbitrary: s)
  case (Cons ref refs)
  obtain sec where "on_get_secret E (hist s) (object_key (PodNamespace r) ref) = Inr sec"
    using healthy_reads(1) [OF assms Cons.prems] by blast
  with Cons.IH [of "s\<lparr>hist := hist s @ [PlatformGetSecret (object_key (PodNamespace r) ref) (Inr sec),
      WorkloadUpsertSecret c (object_key KroSystemNamespace ref) sec None]\<rparr>"] Cons.prems
      healthy_writes [OF assms]
  show ?case by (simp add: cluster_calls)
qed simp

lemma images_progress:
  assumes "healthy n E" "n \<le> length (hist s)" "ExtractHelmValues (lib E) vals = Inr hv" "wl = Some c"
  shows "\<exists>t. run_state (replicateImagePullSecrets E r wl vals) (s :: gostate) = (None, t) \<and> obj t = obj s
    \<and> n \<le> length (hist t)"
  using assms healthy_writes [OF assms(1,2)] refs_progress [OF assms(1), of
      "s\<lparr>hist := hist s @ [WorkloadEnsureNamespace c KroSystemNamespace None]\<rparr>" r c "ImagePullSecrets hv"]
  by (auto simp: replicateImagePullSecrets_def cluster_calls)

lemma kubeconfig_progress:
  assumes "healthy n E" "n \<le> length (hist s)" "cc_WorkloadCluster cc = Some c"
  shows "\<exists>t. run_state (replicateMCPKubeconfig E cc) (s :: gostate) = (None, t) \<and> obj t = obj s
    \<and> n \<le> length (hist t)"
proof -
  obtain sec data where "on_get_secret E (hist s) (cc_MCPAccessSecretKey cc) = Inr sec"
    "secret_Data sec mcpKubeconfigKey = Some data"
    using healthy_reads(1) [OF assms(1,2)] by blast
  with assms(2,3) healthy_writes [OF assms(1)] show ?thesis
    by (simp add: replicateMCPKubeconfig_def cluster_calls)
qed

lemma oci_progress:
  assumes "healthy n E" "n \<le> length (hist s)"
  shows "\<exists>oci t. run_state (createOrUpdateOCIRepository E v ns) (s :: gostate) = (Inr oci, t)
    \<and> flux_ready (lib E) (oci_Conditions oci) \<and> obj t = obj s \<and> n \<le> length (hist t)"
proof -
  obtain oci where "on_upsert_oci E (hist s) (object_key ns OCIRepositoryName)
      (oci_Spec (createOciRepository v ns)) = Inr oci" "flux_ready (lib E) (oci_Conditions oci)"
    using healthy_reads(2) [OF assms] by blast
  with assms(2) show ?thesis
    by (simp add: createOrUpdateOCIRepository_def createOciRepository_def Let_def)
qed

lemma crds_progress:
  assumes "healthy n E" "n \<le> length (hist s)"
  shows "\<exists>rel t. run_state (createOrUpdateMCPCRDsHelmRelease E ns cc) (s :: gostate) = (Inr rel, t)
    \<and> flux_ready (lib E) (hr_Conditions rel) \<and> obj t = obj s \<and> n \<le> length (hist t)"
proof -
  obtain rel where "on_upsert_hr E (hist s) (object_key ns MCPHelmReleaseName) (crds_release_spec ns
      \<lparr>skr_Name = key_Name (cc_MCPAccessSecretKey cc), skr_Key = ''kubeconfig''\<rparr>) = Inr rel"
    "flux_ready (lib E) (hr_Conditions rel)"
    using healthy_reads(3) [OF assms] by blast
  with assms(2) show ?thesis by (simp add: createOrUpdateMCPCRDsHelmRelease_def cluster_calls Let_def)
qed

lemma release_progress:
  assumes "healthy n E" "n \<le> length (hist s)"
  shows "\<exists>rel t. run_state (createOrUpdateHelmRelease E ns k vals) (s :: gostate) = (Returned (Inr rel), t)
    \<and> flux_ready (lib E) (hr_Conditions rel) \<and> obj t = obj s"
proof -
  define rk where "rk = workload_request_key E ns (meta_Name (kro_Meta k))"
  obtain ar ref where ar: "on_get_access_request E (hist s) rk = Inr ar" "ar_SecretRef ar = Some ref"
    using healthy_reads(4) [OF assms] by blast
  have later: "n \<le> length (hist s @ [PlatformGetAccessRequest rk (Inr ar)])" using assms(2) by simp
  obtain rel where "on_upsert_hr E (hist s @ [PlatformGetAccessRequest rk (Inr ar)])
      (object_key ns HelmReleaseName)
      (kro_release_spec ns \<lparr>skr_Name = ref, skr_Key = ''kubeconfig''\<rparr> vals) = Inr rel"
    "flux_ready (lib E) (hr_Conditions rel)"
    using healthy_reads(3) [OF assms(1) later] by blast
  with ar show ?thesis
    by (simp add: createOrUpdateHelmRelease_eq getWorkloadFluxConfig_def cluster_calls Let_def
        rk_def workload_request_key_def)
qed

lemma apply_progress:
  assumes E: "healthy n E" "n \<le> length (hist s)"
    and hv: "ExtractHelmValues (lib E) (ver_HelmValues v) = Inr hv"
    and wl: "cc_WorkloadCluster cc = Some c"
  shows "\<exists>t k'. run_state (apply_version E r cc tns v k) s = (Returned (no_requeue, None), t)
    \<and> obj t = StatusReady (lib E) Kro_API k'"
proof -
  obtain s1 where 1: "run_state (replicateChartPullSecret E r (ver_ChartPullSecret v) tns) s = (None, s1)"
    and n1: "n \<le> length (hist s1)"
    using chart_secret_progress [OF E] by blast
  obtain oci s2 where 2: "run_state (createOrUpdateOCIRepository E v tns) s1 = (Inr oci, s2)"
    "flux_ready (lib E) (oci_Conditions oci)" and n2: "n \<le> length (hist s2)"
    using oci_progress [OF E(1) n1] by blast
  obtain s3 where 3: "run_state (replicateImagePullSecrets E r (cc_WorkloadCluster cc) (ver_HelmValues v)) s2 = (None, s3)"
    and n3: "n \<le> length (hist s3)"
    using images_progress [OF E(1) n2 hv wl] by blast
  obtain s4 where 4: "run_state (replicateMCPKubeconfig E cc) s3 = (None, s4)"
    and n4: "n \<le> length (hist s4)"
    using kubeconfig_progress [OF E(1) n3 wl] by blast
  obtain crds s5 where 5: "run_state (createOrUpdateMCPCRDsHelmRelease E tns cc) s4 = (Inr crds, s5)"
    "flux_ready (lib E) (hr_Conditions crds)" and n5: "n \<le> length (hist s5)"
    using crds_progress [OF E(1) n4] by blast
  obtain helm s6 where 6: "run_state (createOrUpdateHelmRelease E tns k (ver_HelmValues v)) s5
      = (Returned (Inr helm), s6)" "flux_ready (lib E) (hr_Conditions helm)"
    using release_progress [OF E(1) n5] by blast
  obtain t where t: "run_state (report_resources E tns oci helm crds) s6 = ((), t)"
    by (cases "run_state (report_resources E tns oci helm crds) s6") simp
  have "run_state (apply_version E r cc tns v k) s = (Returned (no_requeue, None), t)"
    by (simp add: apply_version_def 1 2 3 4 5 6 t)
  moreover have "obj t = StatusReady (lib E) Kro_API
      (set_resources (listed (lib E) tns oci helm crds) (obj s6))"
    using report_resources_run [OF t] 2(2) 5(2) 6(2) by (simp add: all_ready_def)
  ultimately show ?thesis by blast
qed

section \<open>Properties\<close>

text \<open>
  Progress: for a version on offer whose helm values parse, on clusters where from
  now on the calls succeed and with a workload cluster at hand, one run of \<open>CreateOrUpdate\<close> returns without an
  error, a requeue or a panic, and the tenant sees the instance Ready.
\<close>
theorem CreateOrUpdate_progress:
  assumes laws: "condition_laws (lib E)" and E: "healthy (length (hist s)) E"
    and ns: "StableMCPNamespace (lib E) (meta_Name (kro_Meta (obj s))) (meta_Namespace (kro_Meta (obj s)))
      = Inr tns"
    and v: "ResolveVersion (lib E) pc (spec_Version (kro_Spec (obj s))) = Inr v"
    and hv: "ExtractHelmValues (lib E) (ver_HelmValues v) = Inr hv"
    and wl: "cc_WorkloadCluster cc = Some c"
  shows "\<exists>t. run_state (CreateOrUpdate E r pc cc) s = (Returned (no_requeue, None), t)
    \<and> status_Phase (kro_Status (obj t)) = StatusPhaseReady
    \<and> kro_ready (lib E) (obj t) ConditionTrue ''ReconcileSuccess'' ''Domain Service is ready''"
proof -
  obtain k where
    "run_state (CreateOrUpdate E r pc cc) s = run_state (apply_version E r cc tns v k) (s\<lparr>obj := k\<rparr>)"
    using CreateOrUpdate_resolved [OF ns v] by blast
  with apply_progress [OF E _ hv wl, of "s\<lparr>obj := k\<rparr>"] kro_ready_reported(2) [OF laws] show ?thesis
    by (simp, metis kro_status_phase(2))
qed

lemma sample_healthy: "healthy n sample_env"
  by (simp add: healthy_def sample_env_def sample_secret_def mcpKubeconfigKey_def sample_access_def
      flux_ready_def) (simp add: sample_libs_def sample_find_condition_def sample_condition_def)

theorem CreateOrUpdate_progress_witness:
  "\<exists>t. run_state (CreateOrUpdate sample_env sample_reconciler sample_pc sample_context)
       (sample_state ''v0.9.3'') = (Returned (no_requeue, None), t)
     \<and> status_Phase (kro_Status (obj t)) = StatusPhaseReady"
proof -
  have "ExtractHelmValues (lib sample_env) (ver_HelmValues sample_version) = Inr \<lparr>ImagePullSecrets = []\<rparr>"
    by (simp add: ExtractHelmValues_def sample_version_def)
  moreover have "cc_WorkloadCluster sample_context = Some (Cluster ''workload'')"
    by (simp add: sample_context_def)
  ultimately show ?thesis
    using CreateOrUpdate_progress [OF _ sample_healthy sample_namespace sample_resolves]
      sample_condition_laws by fastforce
qed

end
