(* ===== verification/PC_Reconciler.thy ===== *)
theory PC_Reconciler
  imports SP_Properties Kro_Progress
begin

text \<open>
  \<open>pkg/spruntime/pcreconciler.go\<close>: the reconciler of the provider config. It reads the config
  and passes it on through the update channel; the receiving side is \<open>config_update\<close> of the
  service provider reconciler.
\<close>

record PCReconciler =
  pcr_platformCluster :: "Cluster option"
  providerName :: string

definition NewPCReconciler :: "string \<Rightarrow> PCReconciler" where
  "NewPCReconciler name = \<lparr>pcr_platformCluster = None, providerName = name\<rparr>"

definition PC_WithPlatformCluster :: "Cluster option \<Rightarrow> PCReconciler \<Rightarrow> PCReconciler" where
  "PC_WithPlatformCluster c r = r\<lparr>pcr_platformCluster := c\<rparr>"

text \<open>The send on the channel; an event without object is the nil notification.\<close>

definition send_update :: "ProviderConfig option \<Rightarrow> ('w world_scheme, unit) state" where
  "send_update notify = call (\<lambda>h. ()) (\<lambda>_. SendUpdate notify)"

definition PC_Reconcile :: "env \<Rightarrow> ObjectKey \<Rightarrow> ('w world_scheme, reply) state" where
  "PC_Reconcile E req = do {
     got \<leftarrow> call (\<lambda>h. on_get_config E h req) (PlatformGetProviderConfig req);
     case got of
       Inl err \<Rightarrow> do {
         _ \<leftarrow> send_update None;
         State_Monad.return (no_requeue, IgnoreNotFound (lib E) err) }
     | Inr found \<Rightarrow>
         if \<not> IsZero (meta_DeletionTimestamp (pc_Meta found))
         then do {
           _ \<leftarrow> send_update None;
           State_Monad.return (no_requeue, None) }
         else do {
           _ \<leftarrow> send_update (Some found);
           State_Monad.return (no_requeue, None) } }"

text \<open>The watch of the config controller: a third-party predicate on name and namespace.\<close>

definition PC_watched :: "env \<Rightarrow> PCReconciler \<Rightarrow> ObjectKey \<Rightarrow> bool" where
  "PC_watched E r k = ExactNamePredicate (lib E) (providerName r) '''' k"

section \<open>What a run sends\<close>

definition notification :: "goerror + ProviderConfig \<Rightarrow> ProviderConfig option" where
  "notification got = (case got of
     Inl err \<Rightarrow> None
   | Inr pc \<Rightarrow> if IsZero (meta_DeletionTimestamp (pc_Meta pc)) then Some pc else None)"

lemma PC_Reconcile_run:
  "run_state (PC_Reconcile E req) s =
     (let got = on_get_config E (hist s) req
      in ((no_requeue, case got of Inl err \<Rightarrow> IgnoreNotFound (lib E) err | Inr pc \<Rightarrow> None),
          s\<lparr>hist := hist s @ [PlatformGetProviderConfig req got, SendUpdate (notification got)]\<rparr>))"
  by (simp add: PC_Reconcile_def send_update_def notification_def Let_def split: sum.split)

text \<open>
  Every change of the provider config reaches the service provider reconciler as exactly one
  notification: the run reads the config once and then sends, in every case, the config if it
  exists and is not being deleted, and the empty notification otherwise; it fails only if the
  read failed for another reason than a missing config.
\<close>
theorem PC_Reconcile_notifies:
  assumes laws: "not_found_laws (lib E)"
    and run: "run_state (PC_Reconcile E req) s = ((res, err), t)"
  shows "\<exists>got n. hist t = hist s @ [PlatformGetProviderConfig req got, SendUpdate n]
    \<and> got = on_get_config E (hist s) req \<and> res = no_requeue
    \<and> (\<forall>pc. n = Some pc \<longleftrightarrow> got = Inr pc \<and> IsZero (meta_DeletionTimestamp (pc_Meta pc)))
    \<and> (\<forall>e. err = Some e \<longleftrightarrow> got = Inl e \<and> \<not> IsNotFound (lib E) e)"
  using run laws
  by (auto simp: PC_Reconcile_run Let_def notification_def not_found_laws_def split: sum.splits if_splits)

theorem PC_Reconcile_notifies_witness:
  "\<exists>t. run_state (PC_Reconcile sample_env (object_key '''' ''kro'')) (sample_state ''v0.9.3'')
      = ((no_requeue, None), t)
    \<and> hist t = [PlatformGetProviderConfig (object_key '''' ''kro'') (Inr (sample_config [sample_version])),
        SendUpdate (Some (sample_config [sample_version]))]"
proof -
  obtain res err t where run: "run_state (PC_Reconcile sample_env (object_key '''' ''kro''))
      (sample_state ''v0.9.3'') = ((res, err), t)"
    by (metis prod.exhaust)
  have got: "on_get_config sample_env h k = Inr (sample_config [sample_version])" for h k
    by (simp add: sample_env_def)
  have "IsZero (meta_DeletionTimestamp (pc_Meta (sample_config [sample_version])))"
    by (simp add: sample_config_def sample_meta_def IsZero_def)
  with PC_Reconcile_notifies [OF _ run] sample_not_found_laws got
  have "res = no_requeue" "err = None"
    "hist t = [PlatformGetProviderConfig (object_key '''' ''kro'') (Inr (sample_config [sample_version])),
        SendUpdate (Some (sample_config [sample_version]))]"
    by (auto simp: sample_state_def)
  with run show ?thesis by simp
qed

end
