(* ===== verification/Traces.thy ===== *)
theory Traces
  imports PC_Reconciler
begin

text \<open>
  Properties of what is called, in which order. A set of call sequences that contains the empty
  one and is closed under concatenation, the runtime's own calls, and the sequences of the domain
  reconciler contains those of every run of the runtime: the locale \<open>trace_property\<close>; theory
  \<open>System\<close> extends this to every history the running system can produce.
\<close>

section \<open>The calls of a computation\<close>

definition traces :: "(event list \<Rightarrow> bool) \<Rightarrow> ('w world_scheme, 'a) state \<Rightarrow> bool" where
  "traces P m \<longleftrightarrow> (\<forall>s. \<exists>evs. hist (snd (run_state m s)) = hist s @ evs \<and> P evs)"

lemma tracesD:
  assumes "traces P m" "run_state m s = (a, t)"
  obtains evs where "hist t = hist s @ evs" "P evs"
  using assms by (auto simp: traces_def dest: spec [of _ s])

lemma emits_only_traces: "emits_only P m \<longleftrightarrow> traces (list_all P) m"
  by (simp add: emits_only_def traces_def)

lemma traces_mono: "traces P m \<Longrightarrow> (\<And>evs. P evs \<Longrightarrow> Q evs) \<Longrightarrow> traces Q m"
  unfolding traces_def by blast

text \<open>What comes second may depend on the answer and the calls of what came first.\<close>

lemma traces_then:
  assumes "traces P m"
    and "\<And>a s t evs. run_state m s = (a, t) \<Longrightarrow> hist t = hist s @ evs \<Longrightarrow> P evs \<Longrightarrow>
      traces (\<lambda>evs'. R (evs @ evs')) (f a)"
  shows "traces R (State_Monad.bind m f)"
  unfolding traces_def
proof
  fix s
  obtain a t where run: "run_state m s = (a, t)" by (cases "run_state m s")
  obtain evs where evs: "hist t = hist s @ evs" "P evs"
    using assms(1) run by (rule tracesD)
  then obtain evs' where "hist (snd (run_state (f a) t)) = hist t @ evs'" "R (evs @ evs')"
    using assms(2) [OF run] unfolding traces_def by blast
  with run evs(1) show "\<exists>evs. hist (snd (run_state (State_Monad.bind m f) s)) = hist s @ evs \<and> R evs"
    by auto
qed

lemma traces_if: "(b \<Longrightarrow> traces P m) \<Longrightarrow> (\<not> b \<Longrightarrow> traces P n) \<Longrightarrow> traces P (if b then m else n)"
  by simp

lemma traces_case_option:
  "(x = None \<Longrightarrow> traces P m) \<Longrightarrow> (\<And>y. x = Some y \<Longrightarrow> traces P (f y)) \<Longrightarrow>
    traces P (case x of None \<Rightarrow> m | Some y \<Rightarrow> f y)"
  by (cases x) simp_all

lemma traces_case_sum:
  "(\<And>e. x = Inl e \<Longrightarrow> traces P (f e)) \<Longrightarrow> (\<And>y. x = Inr y \<Longrightarrow> traces P (g y)) \<Longrightarrow>
    traces P (case x of Inl e \<Rightarrow> f e | Inr y \<Rightarrow> g y)"
  by (cases x) simp_all

lemma traces_case_prod:
  "(\<And>a b. x = (a, b) \<Longrightarrow> traces P (f a b)) \<Longrightarrow> traces P (case x of (a, b) \<Rightarrow> f a b)"
  by (cases x) simp

lemma traces_case_outcome:
  "(\<And>a. x = Returned a \<Longrightarrow> traces P (f a)) \<Longrightarrow> traces P m \<Longrightarrow>
    traces P (case x of Returned a \<Rightarrow> f a | Panicked \<Rightarrow> m)"
  by (cases x) simp_all

lemma traces_Let: "(\<And>x. traces P (f x)) \<Longrightarrow> traces P (Let v f)"
  by simp

lemmas traces_branches = traces_Let traces_if traces_case_option traces_case_sum traces_case_prod
  traces_case_outcome

section \<open>The two parts of a run\<close>

text \<open>
  \<open>Reconcile\<close> up to the point where it loads the provider config: it reads the object and honours
  the annotations. \<open>Some\<close> is an early return. The rest is the status update around the body.
\<close>

definition load_object :: "env \<Rightarrow> ObjectKey \<Rightarrow> (gostate, reply option) state" where
  "load_object E req = do {
     _ \<leftarrow> modify_obj (\<lambda>_. emptyKro);
     got \<leftarrow> call (\<lambda>h. on_onboarding_get E h req) (OnboardingGet req);
     case got of
       Inl err \<Rightarrow> State_Monad.return (Some (no_requeue, IgnoreNotFound (lib E) err))
     | Inr found \<Rightarrow> do {
         _ \<leftarrow> modify_obj (\<lambda>_. found);
         if operation_annotation (lib E) found = OperationAnnotationValueIgnore (lib E)
         then State_Monad.return (Some (no_requeue, None))
         else if operation_annotation (lib E) found = OperationAnnotationValueReconcile (lib E)
         then do {
           let patched = drop_operation_annotation (lib E) found;
           answer \<leftarrow> call (\<lambda>h. on_onboarding_patch E h patched found) (OnboardingPatch patched found);
           case answer of
             Inl err \<Rightarrow> State_Monad.return (Some (no_requeue, Some err))
           | Inr stored \<Rightarrow> do {
               _ \<leftarrow> modify_obj (\<lambda>_. stored);
               State_Monad.return None } }
         else State_Monad.return None } }"

lemma Reconcile_split:
  "Reconcile E r req = do {
     ended \<leftarrow> load_object E req;
     case ended of
       Some reply \<Rightarrow> State_Monad.return (Returned reply)
     | None \<Rightarrow> with_status_update E (reconcile_body E r) }"
  by (rule state.expand, rule ext)
    (simp add: Reconcile_def load_object_def Let_def split: sum.split)

text \<open>The calls around the provider config.\<close>

fun config_event :: "event \<Rightarrow> bool" where
  "config_event (PlatformGetProviderConfig k r) = True"
| "config_event (SendUpdate n) = True"
| "config_event _ = False"

text \<open>The calls a run makes on its own, but for the update that takes the finalizer off.\<close>

definition own_event :: "event \<Rightarrow> bool" where
  "own_event e \<longleftrightarrow> runtime_event e \<and> \<not> is_update e \<and> \<not> config_event e"

lemma access_own: "access_event e \<Longrightarrow> own_event e"
  by (cases e) (simp_all add: own_event_def)

lemma remove_access_emits:
  "emits_only (\<lambda>e. \<not> config_event e \<and> runtime_event e) (remove_access E req)"
  unfolding remove_access_def access_calls by (intro emits) auto

section \<open>Closed properties\<close>

named_theorems tracing \<open>introduction rules for traces of a closed property\<close>

declare traces_branches [tracing]

locale trace_property =
  fixes P :: "event list \<Rightarrow> bool"
  assumes no_calls: "P []"
    and more_calls: "P xs \<Longrightarrow> P ys \<Longrightarrow> P (xs @ ys)"
begin

lemma return_traces [tracing]: "traces P (State_Monad.return x)"
  by (simp add: traces_def no_calls)

lemma call_traces [tracing]: "(\<And>r. P [ev r]) \<Longrightarrow> traces P (call q ev)"
  by (simp add: traces_def)

lemma object_traces [tracing]: "traces P get_obj" "traces P (modify_obj f)"
  by (simp_all add: traces_def no_calls)

lemma bind_traces [tracing]:
  "traces P m \<Longrightarrow> (\<And>a. traces P (f a)) \<Longrightarrow> traces P (State_Monad.bind m f)"
  by (rule traces_then [of P], assumption) (blast intro: traces_mono more_calls)

lemma list_all_closed: "(\<And>e. Q e \<Longrightarrow> P [e]) \<Longrightarrow> list_all Q evs \<Longrightarrow> P evs"
proof (induction evs)
  case (Cons e evs)
  then show ?case using more_calls [of "[e]" evs] by simp
qed (simp add: no_calls)

lemma emits_traces: "emits_only Q m \<Longrightarrow> (\<And>e. Q e \<Longrightarrow> P [e]) \<Longrightarrow> traces P m"
  unfolding emits_only_traces by (erule traces_mono) (rule list_all_closed)

text \<open>
  The runtime adds only its own calls to those of the domain reconciler, whatever its config is;
  the update that takes the finalizer off comes from \<open>remove_access\<close> alone.
\<close>

lemma status_update_traces:
  assumes dom: "serviceProviderReconciler r = Some D"
    and own: "\<And>e. own_event e \<Longrightarrow> P [e]"
    and removal: "\<And>req. traces P (remove_access E req)"
    and create: "\<And>pc cc. traces P (sp_CreateOrUpdate D pc cc)"
    and del: "\<And>pc cc. traces P (sp_Delete D pc cc)"
  shows "traces P (with_status_update E (reconcile_body E r))"
proof -
  have cl: "traces P (clusters E r req b :: (gostate, clusters_answer) state)" for req b
    by (rule emits_traces [OF clusters_emits]) (simp add: own access_own)
  have "traces P (areAccessRequestsInDeletion E r req :: (gostate, goerror + bool) state)" for req
    by (rule emits_traces [OF areAccessRequestsInDeletion_emits]) (simp add: own access_own request_is_access)
  moreover have "traces P (domain_delete E r pc req)" for pc req
    unfolding domain_delete_def domain_Delete_def by (intro tracing cl) (auto simp: dom del intro!: tracing)
  ultimately have "traces P (delete E r pc)" for pc
    unfolding delete_def by (intro tracing removal)
  moreover have "traces P (createOrUpdate E r pc)" for pc
    unfolding createOrUpdate_def domain_CreateOrUpdate_def
    by (intro tracing cl) (auto simp: dom create own own_event_def intro!: tracing)
  ultimately have "traces P (reconcile_body E r)"
    unfolding reconcile_body_def by (intro tracing)
  then show ?thesis
    unfolding with_status_update_def updateStatus_def by (intro tracing own) (simp_all add: own_event_def)
qed

lemma load_object_traces:
  assumes own: "\<And>e. own_event e \<Longrightarrow> P [e]"
  shows "traces P (load_object E k)"
  unfolding load_object_def Let_def by (intro tracing own) (simp_all add: own_event_def)

lemma Reconcile_traces:
  assumes "serviceProviderReconciler r = Some D"
    and own: "\<And>e. own_event e \<Longrightarrow> P [e]"
    and "\<And>req. traces P (remove_access E req)"
    and "\<And>pc cc. traces P (sp_CreateOrUpdate D pc cc)" "\<And>pc cc. traces P (sp_Delete D pc cc)"
  shows "traces P (Reconcile E r k)"
  unfolding Reconcile_split by (intro tracing load_object_traces own status_update_traces [OF assms])

end

section \<open>What must come before\<close>

text \<open>
  \<open>in_order R pre evs\<close>: every call of \<open>evs\<close> stands in the relation \<open>R\<close> to the calls before it,
  those of \<open>pre\<close> included. More calls before never hurt: that makes it a closed property.
\<close>

fun in_order :: "(event list \<Rightarrow> event \<Rightarrow> bool) \<Rightarrow> event list \<Rightarrow> event list \<Rightarrow> bool" where
  "in_order R pre [] \<longleftrightarrow> True"
| "in_order R pre (e # es) \<longleftrightarrow> R pre e \<and> in_order R (pre @ [e]) es"

lemma in_order_append: "in_order R pre (xs @ ys) \<longleftrightarrow> in_order R pre xs \<and> in_order R (pre @ xs) ys"
  by (induction xs arbitrary: pre) auto

lemma in_order_split: "in_order R pre (a @ e # b) \<Longrightarrow> R (pre @ a) e"
  by (simp add: in_order_append)

lemma in_order_bind:
  assumes "traces (in_order R pre) m"
    and "\<And>a s t evs. run_state m s = (a, t) \<Longrightarrow> hist t = hist s @ evs \<Longrightarrow>
      traces (in_order R (pre @ evs)) (f a)"
  shows "traces (in_order R pre) (State_Monad.bind m f)"
  by (rule traces_then [OF assms(1)]) (auto simp: in_order_append intro: traces_mono assms(2))

lemma in_order_return: "traces (in_order R pre) (State_Monad.return x)"
  by (simp add: traces_def)

lemma in_order_call: "(\<And>r. R pre (ev r)) \<Longrightarrow> traces (in_order R pre) (call q ev)"
  by (simp add: traces_def)

lemma in_order_quiet:
  "emits_only Q m \<Longrightarrow> (\<And>pre e. Q e \<Longrightarrow> R pre e) \<Longrightarrow> traces (in_order R pre) m"
proof -
  assume m: "emits_only Q m" and Q: "\<And>pre e. Q e \<Longrightarrow> R pre e"
  have "list_all Q evs \<Longrightarrow> in_order R pre evs" for pre evs
    by (induction evs arbitrary: pre) (simp_all add: Q)
  with m show ?thesis unfolding emits_only_traces by (rule traces_mono)
qed

locale call_order =
  fixes R :: "event list \<Rightarrow> event \<Rightarrow> bool"
  assumes earlier: "R pre e \<Longrightarrow> R (xs @ pre) e"
begin

lemma in_order_earlier: "in_order R pre evs \<Longrightarrow> in_order R (xs @ pre) evs"
  by (induction evs arbitrary: pre) (auto intro: earlier)

lemma in_order_closed: "in_order R [] xs \<Longrightarrow> in_order R [] ys \<Longrightarrow> in_order R [] (xs @ ys)"
  using in_order_earlier [of "[]" ys xs] by (simp add: in_order_append)

end

sublocale call_order \<subseteq> trace_property "in_order R []"
  by unfold_locales (simp_all add: in_order_closed)

end
