(* ===== verification/System.thy ===== *)
theory System
  imports Traces
begin

text \<open>
  The running controller: the two reconcilers, the channel between them and the work queue, as
  a step relation. \<open>main.go\<close> wires them; controller-runtime, which is not part of the
  repository, runs one reconcile after the other per controller, delivers channel events in
  order, and keeps the queue free of duplicates.
\<close>

section \<open>Wiring\<close>

text \<open>Lines 320 to 345 of \<open>main\<close>: the service provider reconciler that is started.\<close>

definition main_reconciler :: "env \<Rightarrow> Cluster option \<Rightarrow> Cluster option \<Rightarrow> ClusterAccessProvider
    \<Rightarrow> string \<Rightarrow> SPReconciler" where
  "main_reconciler E platform onboarding car podNamespace =
     WithClusterAccessReconciler car (WithServiceProviderReconciler (kro_domain E
         \<lparr>kr_OnboardingCluster = onboarding, kr_PlatformCluster = platform, PodNamespace = podNamespace\<rparr>)
       (WithWorkloadCluster True
         (WithOnboardingCluster onboarding
           (WithPlatformCluster platform NewSPReconciler))))"

text \<open>Lines 350 to 354: the config reconciler.\<close>

definition main_pcr :: "Cluster option \<Rightarrow> string \<Rightarrow> PCReconciler" where
  "main_pcr platform name = PC_WithPlatformCluster platform (NewPCReconciler name)"

section \<open>Steps\<close>

record system =
  sys :: gostate
  reconciler :: SPReconciler
  channel :: "ProviderConfig option list"
  queue :: "ObjectKey list"

definition enqueue :: "ObjectKey \<Rightarrow> ObjectKey list \<Rightarrow> ObjectKey list" where
  "enqueue k q = (if k \<in> set q then q else q @ [k])"

definition enqueue_all :: "ObjectKey list \<Rightarrow> ObjectKey list \<Rightarrow> ObjectKey list" where
  "enqueue_all ks q = fold enqueue ks q"

text \<open>The notifications among the events of a history.\<close>

fun sends :: "event list \<Rightarrow> ProviderConfig option list" where
  "sends [] = []"
| "sends (e # es) = (case e of SendUpdate n \<Rightarrow> [n] | _ \<Rightarrow> []) @ sends es"

definition new_events :: "gostate \<Rightarrow> gostate \<Rightarrow> event list" where
  "new_events s t = drop (length (hist s)) (hist t)"

text \<open>
  An object event (a change of the object, a retry, a poll) enqueues its key; a config event runs
  the config reconciler; a delivery runs the map function of the channel source; a reconcile
  takes the first key of the queue. The map function and the worker are concurrent, and the config
  is an atomic pointer the run loads once, after it has read the object: in \<open>overtaken\<close> a delivery
  comes in between, and the run goes on with the new config.
\<close>

inductive sys_step :: "env \<Rightarrow> PCReconciler \<Rightarrow> system \<Rightarrow> system \<Rightarrow> bool" for E p where
  object_event: "sys_step E p S (S\<lparr>queue := enqueue k (queue S)\<rparr>)"
| secret_event: "run_state (secret_event E (reconciler S) secret) (sys S) = (reqs, t) \<Longrightarrow>
    sys_step E p S (S\<lparr>sys := t, queue := enqueue_all reqs (queue S)\<rparr>)"
| config_event: "PC_watched E p k \<Longrightarrow> run_state (PC_Reconcile E k) (sys S) = (out, t) \<Longrightarrow>
    sys_step E p S (S\<lparr>sys := t, channel := channel S @ sends (new_events (sys S) t)\<rparr>)"
| delivery: "channel S = n # rest \<Longrightarrow>
    run_state (config_update E (reconciler S) n) (sys S) = ((r', reqs), t) \<Longrightarrow>
    sys_step E p S (S\<lparr>sys := t, reconciler := r', channel := rest,
      queue := enqueue_all reqs (queue S)\<rparr>)"
| reconcile: "queue S = k # rest \<Longrightarrow>
    run_state (Reconcile E (reconciler S) k) (sys S) = (result, t) \<Longrightarrow>
    sys_step E p S (S\<lparr>sys := t, queue := rest\<rparr>)"
| overtaken: "queue S = k # rest \<Longrightarrow> run_state (load_object E k) (sys S) = (None, u) \<Longrightarrow>
    channel S = n # ns \<Longrightarrow> run_state (config_update E (reconciler S) n) u = ((r', reqs), v) \<Longrightarrow>
    run_state (with_status_update E (reconcile_body E r')) v = (result, t) \<Longrightarrow>
    sys_step E p S (S\<lparr>sys := t, reconciler := r', channel := ns,
      queue := enqueue_all reqs rest\<rparr>)"

inductive_cases sys_stepE: "sys_step E p S T"

definition start :: "env \<Rightarrow> Cluster option \<Rightarrow> Cluster option \<Rightarrow> ClusterAccessProvider \<Rightarrow> string \<Rightarrow> system" where
  "start E platform onboarding car podNamespace = \<lparr>
     sys = \<lparr>hist = [], obj = emptyKro\<rparr>,
     reconciler = main_reconciler E platform onboarding car podNamespace,
     channel = [], queue = []\<rparr>"

inductive reachable :: "env \<Rightarrow> PCReconciler \<Rightarrow> system \<Rightarrow> system \<Rightarrow> bool" for E p S0 where
  initial: "reachable E p S0 S0"
| further: "reachable E p S0 S \<Longrightarrow> sys_step E p S T \<Longrightarrow> reachable E p S0 T"

section \<open>What the steps append\<close>

lemma sends_append [simp]: "sends (xs @ ys) = sends xs @ sends ys"
  by (induction xs) auto

fun reads :: "event list \<Rightarrow> ProviderConfig option list" where
  "reads [] = []"
| "reads (e # es) = (case e of PlatformGetProviderConfig k got \<Rightarrow> [notification got] | _ \<Rightarrow> []) @ reads es"

lemma reads_append [simp]: "reads (xs @ ys) = reads xs @ reads ys"
  by (induction xs) auto

lemma no_config_events:
  "list_all (\<lambda>e. \<not> config_event e) xs \<Longrightarrow> sends xs = [] \<and> reads xs = []"
proof (induction xs)
  case (Cons e xs)
  then show ?case by (cases e) auto
qed simp

lemma in_sends: "n \<in> set (sends es) \<longleftrightarrow> SendUpdate n \<in> set es"
proof (induction es)
  case (Cons e es)
  then show ?case by (cases e) auto
qed simp

lemma in_reads: "n \<in> set (reads es) \<longleftrightarrow> (\<exists>k got. PlatformGetProviderConfig k got \<in> set es \<and> n = notification got)"
proof (induction es)
  case (Cons e es)
  then show ?case by (cases e) auto
qed simp

lemma domain_no_config: "\<not> runtime_event e \<Longrightarrow> \<not> config_event e"
  by (cases e) simp_all

lemma enqueueAllObjects_emits:
  "emits_only (\<lambda>e. \<not> config_event e \<and> runtime_event e) (enqueueAllObjects E)"
  unfolding enqueueAllObjects_def by (intro emits) auto

lemma secret_event_emits:
  "emits_only (\<lambda>e. \<not> config_event e \<and> runtime_event e) (secret_event E r secret)"
  unfolding secret_event_def mapSecretToRequests_def by (intro emits enqueueAllObjects_emits)

lemma config_update_emits:
  "emits_only (\<lambda>e. \<not> config_event e \<and> runtime_event e) (config_update E r n)"
  unfolding config_update_def by (intro emits enqueueAllObjects_emits)

lemma config_update_stores:
  "run_state (config_update E r n) s = ((r', reqs), t) \<Longrightarrow> r' = r\<lparr>providerConfig := n\<rparr>"
  by (auto simp: config_update_def Let_def split: option.splits prod.splits)

lemma load_object_emits:
  "emits_only runtime_event (load_object E k)"
  "emits_only (\<lambda>e. \<not> config_event e) (load_object E k)"
  "emits_only (\<lambda>e. \<not> is_update e) (load_object E k)"
  unfolding load_object_def Let_def by (intro emits; simp)+

text \<open>No run calls for the provider config.\<close>

interpretation no_config: trace_property "list_all (\<lambda>e. \<not> config_event e)"
  by unfold_locales simp_all

lemma run_no_config:
  assumes dom: "serviceProviderReconciler r = Some (kro_domain E kr)"
  shows "emits_only (\<lambda>e. \<not> config_event e) (with_status_update E (reconcile_body E r))"
    "emits_only (\<lambda>e. \<not> config_event e) (Reconcile E r k)"
proof -
  have "traces (list_all (\<lambda>e. \<not> config_event e)) (remove_access E req)" for req
    unfolding emits_only_traces [symmetric] by (rule emits_only_mono [OF remove_access_emits]) simp
  moreover have "traces (list_all (\<lambda>e. \<not> config_event e)) (sp_CreateOrUpdate (kro_domain E kr) pc cc)"
    "traces (list_all (\<lambda>e. \<not> config_event e)) (sp_Delete (kro_domain E kr) pc cc)" for pc cc
    unfolding emits_only_traces [symmetric]
    by (rule emits_only_mono [OF kro_domain.create_events domain_no_config], assumption)
      (rule emits_only_mono [OF kro_domain.delete_events domain_no_config], assumption)
  ultimately show "emits_only (\<lambda>e. \<not> config_event e) (with_status_update E (reconcile_body E r))"
    "emits_only (\<lambda>e. \<not> config_event e) (Reconcile E r k)"
    unfolding emits_only_traces
    by (intro no_config.status_update_traces [OF dom] no_config.Reconcile_traces [OF dom];
      simp add: own_event_def)+
qed

text \<open>Without a config a run makes no call but the runtime's own.\<close>

lemma unconfigured_emits:
  assumes "providerConfig r = None"
  shows "emits_only runtime_event (with_status_update E (reconcile_body E r))"
    "emits_only runtime_event (Reconcile E r k)"
proof -
  have "emits_only runtime_event (reconcile_body E r)"
    by (simp add: reconcile_body_def assms) (intro emits)
  then show wsu: "emits_only runtime_event (with_status_update E (reconcile_body E r))"
    unfolding with_status_update_def updateStatus_def by (intro emits) auto
  show "emits_only runtime_event (Reconcile E r k)"
    unfolding Reconcile_split by (intro emits wsu load_object_emits)
qed

section \<open>Invariants\<close>

text \<open>The newest of a list of notifications; none were sent before the start.\<close>

definition newest :: "ProviderConfig option list \<Rightarrow> ProviderConfig option" where
  "newest ns = (case rev ns of [] \<Rightarrow> None | n # _ \<Rightarrow> n)"

lemma newest_simps [simp]: "newest [] = None" "newest (ns @ [n]) = n"
  by (simp_all add: newest_def)

lemma newest_in: "newest ns = Some pc \<Longrightarrow> Some pc \<in> set ns"
  by (auto simp: newest_def split: list.splits)

text \<open>
  What holds in every reachable state: the reconciler differs from the started one only in its
  config; the notifications sent are those of the reads made; those delivered are all sent but
  the ones still in the channel, and the config is the last one delivered.
\<close>

definition coherent :: "env \<Rightarrow> PCReconciler \<Rightarrow> SPReconciler \<Rightarrow> system \<Rightarrow> bool" where
  "coherent E p r0 S \<longleftrightarrow>
     reconciler S = r0\<lparr>providerConfig := providerConfig (reconciler S)\<rparr>
   \<and> reads (hist (sys S)) = sends (hist (sys S))
   \<and> (\<exists>delivered. sends (hist (sys S)) = delivered @ channel S
        \<and> providerConfig (reconciler S) = newest delivered)
   \<and> (\<forall>k got. PlatformGetProviderConfig k got \<in> set (hist (sys S)) \<longrightarrow> PC_watched E p k)"

lemma coherent_quiet:
  assumes "coherent E p r0 S" and "hist t = hist (sys S) @ evs" "list_all (\<lambda>e. \<not> config_event e) evs"
  shows "coherent E p r0 (S\<lparr>sys := t, queue := q\<rparr>)"
proof -
  have "PlatformGetProviderConfig k got \<notin> set evs" for k got
    using assms(3) by (auto simp: list_all_iff)
  with assms no_config_events [OF assms(3)] show ?thesis by (auto simp: coherent_def)
qed

lemma coherent_domain:
  assumes "coherent E p r0 S" "serviceProviderReconciler r0 = Some D"
  shows "serviceProviderReconciler (reconciler S) = Some D"
  using assms unfolding coherent_def
  by (metis SPReconciler.select_convs(4) SPReconciler.surjective SPReconciler.update_convs(5))

text \<open>A delivery, with or without calls of a run around it.\<close>

lemma coherent_delivered:
  assumes coh: "coherent E p r0 S" and chan: "channel S = n # rest"
    and t: "hist t = hist (sys S) @ evs" "list_all (\<lambda>e. \<not> config_event e) evs"
  shows "coherent E p r0 (S\<lparr>sys := t, reconciler := (reconciler S)\<lparr>providerConfig := n\<rparr>,
    channel := rest, queue := q\<rparr>)"
proof -
  obtain delivered where d: "sends (hist (sys S)) = delivered @ n # rest"
    using coh chan by (auto simp: coherent_def)
  have "reconciler S = r0\<lparr>providerConfig := providerConfig (reconciler S)\<rparr>"
    using coh by (simp add: coherent_def)
  then have "(reconciler S)\<lparr>providerConfig := n\<rparr> = r0\<lparr>providerConfig := n\<rparr>"
    by (metis SPReconciler.surjective SPReconciler.update_convs(5))
  moreover have "PlatformGetProviderConfig k got \<notin> set evs" for k got
    using t(2) by (auto simp: list_all_iff)
  ultimately show ?thesis
    using coh t(1) no_config_events [OF t(2)] d
    by (auto simp: coherent_def intro!: exI [of _ "delivered @ [n]"])
qed

lemma config_update_run:
  assumes "run_state (config_update E r n) (s :: 'w world_scheme) = ((r', reqs), t)"
  obtains evs where "hist t = hist s @ evs" "list_all (\<lambda>e. \<not> config_event e \<and> runtime_event e \<and> \<not> is_update e) evs"
    "r' = r\<lparr>providerConfig := n\<rparr>"
proof -
  have "emits_only (\<lambda>e. \<not> config_event e \<and> runtime_event e \<and> \<not> is_update e)
      (config_update E r n :: ('w world_scheme, _) state)"
    unfolding config_update_def enqueueAllObjects_def by (intro emits) auto
  from this assms config_update_stores [OF assms] show thesis by (auto elim!: emits_onlyD intro: that)
qed

lemma coherent_step:
  assumes "coherent E p r0 S" "sys_step E p S T"
    and r0: "serviceProviderReconciler r0 = Some (kro_domain E kr)"
  shows "coherent E p r0 T"
  using assms(2)
proof (cases rule: sys_step.cases)
  case (object_event k)
  with assms(1) show ?thesis by (simp add: coherent_def)
next
  case (secret_event secret reqs t)
  obtain evs where "hist t = hist (sys S) @ evs" "list_all (\<lambda>e. \<not> config_event e \<and> runtime_event e) evs"
    using secret_event_emits secret_event(2) by (rule emits_onlyD)
  with secret_event(1) coherent_quiet [OF assms(1)] show ?thesis by (auto simp: list_all_iff)
next
  case (reconcile k rest result t)
  from run_no_config(2) [OF coherent_domain [OF assms(1) r0]] reconcile(3)
  obtain evs where "hist t = hist (sys S) @ evs" "list_all (\<lambda>e. \<not> config_event e) evs"
    by (rule emits_onlyD)
  with reconcile(1) coherent_quiet [OF assms(1)] show ?thesis by simp
next
  case (config_event k out t)
  define got where "got = on_get_config E (hist (sys S)) k"
  have t: "hist t = hist (sys S) @ [PlatformGetProviderConfig k got, SendUpdate (notification got)]"
    using config_event(3) by (auto simp: PC_Reconcile_run Let_def got_def)
  with config_event(1,2) assms(1) show ?thesis
    by (auto simp: coherent_def new_events_def)
next
  case (delivery n rest r' reqs t)
  from delivery(3) obtain evs where "hist t = hist (sys S) @ evs"
    "list_all (\<lambda>e. \<not> config_event e \<and> runtime_event e \<and> \<not> is_update e) evs"
    "r' = (reconciler S)\<lparr>providerConfig := n\<rparr>"
    by (rule config_update_run)
  with delivery(1,2) show ?thesis by (auto simp: list_all_iff intro!: coherent_delivered [OF assms(1)])
next
  case (overtaken k rest u n ns r' reqs v result t)
  obtain as where as: "hist u = hist (sys S) @ as" "list_all (\<lambda>e. \<not> config_event e) as"
    using load_object_emits(2) overtaken(3) by (rule emits_onlyD)
  from overtaken(5) obtain bs where bs: "hist v = hist u @ bs"
    "list_all (\<lambda>e. \<not> config_event e \<and> runtime_event e \<and> \<not> is_update e) bs"
    "r' = (reconciler S)\<lparr>providerConfig := n\<rparr>"
    by (rule config_update_run)
  have "serviceProviderReconciler r' = Some (kro_domain E kr)"
    using coherent_domain [OF assms(1) r0] bs(3) by simp
  from run_no_config(1) [OF this] overtaken(6)
  obtain cs where "hist t = hist v @ cs" "list_all (\<lambda>e. \<not> config_event e) cs"
    by (rule emits_onlyD)
  with as bs have "hist t = hist (sys S) @ (as @ bs @ cs)"
    "list_all (\<lambda>e. \<not> config_event e) (as @ bs @ cs)"
    by (auto simp: list_all_iff)
  from coherent_delivered [OF assms(1) overtaken(4) this] show ?thesis
    unfolding overtaken(1) bs(3) .
qed

lemma main_reconciler_fields [simp]:
  "serviceProviderReconciler (main_reconciler E pl on car ns) = Some (kro_domain E
     \<lparr>kr_OnboardingCluster = on, kr_PlatformCluster = pl, PodNamespace = ns\<rparr>)"
  "providerConfig (main_reconciler E pl on car ns) = None"
  by (simp_all add: main_reconciler_def WithServiceProviderReconciler_def WithWorkloadCluster_def
      WithOnboardingCluster_def WithPlatformCluster_def WithClusterAccessReconciler_def NewSPReconciler_def)

lemma coherent_reachable:
  assumes "reachable E p (start E pl on car ns) S"
  shows "coherent E p (main_reconciler E pl on car ns) S"
  using assms
proof induction
  case initial
  show ?case by (simp add: coherent_def start_def)
next
  case (further S T)
  then show ?case using coherent_step by simp
qed

text \<open>Calls of the domain reconciler need a config that was sent before.\<close>

definition configured_calls :: "event list \<Rightarrow> bool" where
  "configured_calls h \<longleftrightarrow>
     (\<forall>a e b. h = a @ e # b \<and> \<not> runtime_event e \<longrightarrow> (\<exists>pc. SendUpdate (Some pc) \<in> set a))"

lemma configured_calls_append:
  assumes "configured_calls h" "list_all runtime_event evs \<or> (\<exists>pc. SendUpdate (Some pc) \<in> set h)"
  shows "configured_calls (h @ evs)"
  unfolding configured_calls_def
proof (intro allI impI, elim conjE)
  fix a e b
  assume eq: "h @ evs = a @ e # b" and e: "\<not> runtime_event e"
  from eq show "\<exists>pc. SendUpdate (Some pc) \<in> set a"
  proof (cases rule: append_split_at)
    case (left b')
    with assms(1) e show ?thesis by (auto simp: configured_calls_def)
  next
    case (right a')
    with assms(2) e show ?thesis by (auto simp: list_all_iff)
  qed
qed

text \<open>The finalizer is only taken off right after the cluster access was removed.\<close>

definition access_removed_first :: "event list \<Rightarrow> bool" where
  "access_removed_first h \<longleftrightarrow> (\<forall>a k x b. h = a @ OnboardingUpdate k x # b \<longrightarrow>
     (\<exists>a' key res. a = a' @ [AccessReconcileDelete key (res, None)] \<and> \<not> RequeueAfter res > 0))"

lemma access_removed_first_append:
  assumes "access_removed_first h" "access_removed_first evs"
  shows "access_removed_first (h @ evs)"
  unfolding access_removed_first_def
proof (intro allI impI)
  fix a k x b
  assume "h @ evs = a @ OnboardingUpdate k x # b"
  then show "\<exists>a' key res. a = a' @ [AccessReconcileDelete key (res, None)] \<and> \<not> RequeueAfter res > 0"
  proof (cases rule: append_split_at)
    case (left b')
    with assms(1) show ?thesis by (simp add: access_removed_first_def)
  next
    case (right a')
    from right(2) assms(2) obtain c key res where "a' = c @ [AccessReconcileDelete key (res, None)]"
      "\<not> RequeueAfter res > 0"
      unfolding access_removed_first_def by blast
    with right(1) show ?thesis by auto
  qed
qed

interpretation removal: trace_property access_removed_first
  by unfold_locales (auto simp: access_removed_first_def [of "[]"] intro: access_removed_first_append)

lemma access_removed_first_single: "\<not> is_update e \<Longrightarrow> access_removed_first [e]"
  by (auto simp: access_removed_first_def Cons_eq_append_conv)

lemma remove_access_removed_first: "traces access_removed_first (remove_access E req)"
  unfolding traces_def
proof
  fix s
  obtain out t where run: "run_state (remove_access E req) s = (out, t)"
    by (cases "run_state (remove_access E req) s")
  then have "\<exists>evs. hist t = hist s @ evs \<and> access_removed_first evs"
  proof (cases rule: remove_access_cases)
    case (updated res k err)
    then show ?thesis by (auto simp: access_removed_first_def Cons_eq_append_conv)
  qed (auto intro: access_removed_first_single)
  with run show "\<exists>evs. hist (snd (run_state (remove_access E req) s)) = hist s @ evs \<and> access_removed_first evs"
    by simp
qed

context trace_property
begin

text \<open>A step of the system has the property if the calls of its parts have it.\<close>

lemma step_trace:
  assumes coh: "coherent E p r0 S" and step: "sys_step E p S T"
    and r0: "serviceProviderReconciler r0 = Some (kro_domain E kr)"
    and own: "\<And>e. runtime_event e \<Longrightarrow> \<not> is_update e \<Longrightarrow> P [e]"
    and removal: "\<And>req. traces P (remove_access E req)"
    and create: "\<And>pc cc. traces P (CreateOrUpdate E kr (Some pc) cc)"
    and del: "\<And>pc cc. traces P (Delete E kr (Some pc) cc)"
  shows "\<exists>evs. hist (sys T) = hist (sys S) @ evs \<and> P evs"
proof -
  have own': "own_event e \<Longrightarrow> P [e]" for e by (simp add: own own_event_def)
  have domain: "traces P (sp_CreateOrUpdate (kro_domain E kr) pc cc)"
    "traces P (sp_Delete (kro_domain E kr) pc cc)" for pc cc
    by (simp_all add: kro_domain_fields create del)
  note run = status_update_traces [OF _ own' removal domain] Reconcile_traces [OF _ own' removal domain]
  have update: "traces P (config_update E r n :: (gostate, _) state)" for r n
    unfolding config_update_def enqueueAllObjects_def by (intro tracing own) simp_all
  from step show ?thesis
  proof (cases rule: sys_step.cases)
    case (object_event k)
    then show ?thesis by (auto intro: no_calls)
  next
    case (secret_event secret reqs t)
    have "traces P (secret_event E (reconciler S) secret :: (gostate, _) state)"
      unfolding secret_event_def mapSecretToRequests_def enqueueAllObjects_def
      by (intro tracing own) simp_all
    with secret_event show ?thesis by (auto elim: tracesD)
  next
    case (config_event k out t)
    then show ?thesis
      using more_calls [OF own own, of "PlatformGetProviderConfig k (on_get_config E (hist (sys S)) k)"
          "SendUpdate (notification (on_get_config E (hist (sys S)) k))"]
      by (auto simp: PC_Reconcile_run Let_def)
  next
    case (delivery n rest r' reqs t)
    with tracesD [OF update delivery(3)] show ?thesis by auto
  next
    case (reconcile k rest result t)
    with run(2) [OF coherent_domain [OF coh r0]] show ?thesis by (auto elim: tracesD)
  next
    case (overtaken k rest u n ns r' reqs v result t)
    obtain as where as: "hist u = hist (sys S) @ as" "P as"
      using load_object_traces [OF own'] overtaken(3) by (rule tracesD)
    obtain bs where bs: "hist v = hist u @ bs" "P bs"
      using update overtaken(5) by (rule tracesD)
    have "serviceProviderReconciler r' = Some (kro_domain E kr)"
      using coherent_domain [OF coh r0] config_update_stores [OF overtaken(5)] by simp
    from run(1) [OF this] overtaken(6) obtain cs where "hist t = hist v @ cs" "P cs" by (rule tracesD)
    with overtaken(1) as bs more_calls show ?thesis by auto
  qed
qed

lemma reachable_trace:
  assumes own: "\<And>e. runtime_event e \<Longrightarrow> \<not> is_update e \<Longrightarrow> P [e]"
    and removal: "\<And>req. traces P (remove_access E req)"
    and create: "\<And>kr pc cc. traces P (CreateOrUpdate E kr (Some pc) cc)"
    and del: "\<And>kr pc cc. traces P (Delete E kr (Some pc) cc)"
    and reach: "reachable E p (start E pl onb car ns) S"
  shows "P (hist (sys S))"
  using reach
proof induction
  case initial
  show ?case by (simp add: start_def no_calls)
next
  case (further S T)
  obtain evs where "hist (sys T) = hist (sys S) @ evs" "P evs"
    using step_trace [OF coherent_reachable [OF further(1)] further(2) main_reconciler_fields(1) own
        removal create del] by blast
  with further(3) more_calls show ?case by simp
qed

end

lemma reachable_access_removed_first:
  assumes "reachable E p (start E pl onb car ns) S"
  shows "access_removed_first (hist (sys S))"
proof (rule removal.reachable_trace [OF access_removed_first_single remove_access_removed_first _ _ assms])
  fix kr pc cc
  note quiet = access_removed_first_single [OF domain_no_update]
  show "traces access_removed_first (CreateOrUpdate E kr (Some pc) cc)"
    using removal.emits_traces [OF kro_domain.create_events quiet] by (simp add: kro_domain_fields)
  show "traces access_removed_first (Delete E kr (Some pc) cc)"
    using removal.emits_traces [OF kro_domain.delete_events quiet] by (simp add: kro_domain_fields)
qed

lemma coherent_config_sent:
  assumes "coherent E p r0 S" "providerConfig (reconciler S) = Some pc"
  shows "SendUpdate (Some pc) \<in> set (hist (sys S))"
proof -
  obtain delivered where "sends (hist (sys S)) = delivered @ channel S" "newest delivered = Some pc"
    using assms by (auto simp: coherent_def)
  then have "Some pc \<in> set (sends (hist (sys S)))" using newest_in by fastforce
  then show ?thesis by (simp add: in_sends)
qed

lemma coherent_config_read:
  assumes "coherent E p r0 S" "SendUpdate (Some pc) \<in> set (hist (sys S))"
  shows "\<exists>k. PC_watched E p k \<and> PlatformGetProviderConfig k (Inr pc) \<in> set (hist (sys S))
    \<and> IsZero (meta_DeletionTimestamp (pc_Meta pc))"
proof -
  have "Some pc \<in> set (reads (hist (sys S)))"
    using assms by (simp add: coherent_def in_sends)
  then obtain k got where k: "PlatformGetProviderConfig k got \<in> set (hist (sys S))" "Some pc = notification got"
    by (auto simp: in_reads)
  with assms(1) have "PC_watched E p k" by (auto simp: coherent_def)
  with k show ?thesis by (auto simp: notification_def split: sum.splits if_splits)
qed

lemma enqueue_all_set: "set (enqueue_all ks q) = set q \<union> set ks"
  by (induction ks arbitrary: q) (auto simp: enqueue_all_def enqueue_def)

lemma enqueue_all_distinct: "distinct q \<Longrightarrow> distinct (enqueue_all ks q)"
  by (induction ks arbitrary: q) (auto simp: enqueue_all_def enqueue_def)

text \<open>Before its calls for a tenant the system has been sent a config.\<close>

lemma step_configured:
  assumes coh: "coherent E p r0 S" and step: "sys_step E p S T"
    and r0: "serviceProviderReconciler r0 = Some (kro_domain E kr)"
  shows "\<exists>evs. hist (sys T) = hist (sys S) @ evs
    \<and> (list_all runtime_event evs \<or> (\<exists>pc. SendUpdate (Some pc) \<in> set (hist (sys S))))"
  using step
proof (cases rule: sys_step.cases)
  case (object_event k)
  then show ?thesis by simp
next
  case (secret_event secret reqs t)
  obtain evs where "hist t = hist (sys S) @ evs" "list_all (\<lambda>e. \<not> config_event e \<and> runtime_event e) evs"
    using secret_event_emits secret_event(2) by (rule emits_onlyD)
  with secret_event(1) show ?thesis by (auto simp: list_all_iff)
next
  case (config_event k out t)
  then show ?thesis by (auto simp: PC_Reconcile_run Let_def)
next
  case (delivery n rest r' reqs t)
  from delivery(3) obtain evs where "hist t = hist (sys S) @ evs"
    "list_all (\<lambda>e. \<not> config_event e \<and> runtime_event e \<and> \<not> is_update e) evs"
    by (rule config_update_run)
  with delivery(1) show ?thesis by (auto simp: list_all_iff)
next
  case (reconcile k rest result t)
  show ?thesis
  proof (cases "providerConfig (reconciler S)")
    case None
    obtain evs where "hist t = hist (sys S) @ evs" "list_all runtime_event evs"
      using unconfigured_emits(2) [OF None] reconcile(3) by (rule emits_onlyD)
    with reconcile(1) show ?thesis by auto
  next
    case (Some pc)
    from run_no_config(2) [OF coherent_domain [OF coh r0]] reconcile(3)
    obtain evs where "hist t = hist (sys S) @ evs" by (rule emits_onlyD)
    with coherent_config_sent [OF coh Some] reconcile(1) show ?thesis by auto
  qed
next
  case (overtaken k rest u n ns r' reqs v result t)
  obtain as where as: "hist u = hist (sys S) @ as" "list_all runtime_event as"
    using load_object_emits(1) overtaken(3) by (rule emits_onlyD)
  from overtaken(5) obtain bs where bs: "hist v = hist u @ bs"
    "list_all (\<lambda>e. \<not> config_event e \<and> runtime_event e \<and> \<not> is_update e) bs"
    "r' = (reconciler S)\<lparr>providerConfig := n\<rparr>"
    by (rule config_update_run)
  have "serviceProviderReconciler r' = Some (kro_domain E kr)"
    using coherent_domain [OF coh r0] bs(3) by simp
  from run_no_config(1) [OF this] overtaken(6) obtain cs where cs: "hist t = hist v @ cs" by (rule emits_onlyD)
  show ?thesis
  proof (cases n)
    case None
    then have "providerConfig r' = None" by (simp add: bs(3))
    obtain cs' where "hist t = hist v @ cs'" "list_all runtime_event cs'"
      using unconfigured_emits(1) [OF \<open>providerConfig r' = None\<close>] overtaken(6) by (rule emits_onlyD)
    with cs have "list_all runtime_event cs" by simp
    with as bs cs overtaken(1) show ?thesis by (auto simp: list_all_iff)
  next
    case (Some pc)
    then have "Some pc \<in> set (sends (hist (sys S)))"
      using coh overtaken(4) by (auto simp: coherent_def)
    then have "SendUpdate (Some pc) \<in> set (hist (sys S))" by (simp add: in_sends)
    with as(1) bs(1) cs overtaken(1) show ?thesis by auto
  qed
qed

lemma reachable_configured:
  assumes "reachable E p (start E pl on car ns) S"
  shows "configured_calls (hist (sys S))"
  using assms
proof induction
  case initial
  show ?case by (simp add: start_def configured_calls_def)
next
  case (further S T)
  obtain evs where "hist (sys T) = hist (sys S) @ evs"
    "list_all runtime_event evs \<or> (\<exists>pc. SendUpdate (Some pc) \<in> set (hist (sys S)))"
    using step_configured [OF coherent_reachable [OF further(1)] further(2) main_reconciler_fields(1)] by blast
  with further(3) show ?case by (simp add: configured_calls_append)
qed

text \<open>The config changes only by taking the next notification off the channel.\<close>

lemma config_changes_by_delivery:
  assumes "sys_step E p S T" "providerConfig (reconciler T) \<noteq> providerConfig (reconciler S)"
  shows "channel S = providerConfig (reconciler T) # channel T"
  using assms by (elim sys_stepE) (auto dest!: config_update_stores)

section \<open>Properties\<close>

text \<open>
  C17. The cached config is coherent: in every reachable state whose channel is empty, the
  config the reconciler works with is exactly what the latest read of the provider config
  showed (nothing, if it failed or found the config in deletion, or if there was no read yet).
\<close>
theorem config_coherent:
  assumes reach: "reachable E p (start E pl on car ns) S" and idle: "channel S = []"
  shows "providerConfig (reconciler S) = newest (reads (hist (sys S)))"
  using coherent_reachable [OF reach] idle by (auto simp: coherent_def)

text \<open>
  The cached config is genuine: the reconciler only ever works with a config that was read,
  under the watched name, from the platform cluster and was not being deleted then; whatever
  config events, deliveries and reconciles happen in whatever order.
\<close>
theorem config_genuine:
  assumes reach: "reachable E p (start E pl on car ns) S"
    and pc: "providerConfig (reconciler S) = Some pc"
  shows "\<exists>k. PC_watched E p k \<and> PlatformGetProviderConfig k (Inr pc) \<in> set (hist (sys S))
    \<and> IsZero (meta_DeletionTimestamp (pc_Meta pc))"
  using coherent_config_read [OF coherent_reachable [OF reach]]
    coherent_config_sent [OF coherent_reachable [OF reach] pc] by blast

text \<open>
  C16. Nothing happens to any cluster before a config arrives: in the history of a reachable
  state, every call of the domain reconciler comes after a notification with a config that had
  been read from the platform cluster and was not being deleted.
\<close>
theorem domain_calls_configured:
  assumes reach: "reachable E p (start E pl on car ns) S"
    and hist: "hist (sys S) = a @ e # b" and e: "\<not> runtime_event e"
  shows "\<exists>pc k. SendUpdate (Some pc) \<in> set a \<and> PlatformGetProviderConfig k (Inr pc) \<in> set (hist (sys S))
    \<and> PC_watched E p k \<and> IsZero (meta_DeletionTimestamp (pc_Meta pc))"
proof -
  obtain pc where "SendUpdate (Some pc) \<in> set a"
    using reachable_configured [OF reach] hist e unfolding configured_calls_def by blast
  with coherent_config_read [OF coherent_reachable [OF reach]] hist show ?thesis by fastforce
qed

text \<open>
  No reconcile run, in whatever state and order, takes a finalizer off an object but right
  after the removal of its cluster access was confirmed.
\<close>
theorem finalizers_after_access:
  assumes reach: "reachable E p (start E pl on car ns) S"
    and hist: "hist (sys S) = a @ OnboardingUpdate k x # b"
  shows "\<exists>a' key res. a = a' @ [AccessReconcileDelete key (res, None)] \<and> \<not> RequeueAfter res > 0"
  using reachable_access_removed_first [OF reach] hist unfolding access_removed_first_def by blast

text \<open>
  A delivered config change reaches every object: the map function stores the config (or
  the lack of one) and all objects the listing shows are in the queue afterwards, next to those
  that were; the queue stays free of duplicates.
\<close>
theorem delivery_enqueues_all:
  assumes gvk: "onboarding_kro_gvk E = Inr g" and items: "on_onboarding_list E (hist s) g = Inr ks"
    and q: "distinct q"
  shows "\<exists>r' reqs t. run_state (config_update E r n) s = ((r', reqs), t)
    \<and> providerConfig r' = n \<and> hist t = hist s @ [OnboardingList g (Inr ks)]
    \<and> set (enqueue_all reqs q) = set q \<union> set ks \<and> distinct (enqueue_all reqs q)"
  using assms
  by (auto simp: config_update_def enqueueAllObjects_def Let_def enqueue_all_set enqueue_all_distinct
      split: option.split)

section \<open>A concrete life of the controller\<close>

definition sample_pcr :: PCReconciler where
  "sample_pcr = main_pcr (Some (Cluster ''platform'')) ''kro''"

abbreviation sample_start :: "env \<Rightarrow> system" where
  "sample_start E \<equiv> start E (Some (Cluster ''platform'')) (Some (Cluster ''onboarding''))
     (ClusterAccessProvider ''access'') ''kro-pod''"

text \<open>The config is read and delivered; the listed object is queued.\<close>

definition sample_delivered :: "env \<Rightarrow> system" where
  "sample_delivered E = \<lparr>
     sys = \<lparr>hist = [PlatformGetProviderConfig (object_key '''' ''kro'') (Inr (sample_config [sample_version])),
         SendUpdate (Some (sample_config [sample_version])),
         OnboardingList \<lparr>gvk_Group = ''kro.services.open-control-plane.io'',
           gvk_Version = ''v1alpha1'', gvk_Kind = ''Kro''\<rparr> (Inr [sample_key])], obj = emptyKro\<rparr>,
     reconciler = (main_reconciler E (Some (Cluster ''platform'')) (Some (Cluster ''onboarding''))
     (ClusterAccessProvider ''access'') ''kro-pod'')
       \<lparr>providerConfig := Some (sample_config [sample_version])\<rparr>,
     channel = [], queue = [sample_key]\<rparr>"

lemma sample_delivered_reachable:
  assumes E: "lib E = sample_libs" "on_get_config E = on_get_config sample_env"
    "onboarding_kro_gvk E = onboarding_kro_gvk sample_env"
    "on_onboarding_list E = on_onboarding_list sample_env"
  shows "reachable E sample_pcr (sample_start E) (sample_delivered E)"
proof -
  define S0 where "S0 = sample_start E"
  obtain out t where pc: "run_state (PC_Reconcile E (object_key '''' ''kro'')) (sys S0) = (out, t)"
    by (metis prod.exhaust)
  define S1 where "S1 = S0\<lparr>sys := t, channel := channel S0 @ sends (new_events (sys S0) t)\<rparr>"
  have "PC_watched E sample_pcr (object_key '''' ''kro'')"
    by (simp add: PC_watched_def E(1) sample_pcr_def main_pcr_def PC_WithPlatformCluster_def
        NewPCReconciler_def) (simp add: sample_libs_def)
  then have step1: "sys_step E sample_pcr S0 S1"
    unfolding S1_def using pc by (rule sys_step.config_event)
  have t: "t = \<lparr>hist = [PlatformGetProviderConfig (object_key '''' ''kro'') (Inr (sample_config [sample_version])),
      SendUpdate (Some (sample_config [sample_version]))], obj = emptyKro\<rparr>"
    using pc E by (auto simp: PC_Reconcile_run S0_def start_def Let_def notification_def sample_env_def
        sample_config_def sample_meta_def IsZero_def)
  have chan: "channel S1 = Some (sample_config [sample_version]) # []"
    by (simp add: S1_def S0_def start_def t new_events_def)
  obtain r' reqs u where upd: "run_state (config_update E (reconciler S1) (Some (sample_config [sample_version])))
      (sys S1) = ((r', reqs), u)"
    by (metis prod.exhaust)
  have step2: "sys_step E sample_pcr S1 (S1\<lparr>sys := u, reconciler := r', channel := [],
      queue := enqueue_all reqs (queue S1)\<rparr>)"
    using chan upd by (rule sys_step.delivery)
  have "S1\<lparr>sys := u, reconciler := r', channel := [], queue := enqueue_all reqs (queue S1)\<rparr>
      = sample_delivered E"
    using upd E
    by (auto simp: config_update_def enqueueAllObjects_def sample_env_def Let_def sample_delivered_def
        S1_def S0_def start_def t enqueue_all_def enqueue_def sample_key_def)
  with step1 step2 show ?thesis
    unfolding S0_def [symmetric] by (metis reachable.initial reachable.further)
qed

definition sample_reconciled :: "env \<Rightarrow> system" where
  "sample_reconciled E = (sample_delivered E)\<lparr>
     sys := snd (run_state (Reconcile E (reconciler (sample_delivered E)) sample_key) (sys (sample_delivered E))),
     queue := []\<rparr>"

lemma sample_reconciled_reachable:
  assumes "reachable E sample_pcr (sample_start E) (sample_delivered E)"
  shows "reachable E sample_pcr (sample_start E) (sample_reconciled E)"
proof -
  have "sys_step E sample_pcr (sample_delivered E) (sample_reconciled E)"
    unfolding sample_reconciled_def
    by (rule sys_step.reconcile [where result = "fst (run_state (Reconcile E (reconciler (sample_delivered E))
        sample_key) (sys (sample_delivered E)))"]) (simp_all add: sample_delivered_def)
  with assms show ?thesis by (rule reachable.further)
qed

lemmas sample_delivered_env = sample_delivered_reachable [OF sample_env_lib refl refl refl]

theorem config_coherent_witness:
  "reachable sample_env sample_pcr (sample_start sample_env) (sample_delivered sample_env)
   \<and> newest (reads (hist (sys (sample_delivered sample_env)))) = Some (sample_config [sample_version])"
proof -
  have "channel (sample_delivered sample_env) = []"
    "providerConfig (reconciler (sample_delivered sample_env)) = Some (sample_config [sample_version])"
    by (simp_all add: sample_delivered_def)
  with config_coherent [OF sample_delivered_env] sample_delivered_env show ?thesis by simp
qed

theorem config_genuine_witness:
  "\<exists>k. PC_watched sample_env sample_pcr k
    \<and> PlatformGetProviderConfig k (Inr (sample_config [sample_version]))
        \<in> set (hist (sys (sample_delivered sample_env)))"
proof -
  have "providerConfig (reconciler (sample_delivered sample_env)) = Some (sample_config [sample_version])"
    by (simp add: sample_delivered_def)
  from config_genuine [OF sample_delivered_env this] show ?thesis by blast
qed

theorem domain_calls_configured_witness:
  "\<exists>a e b pc. hist (sys (sample_reconciled sample_env)) = a @ e # b \<and> \<not> runtime_event e
    \<and> SendUpdate (Some pc) \<in> set a"
proof -
  have "\<exists>d. PlatformGetSecret (object_key ''kro-pod'' ''regcred'') d
      \<in> set (hist (sys (sample_reconciled sample_env)))"
    by (simp add: sample_reconciled_def sample_delivered_def sample_live_run)
  then obtain d a b where split: "hist (sys (sample_reconciled sample_env))
      = a @ PlatformGetSecret (object_key ''kro-pod'' ''regcred'') d # b"
    by (meson split_list)
  from domain_calls_configured [OF sample_reconciled_reachable [OF sample_delivered_env] split]
  obtain pc where "SendUpdate (Some pc) \<in> set a" by auto
  moreover have "\<not> runtime_event (PlatformGetSecret (object_key ''kro-pod'' ''regcred'') d)" by simp
  ultimately show ?thesis using split by blast
qed

theorem finalizers_after_access_witness:
  "\<exists>a key res k x b. hist (sys (sample_reconciled (serving sample_deleted sample_env)))
    = a @ AccessReconcileDelete key (res, None) # OnboardingUpdate k x # b"
proof -
  define E where "E = serving sample_deleted sample_env"
  have reach: "reachable E sample_pcr (sample_start E) (sample_delivered E)"
    by (rule sample_delivered_reachable) (simp_all add: E_def serving_def)
  have "\<exists>k x. OnboardingUpdate k x \<in> set (hist (sys (sample_reconciled E)))"
    by (simp add: sample_reconciled_def sample_delivered_def E_def sample_delete_run)
  then obtain k x a b where split: "hist (sys (sample_reconciled E)) = a @ OnboardingUpdate k x # b"
    by (meson split_list)
  from finalizers_after_access [OF sample_reconciled_reachable [OF reach] split]
  obtain a' key res where "a = a' @ [AccessReconcileDelete key (res, None)]" by blast
  with split have "hist (sys (sample_reconciled E)) = a' @ AccessReconcileDelete key (res, None)
      # OnboardingUpdate k x # b" by simp
  then show ?thesis by (fold E_def) blast
qed

theorem delivery_enqueues_all_witness:
  "\<exists>r' reqs t. run_state (config_update sample_env (sample_sp sample_env) None) (sample_state ''v0.9.3'')
     = ((r', reqs), t) \<and> providerConfig r' = None \<and> set (enqueue_all reqs []) = {sample_key}"
proof -
  have "on_onboarding_list sample_env h g = Inr [sample_key]" for h g
    by (simp add: sample_env_def sample_key_def)
  moreover obtain g where "onboarding_kro_gvk sample_env = Inr g" by (simp add: sample_env_def)
  ultimately show ?thesis
    using delivery_enqueues_all [where E = sample_env and q = "[]" and r = "sample_sp sample_env"
        and n = None and s = "sample_state ''v0.9.3''"] by fastforce
qed

end
