(* ===== verification/End_To_End.thy ===== *)
theory End_To_End
  imports System
begin

text \<open>
  Lemmas on the whole path of one reconcile run, runtime and domain reconciler together: what
  a run without error has done, and that a run comes to its end when the outside lets it. The
  properties they carry are in the root theory.
\<close>

section \<open>A run without error\<close>

lemma with_status_frame:
  assumes "run_state (with_status_update E body) u = (out, t)"
  shows "\<exists>bo v final. run_state body u = (bo, v) \<and> hist t = hist v @ final \<and> obj t = obj v
    \<and> status_events (lib E) (obj u) (obj t) final
    \<and> out = with_status_error bo (status_error (lib E) final)"
proof -
  obtain bo v where bo: "run_state body u = (bo, v)" by (cases "run_state body u")
  define final where "final = (if SemanticDeepEqual (lib E) (kro_Status (obj u)) (kro_Status (obj v)) then []
    else [OnboardingStatusPatch (obj v) (obj u) (on_status_patch E (hist v) (obj v) (obj u))])"
  have "hist t = hist v @ final \<and> obj t = obj v \<and> status_events (lib E) (obj u) (obj t) final
    \<and> out = with_status_error bo (status_error (lib E) final)"
    using assms bo
    by (auto simp: with_status_update_run updateStatus_run Let_def status_events_def final_def
        with_status_error_def status_error_def split: outcome.splits if_splits)
  with bo show ?thesis by blast
qed

lemma CreateOrUpdate_acts:
  assumes "run_state (CreateOrUpdate E kr pc cc) w = (Returned (res, None), v)"
    and "hist v = hist w @ devs" "e \<in> set devs"
  shows "\<exists>tns ver. StableMCPNamespace (lib E) (meta_Name (kro_Meta (obj w)))
        (meta_Namespace (kro_Meta (obj w))) = Inr tns
    \<and> ResolveVersion (lib E) pc (spec_Version (kro_Spec (obj w))) = Inr ver"
  using assms by (auto simp: CreateOrUpdate_def split: sum.splits)

section \<open>Progress of a run\<close>

lemma emits_later: "emits_only P m \<Longrightarrow> run_state m s = (a, t) \<Longrightarrow> length (hist s) \<le> length (hist t)"
  by (auto elim: emits_onlyD)

text \<open>
  From the \<open>n\<close>-th call on, cluster access is granted: every call of the access provider succeeds
  without a delay.
\<close>

definition access_granted :: "nat \<Rightarrow> env \<Rightarrow> bool" where
  "access_granted n E \<longleftrightarrow> (\<forall>h. n \<le> length h \<longrightarrow>
     (\<forall>k. \<exists>res. on_access_reconcile E h k = (res, None) \<and> RequeueAfter res = 0)
   \<and> (\<forall>k. \<exists>c. on_mcp_cluster E h k = (Some c, None))
   \<and> (\<forall>k. \<exists>a. on_mcp_request E h k = (Some a, None) \<and> ar_DeletionTimestamp a = None)
   \<and> (\<forall>k. \<exists>c. on_workload_cluster E h k = (Some c, None))
   \<and> (\<forall>k. \<exists>a. on_workload_request E h k = (Some a, None) \<and> ar_DeletionTimestamp a = None))"

lemma access_grantedD:
  assumes "access_granted n E" "n \<le> length h"
  shows "\<exists>res. on_access_reconcile E h k = (res, None) \<and> RequeueAfter res = 0"
    "\<exists>c. on_mcp_cluster E h k = (Some c, None)"
    "\<exists>a. on_mcp_request E h k = (Some a, None) \<and> ar_DeletionTimestamp a = None"
    "\<exists>c. on_workload_cluster E h k = (Some c, None)"
    "\<exists>a. on_workload_request E h k = (Some a, None) \<and> ar_DeletionTimestamp a = None"
  using assms by (simp_all add: access_granted_def)

lemma workload_clusters_progress:
  assumes E: "access_granted n E" and n: "n \<le> length (hist s)"
  shows "\<exists>cc' t. run_state (workload_clusters E r req b res cc) (s :: gostate) = (Returned (cc', res, None), t)
    \<and> obj t = obj s \<and> (withWorkloadCluster r \<longrightarrow> cc_WorkloadCluster cc' \<noteq> None)"
proof (cases "withWorkloadCluster r")
  case True
  obtain c where c: "on_workload_cluster E (hist s) req = (Some c, None)"
    using access_grantedD(4) [OF E n] by blast
  have "n \<le> length (hist s @ [AccessWorkloadCluster req (Some c, None)])" using n by simp
  then obtain a where "on_workload_request E (hist s @ [AccessWorkloadCluster req (Some c, None)]) req = (Some a, None)"
    using access_grantedD(5) [OF E] by blast
  with True c show ?thesis by (simp add: workload_clusters_def access_calls Let_def)
qed (simp add: workload_clusters_def)

lemma clusters_progress:
  assumes E: "access_granted n E" and n: "n \<le> length (hist s)"
  shows "\<exists>cc res t. run_state (clusters E r req b) (s :: gostate) = (Returned (cc, res, None), t)
    \<and> RequeueAfter res = 0 \<and> obj t = obj s
    \<and> (withWorkloadCluster r \<longrightarrow> cc_WorkloadCluster cc \<noteq> None)"
proof -
  obtain res where res: "on_access_reconcile E (hist s) req = (res, None)" "RequeueAfter res = 0"
    using access_grantedD(1) [OF E n] by blast
  define h where "h = hist s @ [AccessReconcile req (res, None)]"
  have "n \<le> length h" using n by (simp add: h_def)
  then obtain c where c: "on_mcp_cluster E h req = (Some c, None)"
    using access_grantedD(2) [OF E] by blast
  define h' where "h' = h @ [AccessMCPCluster req (Some c, None)]"
  have "n \<le> length h'" using n by (simp add: h_def h'_def)
  then obtain a where a: "on_mcp_request E h' req = (Some a, None)"
    using access_grantedD(3) [OF E] by blast
  define u where "u = s\<lparr>hist := hist s @ [AccessReconcile req (res, None),
    AccessMCPCluster req (Some c, None), AccessMCPAccessRequest req (Some a, None)]\<rparr>"
  have "run_state (clusters E r req b) s = run_state (workload_clusters E r req b res
      (no_clusters\<lparr>cc_MCPCluster := Some c, cc_MCPAccessSecretKey := secret_key a\<rparr>)) u"
    using res c a by (simp add: clusters_def access_calls h_def h'_def u_def Let_def)
  moreover have "obj u = obj s" "n \<le> length (hist u)" using n by (simp_all add: u_def)
  ultimately show ?thesis
    using workload_clusters_progress [OF E, of u r req b res
        "no_clusters\<lparr>cc_MCPCluster := Some c, cc_MCPAccessSecretKey := secret_key a\<rparr>"] res(2)
    by metis
qed

lemma check_progress:
  assumes E: "access_granted n E" and n: "n \<le> length (hist s)"
  shows "\<exists>t. run_state (areAccessRequestsInDeletion E r req) (s :: gostate) = (Inr False, t) \<and> obj t = obj s"
proof -
  obtain a where a: "on_mcp_request E (hist s) req = (Some a, None)" "ar_DeletionTimestamp a = None"
    using access_grantedD(3) [OF E n] by blast
  have "n \<le> length (hist s @ [AccessMCPAccessRequest req (Some a, None)])" using n by simp
  then obtain b where "on_workload_request E (hist s @ [AccessMCPAccessRequest req (Some a, None)]) req = (Some b, None)"
    "ar_DeletionTimestamp b = None"
    using access_grantedD(5) [OF E] by blast
  with a show ?thesis
    by (simp add: areAccessRequestsInDeletion_def access_calls request_gone_def is_not_found_def)
qed

text \<open>The status patch of a run succeeds or finds the object gone.\<close>

definition status_accepted :: "nat \<Rightarrow> env \<Rightarrow> bool" where
  "status_accepted n E \<longleftrightarrow> (\<forall>h new old. n \<le> length h \<longrightarrow>
     ignore_not_found (lib E) (on_status_patch E h new old) = None)"

lemma updateStatus_progress:
  assumes "status_accepted n E" "n \<le> length (hist s)"
  shows "\<exists>t final. run_state (updateStatus E old) s = (None, t) \<and> obj t = obj s \<and> hist t = hist s @ final"
  using assms by (simp add: updateStatus_run status_accepted_def Let_def)

text \<open>The version is on offer, its helm values parse, and the namespace is determined.\<close>

definition installable :: "env \<Rightarrow> ProviderConfig \<Rightarrow> Kro \<Rightarrow> bool" where
  "installable E pc k \<longleftrightarrow> (\<exists>tns v hv.
     StableMCPNamespace (lib E) (meta_Name (kro_Meta k)) (meta_Namespace (kro_Meta k)) = Inr tns
   \<and> ResolveVersion (lib E) (Some pc) (spec_Version (kro_Spec k)) = Inr v
   \<and> ExtractHelmValues (lib E) (ver_HelmValues v) = Inr hv)"

text \<open>No operation annotation asks for another treatment than a plain run.\<close>

definition unannotated :: "env \<Rightarrow> Kro \<Rightarrow> bool" where
  "unannotated E k \<longleftrightarrow> operation_annotation (lib E) k \<notin>
     {OperationAnnotationValueIgnore (lib E), OperationAnnotationValueReconcile (lib E)}"

lemma plain_run:
  assumes "on_onboarding_get E (hist s) req = Inr k0" "unannotated E k0"
  shows "run_state (Reconcile E r req) s = run_state (with_status_update E (reconcile_body E r))
    (s\<lparr>hist := hist s @ [OnboardingGet req (Inr k0)], obj := k0\<rparr>)"
  using assms by (simp add: Reconcile_def unannotated_def)

lemma install_run_progress:
  assumes outside: "healthy n E" "access_granted n E" "status_accepted n E"
    and n: "n \<le> length (hist s)"
    and r: "serviceProviderReconciler r = Some (kro_domain E kr)" "providerConfig r = Some pc"
      "withWorkloadCluster r"
    and get: "on_onboarding_get E (hist s) req = Inr k0"
    and k0: "unannotated E k0" "IsZero (meta_DeletionTimestamp (kro_Meta k0))"
    and stored: "on_onboarding_upsert E (hist s @ [OnboardingGet req (Inr k0)]) k0 (add_finalizer (lib E)) = (k, None)"
    and k: "installable E pc k"
  shows "\<exists>t k'. run_state (Reconcile E r req) s = (Returned (\<lparr>RequeueAfter = PollInterval (Some pc)\<rparr>, None), t)
    \<and> obj t = StatusReady (lib E) Kro_API k'"
proof -
  define u where "u = s\<lparr>hist := hist s @ [OnboardingGet req (Inr k0)], obj := k0\<rparr>"
  define u1 where "u1 = u\<lparr>hist := hist u @ [OnboardingCreateOrUpdate k0 (k, None)], obj := k\<rparr>"
  have n1: "n \<le> length (hist u1)" using n by (simp add: u_def u1_def)
  obtain tns v hv where v:
    "StableMCPNamespace (lib E) (meta_Name (kro_Meta k)) (meta_Namespace (kro_Meta k)) = Inr tns"
    "ResolveVersion (lib E) (Some pc) (spec_Version (kro_Spec k)) = Inr v"
    "ExtractHelmValues (lib E) (ver_HelmValues v) = Inr hv"
    using k by (auto simp: installable_def)
  obtain cc res w where cc: "run_state (clusters E r (ObjectKeyFromMeta (kro_Meta k)) True) u1
      = (Returned (cc, res, None), w)" "RequeueAfter res = 0" "obj w = k" "cc_WorkloadCluster cc \<noteq> None"
    using clusters_progress [OF outside(2) n1, of r "ObjectKeyFromMeta (kro_Meta k)" True] r(3)
    by (auto simp: u1_def)
  have nw: "n \<le> length (hist w)" using emits_later [OF clusters_emits cc(1)] n1 by simp
  obtain c where c: "cc_WorkloadCluster cc = Some c" using cc(4) by blast
  obtain k' where eq: "run_state (CreateOrUpdate E kr (Some pc) cc) w
      = run_state (apply_version E kr cc tns v k') (w\<lparr>obj := k'\<rparr>)"
    using CreateOrUpdate_resolved [of E w tns "Some pc" v kr cc] v cc(3) by blast
  obtain x k'' where x: "run_state (CreateOrUpdate E kr (Some pc) cc) w = (Returned (no_requeue, None), x)"
    "obj x = StatusReady (lib E) Kro_API k''"
    using apply_progress [OF outside(1) _ v(3) c, of "w\<lparr>obj := k'\<rparr>" kr tns k'] nw eq by auto
  have "length (hist w) \<le> length (hist x)"
    using emits_later [OF kro_domain.create_events, of E kr pc cc w] x(1) by (simp add: kro_domain_fields)
  then have nx: "n \<le> length (hist x)" using nw by simp
  have "run_state (createOrUpdate E r pc) u = (Returned (no_requeue, None), x)"
    using stored cc(1,2) x(1) r(1)
    by (simp add: createOrUpdate_def u_def u1_def Let_def domain_CreateOrUpdate_def kro_domain_fields)
  then have body: "run_state (reconcile_body E r) u = (Returned (\<lparr>RequeueAfter = PollInterval (Some pc)\<rparr>, None), x)"
    using r(2) k0(2) by (simp add: reconcile_body_def u_def)
  obtain t where t: "run_state (updateStatus E (obj u)) x = (None, t)" "obj t = obj x"
    using updateStatus_progress [OF outside(3) nx] by blast
  have "run_state (Reconcile E r req) s = run_state (with_status_update E (reconcile_body E r)) u"
    using plain_run [OF get k0(1)] by (simp add: u_def)
  with body t x(2) show ?thesis by (auto simp: with_status_update_run)
qed

section \<open>Progress of a deletion\<close>

text \<open>
  From the \<open>n\<close>-th call on, the managed objects can be deleted and are gone at once, the control
  plane holds no resource graph definitions, the cluster access can be removed and the object
  updated.
\<close>

definition removable :: "nat \<Rightarrow> env \<Rightarrow> bool" where
  "removable n E \<longleftrightarrow> (\<forall>h. n \<le> length h \<longrightarrow>
     (\<forall>m. ignore_not_found (lib E) (on_delete E h m) = None)
   \<and> (\<forall>m. is_not_found (lib E) (on_get E h m))
   \<and> (\<forall>c. no_graphs (lib E) (on_list E h c resourceGraphDefinitionList))
   \<and> (\<forall>k. \<exists>res. on_access_delete E h k = (res, None) \<and> RequeueAfter res = 0)
   \<and> (\<forall>k. snd (on_onboarding_update E h k) = None))"

lemma removableD:
  assumes "removable n E" "n \<le> length h"
  shows "ignore_not_found (lib E) (on_delete E h m) = None" "is_not_found (lib E) (on_get E h m)"
    "no_graphs (lib E) (on_list E h c resourceGraphDefinitionList)"
    "\<exists>res. on_access_delete E h k = (res, None) \<and> RequeueAfter res = 0"
    "snd (on_onboarding_update E h x) = None"
  using assms by (simp_all add: removable_def)

lemma delete_objects_progress:
  assumes E: "removable n E"
  shows "n \<le> length (hist s) \<Longrightarrow>
    \<exists>t. run_state (delete_objects E ms b) s = (Inr b, t) \<and> obj t = obj s"
proof (induction ms arbitrary: s)
  case (Cons m ms)
  define d where "d = on_delete E (hist s) m"
  define h where "h = hist s @ [PlatformDelete m d]"
  have n: "n \<le> length h" using Cons.prems by (simp add: h_def)
  have "ignore_not_found (lib E) d = None" "is_not_found (lib E) (on_get E h m)"
    using removableD(1) [OF E Cons.prems] removableD(2) [OF E n] by (simp_all add: d_def)
  with Cons.IH [of "s\<lparr>hist := h @ [PlatformGet m (on_get E h m)]\<rparr>"] n
  show ?case
    by (simp add: delete_objects_step Let_def h_def d_def [symmetric] del: delete_objects.simps)
qed simp

lemma delete_managed_progress:
  assumes E: "removable n E" and n: "n \<le> length (hist s)"
  shows "\<exists>t. run_state (delete_managed E tns) s = (Returned (no_requeue, None), t)"
proof -
  define u where "u = s\<lparr>obj := set_resources (managedResources (lib E) tns Terminating) (obj s)\<rparr>"
  obtain v where "run_state (delete_objects E (managed_objects tns) False) u = (Inr False, v)" "obj v = obj u"
    using delete_objects_progress [OF E, of u] n by (auto simp: u_def)
  then show ?thesis by (simp add: delete_managed_def u_def)
qed

lemma Delete_progress:
  assumes E: "removable n E" and n: "n \<le> length (hist s)"
    and ns: "StableMCPNamespace (lib E) (meta_Name (kro_Meta (obj s))) (meta_Namespace (kro_Meta (obj s)))
      = Inr tns"
  shows "\<exists>t. run_state (Delete E r pc cc) s = (Returned (no_requeue, None), t)"
proof -
  obtain out t where run: "run_state (Delete E r pc cc) s = (out, t)"
    by (cases "run_state (Delete E r pc cc) s")
  note none = removableD(3) [OF E n]
  from run ns have "out = Returned (no_requeue, None)"
  proof (cases rule: Delete_cases)
    case (unguarded u)
    with delete_managed_progress [OF E, of u tns] n show ?thesis by auto
  next
    case (unknown c e)
    with none [of c] show ?thesis by simp
  next
    case (blocked c g)
    with none [of c] show ?thesis by (simp add: no_graphs_def)
  next
    case (clear c g u)
    with delete_managed_progress [OF E, of u tns] n show ?thesis by auto
  qed
  with run show ?thesis by blast
qed

lemma remove_access_progress:
  assumes E: "removable n E" and n: "n \<le> length (hist s)"
  shows "\<exists>t k x d. run_state (remove_access E req) s = (Returned (no_requeue, None), t)
    \<and> hist t = hist s @ [d, OnboardingUpdate k (x, None)] \<and> k = without_finalizer (lib E) (obj s)"
proof -
  obtain res where res: "on_access_delete E (hist s) req = (res, None)" "RequeueAfter res = 0"
    using removableD(4) [OF E n] by blast
  define h where "h = hist s @ [AccessReconcileDelete req (res, None)]"
  define k where "k = without_finalizer (lib E) (obj s)"
  have "n \<le> length h" using n by (simp add: h_def)
  then obtain x where "on_onboarding_update E h k = (x, None)"
    using removableD(5) [OF E, of h k] by (metis prod.collapse)
  with res show ?thesis
    by (simp add: remove_access_def access_calls without_finalizer_def h_def k_def)
qed

lemma deletion_run_progress:
  assumes outside: "removable n E" "access_granted n E" "status_accepted n E"
    and n: "n \<le> length (hist s)"
    and r: "serviceProviderReconciler r = Some (kro_domain E kr)" "providerConfig r = Some pc"
    and get: "on_onboarding_get E (hist s) req = Inr k0"
    and k0: "unannotated E k0" "\<not> IsZero (meta_DeletionTimestamp (kro_Meta k0))"
    and ns: "StableMCPNamespace (lib E) (meta_Name (kro_Meta k0)) (meta_Namespace (kro_Meta k0)) = Inr tns"
  shows "\<exists>t evs k x. run_state (Reconcile E r req) s = (Returned (\<lparr>RequeueAfter = PollInterval (Some pc)\<rparr>, None), t)
    \<and> hist t = hist s @ evs \<and> OnboardingUpdate k (x, None) \<in> set evs
    \<and> meta_Name (kro_Meta k) = meta_Name (kro_Meta k0)
    \<and> meta_Namespace (kro_Meta k) = meta_Namespace (kro_Meta k0)
    \<and> meta_Finalizers (kro_Meta k) = RemoveFinalizer (lib E) (meta_Finalizers (kro_Meta k0)) Kro_Finalizer"
proof -
  define key where "key = ObjectKeyFromMeta (kro_Meta k0)"
  define u where "u = s\<lparr>hist := hist s @ [OnboardingGet req (Inr k0)], obj := k0\<rparr>"
  have nu: "n \<le> length (hist u)" using n by (simp add: u_def)
  obtain u1 where u1: "run_state (areAccessRequestsInDeletion E r key) u = (Inr False, u1)" "obj u1 = k0"
    using check_progress [OF outside(2) nu, of r key] by (auto simp: u_def)
  obtain es where es: "hist u1 = hist u @ es"
    using areAccessRequestsInDeletion_run [OF u1(1)] by (blast dest: logged_hist)
  have nu1: "n \<le> length (hist u1)" using nu es by simp
  obtain cc res w where cc: "run_state (clusters E r key False) u1 = (Returned (cc, res, None), w)"
      "RequeueAfter res = 0" "obj w = k0"
    using clusters_progress [OF outside(2) nu1, of r key False] u1(2) by auto
  obtain fs where fs: "hist w = hist u1 @ fs"
    using cc(1) by (rule clusters_run) (blast dest: logged_hist)
  have nw: "n \<le> length (hist w)" using nu1 fs by simp
  obtain x where x: "run_state (Delete E kr (Some pc) cc) w = (Returned (no_requeue, None), x)"
    using Delete_progress [OF outside(1) nw] ns cc(3) by metis
  obtain gs where gs: "hist x = hist w @ gs"
    using kro_domain.delete_events [of E kr pc cc] x by (auto simp: kro_domain_fields elim: emits_onlyD)
  have nx: "n \<le> length (hist x)" using nw gs by simp
  have kept: "kro_Meta (obj x) = kro_Meta k0"
    using keeps_metaD [OF kro_domain.delete_keeps, of E kr pc cc w] x cc(3) by (simp add: kro_domain_fields)
  obtain y k z d where y: "run_state (remove_access E key) x = (Returned (no_requeue, None), y)"
      "hist y = hist x @ [d, OnboardingUpdate k (z, None)]" "k = without_finalizer (lib E) (obj x)"
    using remove_access_progress [OF outside(1) nx] by blast
  have ny: "n \<le> length (hist y)" using nx y(2) by simp
  have "run_state (delete E r pc) u = (Returned (no_requeue, None), y)"
    using u1 cc x y r(1)
    by (simp add: delete_def domain_delete_def Let_def domain_Delete_def kro_domain_fields u_def key_def)
  then have body: "run_state (reconcile_body E r) u = (Returned (\<lparr>RequeueAfter = PollInterval (Some pc)\<rparr>, None), y)"
    using r(2) k0(2) by (simp add: reconcile_body_def u_def)
  obtain t final where t: "run_state (updateStatus E (obj u)) y = (None, t)" "hist t = hist y @ final"
    using updateStatus_progress [OF outside(3) ny] by blast
  have "run_state (Reconcile E r req) s = run_state (with_status_update E (reconcile_body E r)) u"
    using plain_run [OF get k0(1)] by (simp add: u_def)
  with body t(1) have "run_state (Reconcile E r req) s
      = (Returned (\<lparr>RequeueAfter = PollInterval (Some pc)\<rparr>, None), t)"
    by (simp add: with_status_update_run)
  moreover have "hist t = hist s @ (OnboardingGet req (Inr k0) # es @ fs @ gs @ d # OnboardingUpdate k (z, None) # final)"
    using t(2) y(2) es fs gs by (simp add: u_def)
  moreover have "OnboardingUpdate k (z, None)
      \<in> set (OnboardingGet req (Inr k0) # es @ fs @ gs @ d # OnboardingUpdate k (z, None) # final)" by simp
  moreover have "meta_Name (kro_Meta k) = meta_Name (kro_Meta k0)"
    "meta_Namespace (kro_Meta k) = meta_Namespace (kro_Meta k0)"
    "meta_Finalizers (kro_Meta k) = RemoveFinalizer (lib E) (meta_Finalizers (kro_Meta k0)) Kro_Finalizer"
    using kept by (simp_all add: y(3) without_finalizer_def)
  ultimately show ?thesis by blast
qed

end
