(* ===== verification/Call_Order.thy ===== *)
theory Call_Order
  imports End_To_End
begin

text \<open>
  The order of the calls that write objects: an object is written after the objects it refers to,
  in every history the running system can produce.
\<close>

section \<open>References are written first\<close>

text \<open>
  An object may refer to others by name: an OCI repository to its pull secret, a Helm release to
  its chart's repository, the kro release to the kubeconfig it mounts on the workload cluster.
\<close>

fun referents_written :: "event list \<Rightarrow> event \<Rightarrow> bool" where
  "referents_written pre (PlatformUpsertOCIRepository k spec _) \<longleftrightarrow>
     (\<forall>n. oci_SecretRef spec = Some n \<longrightarrow>
        (\<exists>src. PlatformUpsertSecret (object_key (key_Namespace k) n) src None \<in> set pre))"
| "referents_written pre (PlatformUpsertHelmRelease k spec _) \<longleftrightarrow>
     (\<exists>oci_spec oci. PlatformUpsertOCIRepository
        (object_key (ref_Namespace (hr_ChartRef spec)) (ref_Name (hr_ChartRef spec))) oci_spec (Inr oci) \<in> set pre)
   \<and> (hr_PostRenderers spec = kubeconfigPostRenderers \<longrightarrow>
        (\<exists>c kubeconfig. WorkloadUpsertSecret c
           (object_key (hr_TargetNamespace spec) mcpKubeconfigSecretName) kubeconfig None \<in> set pre))"
| "referents_written pre _ \<longleftrightarrow> True"

interpretation referents: call_order referents_written
proof
  show "referents_written (xs @ pre) e" if "referents_written pre e" for pre e xs
    using that by (cases e) auto
qed

fun refers :: "event \<Rightarrow> bool" where
  "refers (PlatformUpsertOCIRepository k spec r) = True"
| "refers (PlatformUpsertHelmRelease k spec r) = True"
| "refers _ = False"

lemma referents_quiet:
  "emits_only (\<lambda>e. \<not> refers e) m \<Longrightarrow> traces (in_order referents_written pre) m"
proof (erule in_order_quiet)
  show "\<not> refers e \<Longrightarrow> referents_written pre e" for pre e by (cases e) auto
qed

lemma quiet_refs: "emits_only (\<lambda>e. \<not> refers e) (replicate_refs E r c refs)"
  by (induction refs) (auto simp: cluster_calls intro!: emits)

lemma quiet_steps:
  "emits_only (\<lambda>e. \<not> refers e) (replicateChartPullSecret E r n tns)"
  "emits_only (\<lambda>e. \<not> refers e) (replicateImagePullSecrets E r wl vals)"
  "emits_only (\<lambda>e. \<not> refers e) (replicateMCPKubeconfig E cc)"
  "emits_only (\<lambda>e. \<not> refers e) (fail_progressing E ctx err)"
  "emits_only (\<lambda>e. \<not> refers e) (report_resources E tns oci helm crds)"
  "emits_only (\<lambda>e. \<not> refers e) (getWorkloadFluxConfig E ns n)"
  by (auto simp: replicateChartPullSecret_def replicateImagePullSecrets_def replicateMCPKubeconfig_def
      fail_progressing_def getWorkloadFluxConfig_def cluster_calls Let_def intro!: emits quiet_refs)

lemma delete_referents: "traces (in_order referents_written pre) (Delete E r pc cc)"
proof (rule referents_quiet)
  have "emits_only (\<lambda>e. \<not> refers e) (delete_objects E ms b)" for ms b
    by (induction ms arbitrary: b) (auto intro!: emits split: option.splits prod.splits)
  then show "emits_only (\<lambda>e. \<not> refers e) (Delete E r pc cc)"
    by (auto simp: Delete_def countResourceGraphDefinitions_def delete_managed_def intro!: emits)
qed

lemma removal_referents: "traces (in_order referents_written pre) (remove_access E req)"
proof (rule referents_quiet)
  show "emits_only (\<lambda>e. \<not> refers e) (remove_access E req)"
    by (rule emits_only_mono [OF remove_access_emits]) (auto elim: runtime_event.elims)
qed

lemma crds_referents:
  assumes "PlatformUpsertOCIRepository (object_key tns OCIRepositoryName) spec (Inr oci) \<in> set pre"
  shows "traces (in_order referents_written pre) (createOrUpdateMCPCRDsHelmRelease E tns cc)"
  unfolding createOrUpdateMCPCRDsHelmRelease_def platform_upsert_release_def Let_def
  using assms by (intro in_order_call)
    (auto simp: crds_release_spec_def crdOnlyPostRenderers_def kubeconfigPostRenderers_def)

lemma release_referents:
  assumes "PlatformUpsertOCIRepository (object_key tns OCIRepositoryName) spec (Inr oci) \<in> set pre"
    and "WorkloadUpsertSecret c (object_key KroSystemNamespace mcpKubeconfigSecretName) d None \<in> set pre"
  shows "traces (in_order referents_written pre) (createOrUpdateHelmRelease E tns k vals)"
  unfolding createOrUpdateHelmRelease_eq platform_upsert_release_def
  using assms
  by (intro in_order_bind traces_branches in_order_return in_order_call referents_quiet quiet_steps)
    (auto simp: kro_release_spec_def)

lemma oci_referents:
  assumes "ver_ChartPullSecret v \<noteq> '''' \<Longrightarrow>
      \<exists>src. PlatformUpsertSecret (object_key tns (ver_ChartPullSecret v)) src None \<in> set pre"
  shows "traces (in_order referents_written pre) (createOrUpdateOCIRepository E v tns)"
  unfolding createOrUpdateOCIRepository_def createOciRepository_def Let_def
  using assms by (intro in_order_call) auto

lemma steps_history:
  assumes "hist t = hist s @ evs"
  shows "run_state (replicateChartPullSecret E r n tns) s = (None, t) \<Longrightarrow> chart_secret_calls r n tns evs"
    and "run_state (createOrUpdateOCIRepository E v tns) s = (Inr oci, t) \<Longrightarrow>
      evs = [PlatformUpsertOCIRepository (object_key tns OCIRepositoryName)
        (oci_Spec (createOciRepository v tns)) (Inr oci)]"
    and "run_state (replicateMCPKubeconfig E cc) s = (None, t) \<Longrightarrow> kubeconfig_calls E cc evs"
  using assms replicateChartPullSecret_done [of E r n tns s t] replicateMCPKubeconfig_done [of E cc s t]
    createOrUpdateOCIRepository_run [of E v tns s oci t]
  by (auto dest!: logged_hist)

lemma apply_referents: "traces (in_order referents_written pre) (apply_version E r cc tns v k)"
  unfolding apply_version_def
proof (intro in_order_bind traces_branches in_order_return quiet_steps [THEN referents_quiet], goal_cases)
  case (1 a s t chart)
  then have "chart_secret_calls r (ver_ChartPullSecret v) tns chart" using steps_history(1) by blast
  then show ?case by (intro oci_referents) (auto simp: chart_secret_calls_def)
next
  case (2 a s t chart b s2 t2 repo oci c s3 t3 images d s4 t4 kc)
  then have "repo = [PlatformUpsertOCIRepository (object_key tns OCIRepositoryName)
      (oci_Spec (createOciRepository v tns)) (Inr oci)]"
    using steps_history(2) by blast
  then show ?case by (intro crds_referents) auto
next
  case (3 a s t chart b s2 t2 repo oci c s3 t3 images d s4 t4 kc e s5 t5 crds_call crds)
  have repo: "repo = [PlatformUpsertOCIRepository (object_key tns OCIRepositoryName)
      (oci_Spec (createOciRepository v tns)) (Inr oci)]"
    using steps_history(2) 3 by blast
  have "kubeconfig_calls E cc kc" using steps_history(3) 3 by blast
  then obtain before c' data where kc: "kc = before
      @ [WorkloadUpsertSecret c' (object_key KroSystemNamespace mcpKubeconfigSecretName)
          \<lparr>secret_Data = [mcpKubeconfigKey \<mapsto> data], secret_Type = SecretTypeOpaque (lib E)\<rparr> None]"
    by (rule kubeconfig_calls_last)
  show ?case by (rule release_referents) (auto simp: repo kc)
qed

lemma create_referents: "traces (in_order referents_written pre) (CreateOrUpdate E r pc cc)"
proof -
  have "traces (in_order referents_written pre) (modify_obj f)" "traces (in_order referents_written pre) get_obj"
    for f pre by (simp_all add: traces_def)
  then show ?thesis
    unfolding CreateOrUpdate_def by (intro in_order_bind traces_branches in_order_return apply_referents)
qed

section \<open>Properties\<close>

text \<open>
  C12. Nothing is written before what it refers to: in every history the running system can
  produce, under every environment, an OCI repository that names a pull secret is written after
  that secret was copied into its namespace, a Helm release after the repository of its chart,
  and the kro release after the kubeconfig secret it mounts was written into its target namespace
  on a workload cluster. The system never asks Flux for an object whose references it has not
  provided.
\<close>
theorem references_first:
  assumes "reachable E p (start E pl on car ns) S"
    and "hist (sys S) = before @ e # after"
  shows "referents_written before e"
proof -
  have "in_order referents_written [] (hist (sys S))"
    by (rule referents.reachable_trace [OF _ removal_referents create_referents delete_referents assms(1)])
      (auto elim!: runtime_event.elims access_event.elims)
  then show ?thesis using in_order_split [of referents_written "[]" before e after] assms(2) by simp
qed

lemma main_workload [simp]: "withWorkloadCluster (main_reconciler E pl on car ns)"
  by (simp add: main_reconciler_def WithServiceProviderReconciler_def WithWorkloadCluster_def
      WithOnboardingCluster_def WithPlatformCluster_def WithClusterAccessReconciler_def NewSPReconciler_def)

theorem references_first_witness:
  "\<exists>before spec r after. hist (sys (sample_reconciled sample_env))
      = before @ PlatformUpsertHelmRelease (object_key ''mcp--tenant--mcp-01'' HelmReleaseName) spec r # after
    \<and> referents_written before
        (PlatformUpsertHelmRelease (object_key ''mcp--tenant--mcp-01'' HelmReleaseName) spec r)"
proof -
  have "\<exists>spec r. PlatformUpsertHelmRelease (object_key ''mcp--tenant--mcp-01'' HelmReleaseName) spec r
      \<in> set (hist (sys (sample_reconciled sample_env)))"
    by (simp add: sample_reconciled_def sample_delivered_def sample_live_run, blast)
  then obtain spec r before after where split: "hist (sys (sample_reconciled sample_env))
      = before @ PlatformUpsertHelmRelease (object_key ''mcp--tenant--mcp-01'' HelmReleaseName) spec r # after"
    by (meson split_list)
  with references_first [OF sample_reconciled_reachable [OF sample_delivered_env] split]
  show ?thesis by blast
qed

end
