(* ===== verification/Desired_State.thy ===== *)
theory Desired_State
  imports Call_Order
begin

text \<open>
  The abstract view of the controller: what it wants to exist. The history of calls is read as
  a declarative state, the objects the controller has written and not deleted since; the
  detailed runs of \<open>CreateOrUpdate\<close> and \<open>Delete\<close> refine two short functions on it.
\<close>

section \<open>The desired state of a history\<close>

record intent =
  int_oci :: "ObjectKey \<Rightarrow> OCIRepositorySpec option"
  int_release :: "ObjectKey \<Rightarrow> HelmReleaseSpec option"
  int_secret :: "ObjectKey \<Rightarrow> Secret option"
  int_workload :: "Cluster \<times> ObjectKey \<Rightarrow> Secret option"

definition no_intent :: intent where
  "no_intent = \<lparr>int_oci = Map.empty, int_release = Map.empty, int_secret = Map.empty,
     int_workload = Map.empty\<rparr>"

text \<open>
  The effect of one call: a write that succeeded sets the object, a deletion that succeeded or
  found nothing clears it, every other call leaves the desired state alone.
\<close>

fun effect :: "libs \<Rightarrow> event \<Rightarrow> intent \<Rightarrow> intent" where
  "effect L (PlatformUpsertOCIRepository k spec (Inr _)) i = i\<lparr>int_oci := (int_oci i)(k \<mapsto> spec)\<rparr>"
| "effect L (PlatformUpsertHelmRelease k spec (Inr _)) i = i\<lparr>int_release := (int_release i)(k \<mapsto> spec)\<rparr>"
| "effect L (PlatformUpsertSecret k s None) i = i\<lparr>int_secret := (int_secret i)(k \<mapsto> s)\<rparr>"
| "effect L (WorkloadUpsertSecret c k s None) i = i\<lparr>int_workload := (int_workload i)((c, k) \<mapsto> s)\<rparr>"
| "effect L (PlatformDelete (OCIRepositoryObject k) d) i =
     (if ignore_not_found L d = None then i\<lparr>int_oci := (int_oci i)(k := None)\<rparr> else i)"
| "effect L (PlatformDelete (HelmReleaseObject k) d) i =
     (if ignore_not_found L d = None then i\<lparr>int_release := (int_release i)(k := None)\<rparr> else i)"
| "effect L _ i = i"

definition intents :: "libs \<Rightarrow> event list \<Rightarrow> intent" where
  "intents L h = fold (effect L) h no_intent"

lemma intents_append: "intents L (h @ evs) = fold (effect L) evs (intents L h)"
  by (simp add: intents_def)

section \<open>The abstract operations\<close>

text \<open>What an installation wants, from what it was given and what it read.\<close>

record installation =
  in_version :: KroVersion
  in_workload :: Cluster
  in_crds_secret :: string
  in_workload_secret :: string
  in_chart_secret :: Secret
  in_image_secrets :: "(string \<times> Secret) list"
  in_kubeconfig :: string

definition put_image :: "Cluster \<Rightarrow> string \<times> Secret \<Rightarrow> (Cluster \<times> ObjectKey \<Rightarrow> Secret option)
    \<Rightarrow> (Cluster \<times> ObjectKey \<Rightarrow> Secret option)" where
  "put_image c img m = m((c, object_key KroSystemNamespace (fst img)) \<mapsto> snd img)"

lemma put_image_pair [simp]:
  "put_image c (n, s) m = m((c, object_key KroSystemNamespace n) \<mapsto> s)"
  by (simp add: put_image_def)

definition install_spec :: "libs \<Rightarrow> string \<Rightarrow> installation \<Rightarrow> intent \<Rightarrow> intent" where
  "install_spec L tns x i =
     (let v = in_version x; pull = ver_ChartPullSecret v; c = in_workload x in
      \<lparr>int_oci = (int_oci i)(object_key tns OCIRepositoryName \<mapsto>
         \<lparr>oci_Interval = time_Minute, oci_URL = GetChartURL v,
          oci_SecretRef = (if pull = '''' then None else Some pull), oci_Tag = ver_ChartVersion v\<rparr>),
       int_release = (int_release i)
         (object_key tns MCPHelmReleaseName \<mapsto>
            crds_release_spec tns \<lparr>skr_Name = in_crds_secret x, skr_Key = ''kubeconfig''\<rparr>,
          object_key tns HelmReleaseName \<mapsto>
            kro_release_spec tns \<lparr>skr_Name = in_workload_secret x, skr_Key = ''kubeconfig''\<rparr>
              (ver_HelmValues v)),
       int_secret = (if pull = '''' then int_secret i
         else (int_secret i)(object_key tns pull \<mapsto> in_chart_secret x)),
       int_workload = (fold (put_image c) (in_image_secrets x) (int_workload i))
         ((c, object_key KroSystemNamespace mcpKubeconfigSecretName) \<mapsto>
            \<lparr>secret_Data = [mcpKubeconfigKey \<mapsto> in_kubeconfig x], secret_Type = SecretTypeOpaque L\<rparr>)\<rparr>)"

definition uninstall_spec :: "string \<Rightarrow> intent \<Rightarrow> intent" where
  "uninstall_spec tns i = i\<lparr>
     int_oci := (int_oci i)(object_key tns OCIRepositoryName := None),
     int_release := (int_release i)(object_key tns HelmReleaseName := None,
       object_key tns MCPHelmReleaseName := None)\<rparr>"

section \<open>The effect of the steps\<close>

lemma effect_ref_calls:
  "ref_calls r c refs evs \<Longrightarrow> \<exists>images. map fst images = refs
    \<and> fold (effect L) evs i = i\<lparr>int_workload := fold (put_image c) images (int_workload i)\<rparr>
    \<and> (\<forall>n src. (n, src) \<in> set images \<longrightarrow>
         PlatformGetSecret (object_key (PodNamespace r) n) (Inr src) \<in> set evs)"
proof (induction refs arbitrary: evs i)
  case (Cons ref refs)
  then obtain src rest where evs: "evs = PlatformGetSecret (object_key (PodNamespace r) ref) (Inr src)
      # WorkloadUpsertSecret c (object_key KroSystemNamespace ref) src None # rest"
    and rest: "ref_calls r c refs rest" by auto
  define j where "j = i\<lparr>int_workload := put_image c (ref, src) (int_workload i)\<rparr>"
  obtain images where "map fst images = refs"
    "fold (effect L) rest j = j\<lparr>int_workload := fold (put_image c) images (int_workload j)\<rparr>"
    "\<forall>n src. (n, src) \<in> set images \<longrightarrow>
       PlatformGetSecret (object_key (PodNamespace r) n) (Inr src) \<in> set rest"
    using Cons.IH [OF rest] by blast
  then show ?case
    by (intro exI [of _ "(ref, src) # images"]) (auto simp: evs j_def)
qed simp

lemma effect_image_calls:
  assumes "image_secret_calls r (Some c) refs evs"
  shows "\<exists>images. map fst images = refs
    \<and> fold (effect L) evs i = i\<lparr>int_workload := fold (put_image c) images (int_workload i)\<rparr>
    \<and> (\<forall>n src. (n, src) \<in> set images \<longrightarrow>
         PlatformGetSecret (object_key (PodNamespace r) n) (Inr src) \<in> set evs)"
proof (cases "refs = []")
  case False
  then obtain rest where evs: "evs = WorkloadEnsureNamespace c KroSystemNamespace None # rest"
    and rest: "ref_calls r c refs rest"
    using assms by (auto simp: image_secret_calls_def)
  from effect_ref_calls [OF rest, of L i] show ?thesis by (auto simp: evs)
qed (use assms in \<open>simp add: image_secret_calls_def\<close>)

lemma effect_chart_calls:
  assumes "chart_secret_calls r n tns evs"
  shows "\<exists>src. fold (effect L) evs i = i\<lparr>int_secret := (if n = '''' then int_secret i
      else (int_secret i)(object_key tns n \<mapsto> src))\<rparr>
    \<and> (n \<noteq> '''' \<longrightarrow> PlatformGetSecret (object_key (PodNamespace r) n) (Inr src) \<in> set evs)"
  using assms by (auto simp: chart_secret_calls_def split: if_splits)

lemma effect_kubeconfig_calls:
  assumes "kubeconfig_calls E cc evs" "cc_WorkloadCluster cc = Some c"
  shows "\<exists>data sec. fold (effect L) evs i = i\<lparr>int_workload := (int_workload i)
      ((c, object_key KroSystemNamespace mcpKubeconfigSecretName) \<mapsto>
        \<lparr>secret_Data = [mcpKubeconfigKey \<mapsto> data], secret_Type = SecretTypeOpaque (lib E)\<rparr>)\<rparr>
    \<and> PlatformGetSecret (cc_MCPAccessSecretKey cc) (Inr sec) \<in> set evs
    \<and> secret_Data sec mcpKubeconfigKey = Some data"
  using assms by (auto simp: kubeconfig_calls_def)

text \<open>What the abstract installation took from the clusters was read there in this run.\<close>

definition read_in :: "KroReconciler \<Rightarrow> ClusterContext \<Rightarrow> installation \<Rightarrow> event list \<Rightarrow> bool" where
  "read_in r cc x evs \<longleftrightarrow>
     (ver_ChartPullSecret (in_version x) \<noteq> '''' \<longrightarrow>
        PlatformGetSecret (object_key (PodNamespace r) (ver_ChartPullSecret (in_version x)))
          (Inr (in_chart_secret x)) \<in> set evs)
   \<and> (\<forall>n src. (n, src) \<in> set (in_image_secrets x) \<longrightarrow>
        PlatformGetSecret (object_key (PodNamespace r) n) (Inr src) \<in> set evs)
   \<and> (\<exists>sec. PlatformGetSecret (cc_MCPAccessSecretKey cc) (Inr sec) \<in> set evs
        \<and> secret_Data sec mcpKubeconfigKey = Some (in_kubeconfig x))
   \<and> (\<exists>k ar. PlatformGetAccessRequest k (Inr ar) \<in> set evs
        \<and> ar_SecretRef ar = Some (in_workload_secret x))"

lemma effect_apply_calls:
  assumes "apply_calls E r cc tns v name oci helm crds evs"
  shows "\<exists>x hv. in_version x = v \<and> cc_WorkloadCluster cc = Some (in_workload x)
    \<and> in_crds_secret x = key_Name (cc_MCPAccessSecretKey cc)
    \<and> ExtractHelmValues (lib E) (ver_HelmValues v) = Inr hv
    \<and> map fst (in_image_secrets x) = ImagePullSecrets hv \<and> read_in r cc x evs
    \<and> fold (effect L) evs i = install_spec (lib E) tns x i"
proof -
  obtain hv chart images kc ar n where
    hv: "ExtractHelmValues (lib E) (ver_HelmValues v) = Inr hv"
    and calls: "chart_secret_calls r (ver_ChartPullSecret v) tns chart"
      "image_secret_calls r (cc_WorkloadCluster cc) (ImagePullSecrets hv) images"
      "kubeconfig_calls E cc kc"
    and n: "ar_SecretRef ar = Some n"
    and evs: "evs = chart
        @ [PlatformUpsertOCIRepository (object_key tns OCIRepositoryName)
             (oci_Spec (createOciRepository v tns)) (Inr oci)]
        @ images @ kc
        @ [PlatformUpsertHelmRelease (object_key tns MCPHelmReleaseName)
             (crds_release_spec tns
               \<lparr>skr_Name = key_Name (cc_MCPAccessSecretKey cc), skr_Key = ''kubeconfig''\<rparr>) (Inr crds),
           PlatformGetAccessRequest (workload_request_key E tns name) (Inr ar),
           PlatformUpsertHelmRelease (object_key tns HelmReleaseName)
             (kro_release_spec tns \<lparr>skr_Name = n, skr_Key = ''kubeconfig''\<rparr> (ver_HelmValues v))
             (Inr helm)]"
    using assms unfolding apply_calls_def by blast
  obtain c where c: "cc_WorkloadCluster cc = Some c"
    using calls(3) by (auto simp: kubeconfig_calls_def)
  define pull where "pull = ver_ChartPullSecret v"
  obtain src where src: "fold (effect L) chart i = i\<lparr>int_secret := (if pull = '''' then int_secret i
      else (int_secret i)(object_key tns pull \<mapsto> src))\<rparr>"
    "pull \<noteq> '''' \<longrightarrow> PlatformGetSecret (object_key (PodNamespace r) pull) (Inr src) \<in> set chart"
    using effect_chart_calls [OF calls(1)] unfolding pull_def by metis
  define i1 where "i1 = i\<lparr>int_secret := (if pull = '''' then int_secret i
      else (int_secret i)(object_key tns pull \<mapsto> src)),
    int_oci := (int_oci i)(object_key tns OCIRepositoryName \<mapsto> oci_Spec (createOciRepository v tns))\<rparr>"
  obtain copied where copied: "map fst copied = ImagePullSecrets hv"
    "fold (effect L) images i1 = i1\<lparr>int_workload := fold (put_image c) copied (int_workload i1)\<rparr>"
    "\<forall>n src. (n, src) \<in> set copied \<longrightarrow>
       PlatformGetSecret (object_key (PodNamespace r) n) (Inr src) \<in> set images"
    using effect_image_calls [OF calls(2) [unfolded c]] by blast
  define i2 where "i2 = i1\<lparr>int_workload := fold (put_image c) copied (int_workload i1)\<rparr>"
  obtain data sec where kubeconfig: "fold (effect L) kc i2 = i2\<lparr>int_workload := (int_workload i2)
      ((c, object_key KroSystemNamespace mcpKubeconfigSecretName) \<mapsto>
        \<lparr>secret_Data = [mcpKubeconfigKey \<mapsto> data], secret_Type = SecretTypeOpaque (lib E)\<rparr>)\<rparr>"
    "PlatformGetSecret (cc_MCPAccessSecretKey cc) (Inr sec) \<in> set kc"
    "secret_Data sec mcpKubeconfigKey = Some data"
    using effect_kubeconfig_calls [OF calls(3) c] by blast
  define x where "x = \<lparr>in_version = v, in_workload = c,
    in_crds_secret = key_Name (cc_MCPAccessSecretKey cc), in_workload_secret = n,
    in_chart_secret = src, in_image_secrets = copied, in_kubeconfig = data\<rparr>"
  have "fold (effect L) (chart @ [PlatformUpsertOCIRepository (object_key tns OCIRepositoryName)
      (oci_Spec (createOciRepository v tns)) (Inr oci)]) i = i1"
    by (simp add: src(1) i1_def)
  then have "fold (effect L) evs i = fold (effect L) [
        PlatformUpsertHelmRelease (object_key tns MCPHelmReleaseName)
          (crds_release_spec tns \<lparr>skr_Name = key_Name (cc_MCPAccessSecretKey cc), skr_Key = ''kubeconfig''\<rparr>) (Inr crds),
        PlatformGetAccessRequest (workload_request_key E tns name) (Inr ar),
        PlatformUpsertHelmRelease (object_key tns HelmReleaseName)
          (kro_release_spec tns \<lparr>skr_Name = n, skr_Key = ''kubeconfig''\<rparr> (ver_HelmValues v)) (Inr helm)]
      (fold (effect L) kc i2)"
    by (simp add: evs copied(2) i2_def)
  also have "\<dots> = install_spec (lib E) tns x i"
    unfolding kubeconfig(1)
    by (simp add: i1_def i2_def install_spec_def x_def pull_def createOciRepository_def Let_def)
  finally have "fold (effect L) evs i = install_spec (lib E) tns x i" .
  moreover have "read_in r cc x evs"
    using src(2) copied(3) kubeconfig(2,3) n
    by (auto simp: read_in_def x_def evs pull_def)
  moreover have "in_version x = v" "cc_WorkloadCluster cc = Some (in_workload x)"
    "in_crds_secret x = key_Name (cc_MCPAccessSecretKey cc)"
    "map fst (in_image_secrets x) = ImagePullSecrets hv"
    by (simp_all add: x_def c copied(1))
  ultimately show ?thesis using hv by blast
qed

lemma effect_teardown:
  "teardown_calls L (managed_objects tns) evs \<Longrightarrow> fold (effect L) evs i = uninstall_spec tns i"
  by (auto simp: managed_objects_def uninstall_spec_def)

section \<open>Other tenants\<close>

text \<open>Two desired states agree outside one namespace of the platform.\<close>

definition same_outside :: "string \<Rightarrow> intent \<Rightarrow> intent \<Rightarrow> bool" where
  "same_outside tns i j \<longleftrightarrow> (\<forall>k. key_Namespace k \<noteq> tns \<longrightarrow>
     int_oci i k = int_oci j k \<and> int_release i k = int_release j k \<and> int_secret i k = int_secret j k)"

lemma same_outside_trans: "same_outside tns i j \<Longrightarrow> same_outside tns j l \<Longrightarrow> same_outside tns i l"
  by (simp add: same_outside_def)

lemma same_outside_fold:
  assumes "list_all Q evs" and "\<And>e i. Q e \<Longrightarrow> same_outside tns i (effect L e i)"
  shows "same_outside tns i (fold (effect L) evs i)"
  using assms(1)
proof (induction evs arbitrary: i)
  case (Cons e evs)
  then show ?case using assms(2) same_outside_trans by fastforce
qed (simp add: same_outside_def)

lemma confined_effect: "confined r cc tns e \<Longrightarrow> same_outside tns i (effect L e i)"
  by (induction L e i rule: effect.induct) (auto simp: same_outside_def)

lemma delete_confined_effect: "delete_confined cc tns e \<Longrightarrow> same_outside tns i (effect L e i)"
  by (induction L e i rule: effect.induct) (auto simp: same_outside_def managed_objects_def)

section \<open>What the desired state may contain\<close>

definition tenant_namespace :: "libs \<Rightarrow> string \<Rightarrow> bool" where
  "tenant_namespace L tns \<longleftrightarrow> (\<exists>n ns. StableMCPNamespace L n ns = Inr tns)"

definition wanted_oci :: "libs \<Rightarrow> ObjectKey \<Rightarrow> OCIRepositorySpec \<Rightarrow> bool" where
  "wanted_oci L k spec \<longleftrightarrow> tenant_namespace L (key_Namespace k) \<and> key_Name k = OCIRepositoryName
     \<and> (\<exists>v. spec = oci_Spec (createOciRepository v (key_Namespace k)))"

definition wanted_release :: "libs \<Rightarrow> ObjectKey \<Rightarrow> HelmReleaseSpec \<Rightarrow> bool" where
  "wanted_release L k spec \<longleftrightarrow> tenant_namespace L (key_Namespace k)
     \<and> (key_Name k = MCPHelmReleaseName \<and> (\<exists>ref. spec = crds_release_spec (key_Namespace k) ref)
        \<or> key_Name k = HelmReleaseName
          \<and> (\<exists>ref vals. spec = kro_release_spec (key_Namespace k) ref vals))"

definition well_formed :: "libs \<Rightarrow> intent \<Rightarrow> bool" where
  "well_formed L i \<longleftrightarrow>
     (\<forall>k spec. int_oci i k = Some spec \<longrightarrow> wanted_oci L k spec)
   \<and> (\<forall>k spec. int_release i k = Some spec \<longrightarrow> wanted_release L k spec)
   \<and> (\<forall>k. int_secret i k \<noteq> None \<longrightarrow> tenant_namespace L (key_Namespace k))
   \<and> (\<forall>c k. int_workload i (c, k) \<noteq> None \<longrightarrow> key_Namespace k = KroSystemNamespace)"

fun well_formed_call :: "libs \<Rightarrow> event \<Rightarrow> bool" where
  "well_formed_call L (PlatformUpsertOCIRepository k spec _) \<longleftrightarrow> wanted_oci L k spec"
| "well_formed_call L (PlatformUpsertHelmRelease k spec _) \<longleftrightarrow> wanted_release L k spec"
| "well_formed_call L (PlatformUpsertSecret k _ _) \<longleftrightarrow> tenant_namespace L (key_Namespace k)"
| "well_formed_call L (WorkloadUpsertSecret _ k _ _) \<longleftrightarrow> key_Namespace k = KroSystemNamespace"
| "well_formed_call L _ \<longleftrightarrow> True"

lemma well_formed_effect: "well_formed L i \<Longrightarrow> well_formed_call L e \<Longrightarrow> well_formed L (effect L e i)"
  by (induction L e i rule: effect.induct) (auto simp: well_formed_def)

lemma well_formed_fold: "list_all (well_formed_call L) evs \<Longrightarrow> well_formed L i \<Longrightarrow>
    well_formed L (fold (effect L) evs i)"
  by (induction evs arbitrary: i) (auto intro: well_formed_effect)

lemma well_formed_steps:
  assumes tns: "tenant_namespace (lib E) tns"
  shows "emits_only (well_formed_call (lib E)) (replicateChartPullSecret E r n tns)"
    "emits_only (well_formed_call (lib E)) (createOrUpdateOCIRepository E v tns)"
    "emits_only (well_formed_call (lib E)) (replicateImagePullSecrets E r wl vals)"
    "emits_only (well_formed_call (lib E)) (replicateMCPKubeconfig E cc)"
    "emits_only (well_formed_call (lib E)) (createOrUpdateMCPCRDsHelmRelease E tns cc)"
    "emits_only (well_formed_call (lib E)) (createOrUpdateHelmRelease E tns k vals)"
proof -
  have refs: "emits_only (well_formed_call (lib E)) (replicate_refs E r c refs)" for c refs
    by (induction refs) (auto simp: cluster_calls intro!: emits)
  show "emits_only (well_formed_call (lib E)) (replicateChartPullSecret E r n tns)"
    "emits_only (well_formed_call (lib E)) (replicateImagePullSecrets E r wl vals)"
    "emits_only (well_formed_call (lib E)) (replicateMCPKubeconfig E cc)"
    using tns by (auto simp: replicateChartPullSecret_def replicateImagePullSecrets_def
        replicateMCPKubeconfig_def cluster_calls intro!: emits refs)
  show "emits_only (well_formed_call (lib E)) (createOrUpdateOCIRepository E v tns)"
    using tns unfolding createOrUpdateOCIRepository_def Let_def
    by (intro emits) (auto simp: wanted_oci_def createOciRepository_def)
  show "emits_only (well_formed_call (lib E)) (createOrUpdateMCPCRDsHelmRelease E tns cc)"
    using tns unfolding createOrUpdateMCPCRDsHelmRelease_def platform_upsert_release_def Let_def
    by (intro emits) (auto simp: wanted_release_def)
  show "emits_only (well_formed_call (lib E)) (createOrUpdateHelmRelease E tns k vals)"
    using tns unfolding createOrUpdateHelmRelease_eq platform_upsert_release_def getWorkloadFluxConfig_def Let_def
    by (intro emits) (auto simp: wanted_release_def)
qed

lemma well_formed_create: "emits_only (well_formed_call (lib E)) (CreateOrUpdate E r pc cc)"
proof -
  have "emits_only (well_formed_call (lib E)) (apply_version E r cc tns v k)"
    if "tenant_namespace (lib E) tns" for tns v k
    unfolding apply_version_def by (intro emits well_formed_steps [OF that])
  moreover have "tenant_namespace (lib E) tns" if "StableMCPNamespace (lib E) n ns = Inr tns" for n ns tns
    using that by (auto simp: tenant_namespace_def)
  ultimately show ?thesis
    unfolding CreateOrUpdate_def by (intro emits) blast
qed

lemma well_formed_delete: "emits_only (well_formed_call (lib E)) (Delete E r pc cc)"
proof -
  have "emits_only (well_formed_call (lib E)) (delete_objects E ms b)" for ms b
    by (induction ms arbitrary: b) (auto intro!: emits split: option.splits prod.splits)
  then show ?thesis
    by (auto simp: Delete_def countResourceGraphDefinitions_def delete_managed_def intro!: emits)
qed

interpretation well_formed_calls: trace_property "list_all (well_formed_call L)" for L
  by unfold_locales simp_all

lemma well_formed_reachable:
  assumes "reachable E p (start E pl on car ns) S"
  shows "well_formed (lib E) (intents (lib E) (hist (sys S)))"
proof -
  have "list_all (well_formed_call (lib E)) (hist (sys S))"
    by (rule well_formed_calls.reachable_trace [OF _ _ _ _ assms])
      (auto simp: emits_only_traces [symmetric] well_formed_create well_formed_delete
        elim!: runtime_event.elims access_event.elims intro: emits_only_mono [OF remove_access_emits])
  moreover have "well_formed (lib E) no_intent" by (simp add: well_formed_def no_intent_def)
  ultimately show ?thesis unfolding intents_def by (rule well_formed_fold)
qed

section \<open>Properties\<close>

text \<open>
  C4. \<open>CreateOrUpdate\<close> refines one abstract operation: a successful run, read as a change of
  the desired state, is exactly \<open>install_spec\<close> for the tenant: it sets the OCI repository, the two
  releases, the pull secret (if the version names one) and the secrets on the workload cluster
  (the image pull secrets of the helm values and the kubeconfig), each with the value the
  version and the access determine or that was read in this very run, and nothing else.
\<close>
theorem CreateOrUpdate_refines:
  assumes run: "run_state (CreateOrUpdate E r pc cc) s = (Returned (res, None), t)"
    and ns: "StableMCPNamespace (lib E) (meta_Name (kro_Meta (obj s))) (meta_Namespace (kro_Meta (obj s)))
      = Inr tns"
    and v: "ResolveVersion (lib E) pc (spec_Version (kro_Spec (obj s))) = Inr v"
  shows "\<exists>x hv evs. intents (lib E) (hist t) = install_spec (lib E) tns x (intents (lib E) (hist s))
    \<and> in_version x = v \<and> cc_WorkloadCluster cc = Some (in_workload x)
    \<and> in_crds_secret x = key_Name (cc_MCPAccessSecretKey cc)
    \<and> ExtractHelmValues (lib E) (ver_HelmValues v) = Inr hv
    \<and> map fst (in_image_secrets x) = ImagePullSecrets hv
    \<and> hist t = hist s @ evs \<and> read_in r cc x evs"
proof -
  obtain oci helm crds evs where evs: "hist t = hist s @ evs"
    "apply_calls E r cc tns v (meta_Name (kro_Meta (obj s))) oci helm crds evs"
    using CreateOrUpdate_success [OF run ns v] by blast
  from effect_apply_calls [OF evs(2), of "lib E" "intents (lib E) (hist s)"] evs(1) show ?thesis
    by (auto simp: intents_append)
qed

text \<open>
  C8. \<open>Delete\<close> refines the abstract removal: a run that finishes (no error, no requeue) takes
  exactly the tenant's OCI repository and two releases out of the desired state, whatever was in
  it, and leaves every secret and every other tenant's objects in it.
\<close>
theorem Delete_refines:
  assumes run: "run_state (Delete E r pc cc) s = (Returned (res, None), t)"
    and finished: "\<not> RequeueAfter res > 0"
  shows "\<exists>tns. StableMCPNamespace (lib E) (meta_Name (kro_Meta (obj s))) (meta_Namespace (kro_Meta (obj s))) = Inr tns
    \<and> intents (lib E) (hist t) = uninstall_spec tns (intents (lib E) (hist s))"
proof -
  obtain tns before evs where
    ns: "StableMCPNamespace (lib E) (meta_Name (kro_Meta (obj s))) (meta_Namespace (kro_Meta (obj s))) = Inr tns"
    and evs: "hist t = hist s @ before @ evs" "teardown_calls (lib E) (managed_objects tns) evs"
    and before: "before = [] \<or> (\<exists>c g. before = [graph_list c g])"
    using run finished by (rule Delete_finished) (metis not_None_eq)
  from before have "fold (effect (lib E)) before i = i" for i by (auto simp: graph_list_def)
  with ns evs show ?thesis by (simp add: intents_append effect_teardown)
qed

text \<open>
  C10. Tenants stay apart in the desired state: whatever a run of \<open>CreateOrUpdate\<close> or \<open>Delete\<close>
  for one tenant does, and however it ends (success, error or panic), what the controller wants
  in every other namespace of the platform is exactly what it wanted before.
\<close>
theorem tenants_apart:
  assumes run: "run_state (CreateOrUpdate E r pc cc) s = (out, t) \<or> run_state (Delete E r pc cc) s = (out, t)"
    and ns: "StableMCPNamespace (lib E) (meta_Name (kro_Meta (obj s))) (meta_Namespace (kro_Meta (obj s)))
      = Inr tns"
    and k: "key_Namespace k \<noteq> tns"
  shows "int_oci (intents (lib E) (hist t)) k = int_oci (intents (lib E) (hist s)) k
    \<and> int_release (intents (lib E) (hist t)) k = int_release (intents (lib E) (hist s)) k
    \<and> int_secret (intents (lib E) (hist t)) k = int_secret (intents (lib E) (hist s)) k"
proof -
  define i where "i = intents (lib E) (hist s)"
  obtain evs where evs: "hist t = hist s @ evs"
    "list_all (confined r cc tns) evs \<or> list_all (delete_confined cc tns) evs"
    using run confined_run [OF _ ns] delete_confined_run [OF _ ns] by blast
  from evs(2) have "same_outside tns i (fold (effect (lib E)) evs i)"
  proof
    assume "list_all (confined r cc tns) evs"
    then show ?thesis by (rule same_outside_fold) (rule confined_effect)
  next
    assume "list_all (delete_confined cc tns) evs"
    then show ?thesis by (rule same_outside_fold) (rule delete_confined_effect)
  qed
  with k show ?thesis by (simp add: evs(1) intents_append i_def same_outside_def)
qed

text \<open>
  C15. Runs converge: two successful runs for the same version and the same access, at whatever
  points of whatever histories (after drift, failures, other versions, deletions, or none of
  them), leave the same three Flux objects wanted for the tenant; in particular a run repeated
  is a run done once.
\<close>
theorem CreateOrUpdate_converges:
  assumes runs: "run_state (CreateOrUpdate E r pc cc) s = (Returned (res, None), t)"
      "run_state (CreateOrUpdate E r' pc' cc') s' = (Returned (res', None), t')"
    and ns: "StableMCPNamespace (lib E) (meta_Name (kro_Meta (obj s))) (meta_Namespace (kro_Meta (obj s)))
        = Inr tns"
      "StableMCPNamespace (lib E) (meta_Name (kro_Meta (obj s'))) (meta_Namespace (kro_Meta (obj s')))
        = Inr tns"
    and v: "ResolveVersion (lib E) pc (spec_Version (kro_Spec (obj s))) = Inr v"
      "ResolveVersion (lib E) pc' (spec_Version (kro_Spec (obj s'))) = Inr v"
    and access: "key_Name (cc_MCPAccessSecretKey cc) = key_Name (cc_MCPAccessSecretKey cc')"
      "\<And>k ar. PlatformGetAccessRequest k (Inr ar) \<in> set (drop (length (hist s)) (hist t))
          \<union> set (drop (length (hist s')) (hist t')) \<Longrightarrow> ar_SecretRef ar = Some n"
    and m: "m \<in> set (managed_objects tns)"
  shows "case m of
      OCIRepositoryObject k \<Rightarrow> int_oci (intents (lib E) (hist t)) k \<noteq> None
        \<and> int_oci (intents (lib E) (hist t)) k = int_oci (intents (lib E) (hist t')) k
    | HelmReleaseObject k \<Rightarrow> int_release (intents (lib E) (hist t)) k \<noteq> None
        \<and> int_release (intents (lib E) (hist t)) k = int_release (intents (lib E) (hist t')) k"
proof -
  have state: "\<exists>x. intents (lib E) (hist t) = install_spec (lib E) tns x (intents (lib E) (hist s))
      \<and> in_version x = v \<and> in_crds_secret x = key_Name (cc_MCPAccessSecretKey cc)
      \<and> in_workload_secret x = n"
    if run: "run_state (CreateOrUpdate E r pc cc) s = (Returned (res, None), t)"
      and ns: "StableMCPNamespace (lib E) (meta_Name (kro_Meta (obj s))) (meta_Namespace (kro_Meta (obj s)))
        = Inr tns"
      and v: "ResolveVersion (lib E) pc (spec_Version (kro_Spec (obj s))) = Inr v"
      and n: "\<And>k ar. PlatformGetAccessRequest k (Inr ar) \<in> set (drop (length (hist s)) (hist t)) \<Longrightarrow>
        ar_SecretRef ar = Some n" for r pc cc s res t
  proof -
    obtain oci helm crds evs where evs: "hist t = hist s @ evs"
      "apply_calls E r cc tns v (meta_Name (kro_Meta (obj s))) oci helm crds evs"
      using CreateOrUpdate_success [OF run ns v] by blast
    obtain x where x: "in_version x = v" "in_crds_secret x = key_Name (cc_MCPAccessSecretKey cc)"
      "read_in r cc x evs"
      "fold (effect (lib E)) evs (intents (lib E) (hist s)) = install_spec (lib E) tns x (intents (lib E) (hist s))"
      using effect_apply_calls [OF evs(2), of "lib E" "intents (lib E) (hist s)"] by blast
    have "in_workload_secret x = n" using x(3) n evs(1) by (auto simp: read_in_def)
    with x evs(1) show ?thesis by (auto simp: intents_append)
  qed
  obtain x where x: "intents (lib E) (hist t) = install_spec (lib E) tns x (intents (lib E) (hist s))"
    "in_version x = v" "in_crds_secret x = key_Name (cc_MCPAccessSecretKey cc)" "in_workload_secret x = n"
    using state [OF runs(1) ns(1) v(1)] access(2) by blast
  obtain y where y: "intents (lib E) (hist t') = install_spec (lib E) tns y (intents (lib E) (hist s'))"
    "in_version y = v" "in_crds_secret y = key_Name (cc_MCPAccessSecretKey cc')" "in_workload_secret y = n"
    using state [OF runs(2) ns(2) v(2)] access(2) by blast
  from x y access(1) m show ?thesis
    by (auto simp: managed_objects_def install_spec_def Let_def)
qed


section \<open>Witnesses\<close>

abbreviation sample_install :: "gostate \<Rightarrow> reply outcome \<times> gostate" where
  "sample_install \<equiv> run_state (CreateOrUpdate sample_env sample_reconciler sample_pc sample_context)"

theorem CreateOrUpdate_refines_witness:
  "\<exists>t x. sample_install (sample_state ''v0.9.3'') = (Returned (no_requeue, None), t)
     \<and> intents sample_libs (hist t) = install_spec sample_libs ''mcp--tenant--mcp-01'' x no_intent
     \<and> in_version x = sample_version"
proof -
  have "intents sample_libs (hist (sample_state ''v0.9.3'')) = no_intent"
    by (simp add: intents_def sample_state_def)
  with CreateOrUpdate_refines [OF run_fst [OF sample_apply_done] sample_namespace sample_resolves]
    run_fst [OF sample_apply_done]
  show ?thesis by auto
qed

text \<open>An earlier write for another tenant, and the state after an installation.\<close>

definition other_tenant :: event where
  "other_tenant = PlatformUpsertOCIRepository (object_key ''mcp--other'' OCIRepositoryName)
     (oci_Spec (createOciRepository sample_version ''mcp--other''))
     (Inr (createOciRepository sample_version ''mcp--other''))"

definition sample_installed :: gostate where
  "sample_installed = snd (sample_install ((sample_state ''v0.9.3'')\<lparr>hist := [other_tenant]\<rparr>))"

lemma sample_install_other:
  "sample_install ((sample_state ''v0.9.3'')\<lparr>hist := [other_tenant]\<rparr>)
    = (Returned (no_requeue, None), sample_installed)"
proof -
  have "fst (sample_install ((sample_state ''v0.9.3'')\<lparr>hist := [other_tenant]\<rparr>)) = Returned (no_requeue, None)"
    by (simp add: sample_apply sample_pc_def mcpKubeconfigKey_def Let_def)
  then show ?thesis by (simp add: sample_installed_def prod_eq_iff)
qed

lemma sample_installed_meta:
  "meta_Name (kro_Meta (obj sample_installed)) = ''mcp-01''"
  "meta_Namespace (kro_Meta (obj sample_installed)) = ''tenant''"
  "kro_Spec (obj sample_installed) = \<lparr>spec_Version = ''v0.9.3''\<rparr>"
  by (simp_all add: sample_installed_def sample_apply sample_pc_def mcpKubeconfigKey_def Let_def)

lemma sample_installed_namespace:
  "StableMCPNamespace (lib sample_env) (meta_Name (kro_Meta (obj sample_installed)))
    (meta_Namespace (kro_Meta (obj sample_installed))) = Inr ''mcp--tenant--mcp-01''"
  unfolding sample_installed_meta by (simp add: sample_libs_def)

theorem tenants_apart_witness:
  "int_oci (intents sample_libs (hist sample_installed)) (object_key ''mcp--other'' OCIRepositoryName)
    = Some (oci_Spec (createOciRepository sample_version ''mcp--other''))"
proof -
  have "int_oci (intents (lib sample_env) (hist sample_installed)) (object_key ''mcp--other'' OCIRepositoryName)
      = int_oci (intents (lib sample_env) [other_tenant]) (object_key ''mcp--other'' OCIRepositoryName)"
    using tenants_apart [OF disjI1 [OF sample_install_other], of "''mcp--tenant--mcp-01''"
        "object_key ''mcp--other'' OCIRepositoryName"]
    by (simp add: sample_state_def sample_kro_def sample_meta_def) (simp add: sample_libs_def)
  then show ?thesis by (simp add: intents_def other_tenant_def)
qed

theorem Delete_refines_witness:
  "\<exists>t. run_state (Delete sample_env sample_reconciler sample_pc sample_context) sample_installed
      = (Returned (no_requeue, None), t)
    \<and> intents sample_libs (hist t)
      = uninstall_spec ''mcp--tenant--mcp-01'' (intents sample_libs (hist sample_installed))"
proof -
  have "fst (run_state (Delete sample_env sample_reconciler sample_pc sample_context) sample_installed)
      = Returned (no_requeue, None)"
    by (simp add: Delete_def sample_installed_meta delete_managed_def)
      (simp add: sample_runs delete_managed_def managed_objects_def countResourceGraphDefinitions_def ignore_not_found_def is_not_found_def)
  note finished = run_fst [OF this]
  from Delete_refines [OF finished] sample_installed_namespace finished show ?thesis by auto
qed

theorem CreateOrUpdate_converges_witness:
  "\<exists>t. sample_install (sample_state ''v0.9.3'') = (Returned (no_requeue, None), t)
    \<and> int_oci (intents sample_libs (hist t)) (object_key ''mcp--tenant--mcp-01'' OCIRepositoryName)
      = int_oci (intents sample_libs (hist sample_installed)) (object_key ''mcp--tenant--mcp-01'' OCIRepositoryName)"
proof -
  define t where "t = snd (sample_install (sample_state ''v0.9.3''))"
  define n where "n = StableRequestNameFromLocalName sample_libs ClusterAccessName ''mcp-01''
    @ requestSuffixWorkload @ ''-kubeconfig''"
  have "hist (sample_state ''v0.9.3'') = []" by (simp add: sample_state_def)
  moreover have "\<forall>k ar. PlatformGetAccessRequest k (Inr ar) \<in> set (hist t) \<longrightarrow> ar_SecretRef ar = Some n"
    by (simp add: t_def n_def sample_apply sample_pc_def mcpKubeconfigKey_def Let_def)
  moreover have "\<forall>k ar. PlatformGetAccessRequest k (Inr ar) \<in> set (drop 1 (hist sample_installed)) \<longrightarrow>
      ar_SecretRef ar = Some n"
    by (simp add: sample_installed_def n_def sample_apply sample_pc_def mcpKubeconfigKey_def Let_def)
  moreover have "OCIRepositoryObject (object_key ''mcp--tenant--mcp-01'' OCIRepositoryName)
      \<in> set (managed_objects ''mcp--tenant--mcp-01'')"
    by (simp add: managed_objects_def)
  ultimately have "int_oci (intents (lib sample_env) (hist t)) (object_key ''mcp--tenant--mcp-01'' OCIRepositoryName)
    = int_oci (intents (lib sample_env) (hist sample_installed)) (object_key ''mcp--tenant--mcp-01'' OCIRepositoryName)"
    using CreateOrUpdate_converges [OF run_fst [OF sample_apply_done, folded t_def] sample_install_other
        sample_namespace _ sample_resolves _ refl, where n = n
        and m = "OCIRepositoryObject (object_key ''mcp--tenant--mcp-01'' OCIRepositoryName)"]
      sample_namespace [of sample_env "''v0.9.3''"] sample_resolves [of sample_env]
    by auto
  then show ?thesis using run_fst [OF sample_apply_done, folded t_def] by simp
qed


end
