(* ===== verification/Retries.thy ===== *)
theory Retries
  imports End_To_End
begin

text \<open>
  Repeated runs for one object. Controller-runtime calls \<open>Reconcile\<close> again after an error, a
  panic, a requeue or the poll interval; between two runs anything may be called for other
  objects. Once the outside behaves, one more run reaches the goal, and that is a bound on the
  number of runs.
\<close>

section \<open>Attempts\<close>

text \<open>
  The runs for \<open>req\<close>, one per element of the list, which holds the calls made in between: where
  each run started, its result and where it ended.
\<close>

fun attempts :: "env \<Rightarrow> SPReconciler \<Rightarrow> ObjectKey \<Rightarrow> event list list \<Rightarrow> gostate
    \<Rightarrow> (gostate \<times> reply outcome \<times> gostate) list" where
  "attempts E r req [] s = []"
| "attempts E r req (gap # gaps) s =
     (let u = s\<lparr>hist := hist s @ gap\<rparr> in
      case run_state (Reconcile E r req) u of (out, t) \<Rightarrow> (u, out, t) # attempts E r req gaps t)"

lemma attempts_length [simp]: "length (attempts E r req gaps s) = length gaps"
  by (induction gaps arbitrary: s) (simp_all add: Let_def split: prod.split)

lemma attempts_run: "(u, out, t) \<in> set (attempts E r req gaps s) \<Longrightarrow> run_state (Reconcile E r req) u = (out, t)"
  by (induction gaps arbitrary: s) (auto simp: Let_def split: prod.splits)

text \<open>Every run makes at least one call, so the history is as long as there were runs.\<close>

interpretation any_calls: trace_property "\<lambda>_. True"
  by unfold_locales simp_all

lemma Reconcile_extends:
  assumes "serviceProviderReconciler r = Some (kro_domain E kr)" "run_state (Reconcile E r req) s = (out, t)"
  obtains evs where "hist t = hist s @ evs" "evs \<noteq> []"
proof -
  have body: "\<exists>evs. hist t = hist u @ evs"
    if "run_state (with_status_update E (reconcile_body E r)) u = (out, t)" for u
    using with_status_frame [OF that] kro_domain.body_extends [OF assms(1)] by (metis append.assoc)
  from assms(2) show thesis
  proof (cases rule: Reconcile_cases)
    case (triggered k k' u)
    with body [OF triggered(6)] show thesis by (auto intro: that)
  next
    case (normal k u)
    with body [OF normal(6)] show thesis by (auto intro: that)
  qed (auto intro: that)
qed

lemma attempts_last:
  assumes dom: "serviceProviderReconciler r = Some (kro_domain E kr)" and gaps: "gaps \<noteq> []"
    and n: "n < length (hist s) + length gaps"
  obtains u out t where "last (attempts E r req gaps s) = (u, out, t)" "n \<le> length (hist u)"
    "run_state (Reconcile E r req) u = (out, t)"
  using gaps n
proof (induction gaps arbitrary: s thesis)
  case (Cons gap gaps)
  define u where "u = s\<lparr>hist := hist s @ gap\<rparr>"
  obtain out t where run: "run_state (Reconcile E r req) u = (out, t)"
    by (cases "run_state (Reconcile E r req) u")
  obtain evs where evs: "hist t = hist u @ evs" "evs \<noteq> []"
    using dom run by (rule Reconcile_extends)
  show ?case
  proof (cases "gaps = []")
    case True
    with Cons.prems run show ?thesis by (auto simp: u_def Let_def intro: Cons.prems(1))
  next
    case False
    have "length (hist s) + 1 \<le> length (hist t)" using evs by (cases evs) (simp_all add: u_def)
    then have "n < length (hist t) + length gaps" using Cons.prems(3) by simp
    then obtain u' out' t' where "last (attempts E r req gaps t) = (u', out', t')" "n \<le> length (hist u')"
      "run_state (Reconcile E r req) u' = (out', t')"
      using Cons.IH [of t] False by metis
    moreover have "attempts E r req gaps t \<noteq> []"
      using False attempts_length [of E r req gaps t] by fastforce
    ultimately show ?thesis
      using run by (auto simp: u_def Let_def intro: Cons.prems(1))
  qed
qed simp

section \<open>Installation\<close>

text \<open>
  From the \<open>n\<close>-th call on, the object is there, not in deletion, can be stored, and asks for a
  version on offer.
\<close>

definition awaits_installation :: "nat \<Rightarrow> env \<Rightarrow> ProviderConfig \<Rightarrow> ObjectKey \<Rightarrow> bool" where
  "awaits_installation n E pc req \<longleftrightarrow> (\<forall>h. n \<le> length h \<longrightarrow>
     (\<exists>k0 k. on_onboarding_get E h req = Inr k0 \<and> unannotated E k0
        \<and> IsZero (meta_DeletionTimestamp (kro_Meta k0))
        \<and> on_onboarding_upsert E (h @ [OnboardingGet req (Inr k0)]) k0 (add_finalizer (lib E)) = (k, None)
        \<and> installable E pc k))"

text \<open>
  C13. Installations come to their end: for an object that asks for a version on offer, once the
  object can be read and stored, access is granted and the clusters are healthy (say from the
  \<open>n\<close>-th call on), a run that follows brings it to Ready and returns the poll interval; this takes
  at most one run more than the calls that were missing to \<open>n\<close>, whatever the runs before did
  (errors, panics) and whatever was called in between.
\<close>
theorem Reconcile_progress:
  assumes laws: "condition_laws (lib E)"
    and outside: "healthy n E" "access_granted n E" "status_accepted n E"
    and r: "serviceProviderReconciler r = Some (kro_domain E kr)" "providerConfig r = Some pc"
      "withWorkloadCluster r"
    and object: "awaits_installation n E pc req"
    and runs: "n < length (hist s) + length gaps" "gaps \<noteq> []"
  shows "\<exists>u t. last (attempts E r req gaps s) = (u, Returned (\<lparr>RequeueAfter = PollInterval (Some pc)\<rparr>, None), t)
    \<and> status_Phase (kro_Status (obj t)) = StatusPhaseReady
    \<and> kro_ready (lib E) (obj t) ConditionTrue ''ReconcileSuccess'' ''Domain Service is ready''"
proof -
  obtain u out t where last: "last (attempts E r req gaps s) = (u, out, t)" "n \<le> length (hist u)"
    "run_state (Reconcile E r req) u = (out, t)"
    using r(1) runs(2,1) by (rule attempts_last)
  obtain k0 k where k: "on_onboarding_get E (hist u) req = Inr k0" "unannotated E k0"
    "IsZero (meta_DeletionTimestamp (kro_Meta k0))"
    "on_onboarding_upsert E (hist u @ [OnboardingGet req (Inr k0)]) k0 (add_finalizer (lib E)) = (k, None)"
    "installable E pc k"
    using object last(2) unfolding awaits_installation_def by blast
  from install_run_progress [OF outside last(2) r k] last(3) obtain k' where
    "out = Returned (\<lparr>RequeueAfter = PollInterval (Some pc)\<rparr>, None)" "obj t = StatusReady (lib E) Kro_API k'"
    by auto
  with last(1) kro_ready_reported(2) [OF laws] show ?thesis by simp
qed

section \<open>Deletion\<close>

fun released :: "ObjectKey \<Rightarrow> event \<Rightarrow> bool" where
  "released req (OnboardingUpdate k (x, None)) \<longleftrightarrow> ObjectKeyFromMeta (kro_Meta k) = req"
| "released req _ \<longleftrightarrow> False"

text \<open>
  From the \<open>n\<close>-th call on and as long as no update of it succeeded after the start \<open>h0\<close>, the
  object is there, in deletion, with its namespace determined.
\<close>

definition awaits_release :: "nat \<Rightarrow> env \<Rightarrow> event list \<Rightarrow> ObjectKey \<Rightarrow> bool" where
  "awaits_release n E h0 req \<longleftrightarrow> (\<forall>h. n \<le> length (h0 @ h) \<and> list_all (\<lambda>e. \<not> released req e) h \<longrightarrow>
     (\<exists>k0 tns. on_onboarding_get E (h0 @ h) req = Inr k0 \<and> unannotated E k0
        \<and> ObjectKeyFromMeta (kro_Meta k0) = req
        \<and> \<not> IsZero (meta_DeletionTimestamp (kro_Meta k0))
        \<and> StableMCPNamespace (lib E) (meta_Name (kro_Meta k0)) (meta_Namespace (kro_Meta k0)) = Inr tns))"

definition releases :: "ObjectKey \<Rightarrow> gostate \<times> reply outcome \<times> gostate \<Rightarrow> bool" where
  "releases req run \<longleftrightarrow> (case run of (u, out, t) \<Rightarrow> \<exists>evs k x. hist t = hist u @ evs
     \<and> OnboardingUpdate k (x, None) \<in> set evs \<and> ObjectKeyFromMeta (kro_Meta k) = req
     \<and> Kro_Finalizer \<notin> set (meta_Finalizers (kro_Meta k)))"

lemma attempts_release:
  assumes laws: "finalizer_laws (lib E)"
    and outside: "removable n E" "access_granted n E" "status_accepted n E"
    and r: "serviceProviderReconciler r = Some (kro_domain E kr)" "providerConfig r = Some pc"
    and object: "awaits_release n E h0 req"
  shows "gaps \<noteq> [] \<Longrightarrow> n < length (hist s) + length gaps \<Longrightarrow> hist s = h0 @ h \<Longrightarrow>
    list_all (\<lambda>e. \<not> released req e) (h @ concat gaps) \<Longrightarrow>
    list_ex (releases req) (attempts E r req gaps s)"
proof (induction gaps arbitrary: s h)
  case (Cons gap gaps)
  define u where "u = s\<lparr>hist := hist s @ gap\<rparr>"
  obtain out t where run: "run_state (Reconcile E r req) u = (out, t)"
    by (cases "run_state (Reconcile E r req) u")
  obtain evs where evs: "hist t = hist u @ evs" "evs \<noteq> []"
    using r(1) run by (rule Reconcile_extends)
  show ?case
  proof (cases "list_all (\<lambda>e. \<not> released req e) evs")
    case False
    then obtain k x where upd: "OnboardingUpdate k (x, None) \<in> set evs" "ObjectKeyFromMeta (kro_Meta k) = req"
      by (auto simp: list_all_iff elim!: released.elims)
    from finalizer_last_run [OF r(1) run evs(1) upd(1)] laws
    have "Kro_Finalizer \<notin> set (meta_Finalizers (kro_Meta k))" by (auto simp: finalizer_laws_def)
    with evs(1) upd have "releases req (u, out, t)" unfolding releases_def by blast
    then show ?thesis using run by (simp add: u_def [symmetric] Let_def)
  next
    case True
    have t: "hist t = h0 @ (h @ gap @ evs)" using evs(1) Cons.prems(3) by (simp add: u_def)
    show ?thesis
    proof (cases "gaps = []")
      case False
      have "length (hist s) + 1 \<le> length (hist t)" using evs by (cases evs) (simp_all add: u_def)
      then have "n < length (hist t) + length gaps" using Cons.prems(2) by simp
      with Cons.IH [OF False _ t] True Cons.prems(4) have "list_ex (releases req) (attempts E r req gaps t)"
        by simp
      then show ?thesis using run by (simp add: u_def [symmetric] Let_def)
    next
      case last: True
      have u: "hist u = h0 @ (h @ gap)" "n \<le> length (hist u)"
        using Cons.prems(2,3) last by (simp_all add: u_def)
      then obtain k0 tns where k0: "on_onboarding_get E (hist u) req = Inr k0" "unannotated E k0"
        "ObjectKeyFromMeta (kro_Meta k0) = req" "\<not> IsZero (meta_DeletionTimestamp (kro_Meta k0))"
        "StableMCPNamespace (lib E) (meta_Name (kro_Meta k0)) (meta_Namespace (kro_Meta k0)) = Inr tns"
        using object Cons.prems(4) unfolding awaits_release_def by (metis append_Nil2 concat.simps last list_all_append)
      obtain evs' k x where "hist t = hist u @ evs'" "OnboardingUpdate k (x, None) \<in> set evs'"
        "meta_Name (kro_Meta k) = meta_Name (kro_Meta k0)"
        "meta_Namespace (kro_Meta k) = meta_Namespace (kro_Meta k0)"
        using deletion_run_progress [OF outside u(2) r k0(1,2,4,5)] run by auto
      then have "\<not> list_all (\<lambda>e. \<not> released req e) evs"
        using evs(1) k0(3) by (auto simp: list_all_iff ObjectKeyFromMeta_def intro!: bexI)
      with True show ?thesis by simp
    qed
  qed
qed simp

text \<open>
  C14. Deletions come to their end: for an object in deletion, once access is granted and
  everything can be removed (say from the \<open>n\<close>-th call on), one of the runs tears the instance down
  and takes the finalizer off the object with an update that succeeds; this takes at most one run
  more than the calls that were missing to \<open>n\<close>, whatever the runs before did (errors, waiting for
  resource graph definitions, panics) and whatever was called in between.
\<close>
theorem Reconcile_deletion_progress:
  assumes laws: "finalizer_laws (lib E)"
    and outside: "removable n E" "access_granted n E" "status_accepted n E"
    and r: "serviceProviderReconciler r = Some (kro_domain E kr)" "providerConfig r = Some pc"
    and object: "awaits_release n E (hist s) req"
    and runs: "n < length (hist s) + length gaps" "gaps \<noteq> []"
    and others: "list_all (\<lambda>e. \<not> released req e) (concat gaps)"
  shows "\<exists>run \<in> set (attempts E r req gaps s). releases req run"
  using attempts_release [OF laws outside r object runs(2,1), of "[]"] others
  by (simp add: list_ex_iff)

section \<open>Witnesses\<close>

text \<open>Access is only granted from the third call on: the first run waits, the second installs.\<close>

definition late_access :: "env \<Rightarrow> env" where
  "late_access E = E\<lparr>on_access_reconcile := \<lambda>h k.
     if length h < 3 then (\<lparr>RequeueAfter = time_Second\<rparr>, None) else (no_requeue, None)\<rparr>"

lemma late_access_fields [simp]:
  "lib (late_access E) = lib E" "on_onboarding_get (late_access E) = on_onboarding_get E"
  "on_onboarding_upsert (late_access E) = on_onboarding_upsert E"
  by (simp_all add: late_access_def)

lemma sample_outside:
  "access_granted 3 (late_access sample_env)" "status_accepted 3 (late_access sample_env)"
  "healthy 3 (late_access sample_env)"
  using sample_healthy [of 3]
  by (simp_all add: access_granted_def status_accepted_def healthy_def late_access_def sample_env_def
      sample_access_def ignore_not_found_def)

theorem Reconcile_progress_witness:
  "\<exists>u t. last (attempts (late_access sample_env) (sample_sp (late_access sample_env)) sample_key
      [[], [], [], []] (sample_state ''v0.9.3'')) = (u, Returned (\<lparr>RequeueAfter = time_Minute\<rparr>, None), t)
    \<and> status_Phase (kro_Status (obj t)) = StatusPhaseReady"
proof -
  have "awaits_installation 3 (late_access sample_env) (sample_config [sample_version]) sample_key"
    unfolding awaits_installation_def
  proof (intro allI impI)
    fix h
    define k where "k = add_finalizer sample_libs (sample_kro ''v0.9.3'')"
    have "installable (late_access sample_env) (sample_config [sample_version]) k"
      by (simp add: installable_def k_def add_finalizer_def sample_kro_def sample_meta_def ResolveVersion_def
          sample_config_def sample_version_def ExtractHelmValues_def) (simp add: sample_libs_def)
    then show "\<exists>k0 k. on_onboarding_get (late_access sample_env) h sample_key = Inr k0
        \<and> unannotated (late_access sample_env) k0 \<and> IsZero (meta_DeletionTimestamp (kro_Meta k0))
        \<and> on_onboarding_upsert (late_access sample_env) (h @ [OnboardingGet sample_key (Inr k0)]) k0
            (add_finalizer (lib (late_access sample_env))) = (k, None)
        \<and> installable (late_access sample_env) (sample_config [sample_version]) k"
      by (intro exI [of _ "sample_kro ''v0.9.3''"] exI [of _ k])
        (simp add: unannotated_def operation_annotation_def k_def sample_env_def sample_kro_def
          sample_meta_def IsZero_def, simp add: sample_libs_def)
  qed
  moreover have "PollInterval (Some (sample_config [sample_version])) = time_Minute"
    by (simp add: PollInterval_def sample_config_def DefaultPollInterval_def)
  ultimately show ?thesis
    using Reconcile_progress [where E = "late_access sample_env" and n = 3 and gaps = "[[], [], [], []]"
        and s = "sample_state ''v0.9.3''", OF _ sample_outside(3,1,2) sample_sp_fields(1,2,3)]
      sample_condition_laws
    by (simp add: sample_state_def del: attempts.simps) blast
qed

theorem Reconcile_deletion_progress_witness:
  "\<exists>run \<in> set (attempts (serving sample_deleted sample_env) (sample_sp (serving sample_deleted sample_env))
      sample_key [[], [], []] (sample_state ''v0.9.3'')). releases sample_key run"
proof -
  define E where "E = serving sample_deleted sample_env"
  have lib: "lib E = sample_libs" by (simp add: E_def)
  have "access_granted 2 E" "status_accepted 2 E"
    by (simp_all add: access_granted_def status_accepted_def E_def serving_def sample_env_def
        sample_access_def ignore_not_found_def)
  moreover have "removable 2 E"
    by (simp add: removable_def E_def serving_def sample_env_def ignore_not_found_def is_not_found_def
        no_graphs_def) (simp add: sample_libs_def)
  moreover have "awaits_release 2 E (hist (sample_state ''v0.9.3'')) sample_key"
    by (simp add: awaits_release_def E_def unannotated_def operation_annotation_def sample_deleted_def
        sample_meta_def IsZero_def sample_key_def ObjectKeyFromMeta_def) (simp add: sample_libs_def)
  ultimately show ?thesis
    using Reconcile_deletion_progress [where E = E and r = "sample_sp E" and s = "sample_state ''v0.9.3''"
        and req = sample_key and pc = "sample_config [sample_version]" and kr = sample_reconciler
        and n = 2 and gaps = "[[], [], []]"] sample_finalizer_laws lib
    by (fold E_def) (simp add: sample_state_def del: attempts.simps)
qed

end
