(* ===== verification/Call_Bounds.thy ===== *)
theory Call_Bounds
  imports Retries
begin

text \<open>
  How many calls a run can make: a bound on the length of the history it appends, whatever the
  outside answers. It is a number but for the image pull secrets of the version, two calls each.
\<close>

section \<open>Counting calls\<close>

definition calls_within :: "nat \<Rightarrow> ('w world_scheme, 'a) state \<Rightarrow> bool" where
  "calls_within n m \<longleftrightarrow> traces (\<lambda>evs. length evs \<le> n) m"

named_theorems counting \<open>introduction rules for calls_within\<close>

lemma within_return [counting]: "calls_within n (State_Monad.return x)"
  by (simp add: calls_within_def traces_def)

lemma within_call [counting]: "0 < n \<Longrightarrow> calls_within n (call q ev)"
  by (simp add: calls_within_def traces_def)

lemma within_object [counting]: "calls_within n get_obj" "calls_within n (modify_obj f)"
  by (simp_all add: calls_within_def traces_def)

lemma within_bind:
  assumes "calls_within a m" "a \<le> n" "\<And>x. calls_within (n - a) (f x)"
  shows "calls_within n (State_Monad.bind m f)"
  unfolding calls_within_def
proof (rule traces_then [OF assms(1) [unfolded calls_within_def]])
  fix x s t and evs :: "event list"
  assume "length evs \<le> a"
  then show "traces (\<lambda>evs'. length (evs @ evs') \<le> n) (f x)"
    using assms(2) by (intro traces_mono [OF assms(3) [unfolded calls_within_def]]) simp
qed

lemma within_call_bind [counting]:
  "0 < n \<Longrightarrow> (\<And>x. calls_within (n - 1) (f x)) \<Longrightarrow> calls_within n (State_Monad.bind (call q ev) f)"
  by (rule within_bind [of 1]) (simp_all add: within_call)

lemma within_object_bind [counting]:
  "(\<And>x. calls_within n (f x)) \<Longrightarrow> calls_within n (State_Monad.bind get_obj f)"
  "(\<And>x. calls_within n (g x)) \<Longrightarrow> calls_within n (State_Monad.bind (modify_obj h) g)"
  by (rule within_bind [of 0], simp_all add: within_object)+

lemma within_more: "calls_within a m \<Longrightarrow> a \<le> n \<Longrightarrow> calls_within n m"
  unfolding calls_within_def by (erule traces_mono) simp

lemmas within_branches [counting] = traces_branches [where P = "\<lambda>evs. length evs \<le> n" for n,
  folded calls_within_def]

lemma within_run:
  assumes "calls_within n m" "run_state m s = (a, t)"
  shows "length (hist t) \<le> length (hist s) + n"
  using assms unfolding calls_within_def by (auto elim!: tracesD)

section \<open>The domain reconciler\<close>

definition images_within :: "env \<Rightarrow> nat \<Rightarrow> KroVersion \<Rightarrow> bool" where
  "images_within E b v \<longleftrightarrow>
     (\<forall>hv. ExtractHelmValues (lib E) (ver_HelmValues v) = Inr hv \<longrightarrow> length (ImagePullSecrets hv) \<le> b)"

lemma refs_within: "calls_within (2 * length refs) (replicate_refs E r c refs)"
proof (induction refs)
  case (Cons ref refs)
  then show ?case
    by (auto simp: cluster_calls intro!: counting)
qed (simp add: within_return)

lemma steps_within:
  "calls_within 2 (replicateChartPullSecret E r sn tns)"
  "calls_within 1 (createOrUpdateOCIRepository E v tns)"
  "calls_within 3 (replicateMCPKubeconfig E cc)"
  "calls_within 1 (createOrUpdateMCPCRDsHelmRelease E tns cc)"
  "calls_within 1 (getWorkloadFluxConfig E tns name)"
  "calls_within n (fail_progressing E ctx err)"
  "calls_within n (report_resources E tns oci helm crds)"
  unfolding replicateChartPullSecret_def createOrUpdateOCIRepository_def replicateMCPKubeconfig_def
    createOrUpdateMCPCRDsHelmRelease_def getWorkloadFluxConfig_def
    cluster_calls fail_progressing_def report_resources_def Let_def
  by (intro counting; simp)+

lemma release_within: "calls_within 2 (createOrUpdateHelmRelease E tns k vals)"
  unfolding createOrUpdateHelmRelease_eq cluster_calls
  by (rule within_bind [OF steps_within(5)]) (simp, intro counting, simp)

lemma images_steps_within:
  assumes "images_within E b v"
  shows "calls_within (1 + 2 * b) (replicateImagePullSecrets E r wl (ver_HelmValues v))"
  unfolding replicateImagePullSecrets_def cluster_calls
  using assms
  by (intro counting) (auto simp: images_within_def intro: within_more [OF refs_within])


lemma apply_within:
  assumes "images_within E b v"
  shows "calls_within (10 + 2 * b) (apply_version E r cc tns v k)"
  unfolding apply_version_def
  by (intro within_bind [OF steps_within(1)] within_bind [OF steps_within(2)]
      within_bind [OF images_steps_within [OF assms]] within_bind [OF steps_within(3)]
      within_bind [OF steps_within(4)] within_bind [OF release_within]
      within_bind [OF steps_within(7) [of 0]] within_branches within_return steps_within(6)) simp_all

lemma ResolveVersion_offered:
  "ResolveVersion L (Some pc) ver = Inr v \<Longrightarrow> v \<in> set (pcs_Versions (pc_Spec pc))"
  by (auto simp: ResolveVersion_def resolve_loop_spec find_Some_iff split: option.splits if_splits)

lemma create_within:
  assumes "\<And>v. v \<in> set (pcs_Versions (pc_Spec pc)) \<Longrightarrow> images_within E b v"
  shows "calls_within (10 + 2 * b) (CreateOrUpdate E r (Some pc) cc)"
proof -
  have "calls_within (10 + 2 * b) (apply_version E r cc tns v k)"
    if "ResolveVersion (lib E) (Some pc) ver = Inr v" for tns v k ver
    using ResolveVersion_offered [OF that] assms by (blast intro: apply_within)
  then show ?thesis unfolding CreateOrUpdate_def by (intro counting) blast
qed

lemma delete_objects_within: "calls_within (2 * length ms) (delete_objects E ms b)"
proof (induction ms arbitrary: b)
  case (Cons m ms)
  have "calls_within (2 * length (m # ms) - 1 - 1) (delete_objects E ms b')" for b'
    using Cons.IH by (simp add: within_more)
  then show ?case
    by (auto intro!: counting split: option.splits prod.splits)
qed (simp add: within_return)

lemma delete_within: "calls_within 7 (Delete E r pc cc)"
proof -
  have "calls_within 6 (delete_managed E tns)" for tns
    unfolding delete_managed_def
    by (intro counting within_bind [OF delete_objects_within]) (simp_all add: managed_objects_def)
  then have managed: "6 \<le> n \<Longrightarrow> calls_within n (delete_managed E tns)" for n tns
    by (rule within_more)
  have "calls_within 1 (countResourceGraphDefinitions E c)" for c
    unfolding countResourceGraphDefinitions_def by (intro counting) simp
  then show ?thesis
    unfolding Delete_def by (intro counting managed within_bind [where a = 1]) simp_all
qed

section \<open>The runtime\<close>

lemma access_within:
  "calls_within 5 (clusters E r req requireAll)"
  "calls_within 2 (areAccessRequestsInDeletion E r req)"
  "calls_within 2 (remove_access E req)"
  unfolding clusters_def workload_clusters_def areAccessRequestsInDeletion_def remove_access_def
    access_calls Let_def
  by (intro counting; simp)+


lemma update_status_within: "calls_within 1 (updateStatus E old)"
  unfolding updateStatus_def by (intro counting) simp

lemma body_within:
  assumes dom: "serviceProviderReconciler r = Some (kro_domain E kr)"
    and pc: "\<And>pc v. providerConfig r = Some pc \<Longrightarrow> v \<in> set (pcs_Versions (pc_Spec pc)) \<Longrightarrow> images_within E b v"
  shows "calls_within (16 + 2 * b) (reconcile_body E r)"
proof -
  have del: "calls_within 16 (delete E r pc)" for pc
  proof -
    have "calls_within 12 (domain_delete E r pc req)" for req
      unfolding domain_delete_def domain_Delete_def
      by (intro within_bind [OF access_within(1)] counting)
        (auto simp: dom kro_domain_fields intro!: counting within_bind [OF delete_within])
    then show ?thesis
      unfolding delete_def
      by (intro counting within_bind [OF access_within(2)] within_bind [where a = 12]
          within_more [OF access_within(3)]) simp_all
  qed
  have create: "calls_within (16 + 2 * b) (createOrUpdate E r pc)" if "providerConfig r = Some pc" for pc
    using create_within [of pc E b kr] pc [OF that]
    unfolding createOrUpdate_def domain_CreateOrUpdate_def
    by (intro counting within_bind [OF access_within(1)])
      (auto simp: dom kro_domain_fields intro!: within_more [OF create_within])
  show ?thesis
    unfolding reconcile_body_def
    by (intro counting within_bind [where a = "16 + 2 * b"] within_more [OF del] create) simp_all
qed

lemma Reconcile_within:
  assumes "serviceProviderReconciler r = Some (kro_domain E kr)"
    and "\<And>pc v. providerConfig r = Some pc \<Longrightarrow> v \<in> set (pcs_Versions (pc_Spec pc)) \<Longrightarrow> images_within E b v"
  shows "calls_within (19 + 2 * b) (Reconcile E r req)"
proof -
  have wsu: "calls_within (17 + 2 * b) (with_status_update E (reconcile_body E r))"
    unfolding with_status_update_def
    by (intro counting within_bind [OF body_within [OF assms]] within_bind [OF update_status_within]) simp_all
  show ?thesis
    unfolding Reconcile_def Let_def
    by (intro counting within_more [OF wsu]) simp_all
qed

section \<open>Properties\<close>

text \<open>
  C21. A run is bounded: whatever the outside answers, and whether the run succeeds, fails or
  panics, one reconcile of one object makes at least one and at most \<open>19 + 2 b\<close> calls, where \<open>b\<close>
  bounds the number of image pull secrets the helm values of an offered version list. No answer
  can make the controller loop within a run.
\<close>
theorem Reconcile_bounded:
  assumes dom: "serviceProviderReconciler r = Some (kro_domain E kr)"
    and images: "\<And>pc v hv. providerConfig r = Some pc \<Longrightarrow> v \<in> set (pcs_Versions (pc_Spec pc)) \<Longrightarrow>
      ExtractHelmValues (lib E) (ver_HelmValues v) = Inr hv \<Longrightarrow> length (ImagePullSecrets hv) \<le> b"
    and run: "run_state (Reconcile E r req) s = (out, t)"
  shows "length (hist s) < length (hist t) \<and> length (hist t) \<le> length (hist s) + (19 + 2 * b)"
proof -
  have "images_within E b v" if "providerConfig r = Some pc" "v \<in> set (pcs_Versions (pc_Spec pc))" for pc v
    using images that by (auto simp: images_within_def)
  from within_run [OF Reconcile_within [OF dom this] run] Reconcile_extends [OF dom run]
  show ?thesis by fastforce
qed

theorem Reconcile_bounded_witness:
  "\<exists>out t. run_state (Reconcile sample_env (sample_sp sample_env) sample_key) (sample_state ''v0.9.3'') = (out, t)
     \<and> 0 < length (hist t) \<and> length (hist t) \<le> 19"
proof -
  obtain out t where run: "run_state (Reconcile sample_env (sample_sp sample_env) sample_key)
      (sample_state ''v0.9.3'') = (out, t)"
    by (metis prod.exhaust)
  have images: "length (ImagePullSecrets hv) \<le> 0"
    if "providerConfig (sample_sp sample_env) = Some pc" "v \<in> set (pcs_Versions (pc_Spec pc))"
      "ExtractHelmValues (lib sample_env) (ver_HelmValues v) = Inr hv" for pc v hv
    using that by (auto simp: sample_sp_fields sample_config_def sample_version_def ExtractHelmValues_def)
  from Reconcile_bounded [OF sample_sp_fields(1) images run] run show ?thesis
    by (auto simp: sample_state_def)
qed

end
