(* ===== verification/Store.thy ===== *)
theory Store
  imports Objects
begin

text \<open>
  An explicit store for Go values that share memory: a list of cells, addressed by position, which
  allocation extends at the end. The contract of a deep copy is the locale \<open>copier\<close>; pointers,
  slices and structs of copyable values are copyable again.
\<close>

section \<open>Cells and writes\<close>

type_synonym addr = nat

definition alloc :: "'c \<Rightarrow> ('c list, addr) state" where
  "alloc c = do { h \<leftarrow> State_Monad.get; _ \<leftarrow> State_Monad.set (h @ [c]); State_Monad.return (length h) }"

definition load :: "addr \<Rightarrow> ('c list, 'c) state" where
  "load a = do { h \<leftarrow> State_Monad.get; State_Monad.return (h ! a) }"

definition store :: "addr \<Rightarrow> 'c \<Rightarrow> ('c list, unit) state" where
  "store a c = do { h \<leftarrow> State_Monad.get; State_Monad.set (h[a := c]) }"

lemma run_alloc [simp]: "run_state (alloc c) h = (length h, h @ [c])"
  by (simp add: alloc_def)

lemma run_load [simp]: "run_state (load a) h = (h ! a, h)"
  by (simp add: load_def)

lemma run_store [simp]: "run_state (store a c) h = ((), h[a := c])"
  by (simp add: store_def)

text \<open>What any code may do to the store afterwards: write a cell, allocate a new one.\<close>

datatype 'c mutation = Write addr 'c | Allocate 'c

fun mutate :: "'c mutation list \<Rightarrow> 'c list \<Rightarrow> 'c list" where
  "mutate [] h = h"
| "mutate (Write a c # ms) h = mutate ms (h[a := c])"
| "mutate (Allocate c # ms) h = mutate ms (h @ [c])"

fun written :: "'c mutation list \<Rightarrow> addr set" where
  "written [] = {}"
| "written (Write a c # ms) = insert a (written ms)"
| "written (Allocate c # ms) = written ms"

text \<open>\<open>h'\<close> has all the cells of \<open>h\<close>, and those of \<open>R\<close> unchanged.\<close>

definition agree :: "addr set \<Rightarrow> 'c list \<Rightarrow> 'c list \<Rightarrow> bool" where
  "agree R h h' \<longleftrightarrow> length h \<le> length h' \<and> (\<forall>a\<in>R. h' ! a = h ! a)"

lemma agree_refl [simp]: "agree R h h"
  by (simp add: agree_def)

lemma agree_trans: "agree R h h' \<Longrightarrow> agree R h' h'' \<Longrightarrow> agree R h h''"
  by (simp add: agree_def)

lemma agree_mono: "agree R h h' \<Longrightarrow> S \<subseteq> R \<Longrightarrow> agree S h h'"
  by (auto simp: agree_def)

lemma agree_alloc: "R \<subseteq> {..<length h} \<Longrightarrow> agree R h (h @ [c])"
  by (auto simp: agree_def nth_append)

lemma agree_store: "a \<notin> R \<Longrightarrow> agree R h (h[a := c])"
  by (simp add: agree_def) (metis nth_list_update_neq)

lemma agree_mutate: "written ms \<inter> R = {} \<Longrightarrow> R \<subseteq> {..<length h} \<Longrightarrow> agree R h (mutate ms h)"
proof (induction ms h rule: mutate.induct)
  case (2 a c ms h)
  then have "agree R h (h[a := c])" "agree R (h[a := c]) (mutate ms (h[a := c]))"
    by (auto intro: agree_store)
  then show ?case by (simp add: agree_trans [of R h])
next
  case (3 c ms h)
  then have "R \<subseteq> {..<length (h @ [c])}" by auto
  then have "agree R h (h @ [c])" "agree R (h @ [c]) (mutate ms (h @ [c]))"
    using 3 by (auto intro: agree_alloc)
  then show ?case by (simp add: agree_trans [of R h])
qed simp

section \<open>The contract of a deep copy\<close>

text \<open>
  \<open>copy x\<close> is \<open>DeepCopyInto\<close>: run on the value \<open>x\<close> that \<open>in\<close> points to, it yields the value it writes
  to \<open>out\<close>. \<open>valid\<close> is what Go's type and memory safety guarantee of a value: its pointers
  point to allocated cells of their type. \<open>cells\<close> are the cells reached from the value, \<open>view\<close> is
  the value with all pointers followed. A copy changes no existing cell, reads the same as the
  original, and reaches new cells only.
\<close>

locale copier =
  fixes copy :: "'a \<Rightarrow> ('c list, 'a) state"
    and valid :: "'c list \<Rightarrow> 'a \<Rightarrow> bool"
    and cells :: "'c list \<Rightarrow> 'a \<Rightarrow> addr set"
    and view :: "'c list \<Rightarrow> 'a \<Rightarrow> 'v"
  assumes cells_bounded: "valid h x \<Longrightarrow> cells h x \<subseteq> {..<length h}"
    and frame: "valid h x \<Longrightarrow> agree (cells h x) h h' \<Longrightarrow>
      valid h' x \<and> cells h' x = cells h x \<and> view h' x = view h x"
    and copies: "valid h x \<Longrightarrow> run_state (copy x) h = (y, h') \<Longrightarrow>
      agree {..<length h} h h' \<and> valid h' y \<and> view h' y = view h x \<and> cells h' y \<inter> {..<length h} = {}"
begin

lemma original_kept:
  assumes "valid h x" "agree {..<length h} h h'"
  shows "valid h' x" "cells h' x = cells h x" "view h' x = view h x"
  using frame [OF assms(1) agree_mono [OF assms(2) cells_bounded [OF assms(1)]]] by simp_all

text \<open>
  Isolation: mutations that leave the cells made by the copy alone do not show in the copy, and
  mutations that leave the cells that existed before alone do not show in the original.
\<close>

lemma isolated:
  assumes x: "valid h x" and run: "run_state (copy x) h = (y, h')"
  shows "view h' y = view h x" "view h' x = view h x"
    "written ms \<inter> {length h..<length h'} = {} \<Longrightarrow> view (mutate ms h') y = view h x"
    "written ms \<inter> {..<length h} = {} \<Longrightarrow> view (mutate ms h') x = view h x"
proof -
  have c: "agree {..<length h} h h'" "valid h' y" "view h' y = view h x" "cells h' y \<inter> {..<length h} = {}"
    using copies [OF x run] by simp_all
  note o = original_kept [OF x c(1)]
  show "view h' y = view h x" "view h' x = view h x" using c(3) o(3) by simp_all
  show "view (mutate ms h') y = view h x" if "written ms \<inter> {length h..<length h'} = {}"
  proof -
    have "cells h' y \<subseteq> {..<length h'}" using c(2) by (rule cells_bounded)
    moreover from this have "written ms \<inter> cells h' y = {}"
      using that c(4) by (fastforce simp: disjoint_iff not_less)
    ultimately show ?thesis using frame [OF c(2) agree_mutate, of ms] c(3) by simp
  qed
  show "view (mutate ms h') x = view h x" if "written ms \<inter> {..<length h} = {}"
  proof -
    have "cells h' x \<subseteq> {..<length h'}" using o(1) by (rule cells_bounded)
    moreover have "written ms \<inter> cells h' x = {}" using that cells_bounded [OF x] o(2) by blast
    ultimately show ?thesis using frame [OF o(1) agree_mutate, of ms] o(3) by simp
  qed
qed

end

section \<open>Flat values\<close>

text \<open>A value without pointers is copied by the assignment.\<close>

lemma copier_flat:
  "copier State_Monad.return (\<lambda>h x. True) (\<lambda>h x. {}) (\<lambda>h x. f x)"
  by unfold_locales auto

section \<open>Pointers\<close>

text \<open>
  A pointer to a cell of a given kind: \<open>mk\<close> makes the cell, \<open>dest\<close> reads it. The copy of a nil
  pointer is nil; otherwise a cell is made by \<open>new\<close> (with the zero value) and copied into.
\<close>

definition copy_pointer :: "'a \<Rightarrow> ('a \<Rightarrow> 'c) \<Rightarrow> ('c \<Rightarrow> 'a) \<Rightarrow> ('a \<Rightarrow> ('c list, 'a) state)
    \<Rightarrow> addr option \<Rightarrow> ('c list, addr option) state" where
  "copy_pointer zero mk dest copy p = (case p of
     None \<Rightarrow> State_Monad.return None
   | Some a \<Rightarrow> do {
       b \<leftarrow> alloc (mk zero);
       c \<leftarrow> load a;
       y \<leftarrow> copy (dest c);
       _ \<leftarrow> store b (mk y);
       State_Monad.return (Some b) })"

definition valid_pointer :: "('a \<Rightarrow> 'c) \<Rightarrow> ('c \<Rightarrow> 'a) \<Rightarrow> ('c list \<Rightarrow> 'a \<Rightarrow> bool)
    \<Rightarrow> 'c list \<Rightarrow> addr option \<Rightarrow> bool" where
  "valid_pointer mk dest valid h p = (case p of
     None \<Rightarrow> True
   | Some a \<Rightarrow> a < length h \<and> h ! a = mk (dest (h ! a)) \<and> valid h (dest (h ! a)))"

definition pointer_cells :: "('c \<Rightarrow> 'a) \<Rightarrow> ('c list \<Rightarrow> 'a \<Rightarrow> addr set) \<Rightarrow> 'c list \<Rightarrow> addr option \<Rightarrow> addr set" where
  "pointer_cells dest cells h p = (case p of None \<Rightarrow> {} | Some a \<Rightarrow> insert a (cells h (dest (h ! a))))"

definition pointer_view :: "('c \<Rightarrow> 'a) \<Rightarrow> ('c list \<Rightarrow> 'a \<Rightarrow> 'v) \<Rightarrow> 'c list \<Rightarrow> addr option \<Rightarrow> 'v option" where
  "pointer_view dest view h p = map_option (\<lambda>a. view h (dest (h ! a))) p"

lemmas pointer_defs = copy_pointer_def valid_pointer_def pointer_cells_def pointer_view_def

lemma copier_pointer:
  assumes elem: "copier copy valid cells view" and kind: "\<And>x. dest (mk x) = x"
  shows "copier (copy_pointer zero mk dest copy) (valid_pointer mk dest valid)
    (pointer_cells dest cells) (pointer_view dest view)"
proof
  fix h p
  assume "valid_pointer mk dest valid h p"
  then show "pointer_cells dest cells h p \<subseteq> {..<length h}"
    using copier.cells_bounded [OF elem] by (auto simp: pointer_defs split: option.splits)
next
  fix h h' p
  assume p: "valid_pointer mk dest valid h p" and "agree (pointer_cells dest cells h p) h h'"
  then show "valid_pointer mk dest valid h' p \<and> pointer_cells dest cells h' p = pointer_cells dest cells h p
      \<and> pointer_view dest view h' p = pointer_view dest view h p"
  proof (cases p)
    case (Some a)
    then have a: "a < length h" "h ! a = mk (dest (h ! a))" "valid h (dest (h ! a))"
      "agree (cells h (dest (h ! a))) h h'" "h' ! a = h ! a" "length h \<le> length h'"
      using p \<open>agree (pointer_cells dest cells h p) h h'\<close> by (auto simp: pointer_defs agree_def)
    from copier.frame [OF elem a(3,4)] a(1,2,5,6) Some show ?thesis by (simp add: pointer_defs)
  qed (simp add: pointer_defs)
next
  fix h p q h'
  assume p: "valid_pointer mk dest valid h p" and run: "run_state (copy_pointer zero mk dest copy p) h = (q, h')"
  show "agree {..<length h} h h' \<and> valid_pointer mk dest valid h' q
      \<and> pointer_view dest view h' q = pointer_view dest view h p
      \<and> pointer_cells dest cells h' q \<inter> {..<length h} = {}"
  proof (cases p)
    case None
    with run show ?thesis by (simp add: pointer_defs)
  next
    case (Some a)
    define b x h1 where "b = length h" and "x = dest (h ! a)" and "h1 = h @ [mk zero]"
    have a: "a < length h" "h ! a = mk x" "valid h x"
      using p Some by (simp_all add: pointer_defs x_def)
    have h1: "agree {..<length h} h h1" by (simp add: h1_def agree_alloc)
    note x1 = copier.original_kept [OF elem a(3) h1]
    obtain y h2 where y: "run_state (copy x) h1 = (y, h2)" by (cases "run_state (copy x) h1")
    note c = copier.copies [OF elem x1(1) y]
    have q: "q = Some b" "h' = h2[b := mk y]"
      using run Some y a(1) by (auto simp: pointer_defs h1_def x_def b_def nth_append)
    have len: "b < length h2" using c by (simp add: agree_def h1_def b_def)
    have "b \<notin> cells h2 y" using c by (auto simp: h1_def b_def)
    then have y': "valid h' y" "cells h' y = cells h2 y" "view h' y = view h2 y"
      using copier.frame [OF elem, of h2 y h'] c by (simp_all add: q(2) agree_store)
    have "agree {..<length h} h2 h'" by (simp add: q(2) agree_store b_def)
    moreover have "agree {..<length h} h1 h2" using c by (auto simp: agree_def h1_def)
    ultimately have "agree {..<length h} h h'" using h1 by (blast intro: agree_trans)
    moreover have "h' ! b = mk y" using len by (simp add: q(2))
    ultimately show ?thesis
      using y' c x1(3) len q Some kind by (auto simp: pointer_defs x_def [symmetric] h1_def b_def)
  qed
qed

section \<open>Slices\<close>

text \<open>
  A slice is nil or points to its array. The copy makes an array of zero values of the same
  length and copies into it element by element.
\<close>

fun copy_elems :: "('a list \<Rightarrow> 'c) \<Rightarrow> ('c \<Rightarrow> 'a list) \<Rightarrow> ('a \<Rightarrow> ('c list, 'a) state)
    \<Rightarrow> addr \<Rightarrow> addr \<Rightarrow> nat list \<Rightarrow> ('c list, unit) state" where
  "copy_elems mk dest copy a b [] = State_Monad.return ()"
| "copy_elems mk dest copy a b (i # js) = do {
     c \<leftarrow> load a;
     y \<leftarrow> copy (dest c ! i);
     d \<leftarrow> load b;
     _ \<leftarrow> store b (mk ((dest d)[i := y]));
     copy_elems mk dest copy a b js }"

definition copy_slice :: "'a \<Rightarrow> ('a list \<Rightarrow> 'c) \<Rightarrow> ('c \<Rightarrow> 'a list) \<Rightarrow> ('a \<Rightarrow> ('c list, 'a) state)
    \<Rightarrow> addr option \<Rightarrow> ('c list, addr option) state" where
  "copy_slice zero mk dest copy p = (case p of
     None \<Rightarrow> State_Monad.return None
   | Some a \<Rightarrow> do {
       c \<leftarrow> load a;
       b \<leftarrow> alloc (mk (replicate (length (dest c)) zero));
       _ \<leftarrow> copy_elems mk dest copy a b [0..<length (dest c)];
       State_Monad.return (Some b) })"

definition valid_slice :: "('a list \<Rightarrow> 'c) \<Rightarrow> ('c \<Rightarrow> 'a list) \<Rightarrow> ('c list \<Rightarrow> 'a \<Rightarrow> bool)
    \<Rightarrow> 'c list \<Rightarrow> addr option \<Rightarrow> bool" where
  "valid_slice mk dest valid = valid_pointer mk dest (\<lambda>h xs. list_all (valid h) xs)"

definition slice_cells :: "('c \<Rightarrow> 'a list) \<Rightarrow> ('c list \<Rightarrow> 'a \<Rightarrow> addr set) \<Rightarrow> 'c list \<Rightarrow> addr option \<Rightarrow> addr set" where
  "slice_cells dest cells = pointer_cells dest (\<lambda>h xs. \<Union>(cells h ` set xs))"

definition slice_view :: "('c \<Rightarrow> 'a list) \<Rightarrow> ('c list \<Rightarrow> 'a \<Rightarrow> 'v) \<Rightarrow> 'c list \<Rightarrow> addr option \<Rightarrow> 'v list" where
  "slice_view dest view h p = (case pointer_view dest (\<lambda>h xs. map (view h) xs) h p of
     None \<Rightarrow> [] | Some vs \<Rightarrow> vs)"

lemmas slice_defs = copy_slice_def valid_slice_def slice_cells_def slice_view_def

text \<open>The loop: the first elements of the new array are copies, the rest are still zero.\<close>

definition elems_copied :: "('c list \<Rightarrow> 'a \<Rightarrow> bool) \<Rightarrow> ('c list \<Rightarrow> 'a \<Rightarrow> addr set) \<Rightarrow> ('c list \<Rightarrow> 'a \<Rightarrow> 'v)
    \<Rightarrow> ('a list \<Rightarrow> 'c) \<Rightarrow> 'a \<Rightarrow> 'c list \<Rightarrow> 'a list \<Rightarrow> 'a list \<Rightarrow> 'c list \<Rightarrow> bool" where
  "elems_copied valid cells view mk zero h0 xs ys h \<longleftrightarrow>
     agree {..<length h0} h0 h \<and> length h0 < length h \<and> length ys \<le> length xs
   \<and> h ! length h0 = mk (ys @ replicate (length xs - length ys) zero)
   \<and> map (view h) ys = map (view h0) (take (length ys) xs)
   \<and> list_all (\<lambda>y. valid h y \<and> cells h y \<inter> {..length h0} = {}) ys"

lemma elems_copied_step:
  assumes elem: "copier copy valid cells view"
    and xs: "list_all (valid h0) xs" "length ys < length xs"
    and inv: "elems_copied valid cells view mk zero h0 xs ys h"
    and run: "run_state (copy (xs ! length ys)) h = (y, h1)"
  shows "h1 ! length h0 = h ! length h0"
    "elems_copied valid cells view mk zero h0 xs (ys @ [y])
      (h1[length h0 := mk ((ys @ replicate (length xs - length ys) zero)[length ys := y])])"
proof -
  define b x where "b = length h0" and "x = xs ! length ys"
  define h2 where "h2 = h1[b := mk ((ys @ replicate (length xs - length ys) zero)[length ys := y])]"
  note i = inv [unfolded elems_copied_def]
  have x: "valid h0 x" using xs by (auto simp: list_all_length x_def)
  have a0: "agree {..<length h0} h0 h" using i by simp
  note x' = copier.original_kept [OF elem x a0]
  note c = copier.copies [OF elem x'(1) run [folded x_def]]
  show "h1 ! length h0 = h ! length h0" using c i by (auto simp: agree_def)
  have b: "b < length h" "b < length h1" using c i by (auto simp: agree_def b_def)
  have a2: "agree {..<length h0} h0 h2"
    using a0 c by (auto simp: agree_def h2_def b_def)
  have keep: "valid h2 z \<and> cells h2 z = cells h1 z \<and> view h2 z = view h1 z"
    if "valid h1 z" "cells h1 z \<inter> {..b} = {}" for z
    using copier.frame [OF elem that(1) agree_store, of b] that(2) by (auto simp: h2_def)
  have ys: "valid h1 z" "cells h1 z = cells h z" "view h1 z = view h z" if "z \<in> set ys" for z
    using copier.original_kept [OF elem, of h z h1] that i c by (auto simp: list_all_iff)
  have "cells h1 y \<inter> {..b} = {}" using c b by auto
  then have y: "valid h2 y" "cells h2 y = cells h1 y" "view h2 y = view h0 x"
    using keep c x'(3) by auto
  have ys2: "valid h2 z \<and> cells h2 z = cells h z \<and> view h2 z = view h z" if "z \<in> set ys" for z
    using keep [of z] ys [OF that] that i by (auto simp: list_all_iff b_def)
  have "(ys @ replicate (length xs - length ys) zero)[length ys := y]
      = (ys @ [y]) @ replicate (length xs - length (ys @ [y])) zero"
    using xs(2) by (cases "length xs - length ys") (auto simp: list_update_append)
  then have "h2 ! length h0 = mk ((ys @ [y]) @ replicate (length xs - length (ys @ [y])) zero)"
    using b by (simp add: h2_def b_def)
  moreover have "map (view h2) ys = map (view h) ys" using ys2 by simp
  then have "map (view h2) (ys @ [y]) = map (view h0) (take (length (ys @ [y])) xs)"
    using y(3) i xs(2) by (simp add: take_Suc_conv_app_nth x_def)
  moreover have "list_all (\<lambda>y. valid h2 y \<and> cells h2 y \<inter> {..length h0} = {}) (ys @ [y])"
    using ys2 y \<open>cells h1 y \<inter> {..b} = {}\<close> i by (auto simp: list_all_iff b_def)
  ultimately have "elems_copied valid cells view mk zero h0 xs (ys @ [y]) h2"
    using a2 b xs(2) by (simp add: elems_copied_def h2_def b_def)
  then show "elems_copied valid cells view mk zero h0 xs (ys @ [y])
      (h1[length h0 := mk ((ys @ replicate (length xs - length ys) zero)[length ys := y])])"
    by (simp add: h2_def b_def)
qed

lemma copy_elems_run:
  assumes elem: "copier copy valid cells view" and kind: "\<And>xs. dest (mk xs) = xs"
    and a: "a < length h0" "h0 ! a = mk xs" and xs: "list_all (valid h0) xs"
    and inv: "elems_copied valid cells view mk zero h0 xs ys h"
    and run: "run_state (copy_elems mk dest copy a (length h0) [length ys..<length xs]) h = (u, h')"
  shows "\<exists>zs. length zs = length xs \<and> elems_copied valid cells view mk zero h0 xs zs h'"
  using inv run
proof (induction "length xs - length ys" arbitrary: ys h)
  case 0
  then have "length ys = length xs" "h' = h" by (auto simp: elems_copied_def)
  with 0 show ?case by blast
next
  case (Suc n)
  then have len: "length ys < length xs" by simp
  have ha: "dest (h ! a) = xs"
    using Suc.prems(1) a kind by (simp add: elems_copied_def agree_def)
  obtain y h1 where y: "run_state (copy (xs ! length ys)) h = (y, h1)"
    by (cases "run_state (copy (xs ! length ys)) h")
  note s = elems_copied_step [OF elem xs len Suc.prems(1) y]
  define h2 where "h2 = h1[length h0 := mk ((ys @ replicate (length xs - length ys) zero)[length ys := y])]"
  have "run_state (copy_elems mk dest copy a (length h0) [length (ys @ [y])..<length xs]) h2 = (u, h')"
    using Suc.prems len y ha s(1) kind by (simp add: upt_conv_Cons elems_copied_def h2_def)
  with Suc.hyps(1) [of "ys @ [y]" h2] s(2) Suc.hyps(2) show ?case by (simp add: h2_def)
qed

lemma copier_slice:
  assumes elem: "copier copy valid cells view" and kind: "\<And>xs. dest (mk xs) = xs"
  shows "copier (copy_slice zero mk dest copy) (valid_slice mk dest valid)
    (slice_cells dest cells) (slice_view dest view)"
proof
  fix h p
  assume "valid_slice mk dest valid h p"
  then show "slice_cells dest cells h p \<subseteq> {..<length h}"
    using copier.cells_bounded [OF elem]
    by (force simp: slice_defs pointer_defs list_all_iff split: option.splits)
next
  fix h h' p
  assume p: "valid_slice mk dest valid h p" and ag: "agree (slice_cells dest cells h p) h h'"
  then show "valid_slice mk dest valid h' p \<and> slice_cells dest cells h' p = slice_cells dest cells h p
      \<and> slice_view dest view h' p = slice_view dest view h p"
  proof (cases p)
    case (Some a)
    define xs where "xs = dest (h ! a)"
    have a: "a < length h'" "h' ! a = h ! a" "h ! a = mk xs" "list_all (valid h) xs"
      using p ag Some by (auto simp: slice_defs pointer_defs agree_def xs_def)
    have "valid h' x \<and> cells h' x = cells h x \<and> view h' x = view h x" if "x \<in> set xs" for x
      using that a(4) ag Some
      by (intro copier.frame [OF elem])
        (auto simp: list_all_iff slice_defs pointer_defs xs_def intro: agree_mono)
    with a Some kind show ?thesis by (auto simp: slice_defs pointer_defs list_all_iff)
  qed (simp add: slice_defs pointer_defs)
next
  fix h p q h'
  assume p: "valid_slice mk dest valid h p" and run: "run_state (copy_slice zero mk dest copy p) h = (q, h')"
  show "agree {..<length h} h h' \<and> valid_slice mk dest valid h' q
      \<and> slice_view dest view h' q = slice_view dest view h p
      \<and> slice_cells dest cells h' q \<inter> {..<length h} = {}"
  proof (cases p)
    case None
    with run show ?thesis by (simp add: slice_defs pointer_defs)
  next
    case (Some a)
    define xs where "xs = dest (h ! a)"
    have a: "a < length h" "h ! a = mk xs" "list_all (valid h) xs"
      using p Some by (simp_all add: slice_defs pointer_defs xs_def)
    define h1 where "h1 = h @ [mk (replicate (length xs) zero)]"
    have inv: "elems_copied valid cells view mk zero h xs [] h1"
      by (auto simp: elems_copied_def h1_def agree_alloc)
    obtain u h2 where loop: "run_state (copy_elems mk dest copy a (length h) [0..<length xs]) h1 = (u, h2)"
      by (cases "run_state (copy_elems mk dest copy a (length h) [0..<length xs]) h1")
    have q: "q = Some (length h)" "h' = h2"
      using run Some loop by (auto simp: copy_slice_def h1_def xs_def)
    obtain zs where zs: "length zs = length xs" "elems_copied valid cells view mk zero h xs zs h'"
      using copy_elems_run [OF elem kind a(1,2,3) inv] loop q(2) by force
    then have "x \<notin> cells h' z" if "z \<in> set zs" "x < length h" for x z
      using that by (fastforce simp: elems_copied_def list_all_iff)
    with zs a Some q kind show ?thesis
      by (auto simp: elems_copied_def slice_defs pointer_defs list_all_iff)
  qed
qed

section \<open>Structs\<close>

text \<open>Two values copied one after the other.\<close>

definition copy_pair :: "('a \<Rightarrow> ('c list, 'a) state) \<Rightarrow> ('b \<Rightarrow> ('c list, 'b) state)
    \<Rightarrow> 'a \<times> 'b \<Rightarrow> ('c list, 'a \<times> 'b) state" where
  "copy_pair f g p = do { x \<leftarrow> f (fst p); y \<leftarrow> g (snd p); State_Monad.return (x, y) }"

lemma copier_pair:
  assumes f: "copier f vf cf rf" and g: "copier g vg cg rg"
  shows "copier (copy_pair f g) (\<lambda>h p. vf h (fst p) \<and> vg h (snd p))
    (\<lambda>h p. cf h (fst p) \<union> cg h (snd p)) (\<lambda>h p. (rf h (fst p), rg h (snd p)))"
proof
  fix h p
  assume "vf h (fst p) \<and> vg h (snd p)"
  then show "cf h (fst p) \<union> cg h (snd p) \<subseteq> {..<length h}"
    using copier.cells_bounded [OF f] copier.cells_bounded [OF g] by blast
next
  fix h h' p
  assume "vf h (fst p) \<and> vg h (snd p)" and "agree (cf h (fst p) \<union> cg h (snd p)) h h'"
  then show "(vf h' (fst p) \<and> vg h' (snd p)) \<and> cf h' (fst p) \<union> cg h' (snd p) = cf h (fst p) \<union> cg h (snd p)
      \<and> (rf h' (fst p), rg h' (snd p)) = (rf h (fst p), rg h (snd p))"
    using copier.frame [OF f, of h "fst p" h'] copier.frame [OF g, of h "snd p" h']
    by (auto dest: agree_mono)
next
  fix h p q h'
  assume v: "vf h (fst p) \<and> vg h (snd p)" and run: "run_state (copy_pair f g p) h = (q, h')"
  obtain x h1 where x: "run_state (f (fst p)) h = (x, h1)" by (cases "run_state (f (fst p)) h")
  obtain y h2 where y: "run_state (g (snd p)) h1 = (y, h2)" by (cases "run_state (g (snd p)) h1")
  have q: "q = (x, y)" "h' = h2" using run x y by (auto simp: copy_pair_def)
  have cx: "agree {..<length h} h h1 \<and> vf h1 x \<and> rf h1 x = rf h (fst p) \<and> cf h1 x \<inter> {..<length h} = {}"
    using copier.copies [OF f] v x by blast
  note p2 = copier.original_kept [OF g, of h "snd p" h1]
  have cy: "agree {..<length h1} h1 h2 \<and> vg h2 y \<and> rg h2 y = rg h1 (snd p) \<and> cg h2 y \<inter> {..<length h1} = {}"
    using copier.copies [OF g] p2 v cx y by blast
  note x2 = copier.original_kept [OF f, of h1 x h2]
  have le: "length h \<le> length h1" using cx by (simp add: agree_def)
  then have "agree {..<length h} h1 h2" using cy by (auto simp: agree_def)
  then have "agree {..<length h} h h2" using cx agree_trans by blast
  moreover have "cg h2 y \<inter> {..<length h} = {}" using cy le by auto
  ultimately show "agree {..<length h} h h' \<and> (vf h' (fst q) \<and> vg h' (snd q))
      \<and> (rf h' (fst q), rg h' (snd q)) = (rf h (fst p), rg h (snd p))
      \<and> (cf h' (fst q) \<union> cg h' (snd q)) \<inter> {..<length h} = {}"
    using q v cx cy x2 p2 by auto
qed

text \<open>
  A struct whose fields with pointers are read by \<open>get\<close> and written by \<open>put\<close>; \<open>read\<close> puts the
  value together. \<open>*out = *in\<close> copies all other fields.
\<close>

lemma copier_struct:
  assumes fields: "copier copy valid cells view"
    and get: "\<And>x r. get (put x r) = x" and flat: "\<And>x r v. read (put x r) v = read r v"
    and f: "\<And>r. f r = do { x \<leftarrow> copy (get r); State_Monad.return (put x r) }"
  shows "copier f (\<lambda>h r. valid h (get r)) (\<lambda>h r. cells h (get r)) (\<lambda>h r. read r (view h (get r)))"
proof
  fix h r
  assume "valid h (get r)"
  then show "cells h (get r) \<subseteq> {..<length h}" by (rule copier.cells_bounded [OF fields])
next
  fix h h' r
  assume "valid h (get r)" "agree (cells h (get r)) h h'"
  then show "valid h' (get r) \<and> cells h' (get r) = cells h (get r)
      \<and> read r (view h' (get r)) = read r (view h (get r))"
    using copier.frame [OF fields] by metis
next
  fix h r s h'
  assume v: "valid h (get r)" and run: "run_state (f r) h = (s, h')"
  obtain x h1 where x: "run_state (copy (get r)) h = (x, h1)" by (cases "run_state (copy (get r)) h")
  have s: "s = put x r" "h' = h1" using run x by (simp_all add: f)
  from copier.copies [OF fields v x] show "agree {..<length h} h h' \<and> valid h' (get s) \<and> read s (view h' (get s)) = read r (view h (get r))
      \<and> cells h' (get s) \<inter> {..<length h} = {}"
    by (simp add: s get flat)
qed

end
