(* ===== verification/Deep_Copy.thy ===== *)
theory Deep_Copy
  imports Store
begin

text \<open>
  \<open>api/v1alpha1/zz_generated.deepcopy.go\<close>: the deep copies of the API types, on an explicit store.
  The structs are as Go lays them out, with addresses for pointers and slices; \<open>view\<close> functions
  follow the pointers and yield the values of theory \<open>Objects\<close>. Everywhere else the development
  works on values: the properties here are why it may.
\<close>

section \<open>Structs of other packages\<close>

text \<open>
  Object metadata, list metadata, the common status, object references, raw JSON and conditions
  have their own \<open>DeepCopyInto\<close> in their packages. Their representation \<open>'f\<close> is open; what is
  relied on is the contract \<open>copier\<close>. The view has what the program reads of them.
\<close>

record foreign_view =
  fv_ObjectMeta :: ObjectMeta
  fv_ListMeta :: string
  fv_Status :: "string \<times> int \<times> Condition list"
  fv_Reference :: "string option \<times> string \<times> string \<times> string option"
  fv_JSON :: string
  fv_Condition :: Condition

record TypeMeta =
  tm_Kind :: string
  tm_APIVersion :: string

section \<open>The structs in memory\<close>

record KroVersionMem =
  vm_Version :: string
  vm_ChartVersion :: string
  vm_ChartURL :: "addr option"
  vm_ChartPullSecret :: string
  vm_HelmValues :: "addr option"

record ProviderConfigSpecMem =
  sm_Versions :: "addr option"
  sm_PollInterval :: "addr option"

record ProviderConfigStatusMem =
  stm_Conditions :: "addr option"

record 'f ProviderConfigMem =
  pm_TypeMeta :: TypeMeta
  pm_ObjectMeta :: 'f
  pm_Spec :: ProviderConfigSpecMem
  pm_Status :: ProviderConfigStatusMem

record 'f ManagedResourceMem =
  rm_Reference :: 'f
  rm_Phase :: InstancePhase
  rm_Message :: string
  rm_Location :: ResourceLocation

record 'f KroStatusMem =
  ksm_Status :: 'f
  ksm_Resources :: "addr option"

record 'f KroMem =
  km_TypeMeta :: TypeMeta
  km_ObjectMeta :: 'f
  km_Spec :: KroSpec
  km_Status :: "'f KroStatusMem"

text \<open>A list of objects, \<open>KroList\<close> and \<open>ProviderConfigList\<close>.\<close>

record 'f ListMem =
  lm_TypeMeta :: TypeMeta
  lm_ListMeta :: 'f
  lm_Items :: "addr option"

text \<open>A cell holds what one pointer or slice header points to.\<close>

datatype 'f cell =
    StringCell (the_string: string)
  | DurationCell (the_duration: Duration)
  | ForeignCell (the_foreign: 'f)
  | ForeignArray (the_foreigns: "'f list")
  | VersionArray (the_versions: "KroVersionMem list")
  | ResourceArray (the_resources: "'f ManagedResourceMem list")
  | KroArray (the_kros: "'f KroMem list")
  | ConfigArray (the_configs: "'f ProviderConfigMem list")
  | VersionCell (the_version: KroVersionMem)
  | ResourceCell (the_resource: "'f ManagedResourceMem")
  | KroSpecCell (the_kro_spec: KroSpec)
  | KroStatusCell (the_kro_status: "'f KroStatusMem")
  | KroCell (the_kro: "'f KroMem")
  | ListCell (the_list: "'f ListMem")
  | ConfigSpecCell (the_config_spec: ProviderConfigSpecMem)
  | ConfigStatusCell (the_config_status: ProviderConfigStatusMem)
  | ConfigCell (the_config: "'f ProviderConfigMem")

record 'f foreign =
  f_DeepCopyInto :: "'f \<Rightarrow> ('f cell list, 'f) state"
  f_zero :: 'f
  f_valid :: "'f cell list \<Rightarrow> 'f \<Rightarrow> bool"
  f_cells :: "'f cell list \<Rightarrow> 'f \<Rightarrow> addr set"
  f_view :: "'f cell list \<Rightarrow> 'f \<Rightarrow> foreign_view"

definition foreign_laws :: "'f foreign \<Rightarrow> bool" where
  "foreign_laws F \<longleftrightarrow> copier (f_DeepCopyInto F) (f_valid F) (f_cells F) (f_view F)"

section \<open>Pointers and slices of these structs\<close>

abbreviation "always \<equiv> \<lambda>h x. True"
abbreviation "none \<equiv> \<lambda>h x. {}"
abbreviation "itself \<equiv> \<lambda>h x. x"

abbreviation "copy_string \<equiv> copy_pointer [] StringCell the_string State_Monad.return"
abbreviation "copy_duration \<equiv> copy_pointer 0 DurationCell the_duration State_Monad.return"
abbreviation "copy_json F \<equiv> copy_pointer (f_zero F) ForeignCell the_foreign (f_DeepCopyInto F)"
abbreviation "copy_conditions F \<equiv> copy_slice (f_zero F) ForeignArray the_foreigns (f_DeepCopyInto F)"

section \<open>KroVersion\<close>

definition zero_version :: KroVersionMem where
  "zero_version = \<lparr>vm_Version = [], vm_ChartVersion = [], vm_ChartURL = None, vm_ChartPullSecret = [],
     vm_HelmValues = None\<rparr>"

definition KroVersion_DeepCopyInto :: "'f foreign \<Rightarrow> KroVersionMem \<Rightarrow> ('f cell list, KroVersionMem) state" where
  "KroVersion_DeepCopyInto F inn = do {
     url \<leftarrow> copy_string (vm_ChartURL inn);
     values \<leftarrow> copy_json F (vm_HelmValues inn);
     State_Monad.return (inn\<lparr>vm_ChartURL := url, vm_HelmValues := values\<rparr>) }"

definition KroVersion_DeepCopy :: "'f foreign \<Rightarrow> addr option \<Rightarrow> ('f cell list, addr option) state" where
  "KroVersion_DeepCopy F = copy_pointer zero_version VersionCell the_version (KroVersion_DeepCopyInto F)"

definition version_valid :: "'f foreign \<Rightarrow> 'f cell list \<Rightarrow> KroVersionMem \<Rightarrow> bool" where
  "version_valid F h r \<longleftrightarrow> valid_pointer StringCell the_string always h (vm_ChartURL r)
     \<and> valid_pointer ForeignCell the_foreign (f_valid F) h (vm_HelmValues r)"

definition version_cells :: "'f foreign \<Rightarrow> 'f cell list \<Rightarrow> KroVersionMem \<Rightarrow> addr set" where
  "version_cells F h r = pointer_cells the_string none h (vm_ChartURL r)
     \<union> pointer_cells the_foreign (f_cells F) h (vm_HelmValues r)"

definition version_view :: "'f foreign \<Rightarrow> 'f cell list \<Rightarrow> KroVersionMem \<Rightarrow> KroVersion" where
  "version_view F h r = \<lparr>ver_Version = vm_Version r, ver_ChartVersion = vm_ChartVersion r,
     ver_ChartURL = pointer_view the_string itself h (vm_ChartURL r),
     ver_ChartPullSecret = vm_ChartPullSecret r,
     ver_HelmValues = map_option fv_JSON (pointer_view the_foreign (f_view F) h (vm_HelmValues r))\<rparr>"

lemma copier_version:
  assumes "foreign_laws F"
  shows "copier (KroVersion_DeepCopyInto F) (version_valid F) (version_cells F) (version_view F)"
proof -
  have "copier (copy_pair copy_string (copy_json F))
      (\<lambda>h p. valid_pointer StringCell the_string always h (fst p)
        \<and> valid_pointer ForeignCell the_foreign (f_valid F) h (snd p))
      (\<lambda>h p. pointer_cells the_string none h (fst p) \<union> pointer_cells the_foreign (f_cells F) h (snd p))
      (\<lambda>h p. (pointer_view the_string itself h (fst p), pointer_view the_foreign (f_view F) h (snd p)))"
    using assms by (intro copier_pair copier_pointer copier_flat) (simp_all add: foreign_laws_def)
  from copier_struct [OF this, where f = "KroVersion_DeepCopyInto F"
      and get = "\<lambda>r. (vm_ChartURL r, vm_HelmValues r)"
      and put = "\<lambda>p r. r\<lparr>vm_ChartURL := fst p, vm_HelmValues := snd p\<rparr>"
      and read = "\<lambda>r v. \<lparr>ver_Version = vm_Version r, ver_ChartVersion = vm_ChartVersion r,
        ver_ChartURL = fst v, ver_ChartPullSecret = vm_ChartPullSecret r,
        ver_HelmValues = map_option fv_JSON (snd v)\<rparr>"]
  show ?thesis
    by (simp add: KroVersion_DeepCopyInto_def copy_pair_def version_valid_def [abs_def]
        version_cells_def [abs_def] version_view_def [abs_def])
qed

section \<open>ProviderConfig\<close>

definition ProviderConfigSpec_DeepCopyInto ::
    "'f foreign \<Rightarrow> ProviderConfigSpecMem \<Rightarrow> ('f cell list, ProviderConfigSpecMem) state" where
  "ProviderConfigSpec_DeepCopyInto F inn = do {
     versions \<leftarrow> copy_slice zero_version VersionArray the_versions (KroVersion_DeepCopyInto F) (sm_Versions inn);
     interval \<leftarrow> copy_duration (sm_PollInterval inn);
     State_Monad.return (inn\<lparr>sm_Versions := versions, sm_PollInterval := interval\<rparr>) }"

definition ProviderConfigStatus_DeepCopyInto ::
    "'f foreign \<Rightarrow> ProviderConfigStatusMem \<Rightarrow> ('f cell list, ProviderConfigStatusMem) state" where
  "ProviderConfigStatus_DeepCopyInto F inn = do {
     conditions \<leftarrow> copy_conditions F (stm_Conditions inn);
     State_Monad.return (inn\<lparr>stm_Conditions := conditions\<rparr>) }"

definition ProviderConfig_DeepCopyInto ::
    "'f foreign \<Rightarrow> 'f ProviderConfigMem \<Rightarrow> ('f cell list, 'f ProviderConfigMem) state" where
  "ProviderConfig_DeepCopyInto F inn = do {
     objectMeta \<leftarrow> f_DeepCopyInto F (pm_ObjectMeta inn);
     spec \<leftarrow> ProviderConfigSpec_DeepCopyInto F (pm_Spec inn);
     status \<leftarrow> ProviderConfigStatus_DeepCopyInto F (pm_Status inn);
     State_Monad.return (inn\<lparr>pm_ObjectMeta := objectMeta, pm_Spec := spec, pm_Status := status\<rparr>) }"

definition zero_config_spec :: ProviderConfigSpecMem where
  "zero_config_spec = \<lparr>sm_Versions = None, sm_PollInterval = None\<rparr>"

definition zero_config_status :: ProviderConfigStatusMem where
  "zero_config_status = \<lparr>stm_Conditions = None\<rparr>"

definition zero_type_meta :: TypeMeta where
  "zero_type_meta = \<lparr>tm_Kind = [], tm_APIVersion = []\<rparr>"

definition zero_config :: "'f foreign \<Rightarrow> 'f ProviderConfigMem" where
  "zero_config F = \<lparr>pm_TypeMeta = zero_type_meta, pm_ObjectMeta = f_zero F, pm_Spec = zero_config_spec,
     pm_Status = zero_config_status\<rparr>"

definition ProviderConfigSpec_DeepCopy :: "'f foreign \<Rightarrow> addr option \<Rightarrow> ('f cell list, addr option) state" where
  "ProviderConfigSpec_DeepCopy F =
     copy_pointer zero_config_spec ConfigSpecCell the_config_spec (ProviderConfigSpec_DeepCopyInto F)"

definition ProviderConfigStatus_DeepCopy :: "'f foreign \<Rightarrow> addr option \<Rightarrow> ('f cell list, addr option) state" where
  "ProviderConfigStatus_DeepCopy F =
     copy_pointer zero_config_status ConfigStatusCell the_config_status (ProviderConfigStatus_DeepCopyInto F)"

definition ProviderConfig_DeepCopy :: "'f foreign \<Rightarrow> addr option \<Rightarrow> ('f cell list, addr option) state" where
  "ProviderConfig_DeepCopy F =
     copy_pointer (zero_config F) ConfigCell the_config (ProviderConfig_DeepCopyInto F)"

definition ProviderConfig_DeepCopyObject :: "'f foreign \<Rightarrow> addr option \<Rightarrow> ('f cell list, addr option) state" where
  "ProviderConfig_DeepCopyObject F inn = do {
     c \<leftarrow> ProviderConfig_DeepCopy F inn;
     State_Monad.return (case c of Some a \<Rightarrow> Some a | None \<Rightarrow> None) }"

definition config_spec_valid :: "'f foreign \<Rightarrow> 'f cell list \<Rightarrow> ProviderConfigSpecMem \<Rightarrow> bool" where
  "config_spec_valid F h r \<longleftrightarrow> valid_slice VersionArray the_versions (version_valid F) h (sm_Versions r)
     \<and> valid_pointer DurationCell the_duration always h (sm_PollInterval r)"

definition config_spec_cells :: "'f foreign \<Rightarrow> 'f cell list \<Rightarrow> ProviderConfigSpecMem \<Rightarrow> addr set" where
  "config_spec_cells F h r = slice_cells the_versions (version_cells F) h (sm_Versions r)
     \<union> pointer_cells the_duration none h (sm_PollInterval r)"

definition config_spec_view :: "'f foreign \<Rightarrow> 'f cell list \<Rightarrow> ProviderConfigSpecMem \<Rightarrow> ProviderConfigSpec" where
  "config_spec_view F h r = \<lparr>pcs_Versions = slice_view the_versions (version_view F) h (sm_Versions r),
     pcs_PollInterval = pointer_view the_duration itself h (sm_PollInterval r)\<rparr>"

lemma copier_config_spec:
  assumes "foreign_laws F"
  shows "copier (ProviderConfigSpec_DeepCopyInto F) (config_spec_valid F) (config_spec_cells F) (config_spec_view F)"
proof -
  have "copier (copy_pair (copy_slice zero_version VersionArray the_versions (KroVersion_DeepCopyInto F)) copy_duration)
      (\<lambda>h p. valid_slice VersionArray the_versions (version_valid F) h (fst p)
        \<and> valid_pointer DurationCell the_duration always h (snd p))
      (\<lambda>h p. slice_cells the_versions (version_cells F) h (fst p) \<union> pointer_cells the_duration none h (snd p))
      (\<lambda>h p. (slice_view the_versions (version_view F) h (fst p), pointer_view the_duration itself h (snd p)))"
    using assms by (intro copier_pair copier_slice copier_pointer copier_flat copier_version) simp_all
  from copier_struct [OF this, where f = "ProviderConfigSpec_DeepCopyInto F"
      and get = "\<lambda>r. (sm_Versions r, sm_PollInterval r)"
      and put = "\<lambda>p r. r\<lparr>sm_Versions := fst p, sm_PollInterval := snd p\<rparr>"
      and read = "\<lambda>r v. \<lparr>pcs_Versions = fst v, pcs_PollInterval = snd v\<rparr>"]
  show ?thesis
    by (simp add: ProviderConfigSpec_DeepCopyInto_def copy_pair_def config_spec_valid_def [abs_def]
        config_spec_cells_def [abs_def] config_spec_view_def [abs_def])
qed

definition config_status_valid :: "'f foreign \<Rightarrow> 'f cell list \<Rightarrow> ProviderConfigStatusMem \<Rightarrow> bool" where
  "config_status_valid F h r = valid_slice ForeignArray the_foreigns (f_valid F) h (stm_Conditions r)"

definition config_status_cells :: "'f foreign \<Rightarrow> 'f cell list \<Rightarrow> ProviderConfigStatusMem \<Rightarrow> addr set" where
  "config_status_cells F h r = slice_cells the_foreigns (f_cells F) h (stm_Conditions r)"

definition config_status_view :: "'f foreign \<Rightarrow> 'f cell list \<Rightarrow> ProviderConfigStatusMem \<Rightarrow> ProviderConfigStatus" where
  "config_status_view F h r =
     \<lparr>pcst_Conditions = map fv_Condition (slice_view the_foreigns (f_view F) h (stm_Conditions r))\<rparr>"

lemma copier_config_status:
  assumes "foreign_laws F"
  shows "copier (ProviderConfigStatus_DeepCopyInto F) (config_status_valid F) (config_status_cells F)
    (config_status_view F)"
proof -
  have "copier (copy_conditions F) (valid_slice ForeignArray the_foreigns (f_valid F))
      (slice_cells the_foreigns (f_cells F)) (slice_view the_foreigns (f_view F))"
    using assms by (intro copier_slice) (simp_all add: foreign_laws_def)
  from copier_struct [OF this, where f = "ProviderConfigStatus_DeepCopyInto F" and get = stm_Conditions
      and put = "\<lambda>x r. r\<lparr>stm_Conditions := x\<rparr>"
      and read = "\<lambda>r v. \<lparr>pcst_Conditions = map fv_Condition v\<rparr>"]
  show ?thesis
    by (simp add: ProviderConfigStatus_DeepCopyInto_def config_status_valid_def [abs_def]
        config_status_cells_def [abs_def] config_status_view_def [abs_def])
qed

definition config_valid :: "'f foreign \<Rightarrow> 'f cell list \<Rightarrow> 'f ProviderConfigMem \<Rightarrow> bool" where
  "config_valid F h r \<longleftrightarrow> f_valid F h (pm_ObjectMeta r) \<and> config_spec_valid F h (pm_Spec r)
     \<and> config_status_valid F h (pm_Status r)"

definition config_cells :: "'f foreign \<Rightarrow> 'f cell list \<Rightarrow> 'f ProviderConfigMem \<Rightarrow> addr set" where
  "config_cells F h r = f_cells F h (pm_ObjectMeta r) \<union> (config_spec_cells F h (pm_Spec r)
     \<union> config_status_cells F h (pm_Status r))"

definition config_view :: "'f foreign \<Rightarrow> 'f cell list \<Rightarrow> 'f ProviderConfigMem \<Rightarrow> TypeMeta \<times> ProviderConfig" where
  "config_view F h r = (pm_TypeMeta r, \<lparr>pc_Meta = fv_ObjectMeta (f_view F h (pm_ObjectMeta r)),
     pc_Spec = config_spec_view F h (pm_Spec r), pc_Status = config_status_view F h (pm_Status r)\<rparr>)"

lemma copier_config:
  assumes "foreign_laws F"
  shows "copier (ProviderConfig_DeepCopyInto F) (config_valid F) (config_cells F) (config_view F)"
proof -
  note parts = copier_pair [OF assms [unfolded foreign_laws_def]
      copier_pair [OF copier_config_spec [OF assms] copier_config_status [OF assms]]]
  from copier_struct [OF parts, where f = "ProviderConfig_DeepCopyInto F"
      and get = "\<lambda>r. (pm_ObjectMeta r, pm_Spec r, pm_Status r)"
      and put = "\<lambda>p r. r\<lparr>pm_ObjectMeta := fst p, pm_Spec := fst (snd p), pm_Status := snd (snd p)\<rparr>"
      and read = "\<lambda>r v. (pm_TypeMeta r, \<lparr>pc_Meta = fv_ObjectMeta (fst v), pc_Spec = fst (snd v),
        pc_Status = snd (snd v)\<rparr>)"]
  show ?thesis
    by (simp add: ProviderConfig_DeepCopyInto_def copy_pair_def config_valid_def [abs_def]
        config_cells_def [abs_def] config_view_def [abs_def])
qed

section \<open>Kro\<close>

definition ManagedResource_DeepCopyInto ::
    "'f foreign \<Rightarrow> 'f ManagedResourceMem \<Rightarrow> ('f cell list, 'f ManagedResourceMem) state" where
  "ManagedResource_DeepCopyInto F inn = do {
     reference \<leftarrow> f_DeepCopyInto F (rm_Reference inn);
     State_Monad.return (inn\<lparr>rm_Reference := reference\<rparr>) }"

text \<open>The zero values of the two string types are no constant of theirs; any will do here.\<close>

definition zero_resource :: "'f foreign \<Rightarrow> 'f ManagedResourceMem" where
  "zero_resource F = \<lparr>rm_Reference = f_zero F, rm_Phase = Unknown, rm_Message = [],
     rm_Location = PlatformCluster\<rparr>"

definition KroSpec_DeepCopyInto :: "KroSpec \<Rightarrow> ('f cell list, KroSpec) state" where
  "KroSpec_DeepCopyInto inn = State_Monad.return inn"

definition KroStatus_DeepCopyInto :: "'f foreign \<Rightarrow> 'f KroStatusMem \<Rightarrow> ('f cell list, 'f KroStatusMem) state" where
  "KroStatus_DeepCopyInto F inn = do {
     status \<leftarrow> f_DeepCopyInto F (ksm_Status inn);
     resources \<leftarrow> copy_slice (zero_resource F) ResourceArray the_resources (ManagedResource_DeepCopyInto F)
       (ksm_Resources inn);
     State_Monad.return (inn\<lparr>ksm_Status := status, ksm_Resources := resources\<rparr>) }"

definition Kro_DeepCopyInto :: "'f foreign \<Rightarrow> 'f KroMem \<Rightarrow> ('f cell list, 'f KroMem) state" where
  "Kro_DeepCopyInto F inn = do {
     objectMeta \<leftarrow> f_DeepCopyInto F (km_ObjectMeta inn);
     status \<leftarrow> KroStatus_DeepCopyInto F (km_Status inn);
     State_Monad.return (inn\<lparr>km_ObjectMeta := objectMeta, km_Status := status\<rparr>) }"

definition zero_kro_spec :: KroSpec where
  "zero_kro_spec = \<lparr>spec_Version = []\<rparr>"

definition zero_kro_status :: "'f foreign \<Rightarrow> 'f KroStatusMem" where
  "zero_kro_status F = \<lparr>ksm_Status = f_zero F, ksm_Resources = None\<rparr>"

definition zero_kro :: "'f foreign \<Rightarrow> 'f KroMem" where
  "zero_kro F = \<lparr>km_TypeMeta = zero_type_meta, km_ObjectMeta = f_zero F, km_Spec = zero_kro_spec,
     km_Status = zero_kro_status F\<rparr>"

definition ManagedResource_DeepCopy :: "'f foreign \<Rightarrow> addr option \<Rightarrow> ('f cell list, addr option) state" where
  "ManagedResource_DeepCopy F =
     copy_pointer (zero_resource F) ResourceCell the_resource (ManagedResource_DeepCopyInto F)"

definition KroSpec_DeepCopy :: "addr option \<Rightarrow> ('f cell list, addr option) state" where
  "KroSpec_DeepCopy = copy_pointer zero_kro_spec KroSpecCell the_kro_spec KroSpec_DeepCopyInto"

definition KroStatus_DeepCopy :: "'f foreign \<Rightarrow> addr option \<Rightarrow> ('f cell list, addr option) state" where
  "KroStatus_DeepCopy F =
     copy_pointer (zero_kro_status F) KroStatusCell the_kro_status (KroStatus_DeepCopyInto F)"

definition Kro_DeepCopy :: "'f foreign \<Rightarrow> addr option \<Rightarrow> ('f cell list, addr option) state" where
  "Kro_DeepCopy F = copy_pointer (zero_kro F) KroCell the_kro (Kro_DeepCopyInto F)"

definition Kro_DeepCopyObject :: "'f foreign \<Rightarrow> addr option \<Rightarrow> ('f cell list, addr option) state" where
  "Kro_DeepCopyObject F inn = do {
     c \<leftarrow> Kro_DeepCopy F inn;
     State_Monad.return (case c of Some a \<Rightarrow> Some a | None \<Rightarrow> None) }"

interpretation kro_spec: copier KroSpec_DeepCopyInto always none itself
  unfolding KroSpec_DeepCopyInto_def [abs_def] by (rule copier_flat)

definition resource_view :: "'f foreign \<Rightarrow> 'f cell list \<Rightarrow> 'f ManagedResourceMem \<Rightarrow> ManagedResource" where
  "resource_view F h r = (case fv_Reference (f_view F h (rm_Reference r)) of (g, kind, name, ns) \<Rightarrow>
     \<lparr>res_APIGroup = g, res_Kind = kind, res_Name = name, res_Namespace = ns,
      res_Phase = rm_Phase r, res_Message = rm_Message r, res_Location = rm_Location r\<rparr>)"

lemma copier_resource:
  assumes "foreign_laws F"
  shows "copier (ManagedResource_DeepCopyInto F) (\<lambda>h r. f_valid F h (rm_Reference r))
    (\<lambda>h r. f_cells F h (rm_Reference r)) (resource_view F)"
proof -
  from copier_struct [OF assms [unfolded foreign_laws_def], where f = "ManagedResource_DeepCopyInto F"
      and get = rm_Reference and put = "\<lambda>x r. r\<lparr>rm_Reference := x\<rparr>"
      and read = "\<lambda>r v. (case fv_Reference v of (g, kind, name, ns) \<Rightarrow>
        \<lparr>res_APIGroup = g, res_Kind = kind, res_Name = name, res_Namespace = ns,
         res_Phase = rm_Phase r, res_Message = rm_Message r, res_Location = rm_Location r\<rparr>)"]
  show ?thesis
    by (simp add: ManagedResource_DeepCopyInto_def resource_view_def [abs_def] split: prod.splits)
qed

definition kro_status_valid :: "'f foreign \<Rightarrow> 'f cell list \<Rightarrow> 'f KroStatusMem \<Rightarrow> bool" where
  "kro_status_valid F h r \<longleftrightarrow> f_valid F h (ksm_Status r)
     \<and> valid_slice ResourceArray the_resources (\<lambda>h r. f_valid F h (rm_Reference r)) h (ksm_Resources r)"

definition kro_status_cells :: "'f foreign \<Rightarrow> 'f cell list \<Rightarrow> 'f KroStatusMem \<Rightarrow> addr set" where
  "kro_status_cells F h r = f_cells F h (ksm_Status r)
     \<union> slice_cells the_resources (\<lambda>h r. f_cells F h (rm_Reference r)) h (ksm_Resources r)"

definition kro_status_view :: "'f foreign \<Rightarrow> 'f cell list \<Rightarrow> 'f KroStatusMem \<Rightarrow> KroStatus" where
  "kro_status_view F h r = (case fv_Status (f_view F h (ksm_Status r)) of (phase, generation, conditions) \<Rightarrow>
     \<lparr>status_Phase = phase, status_ObservedGeneration = generation, status_Conditions = conditions,
      status_Resources = slice_view the_resources (resource_view F) h (ksm_Resources r)\<rparr>)"

lemma copier_kro_status:
  assumes "foreign_laws F"
  shows "copier (KroStatus_DeepCopyInto F) (kro_status_valid F) (kro_status_cells F) (kro_status_view F)"
proof -
  have "copier (copy_slice (zero_resource F) ResourceArray the_resources (ManagedResource_DeepCopyInto F))
      (valid_slice ResourceArray the_resources (\<lambda>h r. f_valid F h (rm_Reference r)))
      (slice_cells the_resources (\<lambda>h r. f_cells F h (rm_Reference r)))
      (slice_view the_resources (resource_view F))"
    using assms by (intro copier_slice copier_resource) simp_all
  from copier_struct [OF copier_pair [OF assms [unfolded foreign_laws_def] this],
      where f = "KroStatus_DeepCopyInto F" and get = "\<lambda>r. (ksm_Status r, ksm_Resources r)"
      and put = "\<lambda>p r. r\<lparr>ksm_Status := fst p, ksm_Resources := snd p\<rparr>"
      and read = "\<lambda>r v. (case fv_Status (fst v) of (phase, generation, conditions) \<Rightarrow>
        \<lparr>status_Phase = phase, status_ObservedGeneration = generation, status_Conditions = conditions,
         status_Resources = snd v\<rparr>)"]
  show ?thesis
    by (simp add: KroStatus_DeepCopyInto_def copy_pair_def kro_status_valid_def [abs_def]
        kro_status_cells_def [abs_def] kro_status_view_def [abs_def] split: prod.splits)
qed

definition kro_valid :: "'f foreign \<Rightarrow> 'f cell list \<Rightarrow> 'f KroMem \<Rightarrow> bool" where
  "kro_valid F h r \<longleftrightarrow> f_valid F h (km_ObjectMeta r) \<and> kro_status_valid F h (km_Status r)"

definition kro_cells :: "'f foreign \<Rightarrow> 'f cell list \<Rightarrow> 'f KroMem \<Rightarrow> addr set" where
  "kro_cells F h r = f_cells F h (km_ObjectMeta r) \<union> kro_status_cells F h (km_Status r)"

definition kro_view :: "'f foreign \<Rightarrow> 'f cell list \<Rightarrow> 'f KroMem \<Rightarrow> TypeMeta \<times> Kro" where
  "kro_view F h r = (km_TypeMeta r, \<lparr>kro_Meta = fv_ObjectMeta (f_view F h (km_ObjectMeta r)),
     kro_Spec = km_Spec r, kro_Status = kro_status_view F h (km_Status r)\<rparr>)"

lemma copier_kro:
  assumes "foreign_laws F"
  shows "copier (Kro_DeepCopyInto F) (kro_valid F) (kro_cells F) (kro_view F)"
proof -
  from copier_struct [OF copier_pair [OF assms [unfolded foreign_laws_def] copier_kro_status [OF assms]],
      where f = "Kro_DeepCopyInto F" and get = "\<lambda>r. (km_ObjectMeta r, km_Status r)"
      and put = "\<lambda>p r. r\<lparr>km_ObjectMeta := fst p, km_Status := snd p\<rparr>"
      and read = "\<lambda>r v. (km_TypeMeta r, \<lparr>kro_Meta = fv_ObjectMeta (fst v), kro_Spec = km_Spec r,
        kro_Status = snd v\<rparr>)"]
  show ?thesis
    by (simp add: Kro_DeepCopyInto_def copy_pair_def kro_valid_def [abs_def]
        kro_cells_def [abs_def] kro_view_def [abs_def])
qed

section \<open>Lists of objects\<close>

definition zero_list :: "'f foreign \<Rightarrow> 'f ListMem" where
  "zero_list F = \<lparr>lm_TypeMeta = zero_type_meta, lm_ListMeta = f_zero F, lm_Items = None\<rparr>"

definition KroList_DeepCopyInto :: "'f foreign \<Rightarrow> 'f ListMem \<Rightarrow> ('f cell list, 'f ListMem) state" where
  "KroList_DeepCopyInto F inn = do {
     listMeta \<leftarrow> f_DeepCopyInto F (lm_ListMeta inn);
     items \<leftarrow> copy_slice (zero_kro F) KroArray the_kros (Kro_DeepCopyInto F) (lm_Items inn);
     State_Monad.return (inn\<lparr>lm_ListMeta := listMeta, lm_Items := items\<rparr>) }"

definition KroList_DeepCopy :: "'f foreign \<Rightarrow> addr option \<Rightarrow> ('f cell list, addr option) state" where
  "KroList_DeepCopy F = copy_pointer (zero_list F) ListCell the_list (KroList_DeepCopyInto F)"

definition KroList_DeepCopyObject :: "'f foreign \<Rightarrow> addr option \<Rightarrow> ('f cell list, addr option) state" where
  "KroList_DeepCopyObject F inn = do {
     c \<leftarrow> KroList_DeepCopy F inn;
     State_Monad.return (case c of Some a \<Rightarrow> Some a | None \<Rightarrow> None) }"

definition ProviderConfigList_DeepCopyInto :: "'f foreign \<Rightarrow> 'f ListMem \<Rightarrow> ('f cell list, 'f ListMem) state" where
  "ProviderConfigList_DeepCopyInto F inn = do {
     listMeta \<leftarrow> f_DeepCopyInto F (lm_ListMeta inn);
     items \<leftarrow> copy_slice (zero_config F) ConfigArray the_configs (ProviderConfig_DeepCopyInto F) (lm_Items inn);
     State_Monad.return (inn\<lparr>lm_ListMeta := listMeta, lm_Items := items\<rparr>) }"

definition ProviderConfigList_DeepCopy :: "'f foreign \<Rightarrow> addr option \<Rightarrow> ('f cell list, addr option) state" where
  "ProviderConfigList_DeepCopy F =
     copy_pointer (zero_list F) ListCell the_list (ProviderConfigList_DeepCopyInto F)"

definition ProviderConfigList_DeepCopyObject :: "'f foreign \<Rightarrow> addr option \<Rightarrow> ('f cell list, addr option) state" where
  "ProviderConfigList_DeepCopyObject F inn = do {
     c \<leftarrow> ProviderConfigList_DeepCopy F inn;
     State_Monad.return (case c of Some a \<Rightarrow> Some a | None \<Rightarrow> None) }"

definition list_valid :: "'f foreign \<Rightarrow> ('a list \<Rightarrow> 'f cell) \<Rightarrow> ('f cell \<Rightarrow> 'a list)
    \<Rightarrow> ('f cell list \<Rightarrow> 'a \<Rightarrow> bool) \<Rightarrow> 'f cell list \<Rightarrow> 'f ListMem \<Rightarrow> bool" where
  "list_valid F mk dest valid h r \<longleftrightarrow>
     f_valid F h (lm_ListMeta r) \<and> valid_slice mk dest valid h (lm_Items r)"

definition list_cells :: "'f foreign \<Rightarrow> ('f cell \<Rightarrow> 'a list) \<Rightarrow> ('f cell list \<Rightarrow> 'a \<Rightarrow> addr set)
    \<Rightarrow> 'f cell list \<Rightarrow> 'f ListMem \<Rightarrow> addr set" where
  "list_cells F dest cells h r = f_cells F h (lm_ListMeta r) \<union> slice_cells dest cells h (lm_Items r)"

definition list_view :: "'f foreign \<Rightarrow> ('f cell \<Rightarrow> 'a list) \<Rightarrow> ('f cell list \<Rightarrow> 'a \<Rightarrow> 'v)
    \<Rightarrow> 'f cell list \<Rightarrow> 'f ListMem \<Rightarrow> TypeMeta \<times> string \<times> 'v list" where
  "list_view F dest view h r = (lm_TypeMeta r, fv_ListMeta (f_view F h (lm_ListMeta r)),
     slice_view dest view h (lm_Items r))"

lemma copier_list:
  assumes "foreign_laws F" "copier copy valid cells view" "\<And>xs. dest (mk xs) = xs"
    and f: "\<And>r. f r = do {
      listMeta \<leftarrow> f_DeepCopyInto F (lm_ListMeta r);
      items \<leftarrow> copy_slice zero mk dest copy (lm_Items r);
      State_Monad.return (r\<lparr>lm_ListMeta := listMeta, lm_Items := items\<rparr>) }"
  shows "copier f (list_valid F mk dest valid) (list_cells F dest cells) (list_view F dest view)"
proof -
  from copier_struct [OF copier_pair [OF assms(1) [unfolded foreign_laws_def]
      copier_slice [OF assms(2), where mk = mk and dest = dest and zero = zero]],
      where f = f and get = "\<lambda>r. (lm_ListMeta r, lm_Items r)"
      and put = "\<lambda>p r. r\<lparr>lm_ListMeta := fst p, lm_Items := snd p\<rparr>"
      and read = "\<lambda>r v. (lm_TypeMeta r, fv_ListMeta (fst v), snd v)"]
  show ?thesis
    by (simp add: assms(3) f copy_pair_def list_valid_def [abs_def] list_cells_def [abs_def]
        list_view_def [abs_def])
qed

lemmas copier_kro_list = copier_list [OF _ copier_kro, where mk = KroArray and dest = the_kros,
    OF _ _ _ KroList_DeepCopyInto_def]
lemmas copier_config_list = copier_list [OF _ copier_config, where mk = ConfigArray and dest = the_configs,
    OF _ _ _ ProviderConfigList_DeepCopyInto_def]

section \<open>Properties\<close>

lemma case_itself: "(case c of None \<Rightarrow> None | Some a \<Rightarrow> Some a) = c"
  by (cases c) simp_all

lemma copier_kro_object:
  "foreign_laws F \<Longrightarrow> copier (Kro_DeepCopyObject F) (valid_pointer KroCell the_kro (kro_valid F))
     (pointer_cells the_kro (kro_cells F)) (pointer_view the_kro (kro_view F))"
  unfolding Kro_DeepCopyObject_def [abs_def] Kro_DeepCopy_def
  by (simp add: case_itself copier_pointer copier_kro)

lemma copier_config_object:
  "foreign_laws F \<Longrightarrow> copier (ProviderConfig_DeepCopyObject F) (valid_pointer ConfigCell the_config (config_valid F))
     (pointer_cells the_config (config_cells F)) (pointer_view the_config (config_view F))"
  unfolding ProviderConfig_DeepCopyObject_def [abs_def] ProviderConfig_DeepCopy_def
  by (simp add: case_itself copier_pointer copier_config)

lemma copier_kro_list_object:
  "foreign_laws F \<Longrightarrow> copier (KroList_DeepCopyObject F)
     (valid_pointer ListCell the_list (list_valid F KroArray the_kros (kro_valid F)))
     (pointer_cells the_list (list_cells F the_kros (kro_cells F)))
     (pointer_view the_list (list_view F the_kros (kro_view F)))"
  unfolding KroList_DeepCopyObject_def [abs_def] KroList_DeepCopy_def
  by (simp add: case_itself copier_pointer copier_kro_list)

lemma copier_config_list_object:
  "foreign_laws F \<Longrightarrow> copier (ProviderConfigList_DeepCopyObject F)
     (valid_pointer ListCell the_list (list_valid F ConfigArray the_configs (config_valid F)))
     (pointer_cells the_list (list_cells F the_configs (config_cells F)))
     (pointer_view the_list (list_view F the_configs (config_view F)))"
  unfolding ProviderConfigList_DeepCopyObject_def [abs_def] ProviderConfigList_DeepCopy_def
  by (simp add: case_itself copier_pointer copier_config_list)

text \<open>
  C22. The deep copy of a Kro is a snapshot: it reads the same as the original, and from then on
  the two are apart, whatever is written or allocated: as long as the cells made by the copy are
  left alone the copy still reads so, and as long as the cells that existed before are left
  alone the original does.
\<close>
theorem Kro_DeepCopyObject_isolated:
  assumes laws: "foreign_laws F"
    and valid: "valid_pointer KroCell the_kro (kro_valid F) h p"
    and run: "run_state (Kro_DeepCopyObject F p) h = (q, h')"
  defines "read \<equiv> pointer_view the_kro (kro_view F)"
  shows "read h' q = read h p \<and> read h' p = read h p
    \<and> (\<forall>ms. written ms \<inter> {length h..<length h'} = {} \<longrightarrow> read (mutate ms h') q = read h p)
    \<and> (\<forall>ms. written ms \<inter> {..<length h} = {} \<longrightarrow> read (mutate ms h') p = read h p)"
  using copier.isolated [OF copier_kro_object [OF laws] valid run] by (simp add: read_def)

text \<open>
  C23. The same for a provider config with its versions, chart URLs, Helm values and conditions:
  the config a reconcile run works on is a snapshot of the cached one.
\<close>
theorem ProviderConfig_DeepCopyObject_isolated:
  assumes laws: "foreign_laws F"
    and valid: "valid_pointer ConfigCell the_config (config_valid F) h p"
    and run: "run_state (ProviderConfig_DeepCopyObject F p) h = (q, h')"
  defines "read \<equiv> pointer_view the_config (config_view F)"
  shows "read h' q = read h p \<and> read h' p = read h p
    \<and> (\<forall>ms. written ms \<inter> {length h..<length h'} = {} \<longrightarrow> read (mutate ms h') q = read h p)
    \<and> (\<forall>ms. written ms \<inter> {..<length h} = {} \<longrightarrow> read (mutate ms h') p = read h p)"
  using copier.isolated [OF copier_config_object [OF laws] valid run] by (simp add: read_def)

section \<open>A concrete store\<close>

text \<open>Structs of other packages with one string behind a pointer.\<close>

definition sample_foreign :: "(foreign_view \<times> addr option) foreign" where
  "sample_foreign = \<lparr>
     f_DeepCopyInto = (\<lambda>r. do { x \<leftarrow> copy_string (snd r); State_Monad.return (fst r, x) }),
     f_zero = (\<lparr>fv_ObjectMeta = \<lparr>meta_Name = [], meta_Namespace = [], meta_Generation = 0,
         meta_Annotations = Map.empty, meta_Finalizers = [], meta_DeletionTimestamp = None\<rparr>,
       fv_ListMeta = [], fv_Status = ([], 0, []), fv_Reference = (None, [], [], None), fv_JSON = [],
       fv_Condition = \<lparr>cond_Type = [], cond_Status = ConditionUnknown, cond_ObservedGeneration = 0,
         cond_LastTransitionTime = ZeroTime, cond_Reason = [], cond_Message = []\<rparr>\<rparr>, None),
     f_valid = (\<lambda>h r. valid_pointer StringCell the_string always h (snd r)),
     f_cells = (\<lambda>h r. pointer_cells the_string none h (snd r)),
     f_view = (\<lambda>h r. (fst r)\<lparr>fv_JSON := (case pointer_view the_string itself h (snd r) of
       None \<Rightarrow> [] | Some s \<Rightarrow> s)\<rparr>)\<rparr>"

lemma sample_foreign_laws: "foreign_laws sample_foreign"
proof -
  have "copier (copy_string :: _ \<Rightarrow> ((foreign_view \<times> addr option) cell list, _) state)
      (valid_pointer StringCell the_string always)
      (pointer_cells the_string none) (pointer_view the_string itself)"
    by (intro copier_pointer copier_flat) simp
  from copier_struct [OF this, where f = "f_DeepCopyInto sample_foreign" and get = snd
      and put = "\<lambda>x r. (fst r, x)"
      and read = "\<lambda>r v. (fst r)\<lparr>fv_JSON := (case v of None \<Rightarrow> [] | Some s \<Rightarrow> s)\<rparr>"]
  show ?thesis by (simp add: foreign_laws_def sample_foreign_def)
qed

text \<open>A Kro with one managed resource, and a config with one version.\<close>

definition sample_store :: "(foreign_view \<times> addr option) cell list" where
  "sample_store = (let none = f_zero sample_foreign in
     [StringCell ''oci://registry/kro'',
      StringCell ''{}'',
      ForeignCell (fst none, Some 1),
      VersionArray [\<lparr>vm_Version = ''v1'', vm_ChartVersion = ''1'', vm_ChartURL = Some 0,
        vm_ChartPullSecret = [], vm_HelmValues = Some 2\<rparr>],
      ConfigCell \<lparr>pm_TypeMeta = zero_type_meta, pm_ObjectMeta = none,
        pm_Spec = \<lparr>sm_Versions = Some 3, sm_PollInterval = None\<rparr>, pm_Status = zero_config_status\<rparr>,
      ResourceArray [zero_resource sample_foreign],
      KroCell \<lparr>km_TypeMeta = zero_type_meta, km_ObjectMeta = none, km_Spec = \<lparr>spec_Version = ''v1''\<rparr>,
        km_Status = \<lparr>ksm_Status = none, ksm_Resources = Some 5\<rparr>\<rparr>])"

lemmas sample_store_simps = sample_store_def sample_foreign_def pointer_defs slice_defs
  kro_valid_def kro_status_valid_def config_valid_def config_spec_valid_def config_status_valid_def
  version_valid_def zero_resource_def zero_config_status_def zero_type_meta_def Let_def

theorem Kro_DeepCopyObject_isolated_witness:
  "\<exists>q h'. run_state (Kro_DeepCopyObject sample_foreign (Some 6)) sample_store = (q, h')
    \<and> pointer_view the_kro (kro_view sample_foreign) (mutate [Write 5 (ResourceArray []), Allocate (StringCell [])] h') q
      = pointer_view the_kro (kro_view sample_foreign) sample_store (Some 6)"
proof -
  obtain q h' where run: "run_state (Kro_DeepCopyObject sample_foreign (Some 6)) sample_store = (q, h')"
    by (cases "run_state (Kro_DeepCopyObject sample_foreign (Some 6)) sample_store")
  have "valid_pointer KroCell the_kro (kro_valid sample_foreign) sample_store (Some 6)"
    by (simp add: sample_store_simps)
  moreover have "length sample_store = 7" by (simp add: sample_store_def Let_def)
  then have "written [Write 5 (ResourceArray []), Allocate (StringCell [])]
      \<inter> {length sample_store..<length h'} = {}"
    by simp
  ultimately show ?thesis
    using Kro_DeepCopyObject_isolated [OF sample_foreign_laws _ run] run by blast
qed

theorem ProviderConfig_DeepCopyObject_isolated_witness:
  "\<exists>q h'. run_state (ProviderConfig_DeepCopyObject sample_foreign (Some 4)) sample_store = (q, h')
    \<and> pointer_view the_config (config_view sample_foreign) (mutate [Write 0 (StringCell ''other''), Write 3 (VersionArray [])] h') q
      = pointer_view the_config (config_view sample_foreign) sample_store (Some 4)"
proof -
  obtain q h' where run: "run_state (ProviderConfig_DeepCopyObject sample_foreign (Some 4)) sample_store = (q, h')"
    by (cases "run_state (ProviderConfig_DeepCopyObject sample_foreign (Some 4)) sample_store")
  have "valid_pointer ConfigCell the_config (config_valid sample_foreign) sample_store (Some 4)"
    by (simp add: sample_store_simps)
  moreover have "length sample_store = 7" by (simp add: sample_store_def Let_def)
  then have "written [Write 0 (StringCell ''other''), Write 3 (VersionArray [])]
      \<inter> {length sample_store..<length h'} = {}"
    by simp
  ultimately show ?thesis
    using ProviderConfig_DeepCopyObject_isolated [OF sample_foreign_laws _ run] run by blast
qed

end
