(* ===== verification/Main_Setup.thy ===== *)
theory Main_Setup
  imports System
begin

text \<open>
  \<open>cmd/service-provider-kro/main.go\<close>: the start of the program, from the command line to the
  running manager. Every call that reaches out (flags aside) is an event with its answer; the
  outside is the record \<open>host\<close>. A call of \<open>os.Exit\<close> and the return of \<open>main\<close> are exit codes.
\<close>

section \<open>Schemes\<close>

text \<open>The packages whose types are registered, by their \<open>AddToScheme\<close>.\<close>

datatype api = ClientGo | ApiExtensionsV1 | KrosV1alpha1 | ClustersV1alpha1 | ProviderV1alpha1
  | SourceV1 | HelmV2

text \<open>
  The registration functions of the repository's own package, in the order they get into its
  \<open>SchemeBuilder\<close>: the one it is made with, then those the two type files add in their \<open>init\<close>.
\<close>

datatype registration =
    AddToGroupVersion string string
  | AddKnownTypes string string "string list"

definition SchemeBuilder :: "registration list" where
  "SchemeBuilder = [AddToGroupVersion GroupVersion_Group GroupVersion_Version]
     @ [AddKnownTypes GroupVersion_Group GroupVersion_Version [''Kro'', ''KroList'']]
     @ [AddKnownTypes GroupVersion_Group GroupVersion_Version [''ProviderConfig'', ''ProviderConfigList'']]"

text \<open>
  What a scheme knows: all types of a third-party package, or single types by group, version and
  kind.
\<close>

datatype scheme_entry = TypesOf api | KnownType GroupVersionKind

fun registered :: "registration \<Rightarrow> scheme_entry list" where
  "registered (AddToGroupVersion g v) = []"
| "registered (AddKnownTypes g v kinds) =
     map (\<lambda>kind. KnownType \<lparr>gvk_Group = g, gvk_Version = v, gvk_Kind = kind\<rparr>) kinds"

text \<open>
  \<open>utilruntime.Must(p.AddToScheme(scheme))\<close> for one package after the other. None of the functions
  of \<open>SchemeBuilder\<close> returns an error, so the own package is always registered; a third-party
  package may fail.
\<close>

fun must_add :: "(api \<Rightarrow> goerror option) \<Rightarrow> api list \<Rightarrow> scheme_entry list \<Rightarrow> scheme_entry list outcome" where
  "must_add AddToScheme [] scheme = Returned scheme"
| "must_add AddToScheme (p # ps) scheme =
     (if p = KrosV1alpha1 then must_add AddToScheme ps (scheme @ concat (map registered SchemeBuilder))
      else case AddToScheme p of
        Some err \<Rightarrow> Panicked
      | None \<Rightarrow> must_add AddToScheme ps (scheme @ [TypesOf p]))"

definition initPlatformScheme :: "(api \<Rightarrow> goerror option) \<Rightarrow> scheme_entry list outcome" where
  "initPlatformScheme add = must_add add
     [ClientGo, ApiExtensionsV1, KrosV1alpha1, ClustersV1alpha1, ProviderV1alpha1, SourceV1, HelmV2] []"

definition initOnboardingScheme :: "(api \<Rightarrow> goerror option) \<Rightarrow> scheme_entry list outcome" where
  "initOnboardingScheme add = must_add add [ClientGo, ApiExtensionsV1, KrosV1alpha1] []"

definition initMcpScheme :: "(api \<Rightarrow> goerror option) \<Rightarrow> scheme_entry list outcome" where
  "initMcpScheme add = must_add add [ClientGo, ApiExtensionsV1, SourceV1, HelmV2] []"

definition initWorkloadScheme :: "(api \<Rightarrow> goerror option) \<Rightarrow> scheme_entry list outcome" where
  "initWorkloadScheme add = must_add add [ClientGo] []"

record schemes =
  platformScheme :: "scheme_entry list"
  onboardingScheme :: "scheme_entry list"
  mcpScheme :: "scheme_entry list"
  workloadScheme :: "scheme_entry list"

text \<open>The package's \<open>init\<close>.\<close>

definition init_schemes :: "(api \<Rightarrow> goerror option) \<Rightarrow> schemes outcome" where
  "init_schemes add = (case initPlatformScheme add of Panicked \<Rightarrow> Panicked | Returned p \<Rightarrow>
     (case initOnboardingScheme add of Panicked \<Rightarrow> Panicked | Returned onb \<Rightarrow>
     (case initMcpScheme add of Panicked \<Rightarrow> Panicked | Returned m \<Rightarrow>
     (case initWorkloadScheme add of Panicked \<Rightarrow> Panicked | Returned w \<Rightarrow>
        Returned \<lparr>platformScheme = p, onboardingScheme = onb, mcpScheme = m, workloadScheme = w\<rparr>))))"

section \<open>The command line\<close>

record options =
  opt_environment :: string
  opt_providerName :: string
  opt_metricsAddr :: string
  opt_probeAddr :: string
  opt_enableLeaderElection :: bool
  opt_secureMetrics :: bool
  opt_webhookCertPath :: string
  opt_webhookCertName :: string
  opt_webhookCertKey :: string
  opt_metricsCertPath :: string
  opt_metricsCertName :: string
  opt_metricsCertKey :: string
  opt_enableHTTP2 :: bool

definition flag_defaults :: options where
  "flag_defaults = \<lparr>opt_environment = '''', opt_providerName = '''', opt_metricsAddr = ''0'',
     opt_probeAddr = '':8081'', opt_enableLeaderElection = False, opt_secureMetrics = True,
     opt_webhookCertPath = '''', opt_webhookCertName = ''tls.crt'', opt_webhookCertKey = ''tls.key'',
     opt_metricsCertPath = '''', opt_metricsCertName = ''tls.crt'', opt_metricsCertKey = ''tls.key'',
     opt_enableHTTP2 = False\<rparr>"

text \<open>The command is the first argument, whatever it is; the flags are parsed from the rest.\<close>

definition extract_command :: "string list \<Rightarrow> string \<times> string list" where
  "extract_command args =
     (if length args > 1 then (args ! 1, [args ! 0] @ drop 2 args) else ('''', args))"

section \<open>Server options\<close>

record tls_Config =
  NextProtos :: "string list"

definition disableHTTP2 :: "tls_Config \<Rightarrow> tls_Config" where
  "disableHTTP2 c = c\<lparr>NextProtos := [''http/1.1'']\<rparr>"

definition tlsOpts :: "options \<Rightarrow> (tls_Config \<Rightarrow> tls_Config) list" where
  "tlsOpts opts = (if \<not> opt_enableHTTP2 opts then [] @ [disableHTTP2] else [])"

record server_Options =
  srv_TLSOpts :: "(tls_Config \<Rightarrow> tls_Config) list"
  srv_CertDir :: string
  srv_CertName :: string
  srv_KeyName :: string

datatype filter_provider = WithAuthenticationAndAuthorization

record metrics_Options = server_Options +
  srv_BindAddress :: string
  srv_SecureServing :: bool
  srv_FilterProvider :: "filter_provider option"

definition webhookServerOptions :: "options \<Rightarrow> server_Options" where
  "webhookServerOptions opts =
     (let webhookServerOptions = \<lparr>srv_TLSOpts = tlsOpts opts, srv_CertDir = '''', srv_CertName = '''',
            srv_KeyName = ''''\<rparr>
      in if length (opt_webhookCertPath opts) > 0
         then webhookServerOptions\<lparr>srv_CertDir := opt_webhookCertPath opts,
           srv_CertName := opt_webhookCertName opts, srv_KeyName := opt_webhookCertKey opts\<rparr>
         else webhookServerOptions)"

definition metricsServerOptions :: "options \<Rightarrow> metrics_Options" where
  "metricsServerOptions opts =
     (let metricsServerOptions = \<lparr>srv_TLSOpts = tlsOpts opts, srv_CertDir = '''', srv_CertName = '''',
            srv_KeyName = '''', srv_BindAddress = opt_metricsAddr opts,
            srv_SecureServing = opt_secureMetrics opts, srv_FilterProvider = None\<rparr>;
          metricsServerOptions = (if opt_secureMetrics opts
            then metricsServerOptions\<lparr>srv_FilterProvider := Some WithAuthenticationAndAuthorization\<rparr>
            else metricsServerOptions)
      in if length (opt_metricsCertPath opts) > 0
         then metricsServerOptions\<lparr>srv_CertDir := opt_metricsCertPath opts,
           srv_CertName := opt_metricsCertName opts, srv_KeyName := opt_metricsCertKey opts\<rparr>
         else metricsServerOptions)"

record manager_Options =
  mgr_Scheme :: "scheme_entry list"
  mgr_Metrics :: metrics_Options
  mgr_WebhookServer :: server_Options
  mgr_HealthProbeBindAddress :: string
  mgr_LeaderElection :: bool
  mgr_LeaderElectionID :: string

definition manager_options :: "schemes \<Rightarrow> options \<Rightarrow> manager_Options" where
  "manager_options sch opts = \<lparr>mgr_Scheme = onboardingScheme sch, mgr_Metrics = metricsServerOptions opts,
     mgr_WebhookServer = webhookServerOptions opts, mgr_HealthProbeBindAddress = opt_probeAddr opts,
     mgr_LeaderElection = opt_enableLeaderElection opts,
     mgr_LeaderElectionID = ''services.open-control-plane.io.kro''\<rparr>"

section \<open>Cluster access\<close>

record PolicyRule =
  APIGroups :: "string list"
  Resources :: "string list"
  Verbs :: "string list"

record PermissionsRequest =
  Rules :: "PolicyRule list"

definition adminPermissions :: "PermissionsRequest list" where
  "adminPermissions =
     [\<lparr>Rules = [\<lparr>APIGroups = [''*''], Resources = [''*''], Verbs = [''*'']\<rparr>]\<rparr>]"

record RoleRef =
  role_Name :: string
  role_Kind :: string

text \<open>The settings of the two third-party access helpers, as the builder calls give them.\<close>

record ClusterAccessManager =
  cam_ControllerName :: string
  cam_ControllerNamespace :: string
  cam_Interval :: Duration
  cam_Timeout :: Duration

record ClusterAccessSettings =
  cas_ControllerName :: string
  cas_MCPScheme :: "scheme_entry list"
  cas_WorkloadScheme :: "scheme_entry list"
  cas_RetryInterval :: Duration
  cas_MCPPermissions :: "PermissionsRequest list"
  cas_MCPRoleRefs :: "RoleRef list"
  cas_WorkloadPermissions :: "PermissionsRequest list"
  cas_WorkloadRoleRefs :: "RoleRef list"

definition access_settings :: "schemes \<Rightarrow> ClusterAccessSettings" where
  "access_settings sch = \<lparr>
     cas_ControllerName = GroupVersion_Group,
     cas_MCPScheme = mcpScheme sch,
     cas_WorkloadScheme = workloadScheme sch,
     cas_RetryInterval = 10 * time_Second,
     cas_MCPPermissions = adminPermissions,
     cas_MCPRoleRefs = [\<lparr>role_Name = ''cluster-admin'', role_Kind = ''ClusterRole''\<rparr>],
     cas_WorkloadPermissions = adminPermissions,
     cas_WorkloadRoleRefs = [\<lparr>role_Name = ''cluster-admin'', role_Kind = ''ClusterRole''\<rparr>]\<rparr>"

section \<open>Calls of the start-up\<close>

datatype rest_Config = RestConfig string

datatype setup_event =
    GetLogger "goerror option"
  | GetConfigOrDie bool
  | InitializeClient "scheme_entry list" "goerror option"
  | CreateAndWaitForCluster ClusterAccessManager string string "scheme_entry list" "PermissionsRequest list"
      "Cluster option \<times> goerror option"
  | CreateOrUpdateCRDs string "(string \<times> Cluster option) list" "goerror option outcome"
  | RegisterGVKs string GroupVersionKind "goerror option"
  | NewManager rest_Config manager_Options "goerror option"
  | AddCluster Cluster "goerror option"
  | BuildSPController string SPReconciler "watch list" "goerror option"
  | BuildPCController PCReconciler "goerror option"
  | AddHealthzCheck string "goerror option"
  | AddReadyzCheck string "goerror option"
  | StartManager "goerror option"

record host =
  parse_flags :: "options \<Rightarrow> string list \<Rightarrow> nat + options"
  Getenv :: "string \<Rightarrow> string"
  EnvVariablePodNamespace :: string
  ClusterLabel :: string
  PURPOSE_PLATFORM :: string
  PURPOSE_ONBOARDING :: string
  AddToScheme :: "api \<Rightarrow> goerror option"
  clusters_New :: "string \<Rightarrow> Cluster"
  RESTConfig :: "Cluster option \<Rightarrow> rest_Config outcome"
  NewClusterAccessReconciler :: "ClusterAccessSettings \<Rightarrow> ClusterAccessProvider"
  running_env :: env
  on_logger :: "setup_event list \<Rightarrow> goerror option"
  on_config :: "setup_event list \<Rightarrow> bool"
  on_init_client :: "setup_event list \<Rightarrow> scheme_entry list \<Rightarrow> goerror option"
  on_create_cluster :: "setup_event list \<Rightarrow> string \<Rightarrow> Cluster option \<times> goerror option"
  on_crds :: "setup_event list \<Rightarrow> (string \<times> Cluster option) list \<Rightarrow> goerror option outcome"
  on_register :: "setup_event list \<Rightarrow> string \<Rightarrow> GroupVersionKind \<Rightarrow> goerror option"
  on_new_manager :: "setup_event list \<Rightarrow> rest_Config \<Rightarrow> goerror option"
  on_setup_step :: "setup_event list \<Rightarrow> goerror option"

text \<open>How the process ends: an exit code, or a panic.\<close>

datatype exit = ExitCode nat | Crash

definition ask :: "(setup_event list \<Rightarrow> 'r) \<Rightarrow> ('r \<Rightarrow> setup_event) \<Rightarrow> (setup_event list, 'r) state" where
  "ask answer ev = do {
     h \<leftarrow> State_Monad.get;
     _ \<leftarrow> State_Monad.set (h @ [ev (answer h)]);
     State_Monad.return (answer h) }"

lemma run_ask [simp]: "run_state (ask answer ev) h = (answer h, h @ [ev (answer h)])"
  by (simp add: ask_def)

text \<open>\<open>if err := step; err != nil { log; os.Exit(1) }\<close>, then the rest.\<close>

definition or_exit :: "(setup_event list, goerror option) state \<Rightarrow> (setup_event list, exit) state
    \<Rightarrow> (setup_event list, exit) state" where
  "or_exit step rest = do {
     failed \<leftarrow> step;
     case failed of Some err \<Rightarrow> State_Monad.return (ExitCode 1) | None \<Rightarrow> rest }"

lemma run_or_exit [simp]:
  "run_state (or_exit (ask answer ev) rest) h = (case answer h of
     Some err \<Rightarrow> (ExitCode 1, h @ [ev (Some err)])
   | None \<Rightarrow> run_state rest (h @ [ev None]))"
  by (simp add: or_exit_def split: option.split)

section \<open>main\<close>

text \<open>\<open>GetConfigOrDie\<close> ends the process if there is no config.\<close>

definition initializePlatformCluster :: "host \<Rightarrow> schemes \<Rightarrow> (setup_event list, exit + goerror option) state" where
  "initializePlatformCluster S sch = do {
     found \<leftarrow> ask (on_config S) GetConfigOrDie;
     if \<not> found then State_Monad.return (Inl (ExitCode 1))
     else do {
       err \<leftarrow> ask (\<lambda>h. on_init_client S h (platformScheme sch)) (InitializeClient (platformScheme sch));
       State_Monad.return (Inr err) } }"

definition platform_cluster :: "host \<Rightarrow> Cluster" where
  "platform_cluster S = clusters_New S ''platform''"

definition clusterAccessManager :: "host \<Rightarrow> ClusterAccessManager" where
  "clusterAccessManager S = \<lparr>cam_ControllerName = ClusterAccessName,
     cam_ControllerNamespace = Getenv S ''POD_NAMESPACE'',
     cam_Interval = 10 * time_Second, cam_Timeout = 30 * time_Minute\<rparr>"

definition create_onboarding :: "host \<Rightarrow> schemes \<Rightarrow> string \<Rightarrow> (setup_event list, Cluster option \<times> goerror option) state" where
  "create_onboarding S sch localName = ask (\<lambda>h. on_create_cluster S h localName)
     (CreateAndWaitForCluster (clusterAccessManager S) localName (PURPOSE_ONBOARDING S)
       (onboardingScheme sch) adminPermissions)"

definition spGVK :: GroupVersionKind where
  "spGVK = \<lparr>gvk_Group = GroupVersion_Group, gvk_Version = GroupVersion_Version, gvk_Kind = ''Kro''\<rparr>"

text \<open>The init job, lines 255 to 283: errors are logged only.\<close>

definition init_command :: "host \<Rightarrow> schemes \<Rightarrow> options \<Rightarrow> (setup_event list, exit) state" where
  "init_command S sch opts = do {
     got \<leftarrow> create_onboarding S sch ''onboarding-init'';
     let mapping = [(PURPOSE_PLATFORM S, Some (platform_cluster S)), (PURPOSE_ONBOARDING S, fst got)];
     crds \<leftarrow> ask (\<lambda>h. on_crds S h mapping) (CreateOrUpdateCRDs (ClusterLabel S) mapping);
     case crds of
       Panicked \<Rightarrow> State_Monad.return Crash
     | Returned failed \<Rightarrow> do {
         err \<leftarrow> ask (\<lambda>h. on_register S h (opt_providerName opts) spGVK)
                 (RegisterGVKs (opt_providerName opts) spGVK);
         case err of
           Some e \<Rightarrow> State_Monad.return (ExitCode 0)
         | None \<Rightarrow> State_Monad.return (ExitCode 0) } }"

text \<open>The controller, lines 284 to 375.\<close>

definition run_command :: "host \<Rightarrow> schemes \<Rightarrow> options \<Rightarrow> string \<Rightarrow> (setup_event list, exit) state" where
  "run_command S sch opts podNamespace = do {
     got \<leftarrow> create_onboarding S sch ''onboarding-run'';
     let onboardingCluster = fst got;
     case RESTConfig S onboardingCluster of
       Panicked \<Rightarrow> State_Monad.return Crash
     | Returned config \<Rightarrow>
         or_exit (ask (\<lambda>h. on_new_manager S h config) (NewManager config (manager_options sch opts)))
        (or_exit (ask (on_setup_step S) (AddCluster (platform_cluster S)))
        (let spr = main_reconciler (running_env S) (Some (platform_cluster S)) onboardingCluster
               (NewClusterAccessReconciler S (access_settings sch)) podNamespace;
             pcr = main_pcr (Some (platform_cluster S)) (opt_providerName opts)
         in
         or_exit (ask (on_setup_step S) (BuildSPController ''kro'' spr (SetupWithManager spr)))
        (or_exit (ask (on_setup_step S) (BuildPCController pcr))
        (or_exit (ask (on_setup_step S) (AddHealthzCheck ''healthz''))
        (or_exit (ask (on_setup_step S) (AddReadyzCheck ''readyz''))
        (or_exit (ask (on_setup_step S) StartManager)
           (State_Monad.return (ExitCode 0)))))))) }"

definition main :: "host \<Rightarrow> string list \<Rightarrow> (setup_event list, exit) state" where
  "main S args = (case init_schemes (AddToScheme S) of
     Panicked \<Rightarrow> State_Monad.return Crash
   | Returned sch \<Rightarrow>
     (case extract_command args of (command, args) \<Rightarrow>
     (case parse_flags S flag_defaults (drop 1 args) of
        Inl code \<Rightarrow> State_Monad.return (ExitCode code)
      | Inr opts \<Rightarrow>
          or_exit (ask (on_logger S) GetLogger) (do {
            init \<leftarrow> initializePlatformCluster S sch;
            case init of
              Inl code \<Rightarrow> State_Monad.return code
            | Inr (Some err) \<Rightarrow> State_Monad.return (ExitCode 1)
            | Inr None \<Rightarrow>
                (let podNamespace = Getenv S (EnvVariablePodNamespace S) in
                 if podNamespace = '''' then State_Monad.return (ExitCode 1)
                 else if command = ''init'' then init_command S sch opts
                 else run_command S sch opts podNamespace) }))))"

section \<open>How the start-up runs\<close>

text \<open>The calls before the command is looked at, when all is well.\<close>

definition boot_events :: "schemes \<Rightarrow> setup_event list" where
  "boot_events sch = [GetLogger None, GetConfigOrDie True, InitializeClient (platformScheme sch) None]"

definition onboarding_event :: "host \<Rightarrow> schemes \<Rightarrow> string \<Rightarrow> Cluster option \<times> goerror option \<Rightarrow> setup_event" where
  "onboarding_event S sch localName = CreateAndWaitForCluster (clusterAccessManager S) localName
     (PURPOSE_ONBOARDING S) (onboardingScheme sch) adminPermissions"

fun boot_event :: "setup_event \<Rightarrow> bool" where
  "boot_event (GetLogger e) = True"
| "boot_event (GetConfigOrDie b) = True"
| "boot_event (InitializeClient sch e) = True"
| "boot_event e = False"

text \<open>A run of \<open>main\<close> ends before the command or hands over to one of the two commands.\<close>

lemma main_cases [consumes 1, case_names early init_job controller]:
  assumes "run_state (main S args) [] = (code, h)"
  obtains
    "list_all boot_event h"
    "(\<exists>opts. parse_flags S flag_defaults (drop 1 (snd (extract_command args))) = Inr opts) \<Longrightarrow> code \<noteq> ExitCode 0"
  | sch opts where "init_schemes (AddToScheme S) = Returned sch"
    "parse_flags S flag_defaults (drop 1 (snd (extract_command args))) = Inr opts"
    "Getenv S (EnvVariablePodNamespace S) \<noteq> ''''" "fst (extract_command args) = ''init''"
    "run_state (init_command S sch opts) (boot_events sch) = (code, h)"
  | sch opts where "init_schemes (AddToScheme S) = Returned sch"
    "parse_flags S flag_defaults (drop 1 (snd (extract_command args))) = Inr opts"
    "Getenv S (EnvVariablePodNamespace S) \<noteq> ''''" "fst (extract_command args) \<noteq> ''init''"
    "run_state (run_command S sch opts (Getenv S (EnvVariablePodNamespace S))) (boot_events sch) = (code, h)"
  using assms
  by (auto simp: main_def initializePlatformCluster_def boot_events_def Let_def
      split: outcome.splits prod.splits sum.splits option.splits if_splits)

lemma init_command_run:
  assumes "run_state (init_command S sch opts) h = (code, h')"
  obtains (crashed) got where
    "h' = h @ [onboarding_event S sch ''onboarding-init'' got,
       CreateOrUpdateCRDs (ClusterLabel S) [(PURPOSE_PLATFORM S, Some (platform_cluster S)),
         (PURPOSE_ONBOARDING S, fst got)] Panicked]" "code = Crash"
  | (finished) got failed err where
    "h' = h @ [onboarding_event S sch ''onboarding-init'' got,
       CreateOrUpdateCRDs (ClusterLabel S) [(PURPOSE_PLATFORM S, Some (platform_cluster S)),
         (PURPOSE_ONBOARDING S, fst got)] (Returned failed),
       RegisterGVKs (opt_providerName opts) spGVK err]" "code = ExitCode 0"
proof -
  define got where "got = on_create_cluster S h ''onboarding-init''"
  define before where "before crds = h @ [onboarding_event S sch ''onboarding-init'' got,
     CreateOrUpdateCRDs (ClusterLabel S) [(PURPOSE_PLATFORM S, Some (platform_cluster S)),
       (PURPOSE_ONBOARDING S, fst got)] crds]" for crds
  from assms have "h' = before Panicked \<and> code = Crash \<or>
      (\<exists>failed err. h' = before (Returned failed) @ [RegisterGVKs (opt_providerName opts) spGVK err]
        \<and> code = ExitCode 0)"
    by (auto simp: init_command_def create_onboarding_def onboarding_event_def Let_def before_def got_def
        split: outcome.splits option.splits)
  then show thesis using crashed [of got] finished [of got] by (auto simp: before_def)
qed

text \<open>The calls of the controller command up to the start.\<close>

definition start_events :: "host \<Rightarrow> schemes \<Rightarrow> options \<Rightarrow> string \<Rightarrow> Cluster option \<times> goerror option
    \<Rightarrow> rest_Config \<Rightarrow> setup_event list" where
  "start_events S sch opts ns got config =
     (let spr = reconciler (start (running_env S) (Some (platform_cluster S)) (fst got)
            (NewClusterAccessReconciler S (access_settings sch)) ns)
      in [onboarding_event S sch ''onboarding-run'' got,
          NewManager config (manager_options sch opts) None,
          AddCluster (platform_cluster S) None,
          BuildSPController ''kro'' spr [ForObject, ConfigChannel] None,
          BuildPCController (main_pcr (Some (platform_cluster S)) (opt_providerName opts)) None,
          AddHealthzCheck ''healthz'' None,
          AddReadyzCheck ''readyz'' None])"

lemma main_reconciler_watches [simp]:
  "SetupWithManager (main_reconciler E pl onb car ns) = [ForObject, ConfigChannel]"
  by (simp add: SetupWithManager_def secret_watcher_def kro_domain_def)

text \<open>A chain of guarded steps goes through to its end, or stops at the first that fails.\<close>

lemma or_exit_chain:
  assumes "run_state (foldr (\<lambda>(q, ev). or_exit (ask q ev)) steps (State_Monad.return (ExitCode 0))) h = (code, h')"
  obtains (through) "h' = h @ map (\<lambda>(q, ev). ev None) steps" "code = ExitCode 0"
  | (stopped) before q ev after err where "steps = before @ (q, ev) # after"
    "h' = h @ map (\<lambda>(q, ev). ev None) before @ [ev (Some err)]" "code = ExitCode 1"
  using assms
proof (induction steps arbitrary: h thesis)
  case Nil
  from Nil.prems(3) show ?case by (intro Nil.prems(1)) simp_all
next
  case (Cons step steps)
  obtain q ev where step: "step = (q, ev)" by (cases step)
  show ?case
  proof (cases "q h")
    case (Some err)
    with Cons.prems(3) step show ?thesis by (intro Cons.prems(2) [of "[]" q ev steps err]) simp_all
  next
    case None
    then have run: "run_state (foldr (\<lambda>(q, ev). or_exit (ask q ev)) steps (State_Monad.return (ExitCode 0)))
        (h @ [ev None]) = (code, h')"
      using Cons.prems(3) step by simp
    show ?thesis
    proof (rule Cons.IH [OF _ _ run])
      show ?thesis if "h' = (h @ [ev None]) @ map (\<lambda>(q, ev). ev None) steps" "code = ExitCode 0"
        using that step by (intro Cons.prems(1)) simp_all
      show ?thesis if "steps = before @ (p, e) # after" "code = ExitCode 1"
        "h' = (h @ [ev None]) @ map (\<lambda>(q, ev). ev None) before @ [e (Some err)]" for before p e after err
        using that step by (intro Cons.prems(2) [of "step # before" p e after err]) simp_all
    qed
  qed
qed

lemma run_command_run:
  assumes "run_state (run_command S sch opts ns) h = (code, h')"
  obtains (stopped) "code \<noteq> ExitCode 0" "\<And>e. StartManager e \<notin> set h \<Longrightarrow> StartManager e \<notin> set h'"
  | (started) got config e where "RESTConfig S (fst got) = Returned config"
    "h' = h @ start_events S sch opts ns got config @ [StartManager e]"
    "code = (case e of None \<Rightarrow> ExitCode 0 | Some err \<Rightarrow> ExitCode 1)"
proof -
  define got h1 spr where "got = on_create_cluster S h ''onboarding-run''"
    and "h1 = h @ [onboarding_event S sch ''onboarding-run'' got]"
    and "spr = reconciler (start (running_env S) (Some (platform_cluster S)) (fst got)
      (NewClusterAccessReconciler S (access_settings sch)) ns)"
  show thesis
  proof (cases "RESTConfig S (fst got)")
    case Panicked
    with assms have "code = Crash" "h' = h1"
      by (simp_all add: run_command_def create_onboarding_def onboarding_event_def got_def h1_def Let_def)
    then show thesis using stopped by (simp add: h1_def onboarding_event_def)
  next
    case (Returned config)
    define steps where "steps = [(\<lambda>h. on_new_manager S h config, NewManager config (manager_options sch opts)),
      (on_setup_step S, AddCluster (platform_cluster S)),
      (on_setup_step S, BuildSPController ''kro'' spr [ForObject, ConfigChannel]),
      (on_setup_step S, BuildPCController (main_pcr (Some (platform_cluster S)) (opt_providerName opts))),
      (on_setup_step S, AddHealthzCheck ''healthz''), (on_setup_step S, AddReadyzCheck ''readyz'')]"
    have chain: "run_state (foldr (\<lambda>(q, ev). or_exit (ask q ev)) (steps @ [(on_setup_step S, StartManager)])
        (State_Monad.return (ExitCode 0))) h1 = (code, h')"
      using assms Returned
      by (simp add: run_command_def create_onboarding_def onboarding_event_def got_def h1_def Let_def
          steps_def spr_def start_def del: run_or_exit)
    have events: "[onboarding_event S sch ''onboarding-run'' got] @ map (\<lambda>(q, ev). ev None) steps
        = start_events S sch opts ns got config"
      by (simp add: start_events_def steps_def spr_def Let_def)
    have quiet: "StartManager e \<notin> set h1 \<union> set (map (\<lambda>(q, ev). ev None) steps)
        \<and> (\<forall>(q, ev) \<in> set steps. ev (Some err) \<noteq> StartManager e)"
      if "StartManager e \<notin> set h" for e err
      using that by (simp add: h1_def onboarding_event_def steps_def)
    from chain show thesis
    proof (cases rule: or_exit_chain)
      case through
      then have "h' = h @ start_events S sch opts ns got config @ [StartManager None]"
        using events by (simp add: h1_def)
      with through Returned show thesis by (intro started [of got config None]) simp_all
    next
      case (stopped before q ev after err)
      show thesis
      proof (cases after rule: rev_cases)
        case Nil
        then have "before = steps" "ev = StartManager" using stopped(1) by simp_all
        then have "h' = h @ start_events S sch opts ns got config @ [StartManager (Some err)]"
          using stopped(2) events by (simp add: h1_def)
        with stopped(3) Returned show thesis by (intro started [of got config "Some err"]) simp_all
      next
        case (snoc after' x)
        then have split: "steps = before @ (q, ev) # after'" using stopped(1) by simp
        have "StartManager e \<notin> set h'" if "StartManager e \<notin> set h" for e
          using quiet [OF that, of err] stopped(2) split by auto
        with stopped(3) show thesis by (intro that(1)) simp_all
      qed
    qed
  qed
qed

section \<open>Object types and schemes\<close>

text \<open>
  The cluster client a call goes through and the entry its object's type needs. The list of the
  Kro objects is read under the registered kind, that of the resource graph definitions is
  unstructured and needs none; the access calls belong to a third-party client.
\<close>

datatype client = PlatformClient | OnboardingClient | WorkloadClient

fun managed_type :: "managed_object \<Rightarrow> scheme_entry" where
  "managed_type (OCIRepositoryObject k) = TypesOf SourceV1"
| "managed_type (HelmReleaseObject k) = TypesOf HelmV2"

definition own_type :: "string \<Rightarrow> scheme_entry" where
  "own_type kind = KnownType \<lparr>gvk_Group = GroupVersion_Group, gvk_Version = GroupVersion_Version, gvk_Kind = kind\<rparr>"

fun object_type :: "event \<Rightarrow> (client \<times> scheme_entry) option" where
  "object_type (PlatformGetSecret k a) = Some (PlatformClient, TypesOf ClientGo)"
| "object_type (PlatformUpsertSecret k x a) = Some (PlatformClient, TypesOf ClientGo)"
| "object_type (PlatformUpsertOCIRepository k x a) = Some (PlatformClient, TypesOf SourceV1)"
| "object_type (PlatformUpsertHelmRelease k x a) = Some (PlatformClient, TypesOf HelmV2)"
| "object_type (PlatformGetAccessRequest k a) = Some (PlatformClient, TypesOf ClustersV1alpha1)"
| "object_type (PlatformDelete m a) = Some (PlatformClient, managed_type m)"
| "object_type (PlatformGet m a) = Some (PlatformClient, managed_type m)"
| "object_type (PlatformGetProviderConfig k a) = Some (PlatformClient, own_type ''ProviderConfig'')"
| "object_type (WorkloadEnsureNamespace c x a) = Some (WorkloadClient, TypesOf ClientGo)"
| "object_type (WorkloadUpsertSecret c k x a) = Some (WorkloadClient, TypesOf ClientGo)"
| "object_type (OnboardingGet k a) = Some (OnboardingClient, own_type ''Kro'')"
| "object_type (OnboardingPatch x y a) = Some (OnboardingClient, own_type ''Kro'')"
| "object_type (OnboardingCreateOrUpdate x a) = Some (OnboardingClient, own_type ''Kro'')"
| "object_type (OnboardingUpdate x a) = Some (OnboardingClient, own_type ''Kro'')"
| "object_type (OnboardingStatusPatch x y a) = Some (OnboardingClient, own_type ''Kro'')"
| "object_type (OnboardingList g a) = Some (OnboardingClient, own_type ''Kro'')"
| "object_type _ = None"

fun client_scheme :: "schemes \<Rightarrow> client \<Rightarrow> scheme_entry list" where
  "client_scheme sch PlatformClient = platformScheme sch"
| "client_scheme sch OnboardingClient = onboardingScheme sch"
| "client_scheme sch WorkloadClient = workloadScheme sch"

definition well_typed :: "schemes \<Rightarrow> event \<Rightarrow> bool" where
  "well_typed sch e = (case object_type e of None \<Rightarrow> True | Some (c, p) \<Rightarrow> p \<in> set (client_scheme sch c))"

definition package_entries :: "api \<Rightarrow> scheme_entry list" where
  "package_entries p = (if p = KrosV1alpha1
     then map own_type [''Kro'', ''KroList'', ''ProviderConfig'', ''ProviderConfigList''] else [TypesOf p])"

lemma must_add_all: "must_add add ps scheme = Returned sch \<Longrightarrow> sch = scheme @ concat (map package_entries ps)"
proof (induction ps arbitrary: scheme)
  case (Cons p ps)
  have own: "concat (map registered SchemeBuilder) = package_entries KrosV1alpha1"
    by (simp add: SchemeBuilder_def package_entries_def own_type_def)
  show ?case
    using Cons.prems Cons.IH [of "scheme @ package_entries p"]
    by (auto simp: own package_entries_def split: option.splits if_splits)
qed simp

lemma init_schemes_run:
  assumes "init_schemes add = Returned sch"
  shows "platformScheme sch = concat (map package_entries
      [ClientGo, ApiExtensionsV1, KrosV1alpha1, ClustersV1alpha1, ProviderV1alpha1, SourceV1, HelmV2])"
    "onboardingScheme sch = concat (map package_entries [ClientGo, ApiExtensionsV1, KrosV1alpha1])"
    "workloadScheme sch = concat (map package_entries [ClientGo])"
  using assms
  by (auto simp: init_schemes_def initPlatformScheme_def initOnboardingScheme_def initMcpScheme_def
      initWorkloadScheme_def simp del: must_add.simps split: outcome.splits dest!: must_add_all)

section \<open>Properties\<close>


text \<open>
  C25. The exit code of the controller command tells the truth: it is zero exactly if the manager
  was started and ended without an error. Every failing step before ends the process with
  another code (or a panic).
\<close>
theorem main_exit_code:
  assumes run: "run_state (main S args) [] = (code, h)"
    and flags: "parse_flags S flag_defaults (drop 1 (snd (extract_command args))) = Inr opts"
    and command: "fst (extract_command args) \<noteq> ''init''"
  shows "code = ExitCode 0 \<longleftrightarrow> StartManager None \<in> set h"
  using run
proof (cases rule: main_cases)
  case early
  with flags show ?thesis by (auto simp: list_all_iff)
next
  case (controller sch opts)
  from controller(5) show ?thesis
    by (cases rule: run_command_run)
      (auto simp: boot_events_def start_events_def onboarding_event_def Let_def split: option.splits)
qed (use command in simp)

text \<open>
  C36. The init job never runs the controller, and its exit code says little: with code zero it
  has asked for the onboarding cluster, for the CRDs on the two clusters and for the registration
  of the API, in this order and nothing else, but each of the three may have failed.
\<close>
theorem init_job_calls:
  assumes run: "run_state (main S args) [] = (ExitCode 0, h)"
    and flags: "parse_flags S flag_defaults (drop 1 (snd (extract_command args))) = Inr opts"
    and command: "fst (extract_command args) = ''init''"
  shows "\<exists>sch got failed err. init_schemes (AddToScheme S) = Returned sch
    \<and> h = boot_events sch @ [onboarding_event S sch ''onboarding-init'' got,
        CreateOrUpdateCRDs (ClusterLabel S) [(PURPOSE_PLATFORM S, Some (platform_cluster S)),
          (PURPOSE_ONBOARDING S, fst got)] (Returned failed),
        RegisterGVKs (opt_providerName opts) spGVK err]"
  using run
proof (cases rule: main_cases)
  case early
  with flags show ?thesis by simp
next
  case (init_job sch opts')
  with flags have "opts' = opts" by simp
  with init_job(1,5) show ?thesis by (elim init_command_run) auto
qed (use command in simp)

text \<open>
  C37. HTTP/2 is off unless asked for: without the flag (as by default) the TLS options of the
  webhook server and of the metrics server leave HTTP/1.1 as the only protocol of any
  configuration, with it they change nothing. Metrics are behind authentication and
  authorization exactly if they are served securely.
\<close>
theorem servers_hardened:
  "let final = (\<lambda>srv c. fold (\<lambda>f. f) (srv_TLSOpts srv) c);
       expected = (\<lambda>c. if opt_enableHTTP2 opts then c else c\<lparr>NextProtos := [''http/1.1'']\<rparr>)
   in final (webhookServerOptions opts) c = expected c
    \<and> fold (\<lambda>f. f) (srv_TLSOpts (metricsServerOptions opts)) c = expected c
    \<and> (srv_FilterProvider (metricsServerOptions opts) = Some WithAuthenticationAndAuthorization
        \<longleftrightarrow> srv_SecureServing (metricsServerOptions opts))
    \<and> \<not> opt_enableHTTP2 flag_defaults \<and> srv_SecureServing (metricsServerOptions flag_defaults)"
  by (simp add: webhookServerOptions_def metricsServerOptions_def tlsOpts_def disableHTTP2_def
      flag_defaults_def Let_def)


section \<open>A concrete host\<close>

definition sample_host :: host where
  "sample_host = \<lparr>
     parse_flags = (\<lambda>defaults args. Inr (defaults\<lparr>opt_providerName := ''kro''\<rparr>)),
     Getenv = (\<lambda>v. ''kro-pod''),
     EnvVariablePodNamespace = ''POD_NAMESPACE'', ClusterLabel = ''cluster'',
     PURPOSE_PLATFORM = ''platform'', PURPOSE_ONBOARDING = ''onboarding'',
     AddToScheme = (\<lambda>p. None), clusters_New = Cluster,
     RESTConfig = (\<lambda>c. case c of None \<Rightarrow> Panicked | Some c \<Rightarrow> Returned (RestConfig ''config'')),
     NewClusterAccessReconciler = (\<lambda>s. ClusterAccessProvider ''access''),
     running_env = sample_env,
     on_logger = (\<lambda>h. None), on_config = (\<lambda>h. True), on_init_client = (\<lambda>h sch. None),
     on_create_cluster = (\<lambda>h n. (Some (Cluster ''onboarding''), None)),
     on_crds = (\<lambda>h m. Returned None), on_register = (\<lambda>h p g. Some (ErrorString ''forbidden'')),
     on_new_manager = (\<lambda>h c. None), on_setup_step = (\<lambda>h. None)\<rparr>"

lemmas sample_start_up = main_def init_schemes_def initPlatformScheme_def initOnboardingScheme_def
  initMcpScheme_def initWorkloadScheme_def extract_command_def initializePlatformCluster_def
  run_command_def init_command_def create_onboarding_def sample_host_def Let_def

lemma sample_main_run:
  "fst (run_state (main sample_host [''manager'', ''run'']) []) = ExitCode 0"
  "StartManager None \<in> set (snd (run_state (main sample_host [''manager'', ''run'']) []))"
  "fst (run_state (main sample_host [''manager'', ''init'']) []) = ExitCode 0"
  by (simp_all add: sample_start_up)


theorem main_exit_code_witness:
  "\<exists>h. run_state (main sample_host [''manager'', ''run'']) [] = (ExitCode 0, h) \<and> StartManager None \<in> set h"
  using main_exit_code [OF run_fst [OF sample_main_run(1)]] run_fst [OF sample_main_run(1)]
  by (auto simp: extract_command_def sample_host_def)

theorem init_job_calls_witness:
  "\<exists>h got failed err. run_state (main sample_host [''manager'', ''init'']) [] = (ExitCode 0, h)
    \<and> drop 4 h = [CreateOrUpdateCRDs ''cluster'' [(''platform'', Some (Cluster ''platform'')), (''onboarding'', fst got)]
        (Returned failed), RegisterGVKs ''kro'' spGVK err]"
proof -
  have "parse_flags sample_host flag_defaults (drop 1 (snd (extract_command [''manager'', ''init''])))
      = Inr (flag_defaults\<lparr>opt_providerName := ''kro''\<rparr>)" "fst (extract_command [''manager'', ''init'']) = ''init''"
    by (simp_all add: sample_host_def extract_command_def)
  from init_job_calls [OF run_fst [OF sample_main_run(3)] this] run_fst [OF sample_main_run(3)]
  obtain sch got failed err where
    "run_state (main sample_host [''manager'', ''init'']) [] = (ExitCode 0, boot_events sch
      @ [onboarding_event sample_host sch ''onboarding-init'' got,
        CreateOrUpdateCRDs (ClusterLabel sample_host) [(PURPOSE_PLATFORM sample_host, Some (platform_cluster sample_host)),
          (PURPOSE_ONBOARDING sample_host, fst got)] (Returned failed),
        RegisterGVKs ''kro'' spGVK err])"
    by auto
  moreover have "ClusterLabel sample_host = ''cluster''" "PURPOSE_PLATFORM sample_host = ''platform''"
    "PURPOSE_ONBOARDING sample_host = ''onboarding''" "platform_cluster sample_host = Cluster ''platform''"
    by (simp_all add: sample_host_def platform_cluster_def)
  ultimately show ?thesis by (fastforce simp: boot_events_def)
qed


end
