(* ===== verification/Spec2Isabelle.thy ===== *)
theory Spec2Isabelle
  imports Desired_State Call_Bounds Deep_Copy Main_Setup
begin

text \<open>
  The service provider for kro, verified.

  1. The program. The repository is a Kubernetes controller written in Go. A tenant creates a
  \<open>Kro\<close> object on the onboarding cluster; the controller installs kro for the tenant's managed
  control plane and tears it down again. Its parts:

  - \<open>pkg/spruntime/spreconciler.go\<close>, the runtime: reads the object, honours the operation
  annotations, gets or removes cluster access, keeps the finalizer, calls the domain
  reconciler, and writes the status back whatever happened.
  - \<open>internal/controller/kro_controller.go\<close> and \<open>helm_values.go\<close>, the domain reconciler: resolves
  the requested version, copies pull secrets and the control plane's kubeconfig, writes the
  OCI repository and two Helm releases, reports their state; on deletion it waits for the
  control plane's resource graph definitions to go, deletes the three Flux objects and
  confirms that they are gone.
  - \<open>pkg/spruntime/pcreconciler.go\<close>: passes changes of the provider config to the runtime
  through a channel; every change makes all objects reconcile.
  - \<open>pkg/spruntime/status.go\<close>: the status functions both use.
  - \<open>api/v1alpha1\<close>: the API types with their methods (version resolution, chart URL, poll
  interval), their registration and their generated deep copies.
  - \<open>cmd/service-provider-kro/main.go\<close>: start-up and wiring: schemes, flags, server options, the
  init job, the controller.

  2. How the model is made. Effectful Go functions are computations of the state monad
  (HOL-Library.State_Monad) in \<open>do\<close> form, one per function, with the branches and early returns
  of the Go text. The state (\<open>gostate\<close> in \<open>Environment\<close>) is the history of all calls to the
  outside with their answers, and the Kro object that the functions of a run share by pointer.
  The outside is a parameter: the record \<open>env\<close> answers each call as a function of the history,
  so that it may fail, change objects or act for other controllers at any point; pure
  third-party functions and constants are the record \<open>libs\<close> in it, and what is documented of
  them are the predicates \<open>condition_laws\<close>, \<open>not_found_laws\<close>, \<open>user_input_laws\<close>, \<open>finalizer_laws\<close>,
  \<open>annotation_laws\<close> (\<open>Libraries\<close>) and \<open>upsert_laws\<close> (\<open>SP_Properties\<close>), named as hypotheses where
  they are used. \<open>sample_libs\<close> and \<open>sample_env\<close> show that they can hold. Errors are values
  (\<open>goerror\<close>, \<open>+\<close> and \<open>option\<close>); a nil dereference is the outcome \<open>Panicked\<close>. Durations are integers
  (nanoseconds), a nil or empty slice is the empty list, logging is left out.

  3. The theories, in the order of imports.

  - \<open>Prelude\<close>: outcomes, list splitting.
  - \<open>Go_Strings\<close>, \<open>Go_Errors\<close>, \<open>Go_Json\<close>, \<open>Go_Json_Print\<close>: what the program uses of Go's standard
  library: prefixes, joins, quoting with UTF-8 decoding, wrapped and joined errors, the JSON
  decoder (a scanner and a stack machine, with Go's nesting limit of 10000) and a printer that
  it inverts.
  - \<open>Objects\<close>, \<open>Api\<close>: the data, and the methods of \<open>api/v1alpha1\<close>.
  - \<open>Libraries\<close>, \<open>Environment\<close>: the outside, calls, and the notions every proof about
  computations uses: \<open>emits_only\<close> (which events a computation may append), \<open>appends\<close> and \<open>logged\<close>
  (that it changes nothing but the history), \<open>keeps_meta\<close> (that it leaves metadata and spec
  alone); each has introduction rules that follow the program text.
  - \<open>Helm_Values\<close>: \<open>helm_values.go\<close>. \<open>Status\<close>: \<open>status.go\<close>, with the Go interface
  \<open>ServiceProviderAPI\<close> as the locale \<open>service_provider_api\<close>, interpreted at \<open>Kro\<close>.
  - \<open>Kro_Controller\<close>: the domain reconciler, one definition per function. \<open>Kro_Apply\<close>: the runs of
  \<open>CreateOrUpdate\<close> (the exact calls of a successful one, the status, confinement to the tenant,
  errors, panics). \<open>Kro_Delete\<close>: the runs of \<open>Delete\<close> (guard, blocking, tear-down, errors).
  \<open>Kro_Progress\<close>: on healthy clusters one run installs.
  - \<open>SP_Reconciler\<close>: the runtime, for any domain reconciler. \<open>SP_Runs\<close>: how it runs, case by case;
  the contract of a domain reconciler as the locale \<open>domain_reconciler\<close>, what the runtime
  guarantees under it, and its interpretation on the Kro domain reconciler. \<open>SP_Properties\<close>:
  properties of a reconcile run.
  - \<open>PC_Reconciler\<close>: the config reconciler.
  - \<open>Traces\<close>: the locales \<open>trace_property\<close> (a property of call sequences closed under
  concatenation: if the domain reconciler's calls have it, so have the runtime's runs) and
  \<open>call_order\<close> (what must come before a call).
  - \<open>System\<close>: \<open>main\<close>'s wiring of the two reconcilers, the channel and the work queue as the step
  relation \<open>sys_step\<close>, with invariants over all reachable states; a \<open>trace_property\<close> of the parts
  holds of every history the system can produce.
  - \<open>End_To_End\<close>: runtime and domain reconciler together: what a run without an error has done,
  and that one run installs or deletes to the end when the outside behaves from then on.
  - \<open>Call_Order\<close>: \<open>call_order\<close> at "references are written first".
  - \<open>Desired_State\<close>: the abstract view. A history is read as the set of objects the controller
  wants (\<open>intents\<close>); \<open>CreateOrUpdate\<close> and \<open>Delete\<close> refine the functions \<open>install_spec\<close> and
  \<open>uninstall_spec\<close> on it; what is wanted is well formed in every reachable state.
  - \<open>Retries\<close>: consecutive runs for one object with anything called in between, and the number of
  runs until the goal. \<open>Call_Bounds\<close>: how many calls a run can make.
  - \<open>Store\<close>, \<open>Deep_Copy\<close>: \<open>zz_generated.deepcopy.go\<close> on an explicit store of cells, with the
  contract of a deep copy as the locale \<open>copier\<close> (the value is copied, the original is kept, and
  no later write through one side is seen through the other). All other theories work on values:
  these properties are why they may.
  - \<open>Main_Setup\<close>: \<open>main.go\<close> with the registration of the types: from the command line to the
  running manager, every call that reaches out with its answer, and the exit codes.

  4. What is shown. Safety: nothing is written outside the tenant's namespace and the kro
  namespace of the workload cluster, and what is wanted for other tenants never changes; no
  domain call before the finalizer is stored and access is complete, and none before a genuine
  config arrived; nothing is written before what it refers to; the finalizer goes only after the
  tear-down is confirmed and the access removed; nothing is deleted on the platform while a
  reachable control plane holds resource graph definitions. Function: the exact calls of a
  successful run, which is one abstract installation, and a repeated one changes nothing.
  Truthful status: Ready exactly if the three Flux resources are ready, every error on the
  object, the status always written back. Progress: once the outside lets them, retried runs
  install and delete to the end within a bounded number of runs, and every successful run has a
  next one. Start-up: the manager starts only after all its set-up succeeded, and the exit code
  says so. Where the code has a gap the property states it: the guard on deletion is skipped
  while cluster access is not ready (\<open>Reconcile_deletes_unguarded\<close>), an access request without a
  secret reference makes the run panic (\<open>CreateOrUpdate_panics\<close>, \<open>Reconcile_panics\<close>), and the
  init job exits with code zero whatever failed in it (\<open>init_job_calls\<close>).

  5. Bounds. No definition uses fuel: the loops are recursions over lists, the JSON scanner and
  the rune loops terminate by the length of their input, and a run makes at most 19 calls and two
  for every image pull secret (\<open>Reconcile_bounded\<close>). The step relation takes a
  reconcile run in one step or, when a config delivery falls between reading the object and
  loading the config, in a step with the delivery in it (\<open>overtaken\<close>); a run loads the config once
  and copies it, so a later delivery does not touch it. Controller-runtime runs each controller
  with one worker, and the environment may change anything between two calls of a run.

  6. What is not modelled. The embedded CRDs (\<open>api/crds\<close>: data only), the parsing of flags and
  the servers themselves (third-party; the options they get are modelled), logging and usage
  texts, and tests. The channel buffer and the work queue of controller-runtime are reduced to a
  FIFO list and a list without duplicates. Deep copies of structs of other packages are a
  parameter with the contract \<open>copier\<close>.
\<close>

section \<open>One run, from request to release\<close>

text \<open>
  C1. From the request to the release: a run without an error on a live object that makes any
  call for the tenant makes exactly these calls and no other, in this order: read the object,
  store it with the finalizer, get complete access to the control plane and the workload
  cluster, make all the installation's calls for the first version on offer with the requested
  name, and patch the status if it changed. The status is Ready exactly if the three Flux
  resources are, and the next run is after the poll interval.
\<close>
theorem Reconcile_installs:
  assumes laws: "condition_laws (lib E)"
    and dom: "serviceProviderReconciler r = Some (kro_domain E kr)"
    and get: "on_onboarding_get E (hist s) req = Inr k0"
    and plain: "operation_annotation (lib E) k0 \<noteq> OperationAnnotationValueReconcile (lib E)"
    and live: "IsZero (meta_DeletionTimestamp (kro_Meta k0))"
    and run: "run_state (Reconcile E r req) s = (Returned (res, None), t)"
    and evs: "hist t = hist s @ evs" and e: "e \<in> set evs" "\<not> runtime_event e"
  shows "\<exists>k access installation final cc tns pc v oci helm crds.
      evs = OnboardingGet req (Inr k0) # OnboardingCreateOrUpdate k0 (k, None)
        # access @ installation @ final
    \<and> complete_access r (ObjectKeyFromMeta (kro_Meta k)) cc access
    \<and> StableMCPNamespace (lib E) (meta_Name (kro_Meta k)) (meta_Namespace (kro_Meta k)) = Inr tns
    \<and> providerConfig r = Some pc
    \<and> ResolveVersion (lib E) (Some pc) (spec_Version (kro_Spec k)) = Inr v
    \<and> apply_calls E kr cc tns v (meta_Name (kro_Meta k)) oci helm crds installation
    \<and> status_events (lib E) k0 (obj t) final
    \<and> status_Resources (kro_Status (obj t)) = listed (lib E) tns oci helm crds
    \<and> (if all_ready (lib E) oci helm crds then status_Phase (kro_Status (obj t)) = StatusPhaseReady
       else status_Phase (kro_Status (obj t)) = StatusPhaseProgressing)
    \<and> RequeueAfter res = PollInterval (Some pc)"
  using run
proof (cases rule: Reconcile_cases)
  case (normal k' u)
  have k': "k' = k0" using normal(1) get by simp
  obtain bo v final where body: "run_state (reconcile_body E r) u = (bo, v)"
    "hist t = hist v @ final" "obj t = obj v" "status_events (lib E) k0 (obj t) final"
    "Returned (res, None) = with_status_error bo (status_error (lib E) final)"
    using with_status_frame [OF normal(6)] normal(5) k' by metis
  then have bo: "bo = Returned (res, None)"
    by (auto simp: with_status_error_def eq_commute [of None] split: outcome.splits option.splits)
  obtain mid where mid: "hist v = hist u @ mid"
    using kro_domain.body_extends [OF dom body(1)] by blast
  have eq: "evs = OnboardingGet req (Inr k0) # mid @ final" using normal(4) k' body(2) evs mid by simp
  have e': "e \<in> set mid"
    using eq e body(4) by (auto simp: status_events_def split: if_splits)
  from body(1) [unfolded bo] show ?thesis
  proof (cases rule: reconcile_body_cases)
    case (deleted pc step)
    with live normal(5) k' show ?thesis by simp
  next
    case (live pc step)
    obtain dres where step: "step = Returned (dres, None)"
      and res: "RequeueAfter dres > 0 \<Longrightarrow> res = dres"
        "\<not> RequeueAfter dres > 0 \<Longrightarrow> RequeueAfter res = PollInterval (Some pc)"
      using live(4) by (auto simp: after_run_def split: outcome.splits prod.splits option.splits if_splits)
    obtain k access devs cc w where
      c0: "on_onboarding_upsert E (hist u) (obj u) (add_finalizer (lib E)) = (k, None)"
      "mid = OnboardingCreateOrUpdate (obj u) (k, None) # access @ devs"
      "complete_access r (ObjectKeyFromMeta (kro_Meta k)) cc access"
      "list_all (\<lambda>e. \<not> runtime_event e) devs" "e \<in> set devs"
      "run_state (sp_CreateOrUpdate (kro_domain E kr) pc cc) w = (step, v)" "obj w = k"
      "hist w = hist u @ OnboardingCreateOrUpdate (obj u) (k, None) # access"
      by (rule kro_domain.create_domain_event [OF live(3) dom mid e' e(2)])
    have run: "run_state (CreateOrUpdate E kr (Some pc) cc) w = (Returned (dres, None), v)"
      using c0(6) step by (simp add: kro_domain_fields)
    have devs: "hist v = hist w @ devs" using mid c0(2,8) by simp
    obtain tns ver where ns: "StableMCPNamespace (lib E) (meta_Name (kro_Meta (obj w)))
        (meta_Namespace (kro_Meta (obj w))) = Inr tns"
      and ver: "ResolveVersion (lib E) (Some pc) (spec_Version (kro_Spec (obj w))) = Inr ver"
      using CreateOrUpdate_acts [OF run devs c0(5)] by blast
    from CreateOrUpdate_success [OF run ns ver] devs obtain oci helm crds where
      inst: "dres = no_requeue" "apply_calls E kr cc tns ver (meta_Name (kro_Meta k)) oci helm crds devs"
        "status_Resources (kro_Status (obj v)) = listed (lib E) tns oci helm crds"
        "reported (lib E) (all_ready (lib E) oci helm crds) (obj v)"
      using c0(7) by auto
    have "RequeueAfter res = PollInterval (Some pc)" using res(2) inst(1) by simp
    with eq c0(2,3,7) ns ver inst live(1) body(3,4) normal(5) k' reported_ready [OF laws inst(4)]
    show ?thesis
      by (intro exI [of _ k] exI [of _ access] exI [of _ devs] exI [of _ final] exI [of _ cc]
          exI [of _ tns] exI [of _ pc] exI [of _ ver] exI [of _ oci] exI [of _ helm] exI [of _ crds])
        (auto split: if_splits)
  qed simp
qed (use get plain evs e in auto)

theorem Reconcile_installs_witness:
  "\<exists>t k access installation final cc tns v oci helm crds.
     run_state (Reconcile sample_env (sample_sp sample_env) sample_key) (sample_state ''v0.9.3'')
       = (Returned (\<lparr>RequeueAfter = time_Minute\<rparr>, None), t)
   \<and> hist t = OnboardingGet sample_key (Inr (sample_kro ''v0.9.3''))
       # OnboardingCreateOrUpdate (sample_kro ''v0.9.3'') (k, None) # access @ installation @ final
   \<and> apply_calls sample_env sample_reconciler cc tns v (meta_Name (kro_Meta k)) oci helm crds installation"
proof -
  have finished: "fst (run_state (Reconcile sample_env (sample_sp sample_env) sample_key)
      (sample_state ''v0.9.3'')) = Returned (\<lparr>RequeueAfter = time_Minute\<rparr>, None)"
    by (simp add: sample_live_run)
  define t where "t = snd (run_state (Reconcile sample_env (sample_sp sample_env) sample_key)
      (sample_state ''v0.9.3''))"
  have "\<exists>d. PlatformGetSecret (object_key ''kro-pod'' ''regcred'') d \<in> set (hist t)"
    by (simp add: t_def sample_live_run)
  then obtain d where d: "PlatformGetSecret (object_key ''kro-pod'' ''regcred'') d \<in> set (hist t)" by blast
  have "hist t = hist (sample_state ''v0.9.3'') @ hist t" by (simp add: sample_state_def)
  moreover have "on_onboarding_get sample_env (hist (sample_state ''v0.9.3'')) sample_key
      = Inr (sample_kro ''v0.9.3'')"
    by (simp add: sample_env_def)
  moreover have "operation_annotation (lib sample_env) (sample_kro ''v0.9.3'')
      \<noteq> OperationAnnotationValueReconcile (lib sample_env)"
    by (simp add: operation_annotation_def sample_kro_def sample_meta_def sample_libs_def)
  moreover have "IsZero (meta_DeletionTimestamp (kro_Meta (sample_kro ''v0.9.3'')))"
    by (simp add: IsZero_def sample_kro_def sample_meta_def)
  ultimately show ?thesis
    using Reconcile_installs [OF _ sample_sp_fields(1) _ _ _ run_fst [OF finished, folded t_def] _ d]
      sample_condition_laws run_fst [OF finished, folded t_def] by simp blast
qed

section \<open>Secret events\<close>

text \<open>
  A secret event is acted on only if the domain reconciler watches secrets, a namespace is
  configured, the secret is in it, and it is referenced under the cached config; then every
  object is enqueued, otherwise nothing is called. The Kro domain reconciler, as \<open>main\<close> wires
  it, watches no secrets at all.
\<close>
theorem secret_event_filtered:
  "run_state (secret_event E r secret) s =
     (case secret_watcher r of
        None \<Rightarrow> ([], s)
      | Some referenced \<Rightarrow>
          if secretNamespace r \<noteq> '''' \<and> meta_Namespace (fst secret) = secretNamespace r
             \<and> referenced secret (providerConfig r)
          then run_state (enqueueAllObjects E) s else ([], s))
   \<and> SetupWithManager (main_reconciler E platform onboarding car ns) = [ForObject, ConfigChannel]"
  by (auto simp: secret_event_def SetupWithManager_def mapSecretToRequests_def secret_watcher_def
      kro_domain_def split: option.splits)

end
